(* ===== verification/Bench_Prelude.thy ===== *)
theory Bench_Prelude
  imports
    Main
    "HOL-Library.Word"
    "HOL-Library.Char_ord"
    "HOL-Library.List_Lexorder"
    "HOL-Library.Sublist"
begin

text \<open>
  What every component of the model shares: results with the error as a value, Rust strings,
  checked and saturating machine arithmetic, and the collections of facts the proofs of the
  components name.

  A Rust \<open>str\<close> is a list of the bytes of its UTF-8 encoding, the HOL type \<^typ>\<open>string\<close>
  (a character of HOL is a byte). So \<open>len\<close> is the list's length, a comparison is the
  lexicographic order of the bytes, and the standard library's operations below are stated on
  bytes. Where Rust looks at code points (\<open>trim\<close>, \<open>char::is_control\<close>) the byte sequences
  of the code points in question are written out: UTF-8 is self-synchronising, so on the encoding
  of a string a code point occurs exactly where its byte sequence occurs.
\<close>

named_theorems result_simps
named_theorems str_simps
named_theorems model_defs

subsection \<open>Results\<close>

text \<open>
  \<open>anyhow::Result\<close>: the error is a value. \<open>Bail\<close> carries the format string of the
  \<open>ensure!\<close> or \<open>bail!\<close> that raised it (its arguments are dropped), \<open>Context\<close> the text
  a \<open>.context(..)\<close> puts in front of an error, \<open>Io\<close> an error of the operating system and
  \<open>External\<close> an error a library call returned. \<open>Panic\<close> stands for the process's panic (an
  \<open>unreachable!\<close> reached, an index out of range), so that not panicking is a theorem.
\<close>

datatype io_kind = NotFound | AlreadyExists | OtherIo string

datatype error =
    Bail string
  | Context string error
  | Io io_kind
  | External string
  | Panic string

type_synonym 'a result = "error + 'a"

definition ok :: "'a result \<Rightarrow> bool" where
  "ok r = (case r of Inl _ \<Rightarrow> False | Inr _ \<Rightarrow> True)"

definition bind_result :: "'a result \<Rightarrow> ('a \<Rightarrow> 'b result) \<Rightarrow> 'b result" where
  "bind_result r f = (case r of Inl e \<Rightarrow> Inl e | Inr v \<Rightarrow> f v)"

definition and_then :: "unit result \<Rightarrow> 'b result \<Rightarrow> 'b result" where
  "and_then r k = (case r of Inl e \<Rightarrow> Inl e | Inr _ \<Rightarrow> k)"

text \<open>\<open>anyhow::ensure!\<close>, and a run of them: the first that fails gives the error.\<close>

definition ensure :: "bool \<Rightarrow> string \<Rightarrow> unit result" where
  "ensure b msg = (if b then Inr () else Inl (Bail msg))"

fun checks :: "(bool \<times> string) list \<Rightarrow> unit result" where
  "checks [] = Inr ()"
| "checks ((b, msg) # cs) = (if b then checks cs else Inl (Bail msg))"

definition panics :: "'a result \<Rightarrow> bool" where
  "panics r = (\<exists>msg. r = Inl (Panic msg))"

definition with_context :: "string \<Rightarrow> 'a result \<Rightarrow> 'a result" where
  "with_context c r = (case r of Inl e \<Rightarrow> Inl (Context c e) | Inr v \<Rightarrow> Inr v)"

definition map_result :: "('a \<Rightarrow> 'b) \<Rightarrow> 'a result \<Rightarrow> 'b result" where
  "map_result f r = (case r of Inl e \<Rightarrow> Inl e | Inr v \<Rightarrow> Inr (f v))"

definition ok_or :: "'a option \<Rightarrow> string \<Rightarrow> 'a result" where
  "ok_or x msg = (case x of None \<Rightarrow> Inl (Bail msg) | Some v \<Rightarrow> Inr v)"

text \<open>\<open>Option::transpose\<close> of an optional result.\<close>

definition transpose_result :: "'a result option \<Rightarrow> 'a option result" where
  "transpose_result x = (case x of None \<Rightarrow> Inr None | Some r \<Rightarrow> map_result Some r)"

text \<open>A loop that stops at the first error, and \<open>collect::<Result<Vec<_>>>\<close>.\<close>

fun each :: "('a \<Rightarrow> unit result) \<Rightarrow> 'a list \<Rightarrow> unit result" where
  "each f [] = Inr ()"
| "each f (x # xs) = and_then (f x) (each f xs)"

fun map_results :: "('a \<Rightarrow> 'b result) \<Rightarrow> 'a list \<Rightarrow> 'b list result" where
  "map_results f [] = Inr []"
| "map_results f (x # xs) =
     bind_result (f x) (\<lambda>y. bind_result (map_results f xs) (\<lambda>ys. Inr (y # ys)))"

definition when_some :: "'a option \<Rightarrow> ('a \<Rightarrow> unit result) \<Rightarrow> unit result" where
  "when_some x f = (case x of None \<Rightarrow> Inr () | Some v \<Rightarrow> f v)"

lemma bind_result_simps [simp]:
  "bind_result (Inl e) f = Inl e" "bind_result (Inr v) f = f v"
  by (simp_all add: bind_result_def)

lemma and_then_simps [simp]:
  "and_then (Inl e) k = Inl e" "and_then (Inr u) k = k"
  by (simp_all add: and_then_def)

lemma map_result_simps [simp]:
  "map_result f (Inl e) = Inl e" "map_result f (Inr v) = Inr (f v)"
  by (simp_all add: map_result_def)

lemma ensure_simps [simp]: "ensure True msg = Inr ()" "ensure False msg = Inl (Bail msg)"
  by (simp_all add: ensure_def)

lemma with_context_simps [simp]:
  "with_context c (Inl e) = Inl (Context c e)" "with_context c (Inr v) = Inr v"
  by (simp_all add: with_context_def)

lemma ok_or_simps [simp]:
  "ok_or None msg = Inl (Bail msg)" "ok_or (Some v) msg = Inr v"
  by (simp_all add: ok_or_def)

lemma when_some_simps [simp]:
  "when_some None f = Inr ()" "when_some (Some v) f = f v"
  by (simp_all add: when_some_def)

lemma transpose_result_simps [simp]:
  "transpose_result None = Inr None" "transpose_result (Some r) = map_result Some r"
  by (simp_all add: transpose_result_def)

lemma bind_result_Inr [result_simps]:
  "bind_result r f = Inr y \<longleftrightarrow> (\<exists>v. r = Inr v \<and> f v = Inr y)"
  by (cases r) simp_all

lemma and_then_Inr [result_simps]:
  "and_then r k = Inr y \<longleftrightarrow> r = Inr () \<and> k = Inr y"
  by (cases r) simp_all

lemma ensure_Inr [result_simps]: "ensure b msg = Inr u \<longleftrightarrow> b"
  by (simp add: ensure_def)

lemma checks_Inr [result_simps]: "checks cs = Inr u \<longleftrightarrow> list_all fst cs"
  by (induction cs rule: checks.induct) simp_all

declare checks.simps [simp del]

lemma map_result_Inr [result_simps]:
  "map_result f r = Inr y \<longleftrightarrow> (\<exists>v. r = Inr v \<and> y = f v)"
  by (cases r) auto

lemma with_context_Inr [result_simps]: "with_context c r = Inr y \<longleftrightarrow> r = Inr y"
  by (cases r) simp_all

lemma ok_or_Inr [result_simps]: "ok_or x msg = Inr v \<longleftrightarrow> x = Some v"
  by (cases x) simp_all

lemma when_some_Inr [result_simps]:
  "when_some x f = Inr u \<longleftrightarrow> (\<forall>v. x = Some v \<longrightarrow> f v = Inr ())"
  by (cases x) simp_all

lemma transpose_result_Inr [result_simps]:
  "transpose_result x = Inr y \<longleftrightarrow>
     (case x of None \<Rightarrow> y = None | Some r \<Rightarrow> (\<exists>v. r = Inr v \<and> y = Some v))"
  by (cases x) (auto simp: result_simps)

lemma each_Inr [result_simps]: "each f xs = Inr u \<longleftrightarrow> (\<forall>x \<in> set xs. f x = Inr ())"
  by (induction xs) (auto simp: and_then_Inr)

lemma map_results_Inr:
  "map_results f xs = Inr ys \<longleftrightarrow>
     length ys = length xs \<and> (\<forall>i < length xs. f (xs ! i) = Inr (ys ! i))"
proof (induction xs arbitrary: ys)
  case Nil
  then show ?case by auto
next
  case (Cons x xs)
  then show ?case
    by (cases ys) (auto simp: bind_result_Inr nth_Cons split: nat.splits)
qed

lemma map_results_list_all2:
  "map_results f xs = Inr ys \<longleftrightarrow> list_all2 (\<lambda>x y. f x = Inr y) xs ys"
  by (auto simp: map_results_Inr list_all2_conv_all_nth)

text \<open>A panic comes from one of the parts.\<close>

lemma panics_simps [simp]:
  "\<not> panics (Inr v)" "\<not> panics (Inl (Bail m))" "\<not> panics (Inl (Io k))" "\<not> panics (Inl (Context c e))"
  "\<not> panics (Inl (External m))" "panics (Inl (Panic m))"
  by (simp_all add: panics_def)

lemma panics_bind: "panics (bind_result r f) \<longleftrightarrow> panics r \<or> (\<exists>v. r = Inr v \<and> panics (f v))"
  by (cases r) (auto simp: panics_def)

lemma panics_and_then: "panics (and_then r k) \<longleftrightarrow> panics r \<or> r = Inr () \<and> panics k"
  by (cases r) (auto simp: panics_def)

lemma panics_checks [simp]: "\<not> panics (checks cs)"
  by (induction cs rule: checks.induct) (auto simp: checks.simps)

lemma panics_ensure [simp]: "\<not> panics (ensure b m)"
  by (simp add: ensure_def)

lemma panics_ok_or [simp]: "\<not> panics (ok_or x m)"
  by (cases x) simp_all

lemma panics_with_context [simp]: "\<not> panics (with_context c r)"
  by (cases r) simp_all

lemma panics_map_result [simp]: "panics (map_result f r) \<longleftrightarrow> panics r"
  by (cases r) (auto simp: panics_def)

lemma panics_each: "panics (each f xs) \<Longrightarrow> \<exists>x \<in> set xs. panics (f x)"
  by (induction xs) (auto simp: panics_and_then)

lemma panics_map_results: "panics (map_results f xs) \<Longrightarrow> \<exists>x \<in> set xs. panics (f x)"
  by (induction xs) (auto simp: panics_bind)

lemma panics_when_some: "panics (when_some x f) \<longleftrightarrow> (\<exists>v. x = Some v \<and> panics (f v))"
  by (cases x) simp_all

lemma panics_transpose_ok_or [simp]:
  "\<not> panics (transpose_result (map_option (\<lambda>v. ok_or (f v) m) x))"
  by (cases x) simp_all

lemmas panics_parts = panics_bind panics_and_then panics_when_some

subsection \<open>Bytes\<close>

definition byte :: "char \<Rightarrow> nat" where
  "byte c = of_char c"

definition is_ascii_digit :: "char \<Rightarrow> bool" where
  "is_ascii_digit c = (48 \<le> byte c \<and> byte c \<le> 57)"

definition is_ascii_uppercase :: "char \<Rightarrow> bool" where
  "is_ascii_uppercase c = (65 \<le> byte c \<and> byte c \<le> 90)"

definition is_ascii_lowercase :: "char \<Rightarrow> bool" where
  "is_ascii_lowercase c = (97 \<le> byte c \<and> byte c \<le> 122)"

definition is_ascii_alphanumeric :: "char \<Rightarrow> bool" where
  "is_ascii_alphanumeric c =
     (is_ascii_digit c \<or> is_ascii_uppercase c \<or> is_ascii_lowercase c)"

definition is_ascii_hexdigit :: "char \<Rightarrow> bool" where
  "is_ascii_hexdigit c =
     (is_ascii_digit c \<or> (65 \<le> byte c \<and> byte c \<le> 70) \<or> (97 \<le> byte c \<and> byte c \<le> 102))"

definition is_ascii :: "char \<Rightarrow> bool" where
  "is_ascii c = (byte c < 128)"

definition is_ascii_control :: "char \<Rightarrow> bool" where
  "is_ascii_control c = (byte c < 32 \<or> byte c = 127)"

text \<open>\<open>u8::is_ascii_whitespace\<close>: tab, line feed, form feed, carriage return, space.\<close>

definition is_ascii_whitespace :: "char \<Rightarrow> bool" where
  "is_ascii_whitespace c = (byte c \<in> {9, 10, 12, 13, 32})"

definition to_ascii_lower :: "char \<Rightarrow> char" where
  "to_ascii_lower c = (if is_ascii_uppercase c then char_of (byte c + 32) else c)"

lemmas char_defs =
  byte_def is_ascii_digit_def is_ascii_uppercase_def is_ascii_lowercase_def
  is_ascii_alphanumeric_def is_ascii_hexdigit_def is_ascii_def is_ascii_control_def
  is_ascii_whitespace_def

subsection \<open>Strings\<close>

definition starts_with :: "string \<Rightarrow> string \<Rightarrow> bool" where
  "starts_with s p = (take (length p) s = p)"

definition ends_with :: "string \<Rightarrow> string \<Rightarrow> bool" where
  "ends_with s p = (length p \<le> length s \<and> drop (length s - length p) s = p)"

definition strip_prefix_str :: "string \<Rightarrow> string \<Rightarrow> string option" where
  "strip_prefix_str s p = (if starts_with s p then Some (drop (length p) s) else None)"

definition strip_suffix_str :: "string \<Rightarrow> string \<Rightarrow> string option" where
  "strip_suffix_str s p =
     (if ends_with s p then Some (take (length s - length p) s) else None)"

text \<open>\<open>str::find\<close>: the index of the first occurrence.\<close>

fun find_str :: "string \<Rightarrow> string \<Rightarrow> nat option" where
  "find_str [] p = (if p = [] then Some 0 else None)"
| "find_str (c # s) p =
     (if starts_with (c # s) p then Some 0 else map_option Suc (find_str s p))"

definition contains_str :: "string \<Rightarrow> string \<Rightarrow> bool" where
  "contains_str s p = (find_str s p \<noteq> None)"

definition split_once :: "string \<Rightarrow> string \<Rightarrow> (string \<times> string) option" where
  "split_once s p =
     (case find_str s p of None \<Rightarrow> None | Some i \<Rightarrow> Some (take i s, drop (i + length p) s))"

text \<open>\<open>str::split\<close> on a character: always at least one piece.\<close>

fun split_char :: "char \<Rightarrow> string \<Rightarrow> string list" where
  "split_char c [] = [[]]"
| "split_char c (x # s) =
     (if x = c then [] # split_char c s
      else (case split_char c s of [] \<Rightarrow> [[x]] | p # ps \<Rightarrow> (x # p) # ps))"

fun join_with :: "string \<Rightarrow> string list \<Rightarrow> string" where
  "join_with sep [] = []"
| "join_with sep [p] = p"
| "join_with sep (p # q # ps) = p @ sep @ join_with sep (q # ps)"

definition trim_end_char :: "char \<Rightarrow> string \<Rightarrow> string" where
  "trim_end_char c s = rev (dropWhile (\<lambda>x. x = c) (rev s))"

text \<open>\<open>str::replace\<close> of a one-byte pattern.\<close>

definition replace_char :: "char \<Rightarrow> string \<Rightarrow> string \<Rightarrow> string" where
  "replace_char c r s = concat (map (\<lambda>x. if x = c then r else [x]) s)"

text \<open>
  \<open>char::is_control\<close> on some code point of the string: U+0000 to U+001F and U+007F are single
  bytes, U+0080 to U+009F are the byte C2 followed by one of 80 to 9F.
\<close>

fun has_control :: "string \<Rightarrow> bool" where
  "has_control [] = False"
| "has_control (c # s) =
     (is_ascii_control c \<or>
      (byte c = 194 \<and> (case s of [] \<Rightarrow> False | d # _ \<Rightarrow> 128 \<le> byte d \<and> byte d \<le> 159)) \<or>
      has_control s)"

text \<open>\<open>str::from_utf8\<close> succeeds: the well-formed byte sequences of UTF-8.\<close>

definition cont :: "char \<Rightarrow> bool" where
  "cont c = (128 \<le> byte c \<and> byte c \<le> 191)"

fun valid_utf8 :: "string \<Rightarrow> bool" where
  "valid_utf8 [] = True"
| "valid_utf8 [a] = is_ascii a"
| "valid_utf8 [a, b] =
     ((is_ascii a \<and> is_ascii b) \<or> (194 \<le> byte a \<and> byte a \<le> 223 \<and> cont b))"
| "valid_utf8 [a, b, c] =
     ((is_ascii a \<and> valid_utf8 [b, c]) \<or>
      (194 \<le> byte a \<and> byte a \<le> 223 \<and> cont b \<and> valid_utf8 [c]) \<or>
      (byte a = 224 \<and> 160 \<le> byte b \<and> byte b \<le> 191 \<and> cont c) \<or>
      (byte a = 237 \<and> 128 \<le> byte b \<and> byte b \<le> 159 \<and> cont c) \<or>
      (225 \<le> byte a \<and> byte a \<le> 239 \<and> byte a \<noteq> 237 \<and> cont b \<and> cont c))"
| "valid_utf8 (a # b # c # d # s) =
     ((is_ascii a \<and> valid_utf8 (b # c # d # s)) \<or>
      (194 \<le> byte a \<and> byte a \<le> 223 \<and> cont b \<and> valid_utf8 (c # d # s)) \<or>
      (((byte a = 224 \<and> 160 \<le> byte b \<and> byte b \<le> 191) \<or>
        (byte a = 237 \<and> 128 \<le> byte b \<and> byte b \<le> 159) \<or>
        (225 \<le> byte a \<and> byte a \<le> 239 \<and> byte a \<noteq> 237 \<and> cont b)) \<and>
       cont c \<and> valid_utf8 (d # s)) \<or>
      (((byte a = 240 \<and> 144 \<le> byte b \<and> byte b \<le> 191) \<or>
        (byte a = 244 \<and> 128 \<le> byte b \<and> byte b \<le> 143) \<or>
        (241 \<le> byte a \<and> byte a \<le> 243 \<and> cont b)) \<and>
       cont c \<and> cont d \<and> valid_utf8 s))"

text \<open>The code points of the Unicode property White_Space, as byte sequences.\<close>

definition white_seqs :: "nat list list" where
  "white_seqs =
     [[9], [10], [11], [12], [13], [32], [194, 133], [194, 160], [225, 154, 128],
      [226, 128, 128], [226, 128, 129], [226, 128, 130], [226, 128, 131], [226, 128, 132],
      [226, 128, 133], [226, 128, 134], [226, 128, 135], [226, 128, 136], [226, 128, 137],
      [226, 128, 138], [226, 128, 168], [226, 128, 169], [226, 128, 175], [226, 129, 159],
      [227, 128, 128]]"

definition strip_white :: "nat list list \<Rightarrow> string \<Rightarrow> string option" where
  "strip_white seqs s =
     (case filter (\<lambda>w. map byte (take (length w) s) = w) seqs of
        [] \<Rightarrow> None
      | w # _ \<Rightarrow> (if w = [] then None else Some (drop (length w) s)))"

lemma strip_white_shorter: "strip_white seqs s = Some t \<Longrightarrow> length t < length s"
proof -
  assume a: "strip_white seqs s = Some t"
  then obtain w ws where f: "filter (\<lambda>w. map byte (take (length w) s) = w) seqs = w # ws"
    and w: "w \<noteq> []" and t: "t = drop (length w) s"
    by (auto simp: strip_white_def split: list.splits if_splits)
  from f have "w \<in> set (filter (\<lambda>w. map byte (take (length w) s) = w) seqs)" by simp
  then have "map byte (take (length w) s) = w" by simp
  then have "min (length s) (length w) = length w" by (metis length_map length_take min.commute)
  with w t show ?thesis by (cases w) auto
qed

function trim_white :: "nat list list \<Rightarrow> string \<Rightarrow> string" where
  "trim_white seqs s =
     (case strip_white seqs s of None \<Rightarrow> s | Some t \<Rightarrow> trim_white seqs t)"
  by pat_completeness auto
termination
  by (relation "measure (length \<circ> snd)") (auto dest: strip_white_shorter)

declare trim_white.simps [simp del]

definition trim_start :: "string \<Rightarrow> string" where
  "trim_start s = trim_white white_seqs s"

definition trim_end :: "string \<Rightarrow> string" where
  "trim_end s = rev (trim_white (map rev white_seqs) (rev s))"

definition trim :: "string \<Rightarrow> string" where
  "trim s = trim_end (trim_start s)"

text \<open>Trimming keeps every byte that occurs in no white space.\<close>

lemma strip_white_keeps:
  assumes "strip_white seqs s = Some t" "c \<in> set s" "\<forall>w \<in> set seqs. byte c \<notin> set w"
  shows "c \<in> set t"
proof -
  from assms(1) obtain w ws where f: "filter (\<lambda>w. map byte (take (length w) s) = w) seqs = w # ws"
    and t: "t = drop (length w) s"
    by (auto simp: strip_white_def split: list.splits if_splits)
  from f have "w \<in> set (filter (\<lambda>w. map byte (take (length w) s) = w) seqs)" by simp
  then have "map byte (take (length w) s) = w" "w \<in> set seqs" by simp_all
  then have "byte c \<notin> byte ` set (take (length w) s)" using assms(3) by (metis list.set_map)
  moreover have "c \<in> set (take (length w) s) \<union> set (drop (length w) s)"
    using assms(2) by (metis append_take_drop_id set_append)
  ultimately show ?thesis using t by blast
qed

lemma trim_white_keeps:
  "c \<in> set s \<Longrightarrow> \<forall>w \<in> set seqs. byte c \<notin> set w \<Longrightarrow> c \<in> set (trim_white seqs s)"
proof (induction seqs s rule: trim_white.induct)
  case (1 seqs s)
  then show ?case
    by (subst trim_white.simps) (auto dest: strip_white_keeps split: option.splits)
qed

lemma trim_keeps: "c \<in> set s \<Longrightarrow> \<forall>w \<in> set white_seqs. byte c \<notin> set w \<Longrightarrow> c \<in> set (trim s)"
  by (simp add: trim_def trim_end_def trim_start_def trim_white_keeps)

text \<open>\<open>str::lines\<close>: a line ends at a line feed, with a carriage return before it dropped; a final
  empty piece is no line.\<close>

fun strip_cr :: "string \<Rightarrow> string" where
  "strip_cr s = (if s \<noteq> [] \<and> last s = CHR 0x0D then butlast s else s)"

definition str_lines :: "string \<Rightarrow> string list" where
  "str_lines s =
     (let ps = split_char (CHR 0x0A) s
      in map strip_cr (butlast ps) @ (if last ps = [] then [] else [last ps]))"

text \<open>Decimal digits of a natural number (\<open>to_string\<close>, \<open>{}\<close>).\<close>

fun show_nat :: "nat \<Rightarrow> string" where
  "show_nat n = (if n < 10 then [char_of (48 + n)] else show_nat (n div 10) @ [char_of (48 + n mod 10)])"

declare show_nat.simps [simp del]

text \<open>\<open>str::parse\<close> for an unsigned type of \<open>w\<close> bits: an optional plus sign, at least one
  digit, and a value below \<open>2 ^ w\<close>.\<close>

fun digits_value :: "nat \<Rightarrow> string \<Rightarrow> nat option" where
  "digits_value n [] = Some n"
| "digits_value n (c # s) =
     (if is_ascii_digit c then digits_value (10 * n + (byte c - 48)) s else None)"

definition parse_unsigned :: "nat \<Rightarrow> string \<Rightarrow> nat option" where
  "parse_unsigned w s =
     (let t = (case s of [] \<Rightarrow> [] | c # r \<Rightarrow> if c = CHR ''+'' then r else s)
      in if t = [] then None
         else (case digits_value 0 t of None \<Rightarrow> None | Some n \<Rightarrow> if n < 2 ^ w then Some n else None))"

lemma starts_with_iff: "starts_with s p \<longleftrightarrow> (\<exists>t. s = p @ t)"
  by (metis append_eq_conv_conj append_take_drop_id starts_with_def)

lemma starts_with_append [simp]: "starts_with (p @ t) p"
  by (simp add: starts_with_def)

lemma strip_prefix_Some: "strip_prefix_str s p = Some t \<longleftrightarrow> s = p @ t"
  by (auto simp: strip_prefix_str_def starts_with_iff)

lemma ends_with_iff: "ends_with s p \<longleftrightarrow> (\<exists>t. s = t @ p)"
proof
  assume "ends_with s p"
  then have "s = take (length s - length p) s @ p"
    by (metis append_take_drop_id ends_with_def)
  then show "\<exists>t. s = t @ p" by blast
qed (auto simp: ends_with_def)

lemma strip_suffix_Some: "strip_suffix_str s p = Some t \<longleftrightarrow> s = t @ p"
  by (auto simp: strip_suffix_str_def ends_with_iff)

lemma split_char_not_Nil [simp]: "split_char c s \<noteq> []"
  by (induction s) (auto split: list.splits)

lemma join_split: "join_with [c] (split_char c s) = s"
proof (induction s)
  case Nil
  then show ?case by simp
next
  case (Cons x s)
  obtain p ps where ps: "split_char c s = p # ps"
    by (cases "split_char c s") auto
  with Cons show ?case by (cases ps) auto
qed

lemma split_char_none: "c \<notin> set s \<Longrightarrow> split_char c s = [s]"
  by (induction s) auto

lemma split_char_append: "c \<notin> set p \<Longrightarrow> split_char c (p @ c # s) = p # split_char c s"
  by (induction p) auto

lemma split_char_free: "p \<in> set (split_char c s) \<Longrightarrow> c \<notin> set p"
proof (induction s arbitrary: p)
  case (Cons x s)
  then show ?case by (cases "split_char c s") (auto split: if_splits)
qed simp

lemma split_char_subset: "p \<in> set (split_char c s) \<Longrightarrow> set p \<subseteq> set s"
proof (induction s arbitrary: p)
  case (Cons x s)
  then show ?case by (cases "split_char c s") (fastforce split: if_splits)+
qed simp

lemma split_join:
  "ps \<noteq> [] \<Longrightarrow> \<forall>p \<in> set ps. c \<notin> set p \<Longrightarrow> split_char c (join_with [c] ps) = ps"
  by (induction "[c]" ps rule: join_with.induct) (auto simp: split_char_none split_char_append)

lemma find_str_Some:
  "find_str s p = Some i \<Longrightarrow> \<exists>u v. s = u @ p @ v \<and> length u = i"
proof (induction s arbitrary: i)
  case Nil
  then show ?case by (auto split: if_splits)
next
  case (Cons c s)
  show ?case
  proof (cases "starts_with (c # s) p")
    case True
    with Cons.prems show ?thesis by (auto simp: starts_with_iff)
  next
    case False
    with Cons.prems obtain j where j: "find_str s p = Some j" "i = Suc j" by auto
    from Cons.IH [OF j(1)] obtain u v where "s = u @ p @ v" "length u = j" by blast
    with j(2) show ?thesis by (intro exI [of _ "c # u"] exI [of _ v]) simp
  qed
qed

lemma find_str_None: "find_str s p = None \<Longrightarrow> s \<noteq> u @ p @ v"
proof (induction s arbitrary: u)
  case Nil
  then show ?case by (auto split: if_splits)
next
  case (Cons c s)
  show ?case
  proof (cases u)
    case Nil
    with Cons.prems show ?thesis by (auto split: if_splits simp: starts_with_iff)
  next
    case (Cons d u')
    with Cons.prems Cons.IH [of u'] show ?thesis by (auto split: if_splits)
  qed
qed

lemma contains_str_iff: "contains_str s p \<longleftrightarrow> (\<exists>u v. s = u @ p @ v)"
  unfolding contains_str_def using find_str_None find_str_Some by (metis not_None_eq)

lemma find_str_first:
  "find_str s p = Some i \<Longrightarrow> s = u @ p @ v \<Longrightarrow> i \<le> length u"
proof (induction s arbitrary: i u)
  case Nil
  then show ?case by (auto split: if_splits)
next
  case (Cons c s)
  show ?case
  proof (cases u)
    case Nil
    with Cons.prems(2) have "starts_with (c # s) p" by (auto simp: starts_with_iff)
    with Cons.prems(1) Nil show ?thesis by simp
  next
    case (Cons d u')
    with Cons.prems Cons.IH [of _ u'] show ?thesis by (auto split: if_splits)
  qed
qed

lemma valid_utf8_ascii: "list_all is_ascii s \<Longrightarrow> valid_utf8 s"
  by (induction s rule: valid_utf8.induct) auto

subsection \<open>Machine integers\<close>

type_synonym u64 = "64 word"

definition checked_add :: "'a::len word \<Rightarrow> 'a word \<Rightarrow> 'a word option" where
  "checked_add a b = (if unat a + unat b < 2 ^ LENGTH('a) then Some (a + b) else None)"

definition checked_sub :: "'a::len word \<Rightarrow> 'a word \<Rightarrow> 'a word option" where
  "checked_sub a b = (if b \<le> a then Some (a - b) else None)"

definition checked_mul :: "'a::len word \<Rightarrow> 'a word \<Rightarrow> 'a word option" where
  "checked_mul a b = (if unat a * unat b < 2 ^ LENGTH('a) then Some (a * b) else None)"

definition saturating_add :: "'a::len word \<Rightarrow> 'a word \<Rightarrow> 'a word" where
  "saturating_add a b = (if unat a + unat b < 2 ^ LENGTH('a) then a + b else - 1)"

lemma checked_add_Some: "checked_add a b = Some c \<Longrightarrow> unat c = unat a + unat b"
  by (auto simp: checked_add_def unat_word_ariths split: if_splits)

lemma checked_add_None:
  "checked_add (a :: 'a::len word) b = None \<longleftrightarrow> 2 ^ LENGTH('a) \<le> unat a + unat b"
  by (auto simp: checked_add_def)

lemma checked_sub_Some: "checked_sub a b = Some c \<Longrightarrow> unat c + unat b = unat a"
  by (auto simp: checked_sub_def unat_sub word_le_nat_alt split: if_splits)

lemma checked_mul_Some: "checked_mul a b = Some c \<Longrightarrow> unat c = unat a * unat b"
  by (auto simp: checked_mul_def unat_word_ariths split: if_splits)

end
