(* ===== verification/Float64.thy ===== *)
theory Float64
  imports Bench_Prelude Complex_Main
begin

text \<open>
  The IEEE-754 binary64 values of Rust's \<open>f64\<close>, as far as the program uses them: the parser
  \<open>str::parse::<f64>\<close>, the comparisons, the four operations and the conversions. A finite value
  is a sign, a mantissa below \<open>2 ^ 53\<close> and an exponent from \<open>-1074\<close> to \<open>971\<close>, so that it
  stands for the mantissa times two to the exponent; an operation computes the exact ratio and
  rounds it to the nearest value, ties to the even mantissa. Everything computes on integers.
\<close>

datatype float64 = NaN | Infty bool | Fin bool nat int

abbreviation zero64 :: "bool \<Rightarrow> float64" where
  "zero64 s \<equiv> Fin s 0 (- 1074)"

fun bit_len :: "nat \<Rightarrow> nat" where
  "bit_len n = (if n = 0 then 0 else Suc (bit_len (n div 2)))"

declare bit_len.simps [simp del]

definition scaled :: "nat \<Rightarrow> nat \<Rightarrow> int \<Rightarrow> nat \<times> nat" where
  "scaled num den e =
     (if 0 \<le> e then (num, den * 2 ^ nat e) else (num * 2 ^ nat (- e), den))"

text \<open>The nearest natural number to a ratio, ties to even.\<close>

definition round_even :: "nat \<Rightarrow> nat \<Rightarrow> nat" where
  "round_even num den =
     (let q = num div den; r = num mod den
      in if 2 * r < den \<or> (2 * r = den \<and> even q) then q else q + 1)"

definition ratio_ge_pow :: "nat \<Rightarrow> nat \<Rightarrow> int \<Rightarrow> bool" where
  "ratio_ge_pow num den k = (snd (scaled num den k) \<le> fst (scaled num den k))"

definition ratio_log2 :: "nat \<Rightarrow> nat \<Rightarrow> int" where
  "ratio_log2 num den =
     (let k = int (bit_len num) - int (bit_len den)
      in if ratio_ge_pow num den k then k else k - 1)"

definition ulp_exponent :: "nat \<Rightarrow> nat \<Rightarrow> int" where
  "ulp_exponent num den = max (ratio_log2 num den - 52) (- 1074)"

definition pack64 :: "bool \<Rightarrow> nat \<Rightarrow> int \<Rightarrow> float64" where
  "pack64 s m e =
     (let (m', e') = (if m = 2 ^ 53 then (2 ^ 52, e + 1) else (m, e))
      in if e' > 971 then Infty s else Fin s m' e')"

definition round64 :: "bool \<Rightarrow> nat \<Rightarrow> nat \<Rightarrow> float64" where
  "round64 s num den =
     (if num = 0 then zero64 s
      else let e = ulp_exponent num den; (a, b) = scaled num den e
           in pack64 s (round_even a b) e)"

text \<open>The canonical form of a finite value, which the operations return.\<close>

definition canonical64 :: "float64 \<Rightarrow> bool" where
  "canonical64 x =
     (case x of
        Fin s m e \<Rightarrow> m < 2 ^ 53 \<and> - 1074 \<le> e \<and> e \<le> 971 \<and> (2 ^ 52 \<le> m \<or> e = - 1074)
      | _ \<Rightarrow> False)"

subsection \<open>Comparison\<close>

definition is_finite64 :: "float64 \<Rightarrow> bool" where
  "is_finite64 x = (case x of Fin _ _ _ \<Rightarrow> True | _ \<Rightarrow> False)"

definition is_nan64 :: "float64 \<Rightarrow> bool" where
  "is_nan64 x = (x = NaN)"

definition signed :: "bool \<Rightarrow> nat \<Rightarrow> int" where
  "signed s m = (if s then - int m else int m)"

definition fin_le :: "bool \<Rightarrow> nat \<Rightarrow> int \<Rightarrow> bool \<Rightarrow> nat \<Rightarrow> int \<Rightarrow> bool" where
  "fin_le s m e s' m' e' =
     (if e \<le> e' then signed s m \<le> signed s' m' * 2 ^ nat (e' - e)
      else signed s m * 2 ^ nat (e - e') \<le> signed s' m')"

fun le64 :: "float64 \<Rightarrow> float64 \<Rightarrow> bool" where
  "le64 NaN _ = False"
| "le64 _ NaN = False"
| "le64 (Infty s) (Infty s') = (s \<or> \<not> s')"
| "le64 (Infty s) (Fin _ _ _) = s"
| "le64 (Fin _ _ _) (Infty s) = (\<not> s)"
| "le64 (Fin s m e) (Fin s' m' e') = fin_le s m e s' m' e'"

definition lt64 :: "float64 \<Rightarrow> float64 \<Rightarrow> bool" where
  "lt64 x y = (le64 x y \<and> \<not> le64 y x)"

definition eq64 :: "float64 \<Rightarrow> float64 \<Rightarrow> bool" where
  "eq64 x y = (le64 x y \<and> le64 y x)"

subsection \<open>Operations\<close>

definition neg64 :: "float64 \<Rightarrow> float64" where
  "neg64 x = (case x of NaN \<Rightarrow> NaN | Infty s \<Rightarrow> Infty (\<not> s) | Fin s m e \<Rightarrow> Fin (\<not> s) m e)"

definition pow_ratio :: "nat \<Rightarrow> int \<Rightarrow> nat \<times> nat" where
  "pow_ratio m e = (if 0 \<le> e then (m * 2 ^ nat e, 1) else (m, 2 ^ nat (- e)))"

fun add64 :: "float64 \<Rightarrow> float64 \<Rightarrow> float64" where
  "add64 NaN _ = NaN"
| "add64 _ NaN = NaN"
| "add64 (Infty s) (Infty s') = (if s = s' then Infty s else NaN)"
| "add64 (Infty s) (Fin _ _ _) = Infty s"
| "add64 (Fin _ _ _) (Infty s) = Infty s"
| "add64 (Fin s m e) (Fin s' m' e') =
     (let lo = min e e';
          v = signed s m * 2 ^ nat (e - lo) + signed s' m' * 2 ^ nat (e' - lo);
          (a, b) = pow_ratio (nat \<bar>v\<bar>) lo
      in if v = 0 then zero64 (s \<and> s') else round64 (v < 0) a b)"

definition sub64 :: "float64 \<Rightarrow> float64 \<Rightarrow> float64" where
  "sub64 x y = add64 x (neg64 y)"

fun mul64 :: "float64 \<Rightarrow> float64 \<Rightarrow> float64" where
  "mul64 NaN _ = NaN"
| "mul64 _ NaN = NaN"
| "mul64 (Infty s) (Infty s') = Infty (s \<noteq> s')"
| "mul64 (Infty s) (Fin s' m _) = (if m = 0 then NaN else Infty (s \<noteq> s'))"
| "mul64 (Fin s m _) (Infty s') = (if m = 0 then NaN else Infty (s \<noteq> s'))"
| "mul64 (Fin s m e) (Fin s' m' e') =
     (let (a, b) = pow_ratio (m * m') (e + e') in round64 (s \<noteq> s') a b)"

fun div64 :: "float64 \<Rightarrow> float64 \<Rightarrow> float64" where
  "div64 NaN _ = NaN"
| "div64 _ NaN = NaN"
| "div64 (Infty s) (Infty s') = NaN"
| "div64 (Infty s) (Fin s' m _) = Infty (s \<noteq> s')"
| "div64 (Fin s m _) (Infty s') = zero64 (s \<noteq> s')"
| "div64 (Fin s m e) (Fin s' m' e') =
     (if m' = 0 then (if m = 0 then NaN else Infty (s \<noteq> s'))
      else let (a, b) = pow_ratio m (e - e') in round64 (s \<noteq> s') a (b * m'))"

text \<open>\<open>f64::max\<close> and \<open>f64::min\<close> (a NaN operand is ignored) and \<open>f64::clamp\<close>.\<close>

definition max64 :: "float64 \<Rightarrow> float64 \<Rightarrow> float64" where
  "max64 x y = (if is_nan64 x then y else if is_nan64 y then x else if lt64 x y then y else x)"

definition min64 :: "float64 \<Rightarrow> float64 \<Rightarrow> float64" where
  "min64 x y = (if is_nan64 x then y else if is_nan64 y then x else if lt64 y x then y else x)"

definition clamp64 :: "float64 \<Rightarrow> float64 \<Rightarrow> float64 \<Rightarrow> float64" where
  "clamp64 x lo hi = (if lt64 x lo then lo else if lt64 hi x then hi else x)"

definition of_nat64 :: "nat \<Rightarrow> float64" where
  "of_nat64 n = round64 False n 1"

definition of_int64 :: "int \<Rightarrow> float64" where
  "of_int64 i = round64 (i < 0) (nat \<bar>i\<bar>) 1"

text \<open>\<open>f64::fract() == 0.0\<close> on a finite value, and \<open>as u64\<close> (truncation, saturating).\<close>

definition integral64 :: "float64 \<Rightarrow> bool" where
  "integral64 x = (case x of Fin s m e \<Rightarrow> 0 \<le> e \<or> 2 ^ nat (- e) dvd m | _ \<Rightarrow> False)"

definition to_u64 :: "float64 \<Rightarrow> nat" where
  "to_u64 x =
     (case x of NaN \<Rightarrow> 0 | Infty s \<Rightarrow> (if s then 0 else 2 ^ 64 - 1)
      | Fin s m e \<Rightarrow>
          (if s then 0
           else min (2 ^ 64 - 1) (if 0 \<le> e then m * 2 ^ nat e else m div 2 ^ nat (- e))))"

subsection \<open>Parsing\<close>

text \<open>
  \<open>str::parse::<f64>\<close>: an optional sign, then \<open>inf\<close>, \<open>infinity\<close> or \<open>nan\<close> in any case, or
  digits with an optional point (at least one digit in all) and an optional exponent.
\<close>

fun take_digits :: "string \<Rightarrow> string \<times> string" where
  "take_digits [] = ([], [])"
| "take_digits (c # s) =
     (if is_ascii_digit c then (let (d, r) = take_digits s in (c # d, r)) else ([], c # s))"

fun nat_of_digits :: "nat \<Rightarrow> string \<Rightarrow> nat" where
  "nat_of_digits n [] = n"
| "nat_of_digits n (c # s) = nat_of_digits (10 * n + (byte c - 48)) s"

definition split_sign :: "string \<Rightarrow> bool \<times> string" where
  "split_sign s =
     (case s of [] \<Rightarrow> (False, [])
      | c # r \<Rightarrow> if c = CHR ''-'' then (True, r) else if c = CHR ''+'' then (False, r) else (False, s))"

definition parse_exponent :: "string \<Rightarrow> int option" where
  "parse_exponent s =
     (case s of [] \<Rightarrow> Some 0
      | c # r \<Rightarrow>
          if c = CHR ''e'' \<or> c = CHR ''E''
          then (let (neg, t) = split_sign r; (d, rest) = take_digits t
                in if d \<noteq> [] \<and> rest = []
                   then Some (if neg then - int (nat_of_digits 0 d) else int (nat_of_digits 0 d))
                   else None)
          else None)"

text \<open>The exact value of an unsigned decimal: digits, decimal exponent.\<close>

definition parse_decimal :: "string \<Rightarrow> (nat \<times> int) option" where
  "parse_decimal s =
     (let (whole, r) = take_digits s;
          (frac, r') = (case r of [] \<Rightarrow> ([], [])
                        | c # t \<Rightarrow> if c = CHR ''.'' then take_digits t else ([], r))
      in if whole = [] \<and> frac = [] then None
         else (case parse_exponent r' of None \<Rightarrow> None
               | Some x \<Rightarrow> Some (nat_of_digits 0 (whole @ frac), x - int (length frac))))"

definition decimal_ratio :: "nat \<times> int \<Rightarrow> nat \<times> nat" where
  "decimal_ratio d =
     (let (n, x) = d in if 0 \<le> x then (n * 10 ^ nat x, 1) else (n, 10 ^ nat (- x)))"

definition parse64 :: "string \<Rightarrow> float64 option" where
  "parse64 s =
     (let (neg, t) = split_sign s; l = map to_ascii_lower t
      in if l = ''inf'' \<or> l = ''infinity'' then Some (Infty neg)
         else if l = ''nan'' then Some NaN
         else (case parse_decimal t of None \<Rightarrow> None
               | Some d \<Rightarrow> (let (a, b) = decimal_ratio d in Some (round64 neg a b))))"

end
