(* ===== verification/Json.thy ===== *)
theory Json
  imports Float64
begin

text \<open>
  The values the program exchanges with \<open>serde_json\<close>, and the record of the third-party
  functions the model takes as arguments. The text encoding of JSON and SHA-256 are library code
  that is not under \<open>src/\<close>; what the derives of \<open>Serialize\<close> and \<open>Deserialize\<close> say of
  a struct (its fields, their order, which are left out when absent, whether unknown fields are
  refused) is written in the sources, and is a definition here: an encoder to \<open>jval\<close> and a
  decoder over \<open>struct_fields\<close>.
\<close>

datatype jnum = JInt int | JFloat float64

datatype jval =
    JNull
  | JBool bool
  | JNum jnum
  | JStr string
  | JArr "jval list"
  | JObj "(string \<times> jval) list"

record library =
  sha256_hex :: "string \<Rightarrow> string"
  json_compact :: "jval \<Rightarrow> string"
  json_pretty :: "jval \<Rightarrow> string"
  json_parse :: "string \<Rightarrow> jval option"

text \<open>
  A number of \<open>serde_json\<close> is never infinite or NaN; a float is in its canonical form.
\<close>

fun json_number :: "jnum \<Rightarrow> bool" where
  "json_number (JInt i) = True"
| "json_number (JFloat x) = canonical64 x"

fun json_value :: "jval \<Rightarrow> bool" where
  "json_value (JNum n) = json_number n"
| "json_value (JArr vs) = (\<forall>v \<in> set vs. json_value v)"
| "json_value (JObj kvs) = (\<forall>kv \<in> set kvs. json_value (snd kv))"
| "json_value JNull = True"
| "json_value (JBool b) = True"
| "json_value (JStr s) = True"

text \<open>What the program relies on: text written is read back, what is read is a value, and a SHA-256 in lower-case
  hexadecimal has 64 digits.\<close>

definition json_library :: "library \<Rightarrow> bool" where
  "json_library L =
     ((\<forall>v. json_value v \<longrightarrow> json_parse L (json_compact L v) = Some v) \<and>
      (\<forall>v. json_value v \<longrightarrow> json_parse L (json_pretty L v) = Some v) \<and>
      (\<forall>s v. json_parse L s = Some v \<longrightarrow> json_value v))"

definition sha_library :: "library \<Rightarrow> bool" where
  "sha_library L =
     (\<forall>b. length (sha256_hex L b) = 64 \<and> list_all is_ascii_hexdigit (sha256_hex L b))"

text \<open>Two different byte strings with one SHA-256.\<close>

definition sha_collision :: "library \<Rightarrow> string \<Rightarrow> string \<Rightarrow> bool" where
  "sha_collision L a b = (a \<noteq> b \<and> sha256_hex L a = sha256_hex L b)"

lemma json_compact_inj:
  "json_library L \<Longrightarrow> json_value v \<Longrightarrow> json_value w \<Longrightarrow>
     json_compact L v = json_compact L w \<longleftrightarrow> v = w"
  by (metis json_library_def option.inject)

lemma json_pretty_parse:
  "json_library L \<Longrightarrow> json_value v \<Longrightarrow> json_parse L (json_pretty L v) = Some v"
  by (simp add: json_library_def)

subsection \<open>Accessors\<close>

definition as_str :: "jval \<Rightarrow> string option" where
  "as_str v = (case v of JStr s \<Rightarrow> Some s | _ \<Rightarrow> None)"

definition as_bool :: "jval \<Rightarrow> bool option" where
  "as_bool v = (case v of JBool b \<Rightarrow> Some b | _ \<Rightarrow> None)"

definition as_u64 :: "jval \<Rightarrow> u64 option" where
  "as_u64 v =
     (case v of JNum (JInt i) \<Rightarrow> if 0 \<le> i \<and> i < 2 ^ 64 then Some (word_of_int i) else None
      | _ \<Rightarrow> None)"

definition as_f64 :: "jval \<Rightarrow> float64 option" where
  "as_f64 v =
     (case v of JNum (JInt i) \<Rightarrow> Some (of_int64 i) | JNum (JFloat x) \<Rightarrow> Some x | _ \<Rightarrow> None)"

definition as_array :: "jval \<Rightarrow> jval list option" where
  "as_array v = (case v of JArr vs \<Rightarrow> Some vs | _ \<Rightarrow> None)"

definition as_object :: "jval \<Rightarrow> (string \<times> jval) list option" where
  "as_object v = (case v of JObj kvs \<Rightarrow> Some kvs | _ \<Rightarrow> None)"

text \<open>\<open>Value::get\<close> by a key; a \<open>Value\<close> read from a text keeps the last of two equal keys.\<close>

definition get_key :: "jval \<Rightarrow> string \<Rightarrow> jval option" where
  "get_key v k = (case v of JObj kvs \<Rightarrow> map_of (rev kvs) k | _ \<Rightarrow> None)"

subsection \<open>Structs\<close>

text \<open>
  The decoder a derive gives a struct. A field is its name and whether it has a default. From an
  object: no known field twice, no unknown field where they are denied. From an array: the
  fields in order, those left out at the end being ones with a default.
\<close>

definition struct_fields :: "bool \<Rightarrow> (string \<times> bool) list \<Rightarrow> jval \<Rightarrow> (string \<rightharpoonup> jval) option" where
  "struct_fields deny fs v =
     (case v of
        JObj kvs \<Rightarrow>
          (if distinct (filter (\<lambda>k. k \<in> fst ` set fs) (map fst kvs)) \<and>
              (deny \<longrightarrow> list_all (\<lambda>k. k \<in> fst ` set fs) (map fst kvs))
           then Some (map_of kvs) else None)
      | JArr vs \<Rightarrow>
          (if length vs \<le> length fs \<and> list_all snd (drop (length vs) fs)
           then Some (map_of (zip (map fst fs) vs)) else None)
      | _ \<Rightarrow> None)"

definition field_str :: "(string \<rightharpoonup> jval) \<Rightarrow> string \<Rightarrow> string option" where
  "field_str m k = (case m k of Some (JStr s) \<Rightarrow> Some s | _ \<Rightarrow> None)"

text \<open>An \<open>Option\<close> field: absent and null are \<open>None\<close>.\<close>

definition field_opt ::
  "(jval \<Rightarrow> 'a option) \<Rightarrow> (string \<rightharpoonup> jval) \<Rightarrow> string \<Rightarrow> 'a option option" where
  "field_opt dec m k =
     (case m k of None \<Rightarrow> Some None | Some JNull \<Rightarrow> Some None
      | Some v \<Rightarrow> map_option Some (dec v))"

definition field_req ::
  "(jval \<Rightarrow> 'a option) \<Rightarrow> (string \<rightharpoonup> jval) \<Rightarrow> string \<Rightarrow> 'a option" where
  "field_req dec m k = Option.bind (m k) dec"

definition dec_unsigned :: "nat \<Rightarrow> jval \<Rightarrow> nat option" where
  "dec_unsigned w v =
     (case v of JNum (JInt i) \<Rightarrow> if 0 \<le> i \<and> i < 2 ^ w then Some (nat i) else None | _ \<Rightarrow> None)"

definition dec_word :: "jval \<Rightarrow> ('a::len) word option" where
  "dec_word v = map_option of_nat (dec_unsigned LENGTH('a) v)"

fun all_some :: "'a option list \<Rightarrow> 'a list option" where
  "all_some [] = Some []"
| "all_some (None # xs) = None"
| "all_some (Some x # xs) = map_option (Cons x) (all_some xs)"

definition dec_list :: "(jval \<Rightarrow> 'a option) \<Rightarrow> jval \<Rightarrow> 'a list option" where
  "dec_list dec v = (case v of JArr vs \<Rightarrow> all_some (map dec vs) | _ \<Rightarrow> None)"

text \<open>Encoders: a field left out when absent (\<open>skip_serializing_if\<close>), and one kept as null.\<close>

definition enc_skip :: "string \<Rightarrow> ('a \<Rightarrow> jval) \<Rightarrow> 'a option \<Rightarrow> (string \<times> jval) list" where
  "enc_skip k enc x = (case x of None \<Rightarrow> [] | Some v \<Rightarrow> [(k, enc v)])"

definition enc_opt :: "('a \<Rightarrow> jval) \<Rightarrow> 'a option \<Rightarrow> jval" where
  "enc_opt enc x = (case x of None \<Rightarrow> JNull | Some v \<Rightarrow> enc v)"

definition enc_word :: "'a::len word \<Rightarrow> jval" where
  "enc_word w = JNum (JInt (uint w))"

lemma dec_enc_word [simp]: "dec_word (enc_word w) = Some w"
  by (simp add: dec_word_def dec_unsigned_def enc_word_def)

lemma enc_word_not_null [simp]: "enc_word w \<noteq> JNull"
  by (simp add: enc_word_def)

lemma enc_word_inj [simp]: "enc_word v = enc_word w \<longleftrightarrow> v = w"
  by (simp add: enc_word_def word_uint_eq_iff)

lemma json_value_enc_word [simp]: "json_value (enc_word w)"
  by (simp add: enc_word_def)

lemma json_value_enc_opt [simp]:
  "json_value (enc_opt enc x) \<longleftrightarrow> (\<forall>v. x = Some v \<longrightarrow> json_value (enc v))"
  by (simp add: enc_opt_def split: option.splits)

lemma json_value_enc_skip [simp]:
  "(\<forall>kv \<in> set (enc_skip k enc x). json_value (snd kv)) \<longleftrightarrow>
     (\<forall>v. x = Some v \<longrightarrow> json_value (enc v))"
  by (auto simp: enc_skip_def split: option.splits)

lemma as_str_simps [simp]: "as_str (JStr s) = Some s"
  by (simp add: as_str_def)

lemma as_str_Some: "as_str v = Some s \<longleftrightarrow> v = JStr s"
  by (auto simp: as_str_def split: jval.splits)

lemma all_some_map [simp]: "(\<And>x. f (g x) = Some x) \<Longrightarrow> all_some (map (\<lambda>x. f (g x)) xs) = Some xs"
  by (induction xs) auto

lemma all_some_Some [simp]: "all_some (map Some xs) = Some xs"
  by (induction xs) auto

lemma enc_opt_str_inj [simp]: "enc_opt JStr x = enc_opt JStr y \<longleftrightarrow> x = y"
  by (auto simp: enc_opt_def split: option.splits)

lemma field_opt_None: "m k = None \<Longrightarrow> field_opt dec m k = Some None"
  by (simp add: field_opt_def)

lemma field_opt_Some:
  "m k = Some v \<Longrightarrow> v \<noteq> JNull \<Longrightarrow> field_opt dec m k = map_option Some (dec v)"
  by (cases v) (simp_all add: field_opt_def)

lemma field_opt_enc:
  assumes "m k = Some (enc_opt enc x)" "\<And>v. enc v \<noteq> JNull" "\<And>v. dec (enc v) = Some v"
  shows "field_opt dec m k = Some x"
proof (cases x)
  case None
  with assms(1) show ?thesis by (simp add: field_opt_def enc_opt_def)
next
  case (Some v)
  with assms have "m k = Some (enc v)" by (simp add: enc_opt_def)
  with Some assms(2,3) show ?thesis by (simp add: field_opt_Some)
qed

lemma enc_opt_inj:
  "(\<And>v. enc v \<noteq> JNull) \<Longrightarrow> (\<And>v w. enc v = enc w \<longleftrightarrow> v = w) \<Longrightarrow>
     enc_opt enc x = enc_opt enc y \<longleftrightarrow> x = y"
  by (cases x; cases y) (auto simp: enc_opt_def, metis+)

lemma enc_skip_inj:
  "(\<And>v w. enc v = enc w \<longleftrightarrow> v = w) \<Longrightarrow> enc_skip k enc x = enc_skip k enc y \<longleftrightarrow> x = y"
  by (cases x; cases y) (auto simp: enc_skip_def)

text \<open>
  The object an encoder writes is read by the decoder of the same fields: its keys are the fields'
  names in order, less those left out.
\<close>

lemma struct_fields_encoded:
  assumes "subseq (map fst kvs) (map fst fs)" "distinct (map fst fs)"
  shows "struct_fields deny fs (JObj kvs) = Some (map_of kvs)"
proof -
  from assms(1) have "set (map fst kvs) \<subseteq> fst ` set fs"
    by (metis list.set_map set_nths_subset subseq_conv_nths)
  moreover have "distinct (map fst kvs)" using assms by (metis distinct_nthsI subseq_conv_nths)
  ultimately show ?thesis by (auto simp: struct_fields_def list_all_iff)
qed

lemma subseq_enc_skip:
  "subseq rs ks \<Longrightarrow> subseq (map fst (enc_skip k enc x) @ rs) (k # ks)"
  "subseq (map fst (enc_skip k enc x)) (k # ks)"
  by (auto simp: enc_skip_def split: option.splits)

definition or_else :: "'a option \<Rightarrow> 'a option \<Rightarrow> 'a option" where
  "or_else x y = (case x of None \<Rightarrow> y | Some v \<Rightarrow> Some v)"

lemma or_else_simps [simp]: "or_else x None = x" "or_else None y = y" "or_else (Some v) y = Some v"
  by (auto simp: or_else_def split: option.splits)

lemma map_of_enc_skip [simp]:
  "map_of (enc_skip k enc x @ r) k = or_else (map_option enc x) (map_of r k)"
  "q \<noteq> k \<Longrightarrow> map_of (enc_skip k enc x @ r) q = map_of r q"
  "map_of (enc_skip k enc x) k = map_option enc x"
  "q \<noteq> k \<Longrightarrow> map_of (enc_skip k enc x) q = None"
  by (auto simp: enc_skip_def split: option.splits)

text \<open>An optional field, as a function of what is found under its name.\<close>

definition opt_value :: "(jval \<Rightarrow> 'a option) \<Rightarrow> jval option \<Rightarrow> 'a option option" where
  "opt_value dec x = field_opt dec (\<lambda>_. x) []"

lemma field_opt_value: "field_opt dec m k = opt_value dec (m k)"
  by (simp add: opt_value_def field_opt_def)

lemma opt_value_None [simp]: "opt_value dec None = Some None"
  by (simp add: opt_value_def field_opt_def)

lemma opt_value_skip:
  "(\<And>v. enc v \<noteq> JNull) \<Longrightarrow> (\<And>v. dec (enc v) = Some v) \<Longrightarrow>
     opt_value dec (map_option enc x) = Some x"
  by (cases x) (simp_all add: opt_value_def field_opt_None field_opt_Some)

lemma opt_value_enc:
  "(\<And>v. enc v \<noteq> JNull) \<Longrightarrow> (\<And>v. dec (enc v) = Some v) \<Longrightarrow>
     opt_value dec (Some (enc_opt enc x)) = Some x"
  by (simp add: opt_value_def field_opt_enc)

lemma opt_value_str [simp]:
  "opt_value as_str (map_option JStr x) = Some x" "opt_value as_str (Some (enc_opt JStr x)) = Some x"
  "opt_value dec_word (map_option enc_word w) = Some w"
  "opt_value dec_word (Some (enc_opt enc_word w)) = Some w"
  by (rule opt_value_skip opt_value_enc; simp)+

lemmas struct_roundtrip = field_req_def field_opt_value

end
