(* ===== verification/Digests.thy ===== *)
theory Digests
  imports Json
begin

text \<open>
  Digest strings: \<open>validate_digest\<close> of \<open>lock_identity.rs\<close>, the digest both identity modules
  compute of an identity struct (\<open>digest\<close> of \<open>lock_identity.rs\<close>, \<open>calculate\<close> and
  \<open>digest_bytes\<close> of \<open>result_identity.rs\<close>), the path of a content-addressed artifact, and the
  validation of run IDs, which become file names.
\<close>

subsection \<open>Digests\<close>

definition sha256_prefix :: string where
  "sha256_prefix = ''sha256:''"

definition validate_digest :: "string \<Rightarrow> unit result" where
  "validate_digest value =
     bind_result (ok_or (strip_prefix_str value sha256_prefix) ''lock digest must use sha256'')
       (\<lambda>hex. ensure (length hex = 64 \<and> list_all is_ascii_hexdigit hex)
                ''lock digest must contain exactly 64 hexadecimal characters'')"

definition digest_bytes :: "library \<Rightarrow> string \<Rightarrow> string" where
  "digest_bytes L bytes = sha256_prefix @ sha256_hex L bytes"

definition digest_json :: "library \<Rightarrow> jval \<Rightarrow> string" where
  "digest_json L v = digest_bytes L (json_compact L v)"

type_synonym path = "string list"

text \<open>\<open>task_snapshot::artifact_path\<close>, below the state root.\<close>

definition artifact_path :: "string \<Rightarrow> path result" where
  "artifact_path digest =
     bind_result (ok_or (strip_prefix_str digest sha256_prefix) ''artifact digest must use sha256'')
       (\<lambda>value. and_then
          (ensure (length value = 64 \<and> list_all is_ascii_hexdigit value) ''invalid artifact digest'')
          (Inr [''artifacts'', value]))"

lemma validate_digest_ok [result_simps]:
  "validate_digest d = Inr u \<longleftrightarrow>
     (\<exists>hex. d = sha256_prefix @ hex \<and> length hex = 64 \<and> list_all is_ascii_hexdigit hex)"
  by (auto simp: validate_digest_def result_simps strip_prefix_Some)

lemma artifact_path_ok [result_simps]:
  "artifact_path d = Inr p \<longleftrightarrow>
     (\<exists>hex. d = sha256_prefix @ hex \<and> length hex = 64 \<and> list_all is_ascii_hexdigit hex \<and>
            p = [''artifacts'', hex])"
  by (auto simp: artifact_path_def result_simps strip_prefix_Some)

lemma artifact_path_iff_digest: "ok (artifact_path d) \<longleftrightarrow> ok (validate_digest d)"
proof -
  have "(\<exists>p. artifact_path d = Inr p) \<longleftrightarrow> validate_digest d = Inr ()"
    by (auto simp: result_simps)
  then show ?thesis by (auto simp: ok_def split: sum.splits)
qed

lemma digest_bytes_valid: "sha_library L \<Longrightarrow> validate_digest (digest_bytes L b) = Inr ()"
  by (simp add: result_simps digest_bytes_def sha_library_def)

lemma digest_json_valid: "sha_library L \<Longrightarrow> validate_digest (digest_json L v) = Inr ()"
  by (simp add: digest_json_def digest_bytes_valid)

lemma digest_bytes_binds:
  "digest_bytes L a = digest_bytes L b \<Longrightarrow> a = b \<or> sha_collision L a b"
  by (auto simp: digest_bytes_def sha_collision_def)

lemma digest_json_binds:
  "json_library L \<Longrightarrow> json_value v \<Longrightarrow> json_value w \<Longrightarrow>
     digest_json L v = digest_json L w \<Longrightarrow>
     v = w \<or> sha_collision L (json_compact L v) (json_compact L w)"
  by (metis digest_bytes_binds digest_json_def json_compact_inj)

subsection \<open>Records that carry their own digest\<close>

text \<open>
  Locks and results carry the digest of their identity, a JSON value made of their other fields.
  What a kind of record has to provide: the identity is a value, and for records that are
  \<open>ready\<close> (valid for their schema) it determines everything but the digest. Then a digest names
  one record, or two identities collide under SHA-256.
\<close>

locale sealed_record =
  fixes identity :: "'a \<Rightarrow> jval"
    and bare :: "'a \<Rightarrow> 'a"
    and ready :: "'a \<Rightarrow> bool"
    and stored :: "'a \<Rightarrow> string"
  assumes identity_value: "ready a \<Longrightarrow> json_value (identity a)"
    and identity_inj: "ready a \<Longrightarrow> ready b \<Longrightarrow> identity a = identity b \<Longrightarrow> bare a = bare b"
    and bare_stored: "bare a = bare b \<Longrightarrow> stored a = stored b \<Longrightarrow> a = b"
begin

definition sealed_by :: "library \<Rightarrow> 'a \<Rightarrow> bool" where
  "sealed_by L a = (ready a \<and> stored a = digest_json L (identity a))"

lemma same_digest:
  assumes "json_library L" "ready a" "ready b" "stored a = digest_json L (identity a)"
    "stored b = digest_json L (identity b)" "stored a = stored b"
  shows "a = b \<or> sha_collision L (json_compact L (identity a)) (json_compact L (identity b))"
proof -
  have "identity a = identity b \<or> sha_collision L (json_compact L (identity a)) (json_compact L (identity b))"
    using assms(4-6)
    by (intro digest_json_binds [OF assms(1) identity_value [OF assms(2)] identity_value [OF assms(3)]]) simp
  moreover have "a = b" if "identity a = identity b"
    using bare_stored [OF identity_inj [OF assms(2,3) that] assms(6)] .
  ultimately show ?thesis by blast
qed

lemma tampering:
  assumes "json_library L" "sealed_by L a" "ready b" "stored b = stored a" "b \<noteq> a"
    "\<not> sha_collision L (json_compact L (identity a)) (json_compact L (identity b))"
  shows "\<not> sealed_by L b"
proof
  assume "sealed_by L b"
  with assms(2) have "ready a" "stored a = digest_json L (identity a)" "stored b = digest_json L (identity b)"
    unfolding sealed_by_def by blast+
  from same_digest [OF assms(1) this(1) assms(3) this(2,3)] assms(4-6) show False by metis
qed

end

subsection \<open>Run IDs\<close>

definition run_id_char :: "char \<Rightarrow> bool" where
  "run_id_char c = (is_ascii_alphanumeric c \<or> c = CHR ''-'')"

definition validate_run_id :: "string \<Rightarrow> unit result" where
  "validate_run_id run_id =
     ensure (starts_with run_id ''local-'' \<and> length run_id \<le> 128 \<and> list_all run_id_char run_id)
       ''invalid run ID''"

lemma validate_run_id_ok [result_simps]:
  "validate_run_id r = Inr u \<longleftrightarrow>
     starts_with r ''local-'' \<and> length r \<le> 128 \<and> list_all run_id_char r"
  by (simp add: validate_run_id_def result_simps)

text \<open>A valid run ID is one safe path component.\<close>

definition safe_component :: "string \<Rightarrow> bool" where
  "safe_component s = (s \<noteq> [] \<and> s \<noteq> ''.'' \<and> s \<noteq> ''..'' \<and> CHR ''/'' \<notin> set s \<and> CHR 0x00 \<notin> set s)"

lemma run_id_char_safe: "run_id_char c \<Longrightarrow> c \<noteq> CHR ''/'' \<and> c \<noteq> CHR 0x00 \<and> c \<noteq> CHR ''.''"
  by (auto simp: run_id_char_def char_defs)

lemma run_id_chars_safe:
  assumes "list_all run_id_char s" "s \<noteq> []"
  shows "safe_component (s @ t) \<longleftrightarrow> CHR ''/'' \<notin> set t \<and> CHR 0x00 \<notin> set t"
proof -
  have "\<forall>c \<in> set s. c \<noteq> CHR ''/'' \<and> c \<noteq> CHR 0x00 \<and> c \<noteq> CHR ''.''"
    using assms(1) run_id_char_safe by (auto simp: list_all_iff)
  with assms(2) show ?thesis
    by (cases s) (auto simp: safe_component_def)
qed

lemma show_nat_digits: "list_all is_ascii_digit (show_nat n)"
proof (induction n rule: show_nat.induct)
  case (1 n)
  have "is_ascii_digit (char_of (48 + m))" if "m < 10" for m :: nat
    using that by (simp add: is_ascii_digit_def byte_def)
  with 1 show ?case by (subst show_nat.simps) auto
qed

lemma show_nat_not_Nil [simp]: "show_nat n \<noteq> []"
  by (subst show_nat.simps) simp

lemma show_nat_run_id: "list_all run_id_char (show_nat n)"
  using show_nat_digits [of n]
  by (auto simp: list_all_iff run_id_char_def is_ascii_alphanumeric_def)

end
