(* ===== verification/Atomic_Store.thy ===== *)
theory Atomic_Store
  imports Digests
begin

text \<open>
  The contract of a store whose writes are atomic: what a client of \<open>secure_atomic_write\<close>
  (run journals, result records, suite states, configuration) relies on. A write that returns
  \<open>Ok\<close> is what a reader sees; one that fails leaves the old content or the whole new one, never a
  part of it; no other path changes.
\<close>

fun write_list ::
  "('e \<Rightarrow> 'p \<Rightarrow> 'b \<Rightarrow> 's \<Rightarrow> 's \<times> unit result) \<Rightarrow> ('e \<times> 'p \<times> 'b) list \<Rightarrow> 's \<Rightarrow> 's" where
  "write_list put [] s = s"
| "write_list put ((env, p, b) # ws) s = write_list put ws (fst (put env p b s))"

locale atomic_store =
  fixes put :: "'e \<Rightarrow> 'p \<Rightarrow> 'b \<Rightarrow> 's \<Rightarrow> 's \<times> unit result"
    and look :: "'s \<Rightarrow> 'p \<Rightarrow> 'b option"
    and proper :: "'p \<Rightarrow> bool"
  assumes write_ok: "put env p b s = (s', Inr u) \<Longrightarrow> proper p \<Longrightarrow> look s' p = Some b"
    and write_failed:
      "put env p b s = (s', Inl x) \<Longrightarrow> proper p \<Longrightarrow> look s' p = look s p \<or> look s' p = Some b"
    and write_frame:
      "put env p b s = (s', r) \<Longrightarrow> proper p \<Longrightarrow> proper q \<Longrightarrow> q \<noteq> p \<Longrightarrow> look s' q = look s q"
begin

lemma write_cases:
  assumes "put env p b s = (s', r)" "proper p"
  shows "look s' p = look s p \<or> look s' p = Some b"
  using assms write_ok write_failed by (cases r) auto

lemma read_after_write:
  assumes "put env p b s = (s', r)" "proper p" "proper q"
  shows "look s' q = look s q \<or> (q = p \<and> look s' q = Some b)"
  using assms write_cases write_frame by blast

text \<open>After any writes, failed ones included, a path holds its first content or one whole content
  some write gave it.\<close>

lemma never_torn:
  assumes "\<forall>w \<in> set ws. proper (fst (snd w))" "proper q"
  shows "look (write_list put ws s) q = look s q \<or>
         (\<exists>w \<in> set ws. fst (snd w) = q \<and> look (write_list put ws s) q = Some (snd (snd w)))"
  using assms
proof (induction ws arbitrary: s)
  case Nil
  then show ?case by simp
next
  case (Cons w ws)
  obtain env p b where w: "w = (env, p, b)" by (cases w)
  obtain s' r where wr: "put env p b s = (s', r)" by (cases "put env p b s")
  have "look s' q = look s q \<or> (q = p \<and> look s' q = Some b)"
    using read_after_write [OF wr] Cons.prems w by simp
  moreover have "look (write_list put ws s') q = look s' q \<or>
      (\<exists>w \<in> set ws. fst (snd w) = q \<and> look (write_list put ws s') q = Some (snd (snd w)))"
    using Cons.IH Cons.prems by simp
  ultimately show ?case using w wr by auto
qed

lemma last_write_read:
  assumes "put env p b (write_list put ws s) = (s', Inr u)" "proper p"
  shows "look (write_list put (ws @ [(env, p, b)]) s) p = Some b"
proof -
  have "write_list put (ws @ [(env, p, b)]) s = fst (put env p b (write_list put ws s))"
    by (induction ws arbitrary: s) auto
  then show ?thesis using write_ok [OF assms] assms(1) by simp
qed

end

end
