(* ===== verification/State_Fs.thy ===== *)
theory State_Fs
  imports Atomic_Store
begin

unbundle bit_operations_syntax

text \<open>
  \<open>state_fs.rs\<close>, first half: the files of the state directory. A disk maps a path below the
  state root to what is there; the directories above a path are real directories or absent. The
  operating system decides which calls fail: \<open>fault\<close> says of each call whether it fails and how,
  so every theorem holds for all failures. The other half, operations on whole trees, is in
  \<open>State_Tree\<close>.
\<close>

type_synonym mode = "32 word"

text \<open>The permission bits the program writes, by their octal digits.\<close>

abbreviation mode_700 :: mode where "mode_700 \<equiv> 0x1C0"
abbreviation mode_600 :: mode where "mode_600 \<equiv> 0x180"
abbreviation mode_500 :: mode where "mode_500 \<equiv> 0x140"
abbreviation mode_400 :: mode where "mode_400 \<equiv> 0x100"
abbreviation mode_555 :: mode where "mode_555 \<equiv> 0x16D"
abbreviation mode_444 :: mode where "mode_444 \<equiv> 0x124"
abbreviation mode_111 :: mode where "mode_111 \<equiv> 0x49"

datatype entry = FileE mode string | DirE mode | LinkE string | SpecialE

type_synonym disk = "path \<rightharpoonup> entry"

text \<open>The state: the disk, and the process-wide counter \<open>STAGING_SEQUENCE\<close>.\<close>

record fs =
  disk :: disk
  staging_sequence :: u64

datatype syscall =
    MkDir path
  | Chmod path
  | OpenNew path
  | WriteAll path
  | SyncFile path
  | RenameTo path
  | RemoveFile path
  | SyncDir path
  | Lstat path
  | ReadFile path
  | ReadDir path
  | EntryAt path
  | Metadata path
  | RemoveDir path
  | CopyFile path

record os =
  pid :: nat
  fault :: "syscall \<Rightarrow> io_kind option"
  short_write :: "path \<Rightarrow> nat"
  default_dir_mode :: mode
  link_to_dir :: "path \<Rightarrow> bool"
  link_file :: "path \<Rightarrow> string option"

text \<open>A system call: its fault, or else its effect.\<close>

definition syscall :: "os \<Rightarrow> syscall \<Rightarrow> fs \<Rightarrow> fs \<times> unit result \<Rightarrow> fs \<times> unit result" where
  "syscall env c s effect = (case fault env c of Some e \<Rightarrow> (s, Inl (Io e)) | None \<Rightarrow> effect)"

text \<open>Sequencing of steps that change the state and may fail.\<close>

definition then_do ::
  "fs \<times> unit result \<Rightarrow> (fs \<Rightarrow> fs \<times> 'a result) \<Rightarrow> fs \<times> 'a result" where
  "then_do x k = (case x of (s, Inl e) \<Rightarrow> (s, Inl e) | (s, Inr _) \<Rightarrow> k s)"

subsection \<open>Directories\<close>

fun create_dir_all :: "os \<Rightarrow> path \<Rightarrow> path \<Rightarrow> fs \<Rightarrow> fs \<times> unit result" where
  "create_dir_all env pre [] s = (s, Inr ())"
| "create_dir_all env pre (c # cs) s =
     (let p = pre @ [c]
      in case disk s p of
           None \<Rightarrow>
             then_do
               (syscall env (MkDir p) s
                  (s\<lparr>disk := (disk s)(p \<mapsto> DirE (default_dir_mode env))\<rparr>, Inr ()))
               (create_dir_all env p cs)
         | Some (DirE _) \<Rightarrow> create_dir_all env p cs s
         | Some (LinkE _) \<Rightarrow>
             (if link_to_dir env p then create_dir_all env p cs s
              else (s, Inl (Io AlreadyExists)))
         | Some _ \<Rightarrow> (s, Inl (Io AlreadyExists)))"

definition secure_directory :: "os \<Rightarrow> path \<Rightarrow> fs \<Rightarrow> fs \<times> unit result" where
  "secure_directory env p s =
     then_do (create_dir_all env [] p s) (\<lambda>s.
       syscall env (Lstat p) s
         (case disk s p of
            Some (DirE _) \<Rightarrow>
              syscall env (Chmod p) s (s\<lparr>disk := (disk s)(p \<mapsto> DirE mode_700)\<rparr>, Inr ())
          | Some _ \<Rightarrow> (s, Inl (Bail ''Bench state directory must not be a symlink: {}''))
          | None \<Rightarrow> (s, Inl (Io NotFound))))"

definition create_secure_directory_exclusive :: "os \<Rightarrow> path \<Rightarrow> fs \<Rightarrow> fs \<times> unit result" where
  "create_secure_directory_exclusive env p s =
     then_do
       (syscall env (MkDir p) s
          (case disk s p of
             Some _ \<Rightarrow> (s, Inl (Io AlreadyExists))
           | None \<Rightarrow> (s\<lparr>disk := (disk s)(p \<mapsto> DirE mode_700)\<rparr>, Inr ())))
       (secure_directory env p)"

definition staging_name :: "os \<Rightarrow> string \<Rightarrow> u64 \<Rightarrow> string" where
  "staging_name env purpose n =
     ''.tmp-'' @ purpose @ ''-'' @ show_nat (pid env) @ ''-'' @ show_nat (unat n)"

fun staging_loop :: "nat \<Rightarrow> os \<Rightarrow> path \<Rightarrow> string \<Rightarrow> fs \<Rightarrow> fs \<times> path result" where
  "staging_loop 0 env parent purpose s =
     (s, Inl (Bail ''could not allocate an exclusive staging directory''))"
| "staging_loop (Suc k) env parent purpose s =
     (let n = staging_sequence s;
          candidate = parent @ [staging_name env purpose n];
          s' = s\<lparr>staging_sequence := n + 1\<rparr>
      in case create_secure_directory_exclusive env candidate s' of
           (s'', Inr _) \<Rightarrow> (s'', Inr candidate)
         | (s'', Inl (Io AlreadyExists)) \<Rightarrow> staging_loop k env parent purpose s''
         | (s'', Inl e) \<Rightarrow> (s'', Inl e))"

definition create_unique_staging_directory ::
  "os \<Rightarrow> path \<Rightarrow> string \<Rightarrow> fs \<Rightarrow> fs \<times> path result" where
  "create_unique_staging_directory env parent purpose s =
     then_do (secure_directory env parent s) (\<lambda>s.
       if purpose \<noteq> [] \<and> list_all run_id_char purpose
       then staging_loop 32 env parent purpose s
       else (s, Inl (Bail ''invalid staging directory purpose'')))"

subsection \<open>Atomic writes\<close>

text \<open>\<open>create_secure_file\<close>: a failed write leaves the bytes written before it.\<close>

definition create_secure_file :: "os \<Rightarrow> path \<Rightarrow> string \<Rightarrow> fs \<Rightarrow> fs \<times> unit result" where
  "create_secure_file env p bytes s =
     then_do
       (syscall env (OpenNew p) s
          (case disk s p of
             Some _ \<Rightarrow> (s, Inl (Io AlreadyExists))
           | None \<Rightarrow> (s\<lparr>disk := (disk s)(p \<mapsto> FileE mode_600 [])\<rparr>, Inr ())))
       (\<lambda>s. then_do
          (case fault env (WriteAll p) of
             Some e \<Rightarrow>
               (s\<lparr>disk := (disk s)(p \<mapsto> FileE mode_600 (take (short_write env p) bytes))\<rparr>, Inl (Io e))
           | None \<Rightarrow> (s\<lparr>disk := (disk s)(p \<mapsto> FileE mode_600 bytes)\<rparr>, Inr ()))
          (\<lambda>s. syscall env (SyncFile p) s (s, Inr ())))"

definition temp_name :: "os \<Rightarrow> string \<Rightarrow> u64 \<Rightarrow> string" where
  "temp_name env file_name n =
     ''.'' @ file_name @ ''.tmp-'' @ show_nat (pid env) @ ''-'' @ show_nat (unat n)"

fun temp_loop :: "nat \<Rightarrow> os \<Rightarrow> path \<Rightarrow> string \<Rightarrow> string \<Rightarrow> fs \<Rightarrow> fs \<times> path option result" where
  "temp_loop 0 env parent file_name bytes s = (s, Inr None)"
| "temp_loop (Suc k) env parent file_name bytes s =
     (let n = staging_sequence s;
          candidate = parent @ [temp_name env file_name n];
          s' = s\<lparr>staging_sequence := n + 1\<rparr>
      in case create_secure_file env candidate bytes s' of
           (s'', Inr _) \<Rightarrow> (s'', Inr (Some candidate))
         | (s'', Inl (Io AlreadyExists)) \<Rightarrow> temp_loop k env parent file_name bytes s''
         | (s'', Inl e) \<Rightarrow> (s'', Inl e))"

text \<open>\<open>std::fs::rename\<close> of a regular file: it replaces anything but a directory.\<close>

definition rename_file :: "os \<Rightarrow> path \<Rightarrow> path \<Rightarrow> fs \<Rightarrow> fs \<times> unit result" where
  "rename_file env source target s =
     syscall env (RenameTo target) s
       (case (disk s source, disk s target) of
          (None, _) \<Rightarrow> (s, Inl (Io NotFound))
        | (_, Some (DirE _)) \<Rightarrow> (s, Inl (Io (OtherIo ''is a directory'')))
        | (Some x, _) \<Rightarrow> (s\<lparr>disk := (disk s)(source := None, target \<mapsto> x)\<rparr>, Inr ()))"

definition remove_file :: "os \<Rightarrow> path \<Rightarrow> fs \<Rightarrow> fs" where
  "remove_file env p s = fst (syscall env (RemoveFile p) s (s\<lparr>disk := (disk s)(p := None)\<rparr>, Inr ()))"

definition secure_atomic_write :: "os \<Rightarrow> path \<Rightarrow> string \<Rightarrow> fs \<Rightarrow> fs \<times> unit result" where
  "secure_atomic_write env p bytes s =
     (if p = [] then (s, Inl (Bail ''secure write path has no UTF-8 file name''))
      else
        let parent = butlast p; file_name = last p
        in then_do (secure_directory env parent s) (\<lambda>s.
             case temp_loop 32 env parent file_name bytes s of
               (s, Inl e) \<Rightarrow> (s, Inl e)
             | (s, Inr None) \<Rightarrow>
                 (s, Inl (Bail ''could not allocate an exclusive temporary state file''))
             | (s, Inr (Some temporary)) \<Rightarrow>
                 (case rename_file env temporary p s of
                    (s, Inl e) \<Rightarrow> (remove_file env temporary s, Inl e)
                  | (s, Inr _) \<Rightarrow> syscall env (SyncDir parent) s (s, Inr ()))))"

subsection \<open>Reading\<close>

definition read_optional_regular_file :: "os \<Rightarrow> path \<Rightarrow> fs \<Rightarrow> string option result" where
  "read_optional_regular_file env p s =
     (case fault env (Lstat p) of
        Some NotFound \<Rightarrow> Inr None
      | Some _ \<Rightarrow> Inl (Bail ''{kind} is unavailable at {}: {error}'')
      | None \<Rightarrow>
          (case disk s p of
             None \<Rightarrow> Inr None
           | Some (FileE _ bytes) \<Rightarrow>
               (case fault env (ReadFile p) of Some e \<Rightarrow> Inl (Io e) | None \<Rightarrow> Inr (Some bytes))
           | Some _ \<Rightarrow> Inl (Bail ''{kind} must be a real regular file'')))"

definition read_regular_file :: "os \<Rightarrow> path \<Rightarrow> fs \<Rightarrow> string result" where
  "read_regular_file env p s =
     bind_result (read_optional_regular_file env p s)
       (\<lambda>x. ok_or x ''{kind} is unavailable at {}'')"

subsection \<open>What the operations change\<close>

lemma then_do_simps [simp]:
  "then_do (s, Inl e) k = (s, Inl e)" "then_do (s, Inr u) k = k s"
  by (simp_all add: then_do_def)

lemma then_do_Inr [result_simps]:
  "then_do x k = (s, Inr v) \<longleftrightarrow> snd x = Inr () \<and> k (fst x) = (s, Inr v)"
  by (cases x; cases "snd x") (auto simp: then_do_def)

text \<open>\<open>content d p\<close>: the bytes of the regular file at a path.\<close>

definition content :: "disk \<Rightarrow> path \<Rightarrow> string option" where
  "content d p = (case d p of Some (FileE _ b) \<Rightarrow> Some b | _ \<Rightarrow> None)"

text \<open>A name of a temporary or staging entry starts with a dot.\<close>

definition dotted :: "path \<Rightarrow> bool" where
  "dotted p = (p \<noteq> [] \<and> starts_with (last p) ''.'')"

text \<open>Two disks with the same files except at dotted paths: what creating directories, temporary
  files and staging directories may do.\<close>

definition same_files :: "disk \<Rightarrow> disk \<Rightarrow> bool" where
  "same_files d d' = (\<forall>p. \<not> dotted p \<longrightarrow> content d' p = content d p)"

lemma same_files_refl [simp]: "same_files d d"
  by (simp add: same_files_def)

lemma same_files_trans [trans]: "same_files d d' \<Longrightarrow> same_files d' d'' \<Longrightarrow> same_files d d''"
  by (simp add: same_files_def)

lemma same_files_dir:
  "d p = None \<or> (\<exists>m. d p = Some (DirE m)) \<Longrightarrow> same_files d (d(p \<mapsto> DirE m))"
  by (auto simp: same_files_def content_def)

lemma same_files_dotted: "dotted p \<Longrightarrow> same_files d (d(p := x))"
  by (auto simp: same_files_def content_def)

lemma temp_dotted [simp]: "dotted (parent @ [temp_name env f n])"
  by (simp add: dotted_def temp_name_def starts_with_def)

lemma temp_name_differs: "temp_name env f n \<noteq> f"
proof
  assume "temp_name env f n = f"
  then have "length (temp_name env f n) = length f" by simp
  then show False by (simp add: temp_name_def)
qed

lemma syscall_cases:
  "syscall env c s x = (s', r) \<Longrightarrow> (\<exists>e. s' = s \<and> r = Inl (Io e)) \<or> x = (s', r)"
  by (auto simp: syscall_def split: option.splits)

lemma create_dir_all_same:
  "create_dir_all env pre cs s = (s', r) \<Longrightarrow> same_files (disk s) (disk s')"
proof (induction env pre cs s arbitrary: s' r rule: create_dir_all.induct)
  case (1 env pre s)
  then show ?case by simp
next
  case (2 env pre c cs s)
  let ?p = "pre @ [c]"
  show ?case
  proof (cases "disk s ?p")
    case None
    let ?s = "s\<lparr>disk := (disk s)(?p \<mapsto> DirE (default_dir_mode env))\<rparr>"
    have same: "same_files (disk s) (disk ?s)" using None by (simp add: same_files_dir)
    show ?thesis
    proof (cases "fault env (MkDir ?p)")
      case None': None
      with None "2.prems" have "create_dir_all env ?p cs ?s = (s', r)"
        by (simp add: Let_def syscall_def)
      from "2.IH" (1) [OF refl None this] same show ?thesis by (rule same_files_trans [rotated])
    next
      case (Some e)
      with None "2.prems" show ?thesis by (simp add: Let_def syscall_def)
    qed
  next
    case (Some x)
    with "2.prems" "2.IH" show ?thesis by (cases x) (auto simp: Let_def split: if_splits)
  qed
qed

lemma secure_directory_same:
  "secure_directory env p s = (s', r) \<Longrightarrow> same_files (disk s) (disk s')"
proof -
  assume a: "secure_directory env p s = (s', r)"
  obtain s1 r1 where c: "create_dir_all env [] p s = (s1, r1)" by (cases "create_dir_all env [] p s")
  then have "same_files (disk s) (disk s1)" by (rule create_dir_all_same)
  moreover have "same_files (disk s1) (disk s')"
    using a c
    by (cases r1)
       (auto simp: secure_directory_def syscall_def same_files_dir split: option.splits entry.splits)
  ultimately show ?thesis by (rule same_files_trans)
qed

lemma create_secure_file_same:
  "create_secure_file env p bytes s = (s', r) \<Longrightarrow> dotted p \<Longrightarrow> same_files (disk s) (disk s')"
  by (auto simp: create_secure_file_def syscall_def same_files_dotted then_do_def
        intro: same_files_trans same_files_dotted split: option.splits sum.splits prod.splits)

lemma create_secure_file_ok:
  "create_secure_file env p bytes s = (s', Inr u) \<Longrightarrow> disk s' p = Some (FileE mode_600 bytes)"
  by (auto simp: create_secure_file_def syscall_def then_do_def
        split: option.splits sum.splits prod.splits)

lemma temp_loop_spec:
  "temp_loop k env parent f bytes s = (s', r) \<Longrightarrow>
     same_files (disk s) (disk s') \<and>
     (\<forall>c. r = Inr (Some c) \<longrightarrow> dotted c \<and> disk s' c = Some (FileE mode_600 bytes))"
proof (induction k env parent f bytes s arbitrary: s' r rule: temp_loop.induct)
  case (1 env parent f bytes s)
  then show ?case by auto
next
  case (2 k env parent f bytes s)
  let ?c = "parent @ [temp_name env f (staging_sequence s)]"
  let ?s = "s\<lparr>staging_sequence := staging_sequence s + 1\<rparr>"
  obtain s1 r1 where c: "create_secure_file env ?c bytes ?s = (s1, r1)"
    by (cases "create_secure_file env ?c bytes ?s")
  have same: "same_files (disk s) (disk s1)" using create_secure_file_same [OF c] by simp
  show ?case
  proof (cases r1)
    case (Inr u)
    with c "2.prems" have "s' = s1" "r = Inr (Some ?c)" by (auto simp: Let_def)
    with same create_secure_file_ok [of env ?c bytes ?s s1 u] c Inr show ?thesis by simp
  next
    case (Inl e)
    show ?thesis
    proof (cases "e = Io AlreadyExists")
      case True
      with c Inl "2.prems" have l: "temp_loop k env parent f bytes s1 = (s', r)"
        by (simp add: Let_def)
      from "2.IH" [OF refl refl refl c [symmetric] Inl True refl l]
      show ?thesis using same same_files_trans by blast
    next
      case False
      with c Inl "2.prems" have "s' = s1 \<and> r = Inl e"
        by (auto simp: Let_def split: error.splits io_kind.splits)
      with same show ?thesis by simp
    qed
  qed
qed

lemma rename_file_spec:
  assumes "rename_file env t p s = (s', r)" "dotted t" "\<not> dotted p"
    "disk s t = Some (FileE m bytes)"
  shows "(\<exists>e. r = Inl e \<and> s' = s) \<or>
         (r = Inr () \<and> content (disk s') p = Some bytes \<and>
          (\<forall>q. \<not> dotted q \<longrightarrow> q \<noteq> p \<longrightarrow> content (disk s') q = content (disk s) q))"
proof -
  have "t \<noteq> p" using assms(2,3) by blast
  show ?thesis
  proof (cases "fault env (RenameTo p) = None \<and> (\<forall>m. disk s p \<noteq> Some (DirE m))")
    case True
    then have "s' = s\<lparr>disk := (disk s)(t := None, p \<mapsto> FileE m bytes)\<rparr> \<and> r = Inr ()"
      using assms(1,4)
      by (cases "disk s p") (auto simp: rename_file_def syscall_def split: entry.splits)
    with \<open>t \<noteq> p\<close> assms(2) show ?thesis by (auto simp: content_def)
  next
    case False
    then have "s' = s \<and> (\<exists>e. r = Inl e)"
      using assms(1,4) by (auto simp: rename_file_def syscall_def split: option.splits)
    then show ?thesis by blast
  qed
qed

lemma remove_file_same: "dotted p \<Longrightarrow> same_files (disk s) (disk (remove_file env p s))"
  by (auto simp: remove_file_def syscall_def same_files_dotted split: option.splits)

lemma secure_atomic_write_spec:
  assumes "secure_atomic_write env p bytes s = (s', r)" "\<not> dotted p"
  shows "same_files (disk s) (disk s') \<and> (\<exists>e. r = Inl e) \<or>
         content (disk s') p = Some bytes \<and>
         (\<forall>q. \<not> dotted q \<longrightarrow> q \<noteq> p \<longrightarrow> content (disk s') q = content (disk s) q)"
proof (cases "p = []")
  case True
  with assms show ?thesis by (auto simp: secure_atomic_write_def)
next
  case False
  obtain s1 r1 where d: "secure_directory env (butlast p) s = (s1, r1)"
    by (cases "secure_directory env (butlast p) s")
  obtain s2 r2 where t: "temp_loop 32 env (butlast p) (last p) bytes s1 = (s2, r2)"
    by (cases "temp_loop 32 env (butlast p) (last p) bytes s1")
  have s1: "same_files (disk s) (disk s1)" by (rule secure_directory_same [OF d])
  have s2: "same_files (disk s) (disk s2)"
    using same_files_trans [OF s1] temp_loop_spec [OF t] by blast
  show ?thesis
  proof (cases "\<exists>c. r1 = Inr () \<and> r2 = Inr (Some c)")
    case False
    with assms(1) d t \<open>p \<noteq> []\<close> have "(s' = s1 \<or> s' = s2) \<and> (\<exists>e. r = Inl e)"
      by (cases r1) (auto simp: secure_atomic_write_def Let_def split: sum.splits option.splits)
    with s1 s2 show ?thesis by blast
  next
    case True
    then obtain c where c: "r1 = Inr ()" "r2 = Inr (Some c)" by blast
    with temp_loop_spec [OF t] have tc: "dotted c" "disk s2 c = Some (FileE mode_600 bytes)" by auto
    obtain s3 r3 where rn: "rename_file env c p s2 = (s3, r3)" by (cases "rename_file env c p s2")
    show ?thesis
    proof (cases r3)
      case (Inl e)
      with rename_file_spec [OF rn tc(1) assms(2) tc(2)] have "s3 = s2" by auto
      with assms(1) d t c rn Inl \<open>p \<noteq> []\<close> have "s' = remove_file env c s2 \<and> r = Inl e"
        by (auto simp: secure_atomic_write_def Let_def)
      with remove_file_same [OF tc(1)] s2 same_files_trans show ?thesis by blast
    next
      case (Inr u)
      with assms(1) d t c rn \<open>p \<noteq> []\<close> have "s' = s3"
        by (auto simp: secure_atomic_write_def Let_def syscall_def split: option.splits)
      with rename_file_spec [OF rn tc(1) assms(2) tc(2)] Inr s2 show ?thesis
        by (auto simp: same_files_def)
    qed
  qed
qed

text \<open>The writes of \<open>secure_atomic_write\<close> to paths whose last component does not start with a
  dot form an atomic store.\<close>

definition file_at :: "fs \<Rightarrow> path \<Rightarrow> string option" where
  "file_at s p = content (disk s) p"

definition state_path :: "path \<Rightarrow> bool" where
  "state_path p = (\<not> dotted p)"

interpretation state_files: atomic_store secure_atomic_write file_at state_path
proof unfold_locales
  fix env p b s s' u
  assume "secure_atomic_write env p b s = (s', Inr u)" "state_path p"
  then show "file_at s' p = Some b"
    using secure_atomic_write_spec by (fastforce simp: file_at_def state_path_def)
next
  fix env p b s s' x
  assume "secure_atomic_write env p b s = (s', Inl x)" "state_path p"
  then show "file_at s' p = file_at s p \<or> file_at s' p = Some b"
    using secure_atomic_write_spec [of env p b s s' "Inl x"]
    by (auto simp: file_at_def state_path_def same_files_def)
next
  fix env p b s s' r q
  assume "secure_atomic_write env p b s = (s', r)" "state_path p" "state_path q" "q \<noteq> p"
  then show "file_at s' q = file_at s q"
    using secure_atomic_write_spec [of env p b s s' r]
    by (auto simp: file_at_def state_path_def same_files_def)
qed

lemma read_optional_file:
  "read_optional_regular_file env p s = Inr (Some b) \<Longrightarrow> file_at s p = Some b"
  by (auto simp: read_optional_regular_file_def file_at_def content_def
        split: option.splits io_kind.splits entry.splits)

lemma read_regular_file_at: "read_regular_file env p s = Inr b \<Longrightarrow> file_at s p = Some b"
  by (auto simp: read_regular_file_def result_simps intro: read_optional_file)

text \<open>An environment whose calls do not fail.\<close>

definition fault_free :: "os \<Rightarrow> bool" where
  "fault_free env = (\<forall>c. fault env c = None)"

lemma read_back: "fault_free env \<Longrightarrow> file_at s p = Some b \<Longrightarrow> read_regular_file env p s = Inr b"
  by (auto simp: read_regular_file_def read_optional_regular_file_def file_at_def content_def
        fault_free_def split: option.splits entry.splits)

text \<open>
  What an atomic write may touch at all: the path, the directories above it, dotted entries.
\<close>

definition untouched :: "path \<Rightarrow> disk \<Rightarrow> disk \<Rightarrow> bool" where
  "untouched p d d' = (\<forall>q. \<not> prefix q p \<longrightarrow> \<not> dotted q \<longrightarrow> d' q = d q)"

lemma untouched_refl [simp]: "untouched p d d"
  by (simp add: untouched_def)

lemma untouched_trans: "untouched p d d' \<Longrightarrow> untouched p d' d'' \<Longrightarrow> untouched p d d''"
  by (simp add: untouched_def)

lemma untouched_update: "prefix q p \<or> dotted q \<Longrightarrow> untouched p d (d(q := x))"
  by (auto simp: untouched_def)

lemma untouched_shorter: "untouched p d d' \<Longrightarrow> prefix p p' \<Longrightarrow> untouched p' d d'"
  by (meson prefix_order.trans untouched_def)

lemma create_dir_all_untouched:
  "create_dir_all env pre cs s = (s', r) \<Longrightarrow> untouched (pre @ cs) (disk s) (disk s')"
proof (induction env pre cs s arbitrary: s' r rule: create_dir_all.induct)
  case (1 env pre s)
  then show ?case by simp
next
  case (2 env pre c cs s)
  let ?p = "pre @ [c]"
  let ?s = "s\<lparr>disk := (disk s)(?p \<mapsto> DirE (default_dir_mode env))\<rparr>"
  have u: "untouched (pre @ c # cs) (disk s) (disk ?s)" by (simp add: untouched_update)
  show ?case
  proof (cases "disk s ?p")
    case None
    show ?thesis
    proof (cases "fault env (MkDir ?p)")
      case None': None
      with None "2.prems" have "create_dir_all env ?p cs ?s = (s', r)"
        by (simp add: Let_def syscall_def)
      from "2.IH" (1) [OF refl None this] have "untouched (pre @ c # cs) (disk ?s) (disk s')"
        by (simp only: append_assoc append.simps)
      with u show ?thesis by (rule untouched_trans)
    next
      case (Some e)
      with None "2.prems" show ?thesis by (simp add: Let_def syscall_def)
    qed
  next
    case (Some x)
    with "2.prems" "2.IH" show ?thesis by (cases x) (auto simp: Let_def split: if_splits)
  qed
qed

lemma secure_directory_untouched:
  "secure_directory env p s = (s', r) \<Longrightarrow> untouched p (disk s) (disk s')"
proof -
  assume a: "secure_directory env p s = (s', r)"
  obtain s1 r1 where c: "create_dir_all env [] p s = (s1, r1)" by (cases "create_dir_all env [] p s")
  have "untouched p (disk s) (disk s1)" using create_dir_all_untouched [OF c] by simp
  moreover have "untouched p (disk s1) (disk s')"
    using a c
    by (cases r1)
       (auto simp: secure_directory_def syscall_def untouched_update split: option.splits entry.splits)
  ultimately show ?thesis by (rule untouched_trans)
qed

lemma create_secure_file_untouched:
  "create_secure_file env c bytes s = (s', r) \<Longrightarrow> dotted c \<Longrightarrow> untouched p (disk s) (disk s')"
  by (auto simp: create_secure_file_def syscall_def then_do_def
        intro: untouched_trans untouched_update split: option.splits sum.splits prod.splits)

lemma temp_loop_untouched:
  "temp_loop k env parent f bytes s = (s', r) \<Longrightarrow> untouched p (disk s) (disk s')"
proof (induction k env parent f bytes s arbitrary: s' r rule: temp_loop.induct)
  case (1 env parent f bytes s)
  then show ?case by auto
next
  case (2 k env parent f bytes s)
  let ?c = "parent @ [temp_name env f (staging_sequence s)]"
  let ?s = "s\<lparr>staging_sequence := staging_sequence s + 1\<rparr>"
  obtain s1 r1 where c: "create_secure_file env ?c bytes ?s = (s1, r1)"
    by (cases "create_secure_file env ?c bytes ?s")
  have u: "untouched p (disk s) (disk s1)" using create_secure_file_untouched [OF c] by simp
  show ?case
  proof (cases "r1 = Inl (Io AlreadyExists)")
    case True
    with c "2.prems" have "temp_loop k env parent f bytes s1 = (s', r)" by (simp add: Let_def)
    with "2.IH" [OF refl refl refl c [symmetric] True refl refl] u show ?thesis
      using untouched_trans by blast
  next
    case False
    with c "2.prems" have "s' = s1"
      by (auto simp: Let_def split: sum.splits error.splits io_kind.splits)
    with u show ?thesis by simp
  qed
qed

lemma secure_atomic_write_untouched:
  assumes "secure_atomic_write env p bytes s = (s', r)"
  shows "untouched p (disk s) (disk s')"
proof (cases "p = []")
  case True
  with assms show ?thesis by (auto simp: secure_atomic_write_def)
next
  case False
  obtain s1 r1 where d: "secure_directory env (butlast p) s = (s1, r1)"
    by (cases "secure_directory env (butlast p) s")
  obtain s2 r2 where t: "temp_loop 32 env (butlast p) (last p) bytes s1 = (s2, r2)"
    by (cases "temp_loop 32 env (butlast p) (last p) bytes s1")
  have "prefix (butlast p) p" using False by (metis append_butlast_last_id prefixI)
  then have s1: "untouched p (disk s) (disk s1)"
    using secure_directory_untouched [OF d] untouched_shorter by blast
  have s2: "untouched p (disk s) (disk s2)"
    using untouched_trans [OF s1 temp_loop_untouched [OF t]] .
  have rn: "untouched p (disk s2) (disk (fst (rename_file env c p s2)))" if "dotted c" for c
    using that
    by (auto simp: rename_file_def syscall_def untouched_def split: option.splits entry.splits)
  have rm: "untouched p (disk x) (disk (remove_file env c x))" if "dotted c" for c x
    using that by (auto simp: remove_file_def syscall_def untouched_update split: option.splits)
  show ?thesis
  proof (cases "\<exists>c. r1 = Inr () \<and> r2 = Inr (Some c)")
    case F: False
    with assms d t False have "s' = s1 \<or> s' = s2"
      by (cases r1) (auto simp: secure_atomic_write_def Let_def split: sum.splits option.splits)
    with s1 s2 show ?thesis by blast
  next
    case True
    then obtain c where c: "r1 = Inr ()" "r2 = Inr (Some c)" by blast
    with temp_loop_spec [OF t] have dc: "dotted c" by auto
    obtain s3 r3 where r3: "rename_file env c p s2 = (s3, r3)" by (cases "rename_file env c p s2")
    have s3: "untouched p (disk s) (disk s3)" using untouched_trans [OF s2 rn [OF dc]] r3 by simp
    have "s' = s3 \<or> s' = remove_file env c s3"
      using assms d t c r3 False
      by (cases r3) (auto simp: secure_atomic_write_def Let_def syscall_def split: option.splits)
    with s3 untouched_trans [OF s3 rm [OF dc]] show ?thesis by blast
  qed
qed

lemma read_optional_back:
  "fault_free env \<Longrightarrow> file_at s p = Some b \<Longrightarrow> read_optional_regular_file env p s = Inr (Some b)"
  "fault_free env \<Longrightarrow> disk s p = None \<Longrightarrow> read_optional_regular_file env p s = Inr None"
  by (auto simp: read_optional_regular_file_def file_at_def content_def fault_free_def
        split: option.splits entry.splits)

text \<open>Without a failing call and with nothing in the way, an atomic write succeeds.\<close>

lemma write_succeeds:
  assumes "fault_free env" "disk s [a] = None \<or> (\<exists>m. disk s [a] = Some (DirE m))"
    "\<forall>m. disk s [a, f] \<noteq> Some (DirE m)"
    "disk s [a, temp_name env f (staging_sequence s)] = None"
  shows "\<exists>s'. secure_atomic_write env [a, f] b s = (s', Inr ())"
proof -
  have call [simp]: "syscall env c s x = x" "fault env c = None" for c s x
    using assms(1) by (simp_all add: fault_free_def syscall_def)
  obtain m where d: "disk (fst (secure_directory env [a] s)) = (disk s)([a] \<mapsto> DirE m)"
    "snd (secure_directory env [a] s) = Inr ()"
    "staging_sequence (fst (secure_directory env [a] s)) = staging_sequence s"
    using assms(2) by (auto simp: secure_directory_def Let_def)
  then obtain s1 where s1: "secure_directory env [a] s = (s1, Inr ())"
    "disk s1 = (disk s)([a] \<mapsto> DirE m)" "staging_sequence s1 = staging_sequence s"
    by (metis prod.collapse)
  let ?t = "[a, temp_name env f (staging_sequence s)]"
  obtain s2 where t: "temp_loop 32 env [a] f b s1 = (s2, Inr (Some ?t))"
    "disk s2 = (disk s1)(?t := Some (FileE mode_600 b))"
    using s1 assms(4) by (simp add: eval_nat_numeral create_secure_file_def Let_def)
  have "?t \<noteq> [a, f]" using temp_name_differs by simp
  then have "snd (rename_file env ?t [a, f] s2) = Inr ()"
    using t(2) s1(2) assms(3) by (auto simp: rename_file_def split: option.splits entry.splits)
  with s1 t show ?thesis
    by (auto simp: secure_atomic_write_def Let_def split: prod.splits)
qed

text \<open>A concrete environment and disk, for the witnesses: no call fails, nothing is there yet.\<close>

definition quiet_os :: os where
  "quiet_os =
     \<lparr>pid = 7, fault = (\<lambda>_. None), short_write = (\<lambda>_. 0), default_dir_mode = mode_700,
      link_to_dir = (\<lambda>_. False), link_file = (\<lambda>_. None)\<rparr>"

definition empty_fs :: fs where
  "empty_fs = \<lparr>disk = Map.empty, staging_sequence = 0\<rparr>"

lemma quiet_call [simp]: "syscall quiet_os c s x = x" "fault quiet_os c = None"
  by (simp_all add: quiet_os_def syscall_def)

lemma quiet_fault_free [simp]: "fault_free quiet_os"
  by (simp add: fault_free_def)

lemmas fs_step_defs =
  secure_atomic_write_def secure_directory_def create_secure_file_def rename_file_def Let_def
  empty_fs_def

end
