(* ===== verification/Library_Instance.thy ===== *)
theory Library_Instance
  imports Json
begin

text \<open>
  One library that satisfies the laws the theorems assume of \<open>serde_json\<close> and \<open>sha2\<close>, so that
  the laws are known to be satisfiable and the witnesses have a library to use: a prefix code of
  JSON values with its decoder, and a digest of 64 zeros.
\<close>

definition put_nat :: "nat \<Rightarrow> string" where
  "put_nat n = replicate n CHR ''1'' @ [CHR ''0'']"

fun get_nat :: "string \<Rightarrow> (nat \<times> string) option" where
  "get_nat [] = None"
| "get_nat (c # s) =
     (if c = CHR ''1'' then map_option (\<lambda>(n, r). (Suc n, r)) (get_nat s) else Some (0, s))"

definition put_int :: "int \<Rightarrow> string" where
  "put_int i = (if i < 0 then CHR ''-'' # put_nat (nat (- i)) else CHR ''+'' # put_nat (nat i))"

definition get_int :: "string \<Rightarrow> (int \<times> string) option" where
  "get_int s =
     (case s of [] \<Rightarrow> None
      | c # t \<Rightarrow> map_option (\<lambda>(n, r). (if c = CHR ''-'' then - int n else int n, r)) (get_nat t))"

definition put_str :: "string \<Rightarrow> string" where
  "put_str s = put_nat (length s) @ s"

definition get_str :: "string \<Rightarrow> (string \<times> string) option" where
  "get_str s = map_option (\<lambda>(n, r). (take n r, drop n r)) (get_nat s)"

definition put_bool :: "bool \<Rightarrow> string" where
  "put_bool b = (if b then ''T'' else ''F'')"

fun put_float :: "float64 \<Rightarrow> string" where
  "put_float NaN = ''n''"
| "put_float (Infty s) = CHR ''i'' # put_bool s"
| "put_float (Fin s m e) = CHR ''f'' # put_bool s @ put_nat m @ put_int e"

definition get_float :: "string \<Rightarrow> (float64 \<times> string) option" where
  "get_float s =
     (case s of
        c # b # t \<Rightarrow>
          if c = CHR ''i'' then Some (Infty (b = CHR ''T''), t)
          else if c = CHR ''f''
          then Option.bind (get_nat t) (\<lambda>(m, u).
                 map_option (\<lambda>(e, r). (Fin (b = CHR ''T'') m e, r)) (get_int u))
          else None
      | _ \<Rightarrow> None)"

fun put_json :: "jval \<Rightarrow> string" and put_items :: "jval list \<Rightarrow> string"
  and put_members :: "(string \<times> jval) list \<Rightarrow> string" where
  "put_json JNull = ''z''"
| "put_json (JBool b) = CHR ''b'' # put_bool b"
| "put_json (JNum (JInt i)) = CHR ''i'' # put_int i"
| "put_json (JNum (JFloat x)) = CHR ''x'' # put_float x"
| "put_json (JStr s) = CHR ''s'' # put_str s"
| "put_json (JArr vs) = CHR ''a'' # put_items vs"
| "put_json (JObj kvs) = CHR ''o'' # put_members kvs"
| "put_items [] = ''.''"
| "put_items (v # vs) = CHR '','' # put_json v @ put_items vs"
| "put_members [] = ''.''"
| "put_members ((k, v) # kvs) = CHR '','' # put_str k @ put_json v @ put_members kvs"

text \<open>The decoder's fuel bounds the nesting and the lengths; the length of the text is enough.\<close>

fun get_json :: "nat \<Rightarrow> string \<Rightarrow> (jval \<times> string) option"
  and get_items :: "nat \<Rightarrow> string \<Rightarrow> (jval list \<times> string) option"
  and get_members :: "nat \<Rightarrow> string \<Rightarrow> ((string \<times> jval) list \<times> string) option" where
  "get_json 0 s = None"
| "get_json (Suc k) s =
     (case s of [] \<Rightarrow> None
      | c # t \<Rightarrow>
          if c = CHR ''z'' then Some (JNull, t)
          else if c = CHR ''b''
          then (case t of [] \<Rightarrow> None | b # r \<Rightarrow> Some (JBool (b = CHR ''T''), r))
          else if c = CHR ''i'' then map_option (\<lambda>(i, r). (JNum (JInt i), r)) (get_int t)
          else if c = CHR ''x'' then map_option (\<lambda>(x, r). (JNum (JFloat x), r)) (get_float t)
          else if c = CHR ''s'' then map_option (\<lambda>(x, r). (JStr x, r)) (get_str t)
          else if c = CHR ''a'' then map_option (\<lambda>(vs, r). (JArr vs, r)) (get_items k t)
          else map_option (\<lambda>(kvs, r). (JObj kvs, r)) (get_members k t))"
| "get_items 0 s = None"
| "get_items (Suc k) s =
     (case s of [] \<Rightarrow> None
      | c # t \<Rightarrow>
          if c = CHR ''.'' then Some ([], t)
          else Option.bind (get_json k t) (\<lambda>(v, u).
                 map_option (\<lambda>(vs, r). (v # vs, r)) (get_items k u)))"
| "get_members 0 s = None"
| "get_members (Suc k) s =
     (case s of [] \<Rightarrow> None
      | c # t \<Rightarrow>
          if c = CHR ''.'' then Some ([], t)
          else Option.bind (get_str t) (\<lambda>(key, u).
               Option.bind (get_json k u) (\<lambda>(v, w).
                 map_option (\<lambda>(kvs, r). ((key, v) # kvs, r)) (get_members k w))))"

lemma get_put_nat [simp]: "get_nat (put_nat n @ r) = Some (n, r)"
  by (induction n) (simp_all add: put_nat_def)

lemma get_put_int [simp]: "get_int (put_int i @ r) = Some (i, r)"
  by (simp add: get_int_def put_int_def)

lemma get_put_str [simp]: "get_str (put_str s @ r) = Some (s, r)"
  by (simp add: get_str_def put_str_def)

lemma put_bool_split: "\<exists>c. put_bool b = [c] \<and> (c = CHR ''T'' \<longleftrightarrow> b)"
  by (simp add: put_bool_def)

lemma get_put_float [simp]:
  "canonical64 x \<Longrightarrow> get_float (put_float x @ r) = Some (x, r)"
  by (cases x) (auto simp: get_float_def put_bool_def canonical64_def)

lemma get_put_json:
  "json_value v \<Longrightarrow> length (put_json v) \<le> k \<Longrightarrow> get_json k (put_json v @ r) = Some (v, r)"
  "\<forall>v \<in> set vs. json_value v \<Longrightarrow> length (put_items vs) \<le> k \<Longrightarrow>
     get_items k (put_items vs @ r) = Some (vs, r)"
  "\<forall>kv \<in> set kvs. json_value (snd kv) \<Longrightarrow> length (put_members kvs) \<le> k \<Longrightarrow>
     get_members k (put_members kvs @ r) = Some (kvs, r)"
proof (induction v and vs and kvs arbitrary: k r and k r and k r
    rule: put_json_put_items_put_members.induct)
  case (11 key v kvs)
  then show ?case by (cases k) auto
next
  case (9 v vs)
  then show ?case by (cases k) auto
qed (case_tac [!] k, auto simp: put_bool_def)

definition toy_library :: library where
  "toy_library =
     \<lparr>sha256_hex = (\<lambda>b. replicate 64 CHR ''0''),
      json_compact = put_json,
      json_pretty = put_json,
      json_parse =
        (\<lambda>s. case get_json (length s) s of
              None \<Rightarrow> None | Some (v, _) \<Rightarrow> if json_value v then Some v else None)\<rparr>"

lemma toy_json_library: "json_library toy_library"
  using get_put_json(1) [where r = "[]"]
  by (auto simp: json_library_def toy_library_def split: option.splits if_splits)

lemma toy_sha_library: "sha_library toy_library"
  by (auto simp: sha_library_def toy_library_def char_defs list_all_iff)

end
