(* ===== verification/Run_Journal.thy ===== *)
theory Run_Journal
  imports State_Fs Library_Instance
begin

text \<open>
  \<open>run_journal.rs\<close>: the durable record of a run. A journal lives twice, in memory (the record
  below) and on disk (the file \<open>runs/<run_id>.json\<close>, its JSON text); an operation changes the
  one and then, through \<open>secure_atomic_write\<close>, the other, and may fail between the two. The
  clock's answer is an argument of the operations, a result since the clock may stand before the
  epoch; the environment says which system calls fail.
\<close>

subsection \<open>Stages\<close>

datatype run_stage =
    Planned | RuntimeReady | InputsResolved | CandidateRunning | CandidateCompleted
  | Judging | Completed | Failed

fun rank :: "run_stage \<Rightarrow> nat" where
  "rank Planned = 0"
| "rank RuntimeReady = 1"
| "rank InputsResolved = 2"
| "rank CandidateRunning = 3"
| "rank CandidateCompleted = 4"
| "rank Judging = 5"
| "rank Completed = 6"
| "rank Failed = 6"

definition terminal :: "run_stage \<Rightarrow> bool" where
  "terminal st = (st = Completed \<or> st = Failed)"

fun stage_name :: "run_stage \<Rightarrow> string" where
  "stage_name Planned = ''planned''"
| "stage_name RuntimeReady = ''runtime_ready''"
| "stage_name InputsResolved = ''inputs_resolved''"
| "stage_name CandidateRunning = ''candidate_running''"
| "stage_name CandidateCompleted = ''candidate_completed''"
| "stage_name Judging = ''judging''"
| "stage_name Completed = ''completed''"
| "stage_name Failed = ''failed''"

definition all_stages :: "run_stage list" where
  "all_stages =
     [Planned, RuntimeReady, InputsResolved, CandidateRunning, CandidateCompleted, Judging,
      Completed, Failed]"

definition stage_of_name :: "string \<Rightarrow> run_stage option" where
  "stage_of_name s = find (\<lambda>st. stage_name st = s) all_stages"

text \<open>A unit variant is read from its name, or from an object with the name and null.\<close>

definition dec_stage :: "jval \<Rightarrow> run_stage option" where
  "dec_stage v =
     (case v of JStr s \<Rightarrow> stage_of_name s | JObj [(s, JNull)] \<Rightarrow> stage_of_name s | _ \<Rightarrow> None)"

lemma stage_of_stage_name [simp]: "stage_of_name (stage_name st) = Some st"
  by (cases st) (simp_all add: stage_of_name_def all_stages_def)

lemma rank_le: "rank st \<le> 6"
  by (cases st) simp_all

lemma rank_terminal: "terminal st \<longleftrightarrow> rank st = 6"
  by (cases st) (simp_all add: terminal_def)

lemma rank_inj: "rank a = rank b \<Longrightarrow> \<not> terminal a \<Longrightarrow> a = b"
  by (cases a; cases b) (simp_all add: terminal_def)

subsection \<open>Journals and their text\<close>

type_synonym u128 = "128 word"

record journal =
  j_schema :: string
  j_run_id :: string
  j_task_reference :: string
  j_agent_reference :: string
  j_task_lock_digest :: "string option"
  j_candidate_lock_digest :: "string option"
  j_stage :: run_stage
  j_updated_at_ms :: u128
  j_result_path :: "string option"
  j_result_digest :: "string option"
  j_error :: "string option"
  j_path :: path

definition journal_schema :: string where
  "journal_schema = ''a3s.bench.run-journal.v3''"

definition journal_json :: "journal \<Rightarrow> jval" where
  "journal_json j =
     JObj ([(''schema'', JStr (j_schema j)),
            (''run_id'', JStr (j_run_id j)),
            (''task_reference'', JStr (j_task_reference j)),
            (''agent_reference'', JStr (j_agent_reference j))]
           @ enc_skip ''task_lock_digest'' JStr (j_task_lock_digest j)
           @ enc_skip ''candidate_lock_digest'' JStr (j_candidate_lock_digest j)
           @ [(''stage'', JStr (stage_name (j_stage j))),
              (''updated_at_ms'', enc_word (j_updated_at_ms j))]
           @ enc_skip ''result_path'' JStr (j_result_path j)
           @ enc_skip ''result_digest'' JStr (j_result_digest j)
           @ enc_skip ''error'' JStr (j_error j))"

definition journal_fields :: "(string \<times> bool) list" where
  "journal_fields =
     map (\<lambda>k. (k, False))
       [''schema'', ''run_id'', ''task_reference'', ''agent_reference'', ''task_lock_digest'',
        ''candidate_lock_digest'', ''stage'', ''updated_at_ms'', ''result_path'',
        ''result_digest'', ''error'']"

text \<open>The derived decoder; the skipped field \<open>path\<close> gets its default.\<close>

definition journal_of_json :: "jval \<Rightarrow> journal option" where
  "journal_of_json v =
     Option.bind (struct_fields True journal_fields v) (\<lambda>m.
     Option.bind (field_req as_str m ''schema'') (\<lambda>schema.
     Option.bind (field_req as_str m ''run_id'') (\<lambda>run_id.
     Option.bind (field_req as_str m ''task_reference'') (\<lambda>task.
     Option.bind (field_req as_str m ''agent_reference'') (\<lambda>agent.
     Option.bind (field_opt as_str m ''task_lock_digest'') (\<lambda>td.
     Option.bind (field_opt as_str m ''candidate_lock_digest'') (\<lambda>cd.
     Option.bind (field_req dec_stage m ''stage'') (\<lambda>st.
     Option.bind (field_req dec_word m ''updated_at_ms'') (\<lambda>t.
     Option.bind (field_opt as_str m ''result_path'') (\<lambda>rp.
     Option.bind (field_opt as_str m ''result_digest'') (\<lambda>rd.
     Option.bind (field_opt as_str m ''error'') (\<lambda>e.
       Some \<lparr>j_schema = schema, j_run_id = run_id, j_task_reference = task,
             j_agent_reference = agent, j_task_lock_digest = td, j_candidate_lock_digest = cd,
             j_stage = st, j_updated_at_ms = t, j_result_path = rp, j_result_digest = rd,
             j_error = e, j_path = []\<rparr>))))))))))))"

lemma journal_of_journal_json: "journal_of_json (journal_json j) = Some (j\<lparr>j_path := []\<rparr>)"
proof -
  have m: "struct_fields True journal_fields (journal_json j) =
      (case journal_json j of JObj kvs \<Rightarrow> Some (map_of kvs) | _ \<Rightarrow> None)"
    unfolding journal_json_def jval.case
    by (rule struct_fields_encoded) (simp_all add: journal_fields_def subseq_enc_skip)
  show ?thesis
    by (simp add: journal_of_json_def m)
       (simp add: journal_json_def struct_roundtrip dec_stage_def del: map_of_append)
qed

lemma json_value_journal [simp]: "json_value (journal_json j)"
  by (auto simp: journal_json_def enc_skip_def split: option.splits)

subsection \<open>Operations\<close>

text \<open>The path of a journal, below the state root, and a run ID as \<open>begin\<close> makes it.\<close>

definition journal_path :: "string \<Rightarrow> path" where
  "journal_path run_id = [''runs'', run_id @ ''.json'']"

definition new_run_id :: "u128 \<Rightarrow> nat \<Rightarrow> u64 \<Rightarrow> string" where
  "new_run_id now process sequence =
     ''local-'' @ show_nat (unat now) @ ''-'' @ show_nat process @ ''-'' @ show_nat (unat sequence)"

definition persist :: "library \<Rightarrow> os \<Rightarrow> journal \<Rightarrow> fs \<Rightarrow> fs \<times> unit result" where
  "persist L env j s = secure_atomic_write env (j_path j) (json_pretty L (journal_json j)) s"

text \<open>The state of \<open>begin\<close> has the counter \<open>RUN_SEQUENCE\<close> beside the files.\<close>

definition begin_journal ::
  "library \<Rightarrow> os \<Rightarrow> u128 result \<Rightarrow> string \<Rightarrow> string \<Rightarrow> u64 \<times> fs \<Rightarrow>
     (u64 \<times> fs) \<times> journal result" where
  "begin_journal L env clock task_reference agent_reference state =
     (let (sequence, s) = state
      in case secure_directory env [''runs''] s of
           (s, Inl e) \<Rightarrow> ((sequence, s), Inl e)
         | (s, Inr _) \<Rightarrow>
             (case clock of
                Inl e \<Rightarrow> ((sequence, s), Inl e)
              | Inr now \<Rightarrow>
                  let run_id = new_run_id now (pid env) sequence;
                      j = \<lparr>j_schema = journal_schema, j_run_id = run_id,
                           j_task_reference = task_reference, j_agent_reference = agent_reference,
                           j_task_lock_digest = None, j_candidate_lock_digest = None,
                           j_stage = Planned, j_updated_at_ms = now, j_result_path = None,
                           j_result_digest = None, j_error = None, j_path = journal_path run_id\<rparr>
                  in case persist L env j s of
                       (s, Inl e) \<Rightarrow> ((sequence + 1, s), Inl e)
                     | (s, Inr _) \<Rightarrow> ((sequence + 1, s), Inr j)))"

type_synonym run_state = "journal \<times> fs"

text \<open>\<open>updated_at_ms\<close> is set from the clock, which may fail, between the two changes.\<close>

definition stamp :: "u128 result \<Rightarrow> journal \<Rightarrow> journal result" where
  "stamp clock j = map_result (\<lambda>now. j\<lparr>j_updated_at_ms := now\<rparr>) clock"

definition save_journal :: "library \<Rightarrow> os \<Rightarrow> journal \<Rightarrow> fs \<Rightarrow> run_state \<times> unit result" where
  "save_journal L env j s = (case persist L env j s of (s', r) \<Rightarrow> ((j, s'), r))"

definition advance ::
  "library \<Rightarrow> os \<Rightarrow> u128 result \<Rightarrow> run_stage \<Rightarrow> run_state \<Rightarrow> run_state \<times> unit result" where
  "advance L env clock stage st =
     (let (j, s) = st
      in if terminal (j_stage j) then (st, Inl (Bail ''terminal run journal cannot advance''))
         else if \<not> (\<not> terminal stage \<and> rank stage = rank (j_stage j) + 1)
         then (st, Inl (Bail ''invalid run journal transition from {:?} to {:?}''))
         else let j = j\<lparr>j_stage := stage\<rparr>
              in case stamp clock j of
                   Inl e \<Rightarrow> ((j, s), Inl e)
                 | Inr j \<Rightarrow> save_journal L env j s)"

definition bind_locks ::
  "library \<Rightarrow> os \<Rightarrow> u128 result \<Rightarrow> string \<Rightarrow> string \<Rightarrow> run_state \<Rightarrow> run_state \<times> unit result" where
  "bind_locks L env clock task_digest candidate_digest st =
     (let (j, s) = st
      in case and_then
                (checks
                   [(j_stage j = RuntimeReady, ''run locks can only be bound after Runtime readiness''),
                    (j_task_lock_digest j = None \<and> j_candidate_lock_digest j = None,
                     ''run locks are already bound'')])
                (and_then (validate_digest task_digest) (validate_digest candidate_digest)) of
           Inl e \<Rightarrow> (st, Inl e)
         | Inr _ \<Rightarrow>
             let j = j\<lparr>j_task_lock_digest := Some task_digest,
                       j_candidate_lock_digest := Some candidate_digest\<rparr>
             in case stamp clock j of
                  Inl e \<Rightarrow> ((j, s), Inl e)
                | Inr j \<Rightarrow> save_journal L env j s)"

definition complete ::
  "library \<Rightarrow> os \<Rightarrow> u128 result \<Rightarrow> string \<Rightarrow> string \<Rightarrow> run_state \<Rightarrow> run_state \<times> unit result" where
  "complete L env clock result_path result_digest st =
     (let (j, s) = st
      in case and_then (ensure (j_stage j = Judging) ''run is not being judged'')
                (validate_digest result_digest) of
           Inl e \<Rightarrow> (st, Inl e)
         | Inr _ \<Rightarrow>
             let j = j\<lparr>j_stage := Completed\<rparr>
             in case stamp clock j of
                  Inl e \<Rightarrow> ((j, s), Inl e)
                | Inr j \<Rightarrow>
                    save_journal L env
                      (j\<lparr>j_result_path := Some result_path, j_result_digest := Some result_digest\<rparr>) s)"

text \<open>\<open>fail\<close> takes the text of the error.\<close>

definition fail ::
  "library \<Rightarrow> os \<Rightarrow> u128 result \<Rightarrow> string \<Rightarrow> run_state \<Rightarrow> run_state \<times> unit result" where
  "fail L env clock message st =
     (let (j, s) = st
      in if terminal (j_stage j) then (st, Inr ())
         else let j = j\<lparr>j_stage := Failed\<rparr>
              in case stamp clock j of
                   Inl e \<Rightarrow> ((j, s), Inl e)
                 | Inr j \<Rightarrow> save_journal L env (j\<lparr>j_error := Some message\<rparr>) s)"

text \<open>The checks of \<open>load\<close> on what it has read.\<close>

definition check_journal :: "string \<Rightarrow> journal \<Rightarrow> unit result" where
  "check_journal run_id j =
     and_then
       (checks
          [(j_schema j = journal_schema, ''unsupported run journal schema''),
           (j_run_id j = run_id, ''run journal identity mismatch''),
           ((j_task_lock_digest j \<noteq> None) = (j_candidate_lock_digest j \<noteq> None),
            ''run journal lock binding is incomplete'')])
    (and_then (when_some (j_task_lock_digest j) validate_digest)
    (and_then (when_some (j_candidate_lock_digest j) validate_digest)
    (and_then
       (checks
          [(j_stage j = Failed \<or> rank (j_stage j) < rank InputsResolved \<or>
              j_task_lock_digest j \<noteq> None,
            ''resolved run journal has no lock binding''),
           ((j_stage j = Completed) = (j_result_path j \<noteq> None),
            ''run journal result binding is invalid''),
           ((j_stage j = Completed) = (j_result_digest j \<noteq> None),
            ''run journal result digest binding is invalid'')])
    (and_then (when_some (j_result_digest j) validate_digest)
       (ensure ((j_stage j = Failed) = (j_error j \<noteq> None))
          ''run journal failure binding is invalid'')))))"

definition load_journal :: "library \<Rightarrow> os \<Rightarrow> string \<Rightarrow> fs \<Rightarrow> journal result" where
  "load_journal L env run_id s =
     and_then (validate_run_id run_id)
       (let path = journal_path run_id
        in bind_result (read_regular_file env path s) (\<lambda>bytes.
           bind_result (ok_or (Option.bind (json_parse L bytes) journal_of_json) ''serde_json'')
             (\<lambda>j. and_then (check_journal run_id j) (Inr (j\<lparr>j_path := path\<rparr>)))))"

definition journal_projection :: "journal \<Rightarrow> jval" where
  "journal_projection j =
     JObj [(''status'', JStr (stage_name (j_stage j))), (''run_id'', JStr (j_run_id j)),
           (''task_reference'', JStr (j_task_reference j))]"

subsection \<open>Runs of operations\<close>

datatype journal_op =
    Advance run_stage
  | BindLocks string string
  | Complete string string
  | Fail string

fun apply_op ::
  "library \<Rightarrow> os \<Rightarrow> u128 result \<Rightarrow> journal_op \<Rightarrow> run_state \<Rightarrow> run_state \<times> unit result" where
  "apply_op L env clock (Advance stage) st = advance L env clock stage st"
| "apply_op L env clock (BindLocks t c) st = bind_locks L env clock t c st"
| "apply_op L env clock (Complete p d) st = complete L env clock p d st"
| "apply_op L env clock (Fail m) st = fail L env clock m st"

text \<open>A run of \<open>bench_run.rs\<close> binds the locks before it advances to \<open>InputsResolved\<close>.\<close>

definition disciplined :: "journal_op \<Rightarrow> journal \<Rightarrow> bool" where
  "disciplined op j =
     (op = Advance InputsResolved \<longrightarrow>
        j_task_lock_digest j \<noteq> None \<and> j_candidate_lock_digest j \<noteq> None)"

text \<open>One operation, whatever the clock says and whichever system calls fail, and the states a run
  reaches from \<open>begin\<close>.\<close>

inductive journal_step :: "library \<Rightarrow> run_state \<Rightarrow> run_state \<Rightarrow> bool" for L where
  step: "disciplined op j \<Longrightarrow> apply_op L env clock op (j, s) = (st', r) \<Longrightarrow>
     journal_step L (j, s) st'"

inductive reachable :: "library \<Rightarrow> run_state \<Rightarrow> bool" for L where
  begun: "pid env < 2 ^ 32 \<Longrightarrow>
     begin_journal L env clock task agent (n, s) = ((n', s'), Inr j) \<Longrightarrow> reachable L (j, s')"
| stepped: "reachable L st \<Longrightarrow> journal_step L st st' \<Longrightarrow> reachable L st'"

inductive_cases journal_stepE: "journal_step L st st'"

text \<open>What a later journal of a run keeps of an earlier one.\<close>

definition follows :: "journal \<Rightarrow> journal \<Rightarrow> bool" where
  "follows a b =
     (j_schema b = j_schema a \<and> j_run_id b = j_run_id a \<and>
      j_task_reference b = j_task_reference a \<and> j_agent_reference b = j_agent_reference a \<and>
      (\<forall>d. j_task_lock_digest a = Some d \<longrightarrow> j_task_lock_digest b = Some d) \<and>
      (\<forall>d. j_candidate_lock_digest a = Some d \<longrightarrow> j_candidate_lock_digest b = Some d) \<and>
      rank (j_stage a) \<le> rank (j_stage b) \<and>
      (terminal (j_stage a) \<longrightarrow> j_stage b = j_stage a))"

lemma follows_refl [simp]: "follows j j"
  by (simp add: follows_def)

lemma follows_trans: "follows a b \<Longrightarrow> follows b c \<Longrightarrow> follows a c"
  by (auto simp: follows_def)

text \<open>What an operation does: nothing to the disk, or one write of the new journal.\<close>

definition op_effect :: "library \<Rightarrow> os \<Rightarrow> run_state \<Rightarrow> run_state \<Rightarrow> unit result \<Rightarrow> bool" where
  "op_effect L env st st' r =
     (let (j, s) = st; (j', s') = st'
      in follows j j' \<and> j_path j' = j_path j \<and>
         ((s' = s \<and> (r = Inr () \<longrightarrow> j' = j)) \<or>
          (persist L env j' s = (s', r) \<and> \<not> terminal (j_stage j))))"

lemmas op_defs =
  advance_def bind_locks_def complete_def fail_def stamp_def save_journal_def Let_def

lemma apply_op_effect:
  assumes "apply_op L env clock op st = (st', r)"
  shows "op_effect L env st st' r"
proof (cases op)
  case (Advance stage)
  with assms show ?thesis
    by (cases clock)
       (auto simp: op_defs op_effect_def follows_def split: prod.splits if_splits)
next
  case (BindLocks t c)
  with assms show ?thesis
    by (cases clock)
       (auto simp: op_defs op_effect_def follows_def result_simps terminal_def
          split: prod.splits if_splits sum.splits)
next
  case (Complete p d)
  with assms show ?thesis
    by (cases clock)
       (auto simp: op_defs op_effect_def follows_def result_simps terminal_def
          split: prod.splits if_splits sum.splits)
next
  case (Fail m)
  with assms show ?thesis
    by (cases clock)
       (auto simp: op_defs op_effect_def follows_def rank_le split: prod.splits if_splits)
qed

lemma apply_op_terminal:
  assumes "terminal (j_stage j)" "apply_op L env clock op (j, s) = (st', r)"
  shows "st' = (j, s)"
  using assms
  by (cases op) (auto simp: op_defs result_simps terminal_def split: if_splits sum.splits)

subsection \<open>The invariant\<close>

lemma check_journal_ok:
  "check_journal run_id j = Inr () \<longleftrightarrow>
     j_schema j = journal_schema \<and> j_run_id j = run_id \<and>
     (j_task_lock_digest j \<noteq> None) = (j_candidate_lock_digest j \<noteq> None) \<and>
     (\<forall>d. j_task_lock_digest j = Some d \<longrightarrow> validate_digest d = Inr ()) \<and>
     (\<forall>d. j_candidate_lock_digest j = Some d \<longrightarrow> validate_digest d = Inr ()) \<and>
     (j_stage j = Failed \<or> rank (j_stage j) < 2 \<or> j_task_lock_digest j \<noteq> None) \<and>
     (j_stage j = Completed) = (j_result_path j \<noteq> None) \<and>
     (j_stage j = Completed) = (j_result_digest j \<noteq> None) \<and>
     (\<forall>d. j_result_digest j = Some d \<longrightarrow> validate_digest d = Inr ()) \<and>
     (j_stage j = Failed) = (j_error j \<noteq> None)"
  unfolding check_journal_def and_then_Inr when_some_Inr ensure_Inr checks_Inr list.pred_inject
    fst_conv rank.simps
  by (simp only: list.pred_inject simp_thms conj_ac)

lemma check_journal_path [simp]: "check_journal run_id (j\<lparr>j_path := p\<rparr>) = check_journal run_id j"
  by (simp add: check_journal_def)

lemma rank_2_stages: "\<not> terminal st \<Longrightarrow> rank st = Suc 0 + rank st' \<Longrightarrow> rank st' < 2 \<Longrightarrow>
    st = InputsResolved \<or> rank st < 2"
  by (cases st; cases st') (simp_all add: terminal_def)

text \<open>An operation keeps what \<open>load\<close> checks, or it has written nothing and ended the journal in
  memory only.\<close>

lemma apply_op_check:
  assumes "check_journal run_id j = Inr ()" "disciplined op j"
    "apply_op L env clock op (j, s) = ((j', s'), r)"
  shows "check_journal run_id j' = Inr () \<or> (s' = s \<and> terminal (j_stage j') \<and> r \<noteq> Inr ())"
proof (cases "terminal (j_stage j)")
  case True
  with assms(1,3) apply_op_terminal show ?thesis by blast
next
  case nt: False
  show ?thesis
  proof (cases op)
    case (Advance stage)
    show ?thesis
    proof (cases "\<not> terminal stage \<and> rank stage = rank (j_stage j) + 1")
      case True
      then have "stage \<noteq> Completed" "stage \<noteq> Failed" "j_stage j \<noteq> Completed" "j_stage j \<noteq> Failed"
        using nt by (auto simp: terminal_def)
      moreover have "j_task_lock_digest j \<noteq> None \<or> rank stage < 2"
        using True nt assms(1,2) Advance rank_2_stages [of stage "j_stage j"]
        by (auto simp: check_journal_ok disciplined_def terminal_def)
      moreover have "j_result_digest j = None"
        using assms(1) calculation(3) unfolding check_journal_ok by blast
      moreover have "j' = j\<lparr>j_stage := stage\<rparr> \<or>
          (\<exists>t. j' = j\<lparr>j_stage := stage, j_updated_at_ms := t\<rparr>)"
        using True nt assms(3) Advance
        by (cases clock) (auto simp: op_defs split: prod.splits)
      ultimately have "check_journal run_id j' = Inr ()"
        using assms(1) \<open>j_result_digest j = None\<close> unfolding check_journal_ok
        by (elim disjE exE) simp_all
      then show ?thesis by blast
    next
      case False
      with Advance assms(3) nt have "j' = j" by (simp add: advance_def)
      with assms(1) show ?thesis by simp
    qed
  next
    case (BindLocks t c)
    from nt assms(1) have e: "j_stage j \<noteq> Completed" "j_stage j \<noteq> Failed" by (auto simp: terminal_def)
    have "j' = j \<or>
        (validate_digest t = Inr () \<and> validate_digest c = Inr () \<and>
         (j' = j\<lparr>j_task_lock_digest := Some t, j_candidate_lock_digest := Some c\<rparr> \<or>
          (\<exists>n. j' = j\<lparr>j_task_lock_digest := Some t, j_candidate_lock_digest := Some c,
                      j_updated_at_ms := n\<rparr>)))"
      using assms(3) BindLocks
      by (cases clock) (auto simp: op_defs and_then_Inr split: prod.splits sum.splits)
    then have "check_journal run_id j' = Inr ()"
      using assms(1) e unfolding check_journal_ok by (elim disjE conjE exE) simp_all
    then show ?thesis by blast
  next
    case (Complete p d)
    have "j' = j \<or>
        (j_stage j = Judging \<and> validate_digest d = Inr () \<and>
         (j' = j\<lparr>j_stage := Completed\<rparr> \<and> s' = s \<and> r \<noteq> Inr () \<or>
          (\<exists>n. j' = j\<lparr>j_stage := Completed, j_updated_at_ms := n, j_result_path := Some p,
                      j_result_digest := Some d\<rparr>)))"
      using assms(3) Complete
      by (cases clock) (auto simp: op_defs and_then_Inr ensure_Inr split: prod.splits sum.splits)
    then show ?thesis
      using assms(1) unfolding check_journal_ok
      by (elim disjE conjE exE) (simp_all add: terminal_def)
  next
    case (Fail m)
    from nt assms(1) have e: "j_stage j \<noteq> Completed" "j_stage j \<noteq> Failed" by (auto simp: terminal_def)
    have "(j' = j\<lparr>j_stage := Failed\<rparr> \<and> s' = s \<and> r \<noteq> Inr ()) \<or>
        (\<exists>n. j' = j\<lparr>j_stage := Failed, j_updated_at_ms := n, j_error := Some m\<rparr>)"
      using assms(3) Fail nt by (cases clock) (auto simp: op_defs split: prod.splits)
    then show ?thesis
      using assms(1) e unfolding check_journal_ok
      by (elim disjE conjE exE) (simp_all add: terminal_def)
  qed
qed

text \<open>The file of a journal holds a journal that \<open>load\<close> accepts and that the one in memory
  follows.\<close>

definition on_disk :: "library \<Rightarrow> fs \<Rightarrow> string \<Rightarrow> journal \<Rightarrow> bool" where
  "on_disk L s run_id jd =
     (file_at s (journal_path run_id) = Some (json_pretty L (journal_json jd)) \<and>
      check_journal run_id jd = Inr ())"

definition journal_inv :: "library \<Rightarrow> run_state \<Rightarrow> bool" where
  "journal_inv L st =
     (let (j, s) = st
      in validate_run_id (j_run_id j) = Inr () \<and> j_path j = journal_path (j_run_id j) \<and>
         (terminal (j_stage j) \<or> check_journal (j_run_id j) j = Inr ()) \<and>
         (\<exists>jd. on_disk L s (j_run_id j) jd \<and> follows jd j))"

lemma journal_path_proper: "validate_run_id r = Inr () \<Longrightarrow> state_path (journal_path r)"
proof -
  assume "validate_run_id r = Inr ()"
  then obtain t where "r = ''local-'' @ t" by (auto simp: validate_run_id_ok starts_with_iff)
  then show ?thesis by (simp add: state_path_def dotted_def journal_path_def starts_with_def)
qed

lemma persist_cases:
  assumes "persist L env j s = (s', r)" "j_path j = journal_path (j_run_id j)"
    "validate_run_id (j_run_id j) = Inr ()"
  shows "(\<exists>e. r = Inl e) \<and>
           file_at s' (journal_path (j_run_id j)) = file_at s (journal_path (j_run_id j)) \<or>
         file_at s' (journal_path (j_run_id j)) = Some (json_pretty L (journal_json j))"
proof -
  let ?p = "journal_path (j_run_id j)"
  have w: "secure_atomic_write env ?p (json_pretty L (journal_json j)) s = (s', r)"
    using assms(1,2) by (simp add: persist_def)
  have p: "state_path ?p" using journal_path_proper assms(3) .
  show ?thesis
  proof (cases r)
    case (Inl e)
    then show ?thesis using state_files.write_failed [OF w [unfolded Inl] p] by auto
  next
    case (Inr u)
    then show ?thesis using state_files.write_ok [OF w [unfolded Inr] p] by auto
  qed
qed

text \<open>One step: the journal on disk stays, or becomes one that follows it; a terminal one stays.\<close>

lemma disk_step:
  assumes "journal_inv L (j, s)" "journal_step L (j, s) (j', s')"
    "on_disk L s (j_run_id j) jd" "follows jd j"
  shows "follows j j' \<and> j_path j' = j_path j \<and>
    (terminal (j_stage j') \<or> check_journal (j_run_id j) j' = Inr ()) \<and>
    (\<exists>jd'. on_disk L s' (j_run_id j) jd' \<and> follows jd jd' \<and> follows jd' j' \<and>
           (terminal (j_stage jd) \<longrightarrow> jd' = jd))"
  using assms(2)
proof (cases rule: journal_step.cases)
  case (step op env clock r)
  show ?thesis
  proof (cases "terminal (j_stage j)")
    case True
    with step apply_op_terminal have "(j', s') = (j, s)" by metis
    with assms(3,4) True show ?thesis by auto
  next
    case False
    then have nt: "\<not> terminal (j_stage jd)" using assms(4) by (auto simp: follows_def)
    from assms(1) False have
      v: "validate_run_id (j_run_id j) = Inr ()" and p: "j_path j = journal_path (j_run_id j)" and
      c: "check_journal (j_run_id j) j = Inr ()"
      by (auto simp: journal_inv_def)
    from apply_op_effect step have e: "op_effect L env (j, s) (j', s') r" by blast
    then have j': "follows j j'" "j_path j' = j_path j" "j_run_id j' = j_run_id j"
      by (auto simp: op_effect_def follows_def)
    have f: "follows jd j'" using follows_trans [OF assms(4) j'(1)] .
    have c': "check_journal (j_run_id j) j' = Inr () \<or>
              (s' = s \<and> terminal (j_stage j') \<and> r \<noteq> Inr ())"
      using apply_op_check [OF c] step by blast
    have "\<exists>jd'. on_disk L s' (j_run_id j) jd' \<and> follows jd jd' \<and> follows jd' j' \<and>
           (terminal (j_stage jd) \<longrightarrow> jd' = jd)"
    proof (cases "s' = s")
      case True
      with assms(3) f show ?thesis using follows_refl by blast
    next
      case False
      with e have w: "persist L env j' s = (s', r)" by (auto simp: op_effect_def)
      from False c' have k: "check_journal (j_run_id j) j' = Inr ()" by blast
      from persist_cases [OF w] j' p v
      have "file_at s' (journal_path (j_run_id j)) = file_at s (journal_path (j_run_id j)) \<or>
            file_at s' (journal_path (j_run_id j)) = Some (json_pretty L (journal_json j'))"
        by auto
      then show ?thesis
      proof
        assume "file_at s' (journal_path (j_run_id j)) = file_at s (journal_path (j_run_id j))"
        with assms(3) f show ?thesis by (auto simp: on_disk_def)
      next
        assume "file_at s' (journal_path (j_run_id j)) = Some (json_pretty L (journal_json j'))"
        with k have "on_disk L s' (j_run_id j) j'" by (simp add: on_disk_def)
        with nt f show ?thesis using follows_refl by blast
      qed
    qed
    with c' j' show ?thesis by blast
  qed
qed

lemma journal_inv_step:
  assumes "journal_inv L st" "journal_step L st st'"
  shows "journal_inv L st'"
proof -
  obtain j s j' s' where st: "st = (j, s)" "st' = (j', s')" by (cases st; cases st')
  from assms(1) st obtain jd where d: "on_disk L s (j_run_id j) jd" "follows jd j"
    by (auto simp: journal_inv_def)
  from disk_step [OF assms [unfolded st] d] obtain jd' where
    j': "follows j j'" "j_path j' = j_path j"
      "terminal (j_stage j') \<or> check_journal (j_run_id j) j' = Inr ()"
    and d': "on_disk L s' (j_run_id j) jd'" "follows jd' j'"
    by blast
  have "j_run_id j' = j_run_id j" using j'(1) by (simp add: follows_def)
  with assms(1) st j' d' show ?thesis unfolding journal_inv_def by auto
qed

text \<open>The same over any number of steps.\<close>

lemma disk_steps:
  assumes "(journal_step L)\<^sup>*\<^sup>* (j, s) (j', s')" "journal_inv L (j, s)"
    "on_disk L s (j_run_id j) jd" "follows jd j"
  shows "j_run_id j' = j_run_id j \<and>
    (\<exists>jd'. on_disk L s' (j_run_id j) jd' \<and> follows jd jd' \<and> follows jd' j' \<and>
           (terminal (j_stage jd) \<longrightarrow> jd' = jd) \<and> journal_inv L (j', s'))"
  using assms(1)
proof (induction rule: rtranclp_induct2)
  case refl
  with assms(2-4) follows_refl show ?case by blast
next
  case (step j1 s1 j2 s2)
  then obtain jd1 where id: "j_run_id j1 = j_run_id j" and
    d: "on_disk L s1 (j_run_id j1) jd1" "follows jd jd1" "follows jd1 j1"
       "terminal (j_stage jd) \<longrightarrow> jd1 = jd" "journal_inv L (j1, s1)"
    by metis
  from disk_step [OF d(5) step.hyps(2) d(1,3)] obtain jd2 where
    "follows j1 j2" "on_disk L s2 (j_run_id j1) jd2" "follows jd1 jd2" "follows jd2 j2"
    "terminal (j_stage jd1) \<longrightarrow> jd2 = jd1"
    by blast
  moreover have "journal_inv L (j2, s2)" using journal_inv_step [OF d(5) step.hyps(2)] .
  ultimately have
    "j_run_id j2 = j_run_id j" "on_disk L s2 (j_run_id j) jd2" "follows jd jd2" "follows jd2 j2"
    "terminal (j_stage jd) \<longrightarrow> jd2 = jd" "journal_inv L (j2, s2)"
    using id d(2,4) follows_trans [OF d(2)] by (auto simp: follows_def)
  then show ?case by blast
qed

lemma show_nat_length: "n < 10 ^ k \<Longrightarrow> 0 < k \<Longrightarrow> length (show_nat n) \<le> k"
proof (induction n arbitrary: k rule: show_nat.induct)
  case (1 n)
  show ?case
  proof (cases "n < 10")
    case True
    with "1.prems" show ?thesis by (subst show_nat.simps) simp
  next
    case False
    then have "k \<noteq> 1" using "1.prems" by auto
    with "1.prems"(2) obtain m where m: "k = Suc m" "0 < m" by (cases k) auto
    then have "n div 10 < 10 ^ m" using "1.prems" by (simp add: less_mult_imp_div_less mult.commute)
    with "1.IH" [OF False] m have "length (show_nat (n div 10)) \<le> m" by simp
    with False m show ?thesis by (subst show_nat.simps) simp
  qed
qed

lemma unat_decimal:
  "unat (w :: u128) < 10 ^ 39" "unat (v :: u64) < 10 ^ 20"
  using unsigned_less [of w, where ?'a = nat] unsigned_less [of v, where ?'a = nat] by simp_all

lemma new_run_id_valid:
  assumes "process < 2 ^ 32"
  shows "validate_run_id (new_run_id now process n) = Inr ()"
proof -
  have "length (show_nat (unat now)) \<le> 39" by (rule show_nat_length [OF unat_decimal(1)]) simp
  moreover have "length (show_nat process) \<le> 10" using assms by (intro show_nat_length) simp_all
  moreover have "length (show_nat (unat n)) \<le> 20"
    by (rule show_nat_length [OF unat_decimal(2)]) simp
  moreover have "run_id_char (CHR ''-'')" "list_all run_id_char ''local-''"
    by (simp_all add: run_id_char_def char_defs)
  ultimately show ?thesis
    by (simp add: validate_run_id_ok new_run_id_def starts_with_def show_nat_run_id)
qed

lemma journal_inv_begin:
  assumes "begin_journal L env clock task agent (n, s) = ((n', s'), Inr j)" "pid env < 2 ^ 32"
  shows "journal_inv L (j, s') \<and> j_stage j = Planned"
proof -
  from assms(1) obtain now s1 where
    j: "j = \<lparr>j_schema = journal_schema, j_run_id = new_run_id now (pid env) n,
             j_task_reference = task, j_agent_reference = agent, j_task_lock_digest = None,
             j_candidate_lock_digest = None, j_stage = Planned, j_updated_at_ms = now,
             j_result_path = None, j_result_digest = None, j_error = None,
             j_path = journal_path (new_run_id now (pid env) n)\<rparr>"
    and w: "persist L env j s1 = (s', Inr ())"
    by (auto simp: begin_journal_def Let_def split: prod.splits sum.splits)
  have v: "validate_run_id (j_run_id j) = Inr ()" using new_run_id_valid [OF assms(2)] j by simp
  have "check_journal (j_run_id j) j = Inr ()" using j by (simp add: check_journal_ok)
  moreover have "file_at s' (journal_path (j_run_id j)) = Some (json_pretty L (journal_json j))"
    using persist_cases [OF w _ v] j by auto
  ultimately show ?thesis using v j by (auto simp: journal_inv_def on_disk_def intro: exI [of _ j])
qed

lemma reachable_inv: "reachable L st \<Longrightarrow> journal_inv L st"
proof (induction rule: reachable.induct)
  case (begun env clock task agent n s n' s' j)
  then show ?case using journal_inv_begin by blast
next
  case (stepped st st')
  then show ?case using journal_inv_step by blast
qed

lemma load_on_disk:
  assumes "json_library L" "fault_free env" "validate_run_id run_id = Inr ()"
    "on_disk L s run_id jd"
  shows "load_journal L env run_id s = Inr (jd\<lparr>j_path := journal_path run_id\<rparr>)"
proof -
  have "read_regular_file env (journal_path run_id) s = Inr (json_pretty L (journal_json jd))"
    using assms(2,4) read_back by (simp add: on_disk_def)
  moreover have "json_parse L (json_pretty L (journal_json jd)) = Some (journal_json jd)"
    using assms(1) by (simp add: json_pretty_parse)
  ultimately show ?thesis
    using assms(3,4) by (simp add: load_journal_def journal_of_journal_json on_disk_def)
qed

lemma load_journal_ok:
  assumes "load_journal L env run_id s = Inr j"
  shows "validate_run_id run_id = Inr () \<and> check_journal run_id j = Inr () \<and>
         j_path j = journal_path run_id"
  using assms by (auto simp: load_journal_def Let_def bind_result_Inr and_then_Inr)

lemma load_exists:
  assumes "json_library L" "journal_inv L (j, s)" "fault_free env"
  shows "\<exists>jd. load_journal L env (j_run_id j) s = Inr jd \<and> follows jd j"
proof -
  from assms(2) obtain jd where
    v: "validate_run_id (j_run_id j) = Inr ()" and d: "on_disk L s (j_run_id j) jd" and
    f: "follows jd j"
    by (auto simp: journal_inv_def)
  from f have "follows (jd\<lparr>j_path := journal_path (j_run_id j)\<rparr>) j" by (simp add: follows_def)
  with load_on_disk [OF assms(1,3) v d] show ?thesis by blast
qed

text \<open>A concrete run, for the witnesses.\<close>

definition demo_begin :: "(u64 \<times> fs) \<times> journal result" where
  "demo_begin = begin_journal toy_library quiet_os (Inr 0) ''task'' ''agent'' (0, empty_fs)"

definition demo_journal :: journal where
  "demo_journal = (case snd demo_begin of Inr j \<Rightarrow> j | Inl _ \<Rightarrow> undefined)"

definition demo_fs :: fs where
  "demo_fs = snd (fst demo_begin)"

lemma demo_begun: "demo_begin = ((1, demo_fs), Inr demo_journal)"
proof -
  have "\<exists>s j. demo_begin = ((1, s), Inr j)"
    unfolding demo_begin_def
    by (simp add: begin_journal_def persist_def fs_step_defs journal_path_def eval_nat_numeral)
  then obtain s j where b: "demo_begin = ((1, s), Inr j)" by blast
  show ?thesis unfolding demo_fs_def demo_journal_def b by simp
qed

lemma demo_reachable: "reachable toy_library (demo_journal, demo_fs)"
  using reachable.begun [OF _ demo_begun [unfolded demo_begin_def]] by (simp add: quiet_os_def)

definition demo_advanced :: run_state where
  "demo_advanced =
     fst (advance toy_library quiet_os (Inr 1) RuntimeReady (demo_journal, demo_fs))"

lemma demo_step: "journal_step toy_library (demo_journal, demo_fs) demo_advanced"
proof -
  have "apply_op toy_library quiet_os (Inr 1) (Advance RuntimeReady) (demo_journal, demo_fs) =
      (demo_advanced,
       snd (advance toy_library quiet_os (Inr 1) RuntimeReady (demo_journal, demo_fs)))"
    by (simp add: demo_advanced_def)
  then show ?thesis by (rule journal_step.step [rotated]) (simp add: disciplined_def)
qed

subsection \<open>Properties\<close>

text \<open>
  C1 A run's journal can always be read back: in every state a run reaches, whichever system calls
  and clock readings failed on the way, \<open>load\<close> of its run ID succeeds, returns a journal of the
  same run, and the journal in memory is that journal or a later one of the run (same identity,
  stage no lower, lock digests kept once bound).
\<close>

theorem journal_always_loadable:
  assumes "json_library L" "reachable L (j, s)" "fault_free env"
  shows "\<exists>jd. load_journal L env (j_run_id j) s = Inr jd \<and> follows jd j"
  by (rule load_exists [OF assms(1) reachable_inv [OF assms(2)] assms(3)])

theorem journal_always_loadable_witness:
  "\<exists>jd. load_journal toy_library quiet_os (j_run_id demo_journal) demo_fs = Inr jd \<and>
        follows jd demo_journal"
  by (rule journal_always_loadable [OF toy_json_library demo_reachable quiet_fault_free])

text \<open>
  C2 The history a run leaves on disk: of two times of a run, what \<open>load\<close> reads at the later one
  follows what it read at the earlier one (same identity, stage no lower, a bound lock digest still
  bound to the same value), and a journal once read as completed or failed is read unchanged ever
  after.
\<close>

theorem journal_history:
  assumes "json_library L" "reachable L (j, s)" "(journal_step L)\<^sup>*\<^sup>* (j, s) (j', s')"
    "fault_free env"
    "load_journal L env (j_run_id j) s = Inr a" "load_journal L env (j_run_id j) s' = Inr b"
  shows "follows a b \<and> (terminal (j_stage a) \<longrightarrow> b = a)"
proof -
  let ?at = "\<lambda>x. x\<lparr>j_path := journal_path (j_run_id j)\<rparr>"
  from reachable_inv [OF assms(2)] obtain jd where inv: "journal_inv L (j, s)" and
    v: "validate_run_id (j_run_id j) = Inr ()" and
    d: "on_disk L s (j_run_id j) jd" "follows jd j"
    by (auto simp: journal_inv_def)
  from disk_steps [OF assms(3) inv d] obtain jd' where
    d': "on_disk L s' (j_run_id j) jd'" "follows jd jd'" "terminal (j_stage jd) \<longrightarrow> jd' = jd"
    by blast
  have "a = ?at jd" "b = ?at jd'"
    using load_on_disk [OF assms(1,4) v] d(1) d'(1) assms(5,6) by auto
  with d' show ?thesis by (auto simp: follows_def)
qed

theorem journal_history_witness:
  "\<exists>a b. load_journal toy_library quiet_os (j_run_id demo_journal) demo_fs = Inr a \<and>
         load_journal toy_library quiet_os (j_run_id demo_journal) (snd demo_advanced) = Inr b \<and>
         follows a b \<and> (terminal (j_stage a) \<longrightarrow> b = a)"
proof -
  obtain j' s' where st: "demo_advanced = (j', s')" by (cases demo_advanced)
  have step: "journal_step toy_library (demo_journal, demo_fs) (j', s')"
    using demo_step st by simp
  then have steps: "(journal_step toy_library)\<^sup>*\<^sup>* (demo_journal, demo_fs) (j', s')" by blast
  have inv: "journal_inv toy_library (demo_journal, demo_fs)"
    by (rule reachable_inv [OF demo_reachable])
  have id: "j_run_id j' = j_run_id demo_journal"
    using disk_steps [OF steps inv] inv by (auto simp: journal_inv_def)
  obtain a where a: "load_journal toy_library quiet_os (j_run_id demo_journal) demo_fs = Inr a"
    using load_exists [OF toy_json_library inv quiet_fault_free] by blast
  obtain b where b: "load_journal toy_library quiet_os (j_run_id demo_journal) s' = Inr b"
    using load_exists [OF toy_json_library journal_inv_step [OF inv step] quiet_fault_free] id
    by auto
  from journal_history [OF toy_json_library demo_reachable steps quiet_fault_free a b] a b
  show ?thesis unfolding st snd_conv by blast
qed

text \<open>
  C3 A failed completion is never recorded as a failure: once \<open>complete\<close> has passed its checks and
  then fails, at the clock or at the write, the file of the journal is what it was (still
  \<open>judging\<close>) or the completed journal, and since the journal in memory counts as completed,
  \<open>fail\<close> returns \<open>Ok\<close> and writes nothing.
\<close>

theorem failed_completion_not_recorded:
  assumes "complete L env clock result_path digest (j, s) = ((j', s'), Inl e)"
    "j_stage j = Judging" "validate_digest digest = Inr ()" "state_path (j_path j)"
  shows "fail L env' clock' message (j', s') = ((j', s'), Inr ()) \<and>
         (file_at s' (j_path j) = file_at s (j_path j) \<or>
          file_at s' (j_path j) = Some (json_pretty L (journal_json j')))"
proof -
  have "j_stage j' = Completed \<and> j_path j' = j_path j \<and>
      (s' = s \<or> persist L env j' s = (s', Inl e))"
    using assms by (cases clock) (auto simp: op_defs split: prod.splits)
  then have c: "j_stage j' = Completed" and w: "s' = s \<or> secure_atomic_write env (j_path j)
      (json_pretty L (journal_json j')) s = (s', Inl e)"
    by (auto simp: persist_def)
  from w have "file_at s' (j_path j) = file_at s (j_path j) \<or>
      file_at s' (j_path j) = Some (json_pretty L (journal_json j'))"
    using state_files.write_failed assms(4) by blast
  with c show ?thesis by (simp add: fail_def terminal_def)
qed

theorem failed_completion_not_recorded_witness:
  "fail toy_library quiet_os (Inr 2) ''disk full''
       (demo_journal\<lparr>j_stage := Completed\<rparr>, demo_fs) =
     ((demo_journal\<lparr>j_stage := Completed\<rparr>, demo_fs), Inr ())"
proof -
  let ?d = "sha256_prefix @ replicate 64 CHR ''a''"
  let ?j = "demo_journal\<lparr>j_stage := Judging\<rparr>"
  have d: "validate_digest ?d = Inr ()" by (auto simp: result_simps list_all_iff char_defs)
  have p: "state_path (j_path ?j)"
    using reachable_inv [OF demo_reachable] journal_path_proper by (auto simp: journal_inv_def)
  have "complete toy_library quiet_os (Inl (External ''clock'')) ''results/r.json'' ?d (?j, demo_fs)
      = ((demo_journal\<lparr>j_stage := Completed\<rparr>, demo_fs), Inl (External ''clock''))"
    using d by (simp add: op_defs)
  from failed_completion_not_recorded [OF this _ d p] show ?thesis by simp
qed

end
