(* ===== verification/Float64_Facts.thy ===== *)
theory Float64_Facts
  imports Float64
begin

text \<open>
  Rounding is monotone: a larger exact ratio never rounds to a smaller \<open>f64\<close>. So a comparison of
  two parsed numbers never contradicts the comparison of the decimals they were parsed from.
\<close>

lemma scaled_spec:
  assumes "0 < den" "scaled num den e = (a, b)"
  shows "0 < b \<and> real a / real b = real num / real den / 2 powi e"
  using assms by (auto simp: scaled_def power_int_def field_simps split: if_splits)

lemma bit_len_bounds: "n \<noteq> 0 \<Longrightarrow> 2 ^ (bit_len n - 1) \<le> n \<and> n < 2 ^ bit_len n \<and> 0 < bit_len n"
proof (induction n rule: bit_len.induct)
  case (1 n)
  show ?case
  proof (cases "n div 2 = 0")
    case True
    with "1.prems" have "n = 1" by linarith
    then show ?thesis by (simp add: bit_len.simps)
  next
    case False
    with "1.IH" "1.prems" have ih: "2 ^ (bit_len (n div 2) - 1) \<le> n div 2"
      "n div 2 < 2 ^ bit_len (n div 2)" "0 < bit_len (n div 2)" by auto
    have l: "bit_len n = Suc (bit_len (n div 2))" using "1.prems" by (subst bit_len.simps) simp
    have "2 ^ bit_len (n div 2) = 2 * (2 :: nat) ^ (bit_len (n div 2) - 1)"
      using ih(3) by (cases "bit_len (n div 2)") simp_all
    moreover define t where "t = (2 :: nat) ^ (bit_len (n div 2) - 1)"
    ultimately have t: "2 ^ (bit_len n - 1) = 2 * t" "2 ^ bit_len n = 4 * t" "t \<le> n div 2"
      "n div 2 < 2 * t"
      using l ih by auto
    show ?thesis unfolding t(1,2) using t(3,4) l by linarith
  qed
qed

lemma ratio_ge_pow_iff:
  assumes "0 < den"
  shows "ratio_ge_pow num den k \<longleftrightarrow> 2 powi k \<le> real num / real den"
proof -
  obtain a b where s: "scaled num den k = (a, b)" by (cases "scaled num den k")
  from scaled_spec [OF assms s] have b: "0 < b" and q: "real a / real b = real num / real den / 2 powi k"
    by auto
  have "b \<le> a \<longleftrightarrow> 1 \<le> real a / real b" using b by (simp add: field_simps)
  also have "\<dots> \<longleftrightarrow> 2 powi k \<le> real num / real den"
    unfolding q by (simp only: le_divide_eq_1_pos zero_less_power_int zero_less_numeral le_divide_eq)
      simp
  finally show ?thesis using s by (simp add: ratio_ge_pow_def)
qed

lemma ratio_log2_spec:
  assumes "0 < num" "0 < den"
  shows "2 powi (ratio_log2 num den) \<le> real num / real den \<and>
         real num / real den < 2 powi (ratio_log2 num den + 1)"
proof -
  let ?a = "bit_len num" and ?b = "bit_len den"
  let ?k = "int ?a - int ?b"
  have n: "2 ^ (?a - 1) \<le> num" "num < 2 ^ ?a" "0 < ?a" using bit_len_bounds [of num] assms by auto
  have d: "2 ^ (?b - 1) \<le> den" "den < 2 ^ ?b" "0 < ?b" using bit_len_bounds [of den] assms by auto
  have num: "(2 :: real) powi (int ?a - 1) \<le> real num" "real num < 2 powi int ?a"
    using n by (auto simp: power_int_def nat_diff_distrib)
  have den: "(2 :: real) powi (int ?b - 1) \<le> real den" "real den < 2 powi int ?b"
    using d by (auto simp: power_int_def nat_diff_distrib)
  have up: "real num / real den < 2 powi (?k + 1)"
  proof -
    have "real num / real den < 2 powi int ?a / 2 powi (int ?b - 1)"
      using num(2) den(1) by (intro frac_less) auto
    also have "\<dots> = 2 powi (?k + 1)" by (simp add: power_int_diff power_int_add field_simps)
    finally show ?thesis .
  qed
  have low: "2 powi (?k - 1) < real num / real den"
  proof -
    have k: "?k - 1 = (int ?a - 1) - int ?b" by simp
    have "2 powi (?k - 1) = 2 powi (int ?a - 1) / (2 powi int ?b :: real)"
      unfolding k by (rule power_int_diff) simp
    also have "\<dots> < real num / real den" using num(1) den(2) assms by (intro frac_less2) auto
    finally show ?thesis .
  qed
  show ?thesis
    using up low ratio_ge_pow_iff [OF assms(2), of num ?k]
    by (auto simp: ratio_log2_def Let_def)
qed

lemma powi_less: "a < b \<Longrightarrow> (2 :: real) powi a < 2 powi b"
  by (rule power_int_strict_increasing) simp_all

lemma powi_le: "a \<le> b \<Longrightarrow> (2 :: real) powi a \<le> 2 powi b"
  by (rule power_int_increasing) simp_all

lemma powi_less_iff: "(2 :: real) powi a < 2 powi b \<longleftrightarrow> a < b"
  using powi_less [of a b] powi_le [of b a] by linarith

lemma ratio_log2_mono:
  assumes "0 < num" "0 < den" "0 < num'" "0 < den'"
    "real num / real den \<le> real num' / real den'"
  shows "ratio_log2 num den \<le> ratio_log2 num' den'"
proof -
  have "(2 :: real) powi (ratio_log2 num den) < 2 powi (ratio_log2 num' den' + 1)"
    using ratio_log2_spec [of num den] ratio_log2_spec [of num' den'] assms by linarith
  then show ?thesis unfolding powi_less_iff by simp
qed

subsection \<open>Rounding to the nearest natural number\<close>

lemma round_even_bounds:
  assumes "0 < den"
  shows "num div den \<le> round_even num den \<and> round_even num den \<le> num div den + 1"
  by (simp add: round_even_def Let_def)

lemma round_even_mono:
  assumes "0 < den" "0 < den'" "real num / real den \<le> real num' / real den'"
  shows "round_even num den \<le> round_even num' den'"
proof -
  have cross: "num * den' \<le> num' * den"
    using assms by (simp add: field_simps flip: of_nat_mult)
  have q: "num div den \<le> num' div den'"
    using floor_mono [OF assms(3)] unfolding floor_divide_of_nat_eq by (simp only: of_nat_le_iff)
  show ?thesis
  proof (cases "num div den < num' div den'")
    case True
    then show ?thesis
      using round_even_bounds [OF assms(1), of num] round_even_bounds [OF assms(2), of num'] by linarith
  next
    case False
    with q have e: "num' div den' = num div den" by simp
    let ?q = "num div den" and ?r = "num mod den" and ?r' = "num' mod den'"
    have n: "num = ?q * den + ?r" "num' = ?q * den' + ?r'"
      using e by (metis div_mult_mod_eq)+
    have "(?q * den + ?r) * den' \<le> (?q * den' + ?r') * den" using cross n by metis
    then have "?r * den' \<le> ?r' * den" by (simp only: add_mult_distrib mult.assoc mult.commute [of den den'] add_le_cancel_left)
    then have le: "2 * ?r * den' \<le> 2 * ?r' * den" by simp
    show ?thesis
    proof (rule ccontr)
      assume "\<not> ?thesis"
      then have up: "\<not> (2 * ?r < den \<or> (2 * ?r = den \<and> even ?q))"
        and down: "2 * ?r' < den' \<or> (2 * ?r' = den' \<and> even ?q)"
        using e by (auto simp: round_even_def Let_def split: if_splits)
      from up have "den \<le> 2 * ?r" by linarith
      then have "den * den' \<le> 2 * ?r' * den" using le by (meson le_trans mult_le_mono1)
      then have "den' \<le> 2 * ?r'" using assms(1) by (simp add: mult.commute)
      with down have "2 * ?r' = den'" "even ?q" by auto
      with le have "2 * ?r * den' \<le> den * den'" by (simp add: mult.commute)
      then have "2 * ?r \<le> den" using assms(2) by simp
      with up \<open>den \<le> 2 * ?r\<close> \<open>even ?q\<close> show False by auto
    qed
  qed
qed

lemma round_even_le:
  assumes "0 < den" "real num / real den \<le> real k"
  shows "round_even num den \<le> k"
  using round_even_mono [of den 1 num k] assms by (simp add: round_even_def)

lemma round_even_ge:
  assumes "0 < den" "real k \<le> real num / real den"
  shows "k \<le> round_even num den"
  using round_even_mono [of 1 den k num] assms by (simp add: round_even_def)

subsection \<open>Values\<close>

definition fval :: "bool \<Rightarrow> nat \<Rightarrow> int \<Rightarrow> real" where
  "fval s m e = real_of_int (signed s m) * 2 powi e"

lemma powi_split: "e \<le> e' \<Longrightarrow> (2 :: real) powi e' = 2 ^ nat (e' - e) * 2 powi e"
proof -
  assume "e \<le> e'"
  then have k: "e' = int (nat (e' - e)) + e" by simp
  have "(2 :: real) powi e' = 2 powi (int (nat (e' - e))) * 2 powi e"
    by (subst k) (rule power_int_add, simp)
  then show ?thesis by (simp only: power_int_of_nat)
qed

lemma powi_pos: "(0 :: real) < 2 powi e"
  by simp

lemma fin_le_iff: "fin_le s m e s' m' e' \<longleftrightarrow> fval s m e \<le> fval s' m' e'"
proof (cases "e \<le> e'")
  case True
  have "fval s' m' e' = real_of_int (signed s' m' * 2 ^ nat (e' - e)) * 2 powi e"
    unfolding fval_def powi_split [OF True] by simp
  then have "fval s m e \<le> fval s' m' e' \<longleftrightarrow>
      real_of_int (signed s m) \<le> real_of_int (signed s' m' * 2 ^ nat (e' - e))"
    unfolding fval_def by (simp only: mult_le_cancel_right_pos [OF powi_pos])
  with True show ?thesis unfolding fin_le_def by (simp only: of_int_le_iff if_True)
next
  case False
  then have le: "e' \<le> e" by simp
  have "fval s m e = real_of_int (signed s m * 2 ^ nat (e - e')) * 2 powi e'"
    unfolding fval_def powi_split [OF le] by simp
  then have "fval s m e \<le> fval s' m' e' \<longleftrightarrow>
      real_of_int (signed s m * 2 ^ nat (e - e')) \<le> real_of_int (signed s' m')"
    unfolding fval_def by (simp only: mult_le_cancel_right_pos [OF powi_pos])
  with False show ?thesis unfolding fin_le_def by (simp only: of_int_le_iff if_False)
qed

text \<open>The magnitude a positive ratio rounds to.\<close>

definition rounded :: "nat \<Rightarrow> nat \<Rightarrow> nat" where
  "rounded num den = (case scaled num den (ulp_exponent num den) of (a, b) \<Rightarrow> round_even a b)"

definition magnitude :: "nat \<Rightarrow> nat \<Rightarrow> real" where
  "magnitude num den = real (rounded num den) * 2 powi (ulp_exponent num den)"

lemma rounded_bounds:
  assumes "0 < num" "0 < den"
  shows "rounded num den \<le> 2 ^ 53"
    "- 1074 < ulp_exponent num den \<Longrightarrow> 2 ^ 52 \<le> rounded num den"
proof -
  let ?l = "ratio_log2 num den" and ?e = "ulp_exponent num den"
  obtain a b where s: "scaled num den ?e = (a, b)" by (cases "scaled num den ?e")
  from scaled_spec [OF assms(2) s] have b: "0 < b" and q: "real a / real b = real num / real den / 2 powi ?e"
    by auto
  have r: "rounded num den = round_even a b" using s by (simp add: rounded_def)
  have p: "(2 :: real) powi (?e + 53) = 2 ^ 53 * 2 powi ?e" "(2 :: real) powi (?e + 52) = 2 ^ 52 * 2 powi ?e"
    using powi_split [of ?e "?e + 53"] powi_split [of ?e "?e + 52"] by simp_all
  have "?l + 1 \<le> ?e + 53" by (simp add: ulp_exponent_def)
  from powi_le [OF this] have "real num / real den \<le> 2 powi (?e + 53)"
    using ratio_log2_spec [OF assms] by linarith
  then have "real a / real b \<le> real (2 ^ 53)"
    unfolding q p by (simp only: pos_divide_le_eq [OF powi_pos]) simp
  then show "rounded num den \<le> 2 ^ 53" using round_even_le [OF b] r by metis
  assume "- 1074 < ?e"
  then have "?e + 52 = ?l" by (auto simp: ulp_exponent_def)
  then have "2 powi (?e + 52) \<le> real num / real den" using ratio_log2_spec [OF assms] by metis
  then have "real (2 ^ 52) \<le> real a / real b" unfolding q p by (simp only: pos_le_divide_eq [OF powi_pos]) simp
  then show "2 ^ 52 \<le> rounded num den" using round_even_ge [OF b] r by metis
qed

lemma magnitude_mono:
  assumes "0 < num" "0 < den" "0 < num'" "0 < den'"
    "real num / real den \<le> real num' / real den'"
  shows "magnitude num den \<le> magnitude num' den'"
proof -
  let ?e = "ulp_exponent num den" and ?e' = "ulp_exponent num' den'"
  have le: "?e \<le> ?e'" using ratio_log2_mono [OF assms] by (auto simp: ulp_exponent_def)
  show ?thesis
  proof (cases "?e = ?e'")
    case True
    obtain a b where s: "scaled num den ?e = (a, b)" by (cases "scaled num den ?e")
    obtain a' b' where s': "scaled num' den' ?e' = (a', b')" by (cases "scaled num' den' ?e'")
    from scaled_spec [OF assms(2) s] scaled_spec [OF assms(4) s']
    have "0 < b" "0 < b'" "real a / real b \<le> real a' / real b'"
      using divide_right_mono [OF assms(5) less_imp_le [OF powi_pos], of ?e] True by auto
    then have "rounded num den \<le> rounded num' den'"
      using round_even_mono s s' by (simp add: rounded_def)
    then show ?thesis using True by (simp add: magnitude_def)
  next
    case False
    with le have lt: "?e < ?e'" by simp
    have low: "- 1074 < ?e'" using lt by (auto simp: ulp_exponent_def)
    have "magnitude num den \<le> 2 ^ 53 * 2 powi ?e"
    proof -
      have "real (rounded num den) \<le> real (2 ^ 53)"
        using rounded_bounds(1) [OF assms(1,2)] by (simp only: of_nat_le_iff)
      from mult_right_mono [OF this less_imp_le [OF powi_pos]] show ?thesis
        unfolding magnitude_def by simp
    qed
    also have "\<dots> = 2 powi (?e + 53)" using powi_split [of ?e "?e + 53"] by simp
    also have "\<dots> \<le> 2 powi (?e' + 52)" using lt by (intro powi_le) simp
    also have "\<dots> = 2 ^ 52 * 2 powi ?e'" using powi_split [of ?e' "?e' + 52"] by simp
    also have "\<dots> \<le> magnitude num' den'"
    proof -
      have "real (2 ^ 52) \<le> real (rounded num' den')"
        using rounded_bounds(2) [OF assms(3,4) low] by (simp only: of_nat_le_iff)
      from mult_right_mono [OF this less_imp_le [OF powi_pos]] show ?thesis
        unfolding magnitude_def by simp
    qed
    finally show ?thesis .
  qed
qed

subsection \<open>Monotone rounding\<close>

text \<open>What \<open>round64\<close> returns for a positive ratio: the magnitude, or infinity from \<open>2 ^ 1024\<close> on.\<close>

lemma round64_cases:
  assumes "0 < num" "0 < den"
  shows "(2 ^ 1024 \<le> magnitude num den \<and> round64 s num den = Infty s) \<or>
         (magnitude num den < 2 ^ 1024 \<and>
          (\<exists>m e. round64 s num den = Fin s m e \<and> real m * 2 powi e = magnitude num den))"
proof -
  let ?e = "ulp_exponent num den" and ?m = "rounded num den"
  have r: "round64 s num den = pack64 s ?m ?e"
    using assms by (simp add: round64_def rounded_def Let_def split: prod.splits)
  have top: "(2 :: real) ^ 1024 = 2 ^ 53 * 2 powi 971" "(2 :: real) powi (?e + 1) = 2 * 2 powi ?e"
    using powi_split [of ?e "?e + 1"] by simp_all
  consider "?m = 2 ^ 53" | "?m < 2 ^ 53" using rounded_bounds(1) [OF assms] by linarith
  then show ?thesis
  proof cases
    case 1
    have v: "magnitude num den = 2 ^ 53 * 2 powi ?e" using 1 by (simp add: magnitude_def)
    show ?thesis
    proof (cases "?e + 1 > 971")
      case True
      then have "(2 :: real) powi 971 \<le> 2 powi ?e" by (intro powi_le) simp
      then show ?thesis using True 1 r v top by (simp add: pack64_def)
    next
      case False
      then have "(2 :: real) powi ?e < 2 powi 971" by (intro powi_less) simp
      then show ?thesis using False 1 r v top by (simp add: pack64_def)
    qed
  next
    case 2
    show ?thesis
    proof (cases "?e > 971")
      case True
      then have "(2 :: real) powi 972 \<le> 2 powi ?e" by (intro powi_le) simp
      moreover have "real (2 ^ 52) \<le> real ?m"
        using rounded_bounds(2) [OF assms] True by simp
      ultimately have "real (2 ^ 52) * 2 powi 972 \<le> magnitude num den"
        unfolding magnitude_def by (intro mult_mono) simp_all
      moreover have "(2 :: real) ^ 1024 = real (2 ^ 52) * 2 powi 972" by simp
      ultimately have "2 ^ 1024 \<le> magnitude num den" by argo
      moreover have "round64 s num den = Infty s" using True 2 r by (simp add: pack64_def)
      ultimately show ?thesis by blast
    next
      case False
      have "(2 :: real) powi ?e \<le> 2 powi 971" using False by (intro powi_le) simp
      moreover have "real ?m < real (2 ^ 53)" using 2 by (simp only: of_nat_less_iff)
      then have "real ?m < 2 ^ 53" by simp
      ultimately have "magnitude num den < 2 ^ 53 * 2 powi 971"
        unfolding magnitude_def by (intro mult_less_le_imp_less) simp_all
      then have "magnitude num den < 2 ^ 1024" using top(1) by argo
      moreover have "round64 s num den = Fin s ?m ?e" using False 2 r by (simp add: pack64_def)
      ultimately show ?thesis by (auto simp: magnitude_def)
    qed
  qed
qed

text \<open>The exact value of a sign and a ratio.\<close>

definition exact :: "bool \<Rightarrow> nat \<Rightarrow> nat \<Rightarrow> real" where
  "exact s num den = (if s then - (real num / real den) else real num / real den)"

lemma round64_not_nan: "round64 s num den \<noteq> NaN"
  by (auto simp: round64_def pack64_def Let_def split: prod.splits if_splits)

lemma fval_simps [simp]: "fval False m e = real m * 2 powi e" "fval True m e = - (real m * 2 powi e)"
  by (simp_all add: fval_def signed_def)

lemma magnitude_nonneg: "0 \<le> magnitude num den"
  by (simp add: magnitude_def)

lemma round64_mono:
  assumes "0 < den" "0 < den'" "exact s num den \<le> exact s' num' den'"
  shows "le64 (round64 s num den) (round64 s' num' den')"
proof -
  have zero: "round64 s 0 den = Fin s 0 (- 1074)" for s den by (simp add: round64_def)
  have pos: "0 < num \<Longrightarrow> 0 < real num / real den" "0 < num' \<Longrightarrow> 0 < real num' / real den'"
    using assms by simp_all
  show ?thesis
  proof (cases "0 < num \<and> 0 < num'")
    case True
    then have p: "0 < num" "0 < num'" by auto
    note c = round64_cases [OF p(1) assms(1), of s] and c' = round64_cases [OF p(2) assms(2), of s']
    note nn = magnitude_nonneg [of num den] magnitude_nonneg [of num' den']
    show ?thesis
    proof (cases s; cases s')
      assume s: "s" "s'"
      then have "magnitude num' den' \<le> magnitude num den"
        using assms p by (intro magnitude_mono) (auto simp: exact_def)
      with c c' s show ?thesis by (auto simp: fin_le_iff)
    next
      assume s: "s" "\<not> s'"
      with c c' nn show ?thesis by (auto simp: fin_le_iff)
    next
      assume s: "\<not> s" "s'"
      with assms(3) pos p have False by (auto simp: exact_def)
      then show ?thesis ..
    next
      assume s: "\<not> s" "\<not> s'"
      then have "magnitude num den \<le> magnitude num' den'"
        using assms p by (intro magnitude_mono) (auto simp: exact_def)
      with c c' s show ?thesis by (auto simp: fin_le_iff)
    qed
  next
    case False
    then consider "num = 0" "num' = 0" | "num = 0" "0 < num'" | "0 < num" "num' = 0" by auto
    then show ?thesis
    proof cases
      case 1
      then show ?thesis by (auto simp: zero fin_le_iff fval_def signed_def)
    next
      case 2
      then have "\<not> s'" using assms(3) pos by (auto simp: exact_def split: if_splits)
      with 2 round64_cases [OF _ assms(2), of num' s'] magnitude_nonneg [of num' den'] show ?thesis
        by (auto simp: zero fin_le_iff fval_def signed_def)
    next
      case 3
      then have "s" using assms(3) pos by (auto simp: exact_def split: if_splits)
      with 3 round64_cases [OF _ assms(1), of num s] magnitude_nonneg [of num den] show ?thesis
        by (auto simp: zero fin_le_iff fval_def signed_def)
    qed
  qed
qed

lemma le64_total: "x \<noteq> NaN \<Longrightarrow> y \<noteq> NaN \<Longrightarrow> le64 x y \<or> le64 y x"
  by (cases x; cases y) (auto simp: fin_le_iff)

lemma le64_trans: "le64 x y \<Longrightarrow> le64 y z \<Longrightarrow> le64 x z"
  by (cases x; cases y; cases z) (auto simp: fin_le_iff)

lemma le64_not_nan: "le64 x y \<Longrightarrow> x \<noteq> NaN \<and> y \<noteq> NaN"
  by (cases x; cases y) auto

text \<open>A strict comparison of two rounded values is the strict comparison of the exact ones.\<close>

lemma round64_less:
  assumes "0 < den" "0 < den'" "lt64 (round64 s num den) (round64 s' num' den')"
  shows "exact s num den < exact s' num' den'"
  using assms round64_mono [OF assms(2,1), of s' num' s num] unfolding lt64_def by linarith

subsection \<open>Decimals\<close>

text \<open>The number a decimal without exponent, infinity or NaN denotes.\<close>

definition decimal_value :: "string \<Rightarrow> real option" where
  "decimal_value s =
     (let (neg, t) = split_sign s
      in case parse_decimal t of None \<Rightarrow> None
         | Some d \<Rightarrow> (let (a, b) = decimal_ratio d in Some (exact neg a b)))"

lemma decimal_ratio_pos: "decimal_ratio d = (a, b) \<Longrightarrow> 0 < b"
  by (auto simp: decimal_ratio_def split: prod.splits if_splits)

lemma parse64_finite:
  assumes "parse64 s = Some x" "is_finite64 x"
  shows "\<exists>neg a b. 0 < b \<and> x = round64 neg a b \<and> decimal_value s = Some (exact neg a b)"
proof -
  obtain neg t where sp: "split_sign s = (neg, t)" by (cases "split_sign s")
  obtain d where d: "parse_decimal t = Some d" and x: "x = (case decimal_ratio d of (a, b) \<Rightarrow> round64 neg a b)"
    using assms sp
    by (auto simp: parse64_def is_finite64_def Let_def
          split: if_splits option.splits prod.splits)
  obtain a b where r: "decimal_ratio d = (a, b)" by (cases "decimal_ratio d")
  have "decimal_value s = Some (exact neg a b)" using sp d r by (simp add: decimal_value_def)
  with x r decimal_ratio_pos [OF r] show ?thesis by auto
qed

lemma parse64_less:
  assumes "parse64 s = Some x" "parse64 t = Some y" "is_finite64 x" "is_finite64 y" "lt64 x y"
  shows "\<exists>a b. decimal_value s = Some a \<and> decimal_value t = Some b \<and> a < b"
proof -
  from parse64_finite [OF assms(1,3)] obtain n a b where
    x: "0 < b" "x = round64 n a b" "decimal_value s = Some (exact n a b)" by blast
  from parse64_finite [OF assms(2,4)] obtain n' a' b' where
    y: "0 < b'" "y = round64 n' a' b'" "decimal_value t = Some (exact n' a' b')" by blast
  from round64_less [OF x(1) y(1)] assms(5) x(2) y(2) have "exact n a b < exact n' a' b'" by simp
  with x y show ?thesis by simp
qed

subsection \<open>Evaluation on literals\<close>

lemma bit_len_numeral [simp]:
  "bit_len 0 = 0" "bit_len 1 = 1" "bit_len (Suc 0) = 1"
  "bit_len (numeral (num.Bit0 k)) = Suc (bit_len (numeral k))"
  "bit_len (numeral (num.Bit1 k)) = Suc (bit_len (numeral k))"
  by (simp_all add: bit_len.simps)

lemmas round_eval = round64_def scaled_def ratio_log2_def round_even_def ulp_exponent_def pack64_def
  ratio_ge_pow_def Let_def

lemmas parse_eval = parse64_def parse_decimal_def split_sign_def parse_exponent_def
  decimal_ratio_def byte_def is_ascii_digit_def to_ascii_lower_def Let_def

lemma round64_literals:
  "round64 False 2 1 = Fin False 4503599627370496 (- 51)" "round64 False 0 1 = zero64 False"
  "round64 False 9007199254740992 1 = Fin False 4503599627370496 1"
  "round64 False 9007199254740993 1 = Fin False 4503599627370496 1"
  by (simp_all add: round_eval)

lemma parse64_literals:
  "parse64 ''2'' = Some (round64 False 2 1)"
  "parse64 ''0'' = Some (round64 False 0 1)"
  "parse64 ''9007199254740992'' = Some (round64 False 9007199254740992 1)"
  "parse64 ''9007199254740993'' = Some (round64 False 9007199254740993 1)"
  by (simp add: parse_eval numeral_2_eq_2; fail | simp add: parse_eval)+

end
