(* ===== verification/Ordered_Map.thy ===== *)
theory Ordered_Map
  imports Bench_Prelude
begin

text \<open>
  Maps with sorted keys: \<open>BTreeMap<String, V>\<close> and the objects of a \<open>serde_json::Value\<close>, as
  association lists in key order. The interface \<open>ordered_map\<close> says what their clients rely on:
  what a lookup returns after an insertion, and that a map is determined by its lookups.
\<close>

subsection \<open>The interface\<close>

locale ordered_map =
  fixes inv :: "'m \<Rightarrow> bool"
    and vacant :: 'm
    and ins :: "'k \<Rightarrow> 'v \<Rightarrow> 'm \<Rightarrow> 'm"
    and look :: "'m \<Rightarrow> 'k \<Rightarrow> 'v option"
  assumes inv_vacant: "inv vacant"
    and inv_ins: "inv m \<Longrightarrow> inv (ins k v m)"
    and look_vacant: "look vacant k = None"
    and look_ins: "inv m \<Longrightarrow> look (ins k v m) q = (if q = k then Some v else look m q)"
    and extensional: "inv m \<Longrightarrow> inv m' \<Longrightarrow> look m = look m' \<Longrightarrow> m = m'"
begin

definition insert_all :: "('k \<times> 'v) list \<Rightarrow> 'm \<Rightarrow> 'm" where
  "insert_all kvs m = fold (\<lambda>(k, v). ins k v) kvs m"

lemma inv_insert_all: "inv m \<Longrightarrow> inv (insert_all kvs m)"
  by (induction kvs arbitrary: m) (auto simp: insert_all_def inv_ins)

lemma look_insert_all:
  "inv m \<Longrightarrow> look (insert_all kvs m) q = (case map_of (rev kvs) q of None \<Rightarrow> look m q | Some v \<Rightarrow> Some v)"
  by (induction kvs arbitrary: m)
     (auto simp: insert_all_def inv_ins look_ins map_add_def split: option.splits)

text \<open>The last value of a key wins, and insertions with different keys commute.\<close>

lemma look_collected: "look (insert_all kvs vacant) q = map_of (rev kvs) q"
  by (simp add: look_insert_all inv_vacant look_vacant split: option.splits)

lemma collected_eq:
  "map_of (rev kvs) = map_of (rev kvs') \<Longrightarrow> insert_all kvs vacant = insert_all kvs' vacant"
  by (rule extensional) (auto simp: inv_insert_all inv_vacant look_collected)

lemma ins_commute: "inv m \<Longrightarrow> k \<noteq> k' \<Longrightarrow> ins k v (ins k' v' m) = ins k' v' (ins k v m)"
  by (rule extensional) (auto simp: inv_ins look_ins)

end

subsection \<open>Sorted association lists\<close>

fun map_insert :: "string \<Rightarrow> 'v \<Rightarrow> (string \<times> 'v) list \<Rightarrow> (string \<times> 'v) list" where
  "map_insert k v [] = [(k, v)]"
| "map_insert k v ((k', v') # m) =
     (if k = k' then (k, v) # m
      else if k < k' then (k, v) # (k', v') # m
      else (k', v') # map_insert k v m)"

definition map_of_members :: "(string \<times> 'v) list \<Rightarrow> (string \<times> 'v) list" where
  "map_of_members kvs = fold (\<lambda>(k, v). map_insert k v) kvs []"

abbreviation sorted_keys :: "(string \<times> 'v) list \<Rightarrow> bool" where
  "sorted_keys m \<equiv> sorted_wrt (<) (map fst m)"

lemma map_insert_keys: "set (map fst (map_insert k v m)) = insert k (set (map fst m))"
  by (induction k v m rule: map_insert.induct) (simp_all add: insert_commute)

lemma map_insert_values: "set (map snd (map_insert k v m)) \<subseteq> insert v (set (map snd m))"
proof (induction m)
  case (Cons x m)
  then show ?case by (cases x; cases "k = fst x"; cases "k < fst x") auto
qed simp

lemma map_insert_sorted: "sorted_keys m \<Longrightarrow> sorted_keys (map_insert k v m)"
proof (induction m)
  case (Cons x m)
  obtain k' v' where x: "x = (k', v')" by (cases x)
  consider "k = k'" | "k < k'" | "k' < k" by (rule linorder_cases [of k k']) auto
  then show ?case
  proof cases
    case 3
    then have "\<forall>y \<in> set (map fst (map_insert k v m)). k' < y"
      using Cons.prems x map_insert_keys [of k v m] by auto
    with 3 Cons x show ?thesis by auto
  qed (use Cons x in \<open>auto dest: less_trans\<close>)
qed simp

lemma map_insert_last:
  "sorted_keys m \<Longrightarrow> \<forall>y \<in> set (map fst m). y < k \<Longrightarrow> map_insert k v m = m @ [(k, v)]"
  by (induction m) auto

lemma fold_insert_sorted:
  "sorted_keys m \<Longrightarrow> sorted_keys (fold (\<lambda>(k, v). map_insert k v) kvs m)"
  by (induction kvs arbitrary: m) (auto simp: map_insert_sorted)

lemma fold_insert_values:
  "set (map snd (fold (\<lambda>(k, v). map_insert k v) kvs m)) \<subseteq> set (map snd m) \<union> set (map snd kvs)"
proof (induction kvs arbitrary: m)
  case (Cons x kvs)
  obtain k v where x: "x = (k, v)" by (cases x)
  show ?case using Cons [of "map_insert k v m"] map_insert_values [of k v m] x by auto
qed simp

lemma fold_insert_append:
  "sorted_keys (m @ kvs) \<Longrightarrow> fold (\<lambda>(k, v). map_insert k v) kvs m = m @ kvs"
proof (induction kvs arbitrary: m)
  case (Cons x kvs)
  obtain k v where x: "x = (k, v)" by (cases x)
  have "map_insert k v m = m @ [(k, v)]"
    using Cons.prems x by (intro map_insert_last) (auto simp: sorted_wrt_append)
  moreover have "sorted_keys ((m @ [(k, v)]) @ kvs)" using Cons.prems x by simp
  ultimately show ?case using Cons.IH x by simp
qed simp

lemma map_of_members_sorted: "sorted_keys (map_of_members kvs)"
  by (simp add: map_of_members_def fold_insert_sorted)

lemma map_of_members_values: "set (map snd (map_of_members kvs)) \<subseteq> set (map snd kvs)"
  using fold_insert_values [of kvs "[]"] by (simp add: map_of_members_def)

lemma map_of_members_fixed: "sorted_keys m \<Longrightarrow> map_of_members m = m"
  using fold_insert_append [of "[]" m] by (simp add: map_of_members_def)

lemma map_of_insert: "sorted_keys m \<Longrightarrow> map_of (map_insert k v m) q = (if q = k then Some v else map_of m q)"
proof (induction m)
  case (Cons x m)
  obtain k' v' where x: "x = (k', v')" by (cases x)
  consider "k = k'" | "k < k'" | "k' < k" by (rule linorder_cases [of k k']) auto
  then show ?case using Cons x by cases auto
qed simp

lemma sorted_keys_distinct: "sorted_keys m \<Longrightarrow> distinct (map fst m)"
  by (simp add: strict_sorted_iff)

lemma sorted_keys_ext:
  assumes "sorted_keys m" "sorted_keys m'" "map_of m = map_of m'"
  shows "m = m'"
proof (rule map_sorted_distinct_set_unique)
  show set: "set m = set m'"
    using assms by (metis graph_map_of_if_distinct_dom sorted_keys_distinct)
  show "inj_on fst (set m \<union> set m')"
    using sorted_keys_distinct [OF assms(1)] unfolding set [symmetric] by (simp add: distinct_map)
qed (use assms sorted_keys_distinct in \<open>auto simp: strict_sorted_iff\<close>)

interpretation btree: ordered_map sorted_keys "[]" map_insert map_of
  by unfold_locales (auto simp: map_insert_sorted map_of_insert intro: sorted_keys_ext)

lemma map_of_members_insert_all: "map_of_members kvs = btree.insert_all kvs []"
  by (simp add: map_of_members_def btree.insert_all_def)

lemma map_of_members_lookup: "map_of (map_of_members kvs) q = map_of (rev kvs) q"
  unfolding map_of_members_insert_all by (rule btree.look_collected)

end
