(* ===== verification/Result_Record.thy ===== *)
theory Result_Record
  imports Run_Journal Float64_Facts Ordered_Map
begin

text \<open>
  \<open>result_record.rs\<close>, \<open>result_identity.rs\<close> and the \<open>JudgeResult\<close> and \<open>canonical_decimal\<close> of
  \<open>runtime.rs\<close>: the record of a finished run, the digest that identifies it, its validation, and
  the operations that store, load and publish it next to the run journal.
\<close>

subsection \<open>Judge results\<close>

text \<open>Reading a \<open>Value\<close> makes every object a map with sorted keys.\<close>

fun to_value :: "jval \<Rightarrow> jval" and to_values :: "jval list \<Rightarrow> jval list"
  and to_members :: "(string \<times> jval) list \<Rightarrow> (string \<times> jval) list" where
  "to_value (JArr vs) = JArr (to_values vs)"
| "to_value (JObj kvs) = JObj (map_of_members (to_members kvs))"
| "to_value JNull = JNull"
| "to_value (JBool b) = JBool b"
| "to_value (JNum n) = JNum n"
| "to_value (JStr s) = JStr s"
| "to_values [] = []"
| "to_values (v # vs) = to_value v # to_values vs"
| "to_members [] = []"
| "to_members ((k, v) # kvs) = (k, to_value v) # to_members kvs"

record judge_result =
  jr_schema :: string
  solution_verdict :: string
  jr_metrics :: "(string \<times> jval) list"
  diagnostics :: jval

definition judge_result_json :: "judge_result \<Rightarrow> jval" where
  "judge_result_json r =
     JObj [(''schema'', JStr (jr_schema r)), (''solution_verdict'', JStr (solution_verdict r)),
           (''metrics'', JObj (jr_metrics r)), (''diagnostics'', diagnostics r)]"

definition dec_map :: "jval \<Rightarrow> (string \<times> jval) list option" where
  "dec_map v = (case v of JObj kvs \<Rightarrow> Some (map_of_members (to_members kvs)) | _ \<Rightarrow> None)"

definition judge_result_of_json :: "jval \<Rightarrow> judge_result option" where
  "judge_result_of_json v =
     Option.bind
       (struct_fields True
          [(''schema'', False), (''solution_verdict'', False), (''metrics'', False),
           (''diagnostics'', True)] v) (\<lambda>m.
     Option.bind (field_req as_str m ''schema'') (\<lambda>schema.
     Option.bind (field_req as_str m ''solution_verdict'') (\<lambda>verdict.
     Option.bind (field_req dec_map m ''metrics'') (\<lambda>metrics.
       Some \<lparr>jr_schema = schema, solution_verdict = verdict, jr_metrics = metrics,
             diagnostics = (case m ''diagnostics'' of None \<Rightarrow> JNull | Some d \<Rightarrow> to_value d)\<rparr>))))"

definition canonical_decimal :: "string \<Rightarrow> bool" where
  "canonical_decimal value =
     (value = ''0'' \<or>
      (let value = (case strip_prefix_str value ''-'' of None \<Rightarrow> value | Some v \<Rightarrow> v);
           (whole, fraction) =
             (case split_once value ''.'' of None \<Rightarrow> (value, []) | Some p \<Rightarrow> p)
       in whole \<noteq> [] \<and> list_all is_ascii_digit whole \<and>
          (whole = ''0'' \<or> \<not> starts_with whole ''0'') \<and>
          (fraction = [] \<or>
           (list_all is_ascii_digit fraction \<and> \<not> ends_with fraction ''0''))))"

subsection \<open>Records\<close>

type_synonym usize = u64

record model_execution =
  prompt_tokens :: usize
  completion_tokens :: usize
  total_tokens :: usize
  cache_read_tokens :: "usize option"
  cache_write_tokens :: "usize option"
  tool_calls_count :: usize

datatype execution_status = ExecCompleted | ExecTimedOut

record candidate_execution =
  ce_status :: execution_status
  ce_timeout_sec :: "u64 option"

definition execution_completed :: candidate_execution where
  "execution_completed = \<lparr>ce_status = ExecCompleted, ce_timeout_sec = None\<rparr>"

definition execution_timed_out :: "u64 \<Rightarrow> candidate_execution" where
  "execution_timed_out n = \<lparr>ce_status = ExecTimedOut, ce_timeout_sec = Some n\<rparr>"

definition is_timed_out :: "candidate_execution \<Rightarrow> bool" where
  "is_timed_out e = (ce_status e = ExecTimedOut)"

definition validate_execution :: "candidate_execution \<Rightarrow> unit result" where
  "validate_execution e =
     (case (ce_status e, ce_timeout_sec e) of
        (ExecCompleted, None) \<Rightarrow> Inr ()
      | (ExecCompleted, Some _) \<Rightarrow> Inl (Bail ''completed Candidate execution has a timeout'')
      | (ExecTimedOut, None) \<Rightarrow>
          Inl (Bail ''timed-out Candidate execution has no positive timeout'')
      | (ExecTimedOut, Some n) \<Rightarrow>
          (if n = 0 then Inl (Bail ''timed-out Candidate execution has no positive timeout'')
           else Inr ()))"

record local_result =
  lr_schema :: string
  lr_result_digest :: string
  lr_governance_status :: string
  lr_run_id :: string
  lr_task_id :: string
  lr_task_lock_digest :: string
  lr_agent :: string
  lr_candidate_lock_digest :: string
  lr_agent_identity :: string
  lr_judge_identity :: string
  lr_runtime_provider :: string
  lr_model :: "string option"
  lr_candidate_execution :: "candidate_execution option"
  lr_model_usage :: "model_execution option"
  lr_event_log_digest :: "string option"
  lr_primary_metric :: string
  lr_score :: string
  lr_judge_result :: judge_result

fun status_json :: "execution_status \<Rightarrow> jval" where
  "status_json ExecCompleted = JStr ''completed''"
| "status_json ExecTimedOut = JStr ''timed_out''"

definition execution_json :: "candidate_execution \<Rightarrow> jval" where
  "execution_json e =
     JObj ((''status'', status_json (ce_status e))
           # enc_skip ''timeout_sec'' enc_word (ce_timeout_sec e))"

definition model_execution_json :: "model_execution \<Rightarrow> jval" where
  "model_execution_json u =
     JObj [(''prompt_tokens'', enc_word (prompt_tokens u)),
           (''completion_tokens'', enc_word (completion_tokens u)),
           (''total_tokens'', enc_word (total_tokens u)),
           (''cache_read_tokens'', enc_opt enc_word (cache_read_tokens u)),
           (''cache_write_tokens'', enc_opt enc_word (cache_write_tokens u)),
           (''tool_calls_count'', enc_word (tool_calls_count u))]"

definition local_result_json :: "local_result \<Rightarrow> jval" where
  "local_result_json r =
     JObj ([(''schema'', JStr (lr_schema r)),
            (''result_digest'', JStr (lr_result_digest r)),
            (''governance_status'', JStr (lr_governance_status r)),
            (''run_id'', JStr (lr_run_id r)),
            (''task_id'', JStr (lr_task_id r)),
            (''task_lock_digest'', JStr (lr_task_lock_digest r)),
            (''agent'', JStr (lr_agent r)),
            (''candidate_lock_digest'', JStr (lr_candidate_lock_digest r)),
            (''agent_identity'', JStr (lr_agent_identity r)),
            (''judge_identity'', JStr (lr_judge_identity r)),
            (''runtime_provider'', JStr (lr_runtime_provider r)),
            (''model'', enc_opt JStr (lr_model r))]
           @ enc_skip ''candidate_execution'' execution_json (lr_candidate_execution r)
           @ [(''model_usage'', enc_opt model_execution_json (lr_model_usage r))]
           @ enc_skip ''candidate_event_log_digest'' JStr (lr_event_log_digest r)
           @ [(''primary_metric'', JStr (lr_primary_metric r)),
              (''score'', JStr (lr_score r)),
              (''judge_result'', judge_result_json (lr_judge_result r))])"

text \<open>The derived decoders.\<close>

definition dec_status :: "jval \<Rightarrow> execution_status option" where
  "dec_status v =
     (let of_name = (\<lambda>s. if s = ''completed'' then Some ExecCompleted
                        else if s = ''timed_out'' then Some ExecTimedOut else None)
      in case v of JStr s \<Rightarrow> of_name s | JObj [(s, JNull)] \<Rightarrow> of_name s | _ \<Rightarrow> None)"

definition dec_execution :: "jval \<Rightarrow> candidate_execution option" where
  "dec_execution v =
     Option.bind (struct_fields True [(''status'', False), (''timeout_sec'', False)] v) (\<lambda>m.
     Option.bind (field_req dec_status m ''status'') (\<lambda>st.
     Option.bind (field_opt dec_word m ''timeout_sec'') (\<lambda>t.
       Some \<lparr>ce_status = st, ce_timeout_sec = t\<rparr>)))"

definition dec_model_execution :: "jval \<Rightarrow> model_execution option" where
  "dec_model_execution v =
     Option.bind
       (struct_fields True
          [(''prompt_tokens'', False), (''completion_tokens'', False), (''total_tokens'', False),
           (''cache_read_tokens'', False), (''cache_write_tokens'', False),
           (''tool_calls_count'', False)] v) (\<lambda>m.
     Option.bind (field_req dec_word m ''prompt_tokens'') (\<lambda>p.
     Option.bind (field_req dec_word m ''completion_tokens'') (\<lambda>c.
     Option.bind (field_req dec_word m ''total_tokens'') (\<lambda>t.
     Option.bind (field_opt dec_word m ''cache_read_tokens'') (\<lambda>cr.
     Option.bind (field_opt dec_word m ''cache_write_tokens'') (\<lambda>cw.
     Option.bind (field_req dec_word m ''tool_calls_count'') (\<lambda>n.
       Some \<lparr>prompt_tokens = p, completion_tokens = c, total_tokens = t,
             cache_read_tokens = cr, cache_write_tokens = cw, tool_calls_count = n\<rparr>)))))))"

definition local_result_fields :: "(string \<times> bool) list" where
  "local_result_fields =
     [(''schema'', False), (''result_digest'', False), (''governance_status'', False),
      (''run_id'', False), (''task_id'', False), (''task_lock_digest'', False),
      (''agent'', False), (''candidate_lock_digest'', False), (''agent_identity'', False),
      (''judge_identity'', False), (''runtime_provider'', False), (''model'', False),
      (''candidate_execution'', True), (''model_usage'', False),
      (''candidate_event_log_digest'', True), (''primary_metric'', False), (''score'', False),
      (''judge_result'', False)]"

definition local_result_of_json :: "jval \<Rightarrow> local_result option" where
  "local_result_of_json v =
     Option.bind (struct_fields True local_result_fields v) (\<lambda>m.
     Option.bind (field_req as_str m ''schema'') (\<lambda>schema.
     Option.bind (field_req as_str m ''result_digest'') (\<lambda>digest.
     Option.bind (field_req as_str m ''governance_status'') (\<lambda>governance.
     Option.bind (field_req as_str m ''run_id'') (\<lambda>run_id.
     Option.bind (field_req as_str m ''task_id'') (\<lambda>task_id.
     Option.bind (field_req as_str m ''task_lock_digest'') (\<lambda>task_lock.
     Option.bind (field_req as_str m ''agent'') (\<lambda>agent.
     Option.bind (field_req as_str m ''candidate_lock_digest'') (\<lambda>candidate_lock.
     Option.bind (field_req as_str m ''agent_identity'') (\<lambda>agent_identity.
     Option.bind (field_req as_str m ''judge_identity'') (\<lambda>judge_identity.
     Option.bind (field_req as_str m ''runtime_provider'') (\<lambda>provider.
     Option.bind (field_opt as_str m ''model'') (\<lambda>model.
     Option.bind (field_opt dec_execution m ''candidate_execution'') (\<lambda>execution.
     Option.bind (field_opt dec_model_execution m ''model_usage'') (\<lambda>usage.
     Option.bind (field_opt as_str m ''candidate_event_log_digest'') (\<lambda>events.
     Option.bind (field_req as_str m ''primary_metric'') (\<lambda>metric.
     Option.bind (field_req as_str m ''score'') (\<lambda>score.
     Option.bind (field_req judge_result_of_json m ''judge_result'') (\<lambda>judge.
       Some \<lparr>lr_schema = schema, lr_result_digest = digest, lr_governance_status = governance,
             lr_run_id = run_id, lr_task_id = task_id, lr_task_lock_digest = task_lock,
             lr_agent = agent, lr_candidate_lock_digest = candidate_lock,
             lr_agent_identity = agent_identity, lr_judge_identity = judge_identity,
             lr_runtime_provider = provider, lr_model = model,
             lr_candidate_execution = execution, lr_model_usage = usage,
             lr_event_log_digest = events, lr_primary_metric = metric, lr_score = score,
             lr_judge_result = judge\<rparr>)))))))))))))))))))"

subsection \<open>Identity\<close>

definition schema_v4 :: string where "schema_v4 = ''a3s.bench.local-result.v4''"
definition schema_v5 :: string where "schema_v5 = ''a3s.bench.local-result.v5''"
definition schema_v6 :: string where "schema_v6 = ''a3s.bench.local-result.v6''"

definition identity_head :: "local_result \<Rightarrow> (string \<times> jval) list" where
  "identity_head r =
     [(''schema'', JStr (lr_schema r)),
      (''governance_status'', JStr (lr_governance_status r)),
      (''run_id'', JStr (lr_run_id r)),
      (''task_id'', JStr (lr_task_id r)),
      (''task_lock_digest'', JStr (lr_task_lock_digest r)),
      (''agent'', JStr (lr_agent r)),
      (''candidate_lock_digest'', JStr (lr_candidate_lock_digest r)),
      (''agent_identity'', JStr (lr_agent_identity r)),
      (''judge_identity'', JStr (lr_judge_identity r)),
      (''runtime_provider'', JStr (lr_runtime_provider r)),
      (''model'', enc_opt JStr (lr_model r))]"

definition identity_tail :: "local_result \<Rightarrow> (string \<times> jval) list" where
  "identity_tail r =
     [(''primary_metric'', JStr (lr_primary_metric r)), (''score'', JStr (lr_score r)),
      (''judge_result'', judge_result_json (lr_judge_result r))]"

definition identity_v4 :: "local_result \<Rightarrow> jval" where
  "identity_v4 r =
     JObj (identity_head r
           @ [(''model_usage'', enc_opt model_execution_json (lr_model_usage r))]
           @ identity_tail r)"

definition identity_v5 :: "local_result \<Rightarrow> jval" where
  "identity_v5 r =
     JObj (identity_head r
           @ [(''candidate_execution'', enc_opt execution_json (lr_candidate_execution r)),
              (''model_usage'', enc_opt model_execution_json (lr_model_usage r))]
           @ identity_tail r)"

definition identity_v6 :: "local_result \<Rightarrow> jval" where
  "identity_v6 r =
     JObj (identity_head r
           @ [(''candidate_execution'', enc_opt execution_json (lr_candidate_execution r)),
              (''model_usage'', enc_opt model_execution_json (lr_model_usage r)),
              (''candidate_event_log_digest'', enc_opt JStr (lr_event_log_digest r))]
           @ identity_tail r)"

definition calculate :: "library \<Rightarrow> local_result \<Rightarrow> string result" where
  "calculate L r =
     (if lr_schema r = schema_v4 then Inr (digest_json L (identity_v4 r))
      else if lr_schema r = schema_v5 then Inr (digest_json L (identity_v5 r))
      else if lr_schema r = schema_v6 then Inr (digest_json L (identity_v6 r))
      else Inl (Bail ''unsupported local result schema''))"

subsection \<open>Validation\<close>

definition validate_schema_fields :: "local_result \<Rightarrow> unit result" where
  "validate_schema_fields r =
     (if lr_schema r = schema_v4 then
        checks
          [(lr_candidate_execution r = None,
            ''v4 local result contains Candidate execution metadata''),
           (lr_event_log_digest r = None, ''v4 local result contains Candidate event evidence'')]
      else if lr_schema r = schema_v5 \<or> lr_schema r = schema_v6 then
        bind_result
          (ok_or (lr_candidate_execution r) ''local result has no Candidate execution'') (\<lambda>e.
          and_then (validate_execution e)
            (if lr_schema r = schema_v5
             then ensure (lr_event_log_digest r = None)
                    ''v5 local result contains Candidate event evidence''
             else Inr ()))
      else Inl (Bail ''unsupported local result schema''))"

definition validate_usage :: "local_result \<Rightarrow> unit result" where
  "validate_usage r =
     (let timed_out = (case lr_candidate_execution r of None \<Rightarrow> False | Some e \<Rightarrow> is_timed_out e)
      in and_then
           (case lr_model r of
              Some model \<Rightarrow>
                and_then (ensure (trim model \<noteq> []) ''local result model is empty'')
                  (if timed_out
                   then ensure (lr_model_usage r = None)
                          ''timed-out model Candidate has completed usage''
                   else ensure (lr_model_usage r \<noteq> None)
                          ''completed model Candidate has no usage'')
            | None \<Rightarrow>
                if timed_out
                then ensure (lr_model_usage r = None) ''timed-out Candidate has completed usage''
                else Inr ())
           (when_some (lr_model_usage r) (\<lambda>u.
              ensure (checked_add (prompt_tokens u) (completion_tokens u) = Some (total_tokens u))
                ''model token usage total is inconsistent'')))"

definition validate_result :: "library \<Rightarrow> string \<Rightarrow> local_result \<Rightarrow> unit result" where
  "validate_result L expected_run_id r =
     and_then (validate_run_id (lr_run_id r))
    (and_then (validate_schema_fields r)
    (and_then
       (checks
          [(lr_governance_status r = ''local_unofficial'',
            ''invalid local result governance status''),
           (lr_run_id r = expected_run_id, ''local result identity mismatch'')])
    (and_then (validate_digest (lr_result_digest r))
    (bind_result (calculate L r) (\<lambda>d.
     and_then (ensure (d = lr_result_digest r) ''local result semantic digest mismatch'')
    (and_then
       (checks
          [(trim (lr_task_id r) \<noteq> [], ''local result {name} is empty''),
           (trim (lr_agent r) \<noteq> [], ''local result {name} is empty''),
           (trim (lr_agent_identity r) \<noteq> [], ''local result {name} is empty''),
           (trim (lr_judge_identity r) \<noteq> [], ''local result {name} is empty''),
           (trim (lr_runtime_provider r) \<noteq> [], ''local result {name} is empty''),
           (trim (lr_primary_metric r) \<noteq> [], ''local result {name} is empty'')])
    (and_then (validate_digest (lr_task_lock_digest r))
    (and_then (validate_digest (lr_candidate_lock_digest r))
    (and_then (validate_usage r)
       (checks
          [(canonical_decimal (lr_score r), ''local result score is not canonical''),
           (jr_schema (lr_judge_result r) = ''bench.judge.result.v1'',
            ''invalid JudgeResult schema''),
           (solution_verdict (lr_judge_result r) = ''valid'', ''invalid JudgeResult verdict''),
           (Option.bind (map_of (jr_metrics (lr_judge_result r)) (lr_primary_metric r)) as_str =
              Some (lr_score r),
            ''local result score does not match its primary Judge metric'')]))))))))))"

subsection \<open>Storing, loading and publishing\<close>

definition result_path :: "string \<Rightarrow> path" where
  "result_path run_id = [''results'', run_id @ ''.json'']"

definition event_log_path :: "string \<Rightarrow> path" where
  "event_log_path run_id = [''runs'', run_id, ''codex-events.jsonl'']"

definition latest_path :: path where
  "latest_path = [''results'', ''latest'']"

text \<open>A path below the state root as the \<open>PathBuf\<close> the program stores, and the comparison of two
  \<open>PathBuf\<close>s, by components.\<close>

definition full_path :: "string \<Rightarrow> path \<Rightarrow> string" where
  "full_path base p = base @ ''/'' @ join_with ''/'' p"

definition path_components :: "string \<Rightarrow> bool \<times> string list" where
  "path_components s =
     (let absolute = starts_with s ''/''; parts = split_char (CHR ''/'') s
      in (absolute,
          (if \<not> absolute \<and> hd parts = ''.'' then [''.''] else []) @
          filter (\<lambda>c. c \<noteq> [] \<and> c \<noteq> ''.'') parts))"

definition same_path :: "string \<Rightarrow> string \<Rightarrow> bool" where
  "same_path a b = (path_components a = path_components b)"

definition validate_event_log :: "library \<Rightarrow> os \<Rightarrow> local_result \<Rightarrow> fs \<Rightarrow> unit result" where
  "validate_event_log L env r s =
     (if lr_schema r \<noteq> schema_v6 then Inr ()
      else let path = event_log_path (lr_run_id r)
           in case lr_event_log_digest r of
                Some expected \<Rightarrow>
                  and_then (validate_digest expected)
                    (bind_result (read_regular_file env path s) (\<lambda>bytes.
                       ensure (digest_bytes L bytes = expected)
                         ''Codex event log digest does not match local result''))
              | None \<Rightarrow>
                  bind_result (read_optional_regular_file env path s) (\<lambda>x.
                    ensure (x = None) ''Codex event log is not bound into the local result''))"

text \<open>\<open>save\<close> is given the new record with its schema, digest and governance status still to be
  filled in (\<open>NewLocalResult\<close> has the other fields).\<close>

definition new_record :: "local_result \<Rightarrow> local_result" where
  "new_record r =
     r\<lparr>lr_schema := schema_v6, lr_result_digest := [],
       lr_governance_status := ''local_unofficial''\<rparr>"

definition save_result ::
  "library \<Rightarrow> os \<Rightarrow> local_result \<Rightarrow> fs \<Rightarrow> fs \<times> (local_result \<times> path) result" where
  "save_result L env input s =
     (let r = new_record input
      in case calculate L r of
           Inl e \<Rightarrow> (s, Inl e)
         | Inr d \<Rightarrow>
             (let r = r\<lparr>lr_result_digest := d\<rparr>
              in case validate_result L (lr_run_id r) r of
                   Inl e \<Rightarrow> (s, Inl e)
                 | Inr _ \<Rightarrow>
                     then_do (secure_directory env [''results''] s) (\<lambda>s.
                     then_do
                       (secure_atomic_write env (result_path (lr_run_id r))
                          (json_pretty L (local_result_json r)) s)
                       (\<lambda>s. (s, Inr (r, result_path (lr_run_id r)))))))"

definition check_binding :: "string \<Rightarrow> journal \<Rightarrow> local_result \<Rightarrow> unit result" where
  "check_binding base j r =
     checks
       [(j_stage j = Completed, ''local result is not backed by a completed run journal''),
        (j_task_lock_digest j = Some (lr_task_lock_digest r) \<and>
           j_candidate_lock_digest j = Some (lr_candidate_lock_digest r),
         ''local result lock binding does not match its run journal''),
        (j_result_digest j = Some (lr_result_digest r),
         ''local result digest does not match its run journal''),
        (case j_result_path j of None \<Rightarrow> False
         | Some p \<Rightarrow> same_path p (full_path base (result_path (lr_run_id r))),
         ''local result path does not match its run journal'')]"

definition load_result ::
  "library \<Rightarrow> os \<Rightarrow> string \<Rightarrow> string \<Rightarrow> fs \<Rightarrow> local_result option result" where
  "load_result L env base run_id s =
     and_then (validate_run_id run_id)
    (bind_result (read_optional_regular_file env (result_path run_id) s) (\<lambda>bytes.
     case bytes of
       None \<Rightarrow> Inr None
     | Some b \<Rightarrow>
         bind_result (ok_or (Option.bind (json_parse L b) local_result_of_json) ''serde_json'') (\<lambda>r.
         and_then (validate_result L run_id r)
        (bind_result (load_journal L env run_id s) (\<lambda>j.
         and_then (check_binding base j r)
        (and_then (validate_event_log L env r s) (Inr (Some r))))))))"

definition publish_latest :: "library \<Rightarrow> os \<Rightarrow> string \<Rightarrow> string \<Rightarrow> fs \<Rightarrow> fs \<times> unit result" where
  "publish_latest L env base run_id s =
     (case and_then (validate_run_id run_id)
             (bind_result (load_result L env base run_id s)
                (\<lambda>r. ok_or r ''cannot publish missing local result {run_id}'')) of
        Inl e \<Rightarrow> (s, Inl e)
      | Inr _ \<Rightarrow> secure_atomic_write env latest_path (run_id @ [CHR 0x0A]) s)"

text \<open>\<open>latest_run_id\<close>: the listing of \<open>runs\<close> is an argument, in the order the system gives it,
  each entry with whether it is a regular file.\<close>

definition newer :: "u128 \<times> string \<Rightarrow> u128 \<times> string \<Rightarrow> bool" where
  "newer a b = (fst b < fst a \<or> (fst a = fst b \<and> snd b < snd a))"

fun scan_runs ::
  "library \<Rightarrow> os \<Rightarrow> string \<Rightarrow> fs \<Rightarrow> (string \<times> bool) list \<Rightarrow> (u128 \<times> string) option \<Rightarrow>
     (u128 \<times> string) option result" where
  "scan_runs L env base s [] latest = Inr latest"
| "scan_runs L env base s ((name, is_file) # names) latest =
     (if \<not> is_file then scan_runs L env base s names latest
      else case strip_suffix_str name ''.json'' of
        None \<Rightarrow> scan_runs L env base s names latest
      | Some run_id \<Rightarrow>
          (case validate_run_id run_id of
             Inl _ \<Rightarrow> scan_runs L env base s names latest
           | Inr _ \<Rightarrow>
               bind_result (load_journal L env run_id s) (\<lambda>j.
               if j_stage j \<noteq> Completed then scan_runs L env base s names latest
               else
                 bind_result (load_result L env base run_id s) (\<lambda>r.
                 and_then
                   (map_result (\<lambda>_. ())
                     (ok_or r ''completed run {run_id} is missing its local result''))
                   (let candidate = (j_updated_at_ms j, run_id)
                    in scan_runs L env base s names
                         (if (case latest of None \<Rightarrow> True | Some c \<Rightarrow> newer candidate c)
                          then Some candidate else latest))))))"

definition latest_run_id ::
  "library \<Rightarrow> os \<Rightarrow> string \<Rightarrow> (string \<times> bool) list \<Rightarrow> fs \<Rightarrow> fs \<times> string result" where
  "latest_run_id L env base names s =
     (case bind_result (scan_runs L env base s names None)
             (\<lambda>x. ok_or x ''no completed local result'') of
        Inl e \<Rightarrow> (s, Inl e)
      | Inr (_, run_id) \<Rightarrow>
          then_do (publish_latest L env base run_id s) (\<lambda>s. (s, Inr run_id)))"

definition result_projection :: "local_result \<Rightarrow> jval" where
  "result_projection r =
     JObj [(''status'', JStr ''completed''),
           (''governance_status'', JStr (lr_governance_status r)),
           (''run_id'', JStr (lr_run_id r)),
           (''task_id'', JStr (lr_task_id r)),
           (''task_lock_digest'', JStr (lr_task_lock_digest r)),
           (''candidate_lock_digest'', JStr (lr_candidate_lock_digest r)),
           (''candidate_identity'', JStr (lr_agent_identity r)),
           (''judge_identity'', JStr (lr_judge_identity r)),
           (''runtime_provider'', JStr (lr_runtime_provider r)),
           (''model'', enc_opt JStr (lr_model r)),
           (''candidate_execution'',
            execution_json (case lr_candidate_execution r of None \<Rightarrow> execution_completed
                            | Some e \<Rightarrow> e)),
           (''model_usage'', enc_opt model_execution_json (lr_model_usage r)),
           (''primary_metric'', JStr (lr_primary_metric r)),
           (''score'', JStr (lr_score r)),
           (''result_digest'', JStr (lr_result_digest r))]"

subsection \<open>Encoding facts\<close>

definition canonical_judge :: "judge_result \<Rightarrow> bool" where
  "canonical_judge r =
     (map_of_members (to_members (jr_metrics r)) = jr_metrics r \<and>
      to_value (diagnostics r) = diagnostics r \<and>
      json_value (JObj (jr_metrics r)) \<and> json_value (diagnostics r))"

lemma dec_status_json [simp]: "dec_status (status_json st) = Some st"
  by (cases st) (simp_all add: dec_status_def)

lemma dec_execution_json [simp]: "dec_execution (execution_json e) = Some e"
  by (cases e; cases "ce_timeout_sec e")
     (simp_all add: dec_execution_def execution_json_def struct_fields_def enc_skip_def
        field_req_def field_opt_None field_opt_Some)

lemma dec_model_execution_json [simp]: "dec_model_execution (model_execution_json u) = Some u"
  by (simp add: dec_model_execution_def model_execution_json_def struct_fields_def field_req_def
        field_opt_enc [where enc = enc_word])

lemma execution_json_not_null [simp]: "execution_json e \<noteq> JNull"
  by (simp add: execution_json_def)

lemma model_execution_json_not_null [simp]: "model_execution_json u \<noteq> JNull"
  by (simp add: model_execution_json_def)

lemma execution_json_inj [simp]: "execution_json a = execution_json b \<longleftrightarrow> a = b"
  by (metis dec_execution_json option.inject)

lemma model_execution_json_inj [simp]: "model_execution_json a = model_execution_json b \<longleftrightarrow> a = b"
  by (metis dec_model_execution_json option.inject)

lemma judge_result_json_inj [simp]: "judge_result_json a = judge_result_json b \<longleftrightarrow> a = b"
  by (cases a; cases b) (simp add: judge_result_json_def)

lemma judge_result_of_judge_result_json:
  "canonical_judge r \<Longrightarrow> judge_result_of_json (judge_result_json r) = Some r"
  by (cases r)
     (simp add: judge_result_of_json_def judge_result_json_def struct_fields_def field_req_def
        dec_map_def canonical_judge_def)

lemma json_value_execution [simp]: "json_value (execution_json e)"
  by (cases "ce_status e") (auto simp: execution_json_def enc_skip_def split: option.splits)

lemma json_value_model_execution [simp]: "json_value (model_execution_json u)"
  by (simp add: model_execution_json_def)

lemma json_value_judge [simp]: "canonical_judge r \<Longrightarrow> json_value (judge_result_json r)"
  by (simp add: judge_result_json_def canonical_judge_def)

lemma json_value_local_result:
  "canonical_judge (lr_judge_result r) \<Longrightarrow> json_value (local_result_json r)"
  by (auto simp: local_result_json_def enc_skip_def enc_opt_def split: option.splits)

lemma local_result_of_local_result_json:
  assumes "canonical_judge (lr_judge_result r)"
  shows "local_result_of_json (local_result_json r) = Some r"
proof -
  have m: "struct_fields True local_result_fields (local_result_json r) =
      (case local_result_json r of JObj kvs \<Rightarrow> Some (map_of kvs) | _ \<Rightarrow> None)"
    unfolding local_result_json_def jval.case
    by (rule struct_fields_encoded) (simp_all add: local_result_fields_def subseq_enc_skip)
  show ?thesis
    using judge_result_of_judge_result_json [OF assms]
    by (simp add: local_result_of_json_def m)
       (simp add: local_result_json_def struct_roundtrip opt_value_enc [where enc = model_execution_json]
          opt_value_skip [where enc = execution_json]
          del: map_of_append)
qed

text \<open>What a decoder returns is canonical.\<close>

lemma to_members_map: "to_members kvs = map (\<lambda>(k, v). (k, to_value v)) kvs"
  by (induction kvs) auto

lemma to_values_map: "to_values vs = map to_value vs"
  by (induction vs) auto

lemma to_members_fixed: "\<forall>v \<in> set (map snd m). to_value v = v \<Longrightarrow> to_members m = m"
  by (induction m) auto

lemma to_value_idem:
  "to_value (to_value v) = to_value v"
  "\<forall>v \<in> set vs. to_value (to_value v) = to_value v"
  "\<forall>kv \<in> set (kvs :: (string \<times> jval) list). to_value (to_value (snd kv)) = to_value (snd kv)"
proof (induction v and vs and kvs rule: to_value_to_values_to_members.induct)
  case (1 vs)
  then show ?case by (simp add: to_values_map)
next
  case (2 kvs)
  let ?m = "map_of_members (to_members kvs)"
  have "\<forall>v \<in> set (map snd ?m). to_value v = v"
  proof -
    have "\<forall>v \<in> set (map snd (to_members kvs)). to_value v = v"
      using 2 by (auto simp: to_members_map)
    with map_of_members_values [of "to_members kvs"] show ?thesis by blast
  qed
  then have "to_members ?m = ?m" by (rule to_members_fixed)
  then show ?case by (simp add: map_of_members_fixed map_of_members_sorted)
qed auto

lemma members_idem:
  "map_of_members (to_members (map_of_members (to_members kvs))) = map_of_members (to_members kvs)"
  using to_value_idem(1) [of "JObj kvs"] by simp

lemma json_value_to_value:
  "json_value v \<Longrightarrow> json_value (to_value v)"
  "\<forall>v \<in> set vs. json_value v \<Longrightarrow> \<forall>v \<in> set (to_values vs). json_value v"
  "\<forall>kv \<in> set kvs. json_value (snd kv) \<Longrightarrow> \<forall>kv \<in> set (to_members kvs). json_value (snd kv)"
proof (induction v and vs and kvs rule: to_value_to_values_to_members.induct)
  case (2 kvs)
  have "set (map snd (map_of_members (to_members kvs))) \<subseteq> set (map snd (to_members kvs))"
    by (rule map_of_members_values)
  moreover have "\<forall>v \<in> set (map snd (to_members kvs)). json_value v" using 2 by simp
  ultimately have "\<forall>v \<in> set (map snd (map_of_members (to_members kvs))). json_value v" by blast
  then show ?case by simp
qed auto

lemma struct_fields_value:
  assumes "struct_fields d fs v = Some m" "json_value v" "m k = Some x"
  shows "json_value x"
proof (cases v)
  case (JArr vs)
  with assms have "map_of (zip (map fst fs) vs) k = Some x"
    by (auto simp: struct_fields_def split: if_splits)
  then have "x \<in> set vs" by (auto dest!: map_of_SomeD set_zip_rightD)
  with JArr assms(2) show ?thesis by simp
next
  case (JObj kvs)
  with assms have "(k, x) \<in> set kvs"
    by (auto simp: struct_fields_def dest: map_of_SomeD split: if_splits)
  with JObj assms(2) show ?thesis by auto
qed (use assms in \<open>auto simp: struct_fields_def\<close>)

lemma dec_map_canonical:
  assumes "dec_map v = Some m" "json_value v"
  shows "map_of_members (to_members m) = m \<and> json_value (JObj m)"
proof -
  from assms(1) obtain kvs where v: "v = JObj kvs" and m: "m = map_of_members (to_members kvs)"
    by (auto simp: dec_map_def split: jval.splits)
  have "json_value (to_value v)" using json_value_to_value(1) [OF assms(2)] .
  with v m members_idem show ?thesis by simp
qed

lemma judge_result_of_json_canonical:
  assumes "judge_result_of_json v = Some r" "json_value v"
  shows "canonical_judge r"
proof -
  from assms(1) obtain m mv where
    m: "struct_fields True [(''schema'', False), (''solution_verdict'', False),
          (''metrics'', False), (''diagnostics'', True)] v = Some m" and
    mv: "m ''metrics'' = Some mv" "dec_map mv = Some (jr_metrics r)" and
    d: "diagnostics r = (case m ''diagnostics'' of None \<Rightarrow> JNull | Some d \<Rightarrow> to_value d)"
    by (auto simp: judge_result_of_json_def field_req_def bind_eq_Some_conv)
  have "json_value (diagnostics r) \<and> to_value (diagnostics r) = diagnostics r"
    using d struct_fields_value [OF m assms(2), of "''diagnostics''"] json_value_to_value(1)
      to_value_idem(1)
    by (auto split: option.splits)
  with dec_map_canonical [OF mv(2) struct_fields_value [OF m assms(2) mv(1)]] show ?thesis
    by (simp add: canonical_judge_def)
qed

lemma local_result_of_json_canonical:
  assumes "local_result_of_json v = Some r" "json_value v"
  shows "canonical_judge (lr_judge_result r)"
proof -
  from assms(1) obtain m where m: "struct_fields True local_result_fields v = Some m"
    and "field_req judge_result_of_json m ''judge_result'' = Some (lr_judge_result r)"
    by (auto simp: local_result_of_json_def bind_eq_Some_conv)
  then obtain j where j: "m ''judge_result'' = Some j"
      "judge_result_of_json j = Some (lr_judge_result r)"
    by (auto simp: field_req_def bind_eq_Some_conv)
  show ?thesis
    using judge_result_of_json_canonical [OF j(2) struct_fields_value [OF m assms(2) j(1)]] .
qed

subsection \<open>Identity facts\<close>

lemma schemas_distinct [simp]: "schema_v4 \<noteq> schema_v5" "schema_v4 \<noteq> schema_v6" "schema_v5 \<noteq> schema_v6"
  by (simp_all add: schema_v4_def schema_v5_def schema_v6_def)

text \<open>The identity the digest is computed of.\<close>

definition identity_of :: "local_result \<Rightarrow> jval" where
  "identity_of r =
     (if lr_schema r = schema_v4 then identity_v4 r
      else if lr_schema r = schema_v5 then identity_v5 r else identity_v6 r)"

lemma calculate_Inr:
  "calculate L r = Inr d \<longleftrightarrow>
     lr_schema r \<in> {schema_v4, schema_v5, schema_v6} \<and> d = digest_json L (identity_of r)"
  by (auto simp: calculate_def identity_of_def)

lemma json_value_identity: "canonical_judge (lr_judge_result r) \<Longrightarrow> json_value (identity_of r)"
  by (auto simp: identity_of_def identity_v4_def identity_v5_def identity_v6_def identity_head_def
        identity_tail_def)

lemma validate_result_Inr:
  assumes "validate_result L run_id r = Inr ()"
  shows "validate_schema_fields r = Inr ()" "lr_run_id r = run_id"
    "validate_run_id (lr_run_id r) = Inr ()" "lr_governance_status r = ''local_unofficial''"
    "calculate L r = Inr (lr_result_digest r)" "validate_usage r = Inr ()"
    "validate_digest (lr_result_digest r) = Inr ()"
    "canonical_decimal (lr_score r)"
    "Option.bind (map_of (jr_metrics (lr_judge_result r)) (lr_primary_metric r)) as_str =
       Some (lr_score r)"
  using assms by (auto simp: validate_result_def and_then_Inr bind_result_Inr ensure_Inr checks_Inr)

text \<open>Equal identities of records whose schema fields are valid are equal records, up to the digest.\<close>

lemma identity_of_inj:
  assumes "identity_of a = identity_of b" "validate_schema_fields a = Inr ()"
    "validate_schema_fields b = Inr ()"
  shows "a\<lparr>lr_result_digest := d\<rparr> = b\<lparr>lr_result_digest := d\<rparr>"
proof -
  have head: "identity_head a = identity_head b"
    using assms(1)
    by (auto simp: identity_of_def identity_v4_def identity_v5_def identity_v6_def
        identity_head_def split: if_splits)
  then have s: "lr_schema a = lr_schema b" by (simp add: identity_head_def)
  have tail: "identity_tail a = identity_tail b \<and> lr_model_usage a = lr_model_usage b"
    using assms(1) s
    by (auto simp: identity_of_def identity_v4_def identity_v5_def identity_v6_def
        identity_head_def identity_tail_def enc_opt_inj split: if_splits)
  have "lr_candidate_execution a = lr_candidate_execution b \<and>
      lr_event_log_digest a = lr_event_log_digest b"
    using assms s
    by (auto simp: identity_of_def identity_v4_def identity_v5_def identity_v6_def
        identity_head_def identity_tail_def enc_opt_inj validate_schema_fields_def checks_Inr
        bind_result_Inr and_then_Inr ensure_Inr split: if_splits)
  with head tail show ?thesis
    by (cases a; cases b) (simp add: identity_head_def identity_tail_def)
qed

interpretation results: sealed_record identity_of "\<lambda>r. r\<lparr>lr_result_digest := []\<rparr>"
    "\<lambda>r. canonical_judge (lr_judge_result r) \<and> validate_schema_fields r = Inr ()" lr_result_digest
proof unfold_locales
  show "a = b" if "a\<lparr>lr_result_digest := []\<rparr> = b\<lparr>lr_result_digest := []\<rparr>"
      "lr_result_digest a = lr_result_digest b" for a b :: local_result
    using that by (cases a; cases b) simp
qed (use identity_of_inj json_value_identity in blast)+

subsection \<open>Paths\<close>

lemma last_dotted: "p \<noteq> [] \<Longrightarrow> state_path p \<longleftrightarrow> \<not> starts_with (last p) ''.''"
  by (simp add: state_path_def dotted_def)

lemma valid_run_id_head: "validate_run_id rid = Inr () \<Longrightarrow> \<exists>t. rid = CHR ''l'' # t"
  by (auto simp: validate_run_id_ok starts_with_iff)

lemma result_path_proper: "validate_run_id rid = Inr () \<Longrightarrow> state_path (result_path rid)"
  using valid_run_id_head [of rid] by (auto simp: last_dotted result_path_def starts_with_def)

lemma event_log_path_proper: "state_path (event_log_path rid)"
  by (simp add: last_dotted event_log_path_def starts_with_def)

lemma latest_path_proper: "state_path latest_path"
  by (simp add: last_dotted latest_path_def starts_with_def)

lemma paths_distinct [simp]:
  "journal_path a \<noteq> result_path b" "result_path b \<noteq> journal_path a"
  "journal_path a \<noteq> event_log_path b" "event_log_path b \<noteq> journal_path a"
  "result_path a \<noteq> event_log_path b" "event_log_path b \<noteq> result_path a"
  "latest_path \<noteq> journal_path a" "journal_path a \<noteq> latest_path"
  by (auto simp: journal_path_def result_path_def event_log_path_def latest_path_def)

lemma event_log_no_prefix:
  "\<not> prefix (event_log_path a) (journal_path b)" "\<not> prefix (event_log_path a) (result_path b)"
  by (auto simp: event_log_path_def journal_path_def result_path_def)

lemma save_result_Inr:
  assumes "save_result L env input s = (s', Inr (r, p))"
  shows "p = result_path (lr_run_id r)" "validate_result L (lr_run_id r) r = Inr ()"
    "\<exists>d. r = (new_record input)\<lparr>lr_result_digest := d\<rparr>"
    "\<exists>s1. untouched [''results''] (disk s) (disk s1) \<and>
        secure_atomic_write env p (json_pretty L (local_result_json r)) s1 = (s', Inr ())"
proof -
  from assms obtain d where c: "calculate L (new_record input) = Inr d"
    by (auto simp: save_result_def Let_def split: sum.splits)
  let ?r = "(new_record input)\<lparr>lr_result_digest := d\<rparr>"
  from assms c have v: "validate_result L (lr_run_id (new_record input)) ?r = Inr ()"
    by (auto simp: save_result_def Let_def split: sum.splits)
  obtain s1 r1 where d1: "secure_directory env [''results''] s = (s1, r1)"
    by (cases "secure_directory env [''results''] s")
  from assms c v d1 have
    w: "secure_atomic_write env (result_path (lr_run_id ?r)) (json_pretty L (local_result_json ?r)) s1
          = (s', Inr ())" and r: "r = ?r" and p: "p = result_path (lr_run_id ?r)"
    by (auto simp: save_result_def Let_def then_do_def split: sum.splits prod.splits)
  show "p = result_path (lr_run_id r)" "validate_result L (lr_run_id r) r = Inr ()"
    "\<exists>d. r = (new_record input)\<lparr>lr_result_digest := d\<rparr>"
    using r p v by auto
  show "\<exists>s1. untouched [''results''] (disk s) (disk s1) \<and>
        secure_atomic_write env p (json_pretty L (local_result_json r)) s1 = (s', Inr ())"
    using secure_directory_untouched [OF d1] w r p by auto
qed

lemma complete_Inr:
  assumes "complete L env clock rp d (j, s) = ((j', s'), Inr ())"
  shows "\<exists>t. j' = j\<lparr>j_stage := Completed, j_updated_at_ms := t, j_result_path := Some rp,
                   j_result_digest := Some d\<rparr>"
    "persist L env j' s = (s', Inr ())" "j_stage j = Judging" "validate_digest d = Inr ()"
  using assms
  by (cases clock;
      auto simp: op_defs and_then_Inr ensure_Inr split: prod.splits sum.splits)+

lemma untouched_file:
  "untouched p (disk s) (disk s') \<Longrightarrow> \<not> prefix q p \<Longrightarrow> \<not> dotted q \<Longrightarrow>
     disk s' q = disk s q \<and> file_at s' q = file_at s q"
  by (simp add: untouched_def file_at_def content_def)

text \<open>What a successful \<open>save\<close> and a successful \<open>complete\<close> leave on disk.\<close>

definition same_events :: "string \<Rightarrow> fs \<Rightarrow> fs \<Rightarrow> bool" where
  "same_events rid s s' =
     (disk s' (event_log_path rid) = disk s (event_log_path rid) \<and>
      file_at s' (event_log_path rid) = file_at s (event_log_path rid))"

lemma same_events_write:
  assumes "secure_atomic_write env p b s = (s', r)" "p = result_path rid \<or> p = journal_path rid"
  shows "same_events rid' s s'"
proof -
  have "\<not> dotted (event_log_path rid')" using event_log_path_proper by (simp add: state_path_def)
  then show ?thesis
    using untouched_file [OF secure_atomic_write_untouched [OF assms(1)]] assms(2) event_log_no_prefix
    by (auto simp: same_events_def)
qed

lemma save_effect:
  assumes "save_result L env input s = (s1, Inr (r, p))"
  shows "file_at s1 (result_path (lr_run_id input)) = Some (json_pretty L (local_result_json r))"
    "same_events rid s s1" "validate_result L (lr_run_id input) r = Inr ()"
    "p = result_path (lr_run_id input)" "\<exists>d. r = (new_record input)\<lparr>lr_result_digest := d\<rparr>"
proof -
  note sv = save_result_Inr [OF assms]
  from sv(3) have i: "lr_run_id r = lr_run_id input" by (auto simp: new_record_def)
  with sv show v: "validate_result L (lr_run_id input) r = Inr ()" "p = result_path (lr_run_id input)"
    "\<exists>d. r = (new_record input)\<lparr>lr_result_digest := d\<rparr>" by simp_all
  from sv(4) v(2) obtain s0 where u: "untouched [''results''] (disk s) (disk s0)" and
    w: "secure_atomic_write env (result_path (lr_run_id input)) (json_pretty L (local_result_json r)) s0
          = (s1, Inr ())" by auto
  have vid: "validate_run_id (lr_run_id input) = Inr ()" using validate_result_Inr(3) [OF v(1)] i by simp
  show "file_at s1 (result_path (lr_run_id input)) = Some (json_pretty L (local_result_json r))"
    by (rule state_files.write_ok [OF w result_path_proper [OF vid]])
  have "\<not> dotted (event_log_path rid)" using event_log_path_proper by (simp add: state_path_def)
  moreover have "\<not> prefix (event_log_path rid) [''results'']" by (simp add: event_log_path_def)
  ultimately have "same_events rid s s0" using untouched_file [OF u] by (simp add: same_events_def)
  moreover have "same_events rid s0 s1" by (rule same_events_write [OF w]) simp
  ultimately show "same_events rid s s1" by (simp add: same_events_def)
qed

lemma complete_effect:
  assumes "complete L env clock rp d (j, s) = ((j', s'), Inr ())"
    "check_journal rid j = Inr ()" "j_path j = journal_path rid" "j_task_lock_digest j = Some t"
    "validate_run_id rid = Inr ()"
  shows "on_disk L s' rid j'" "same_events rid' s s'" "file_at s' (result_path rid) = file_at s (result_path rid)"
    "j_stage j' = Completed" "j_result_path j' = Some rp" "j_result_digest j' = Some d"
    "j_task_lock_digest j' = j_task_lock_digest j"
    "j_candidate_lock_digest j' = j_candidate_lock_digest j"
proof -
  note cp = complete_Inr [OF assms(1)]
  from cp(1) obtain n where j': "j' = j\<lparr>j_stage := Completed, j_updated_at_ms := n,
      j_result_path := Some rp, j_result_digest := Some d\<rparr>" by blast
  then show "j_stage j' = Completed" "j_result_path j' = Some rp" "j_result_digest j' = Some d"
    "j_task_lock_digest j' = j_task_lock_digest j"
    "j_candidate_lock_digest j' = j_candidate_lock_digest j" by simp_all
  have w: "secure_atomic_write env (journal_path rid) (json_pretty L (journal_json j')) s = (s', Inr ())"
    using cp(2) j' assms(3) by (simp add: persist_def)
  have c: "check_journal rid j' = Inr ()"
    using assms(2,4) j' cp(3,4) unfolding check_journal_ok by simp
  with state_files.write_ok [OF w journal_path_proper [OF assms(5)]] show "on_disk L s' rid j'"
    by (simp add: on_disk_def)
  show "file_at s' (result_path rid) = file_at s (result_path rid)"
    by (rule state_files.write_frame [OF w journal_path_proper [OF assms(5)]
          result_path_proper [OF assms(5)]]) simp
  show "same_events rid' s s'" by (rule same_events_write [OF w]) simp
qed

lemma load_result_Some:
  assumes "load_result L env base rid s = Inr (Some r)"
  shows "validate_result L rid r = Inr ()" "\<exists>j. load_journal L env rid s = Inr j \<and> check_binding base j r = Inr ()"
    "validate_event_log L env r s = Inr ()"
    "\<exists>b v. file_at s (result_path rid) = Some b \<and> json_parse L b = Some v \<and> local_result_of_json v = Some r"
proof -
  from assms obtain b where b: "read_optional_regular_file env (result_path rid) s = Inr (Some b)"
    by (auto simp: load_result_def and_then_Inr bind_result_Inr split: option.splits)
  with assms show "validate_result L rid r = Inr ()"
    "\<exists>j. load_journal L env rid s = Inr j \<and> check_binding base j r = Inr ()"
    "validate_event_log L env r s = Inr ()"
    by (auto simp: load_result_def and_then_Inr bind_result_Inr ok_or_Inr bind_eq_Some_conv)
  from assms b read_optional_file [OF b]
  show "\<exists>b v. file_at s (result_path rid) = Some b \<and> json_parse L b = Some v \<and> local_result_of_json v = Some r"
    by (auto simp: load_result_def and_then_Inr bind_result_Inr ok_or_Inr bind_eq_Some_conv)
qed

lemma load_journal_file:
  assumes "load_journal L env rid s = Inr j"
  shows "\<exists>b v j0. file_at s (journal_path rid) = Some b \<and> json_parse L b = Some v \<and>
           journal_of_json v = Some j0 \<and> j = j0\<lparr>j_path := journal_path rid\<rparr>"
  using assms
  by (auto simp: load_journal_def Let_def and_then_Inr bind_result_Inr ok_or_Inr bind_eq_Some_conv
        dest!: read_regular_file_at)

lemma load_journal_unique:
  assumes "load_journal L env rid s = Inr j" "load_journal L env' rid s' = Inr j'"
    "file_at s' (journal_path rid) = file_at s (journal_path rid)"
  shows "j' = j"
  using load_journal_file [OF assms(1)] load_journal_file [OF assms(2)] assms(3) by auto

text \<open>Two valid records with one digest.\<close>

lemma valid_records_same_digest:
  assumes "json_library L" "canonical_judge (lr_judge_result a)" "canonical_judge (lr_judge_result b)"
    "validate_result L rid a = Inr ()" "validate_result L rid' b = Inr ()"
    "lr_result_digest a = lr_result_digest b"
  shows "a = b \<or> sha_collision L (json_compact L (identity_of a)) (json_compact L (identity_of b))"
  by (rule results.same_digest [OF assms(1)])
     (use assms(2,3,6) validate_result_Inr [OF assms(4)] validate_result_Inr [OF assms(5)] in
       \<open>simp_all add: calculate_Inr\<close>)

lemma load_result_canonical:
  assumes "json_library L" "load_result L env base rid s = Inr (Some r)"
  shows "canonical_judge (lr_judge_result r)"
  using load_result_Some(4) [OF assms(2)] local_result_of_json_canonical assms(1)
  by (auto simp: json_library_def)

text \<open>The order \<open>scan_runs\<close> compares by is a strict linear one.\<close>

lemma newer_trans: "newer a b \<Longrightarrow> newer b c \<Longrightarrow> newer a c"
  by (auto simp: newer_def)

lemma newer_irrefl: "\<not> newer a a"
  by (simp add: newer_def)

lemma not_newer_trans: "\<not> newer a b \<Longrightarrow> \<not> newer b c \<Longrightarrow> \<not> newer a c"
  by (cases a; cases b; cases c) (auto simp: newer_def)

text \<open>A listed name that is a completed run, and its key.\<close>

definition completed_run :: "library \<Rightarrow> os \<Rightarrow> fs \<Rightarrow> string \<times> bool \<Rightarrow> u128 \<times> string \<Rightarrow> bool" where
  "completed_run L env s entry key =
     (snd entry \<and> fst entry = snd key @ ''.json'' \<and> validate_run_id (snd key) = Inr () \<and>
      (\<exists>j. load_journal L env (snd key) s = Inr j \<and> j_stage j = Completed \<and>
           fst key = j_updated_at_ms j))"

lemma scan_runs_latest:
  assumes "scan_runs L env base s names latest = Inr (Some k)"
    "\<forall>c. latest = Some c \<longrightarrow> P c"
    "\<forall>e \<in> set names. \<forall>c r. completed_run L env s e c \<longrightarrow>
       load_result L env base (snd c) s = Inr (Some r) \<longrightarrow> P c"
  shows "P k \<and> (\<forall>c. latest = Some c \<longrightarrow> \<not> newer c k) \<and>
         (\<forall>e \<in> set names. \<forall>c. completed_run L env s e c \<longrightarrow> \<not> newer c k)"
  using assms
proof (induction names arbitrary: latest)
  case Nil
  then show ?case by (auto simp: newer_irrefl)
next
  case (Cons e names)
  obtain name is_file where e: "e = (name, is_file)" by (cases e)
  have P: "\<forall>e \<in> set names. \<forall>c r. completed_run L env s e c \<longrightarrow>
      load_result L env base (snd c) s = Inr (Some r) \<longrightarrow> P c"
    using Cons.prems(3) by simp
  show ?case
  proof (cases "\<exists>c. completed_run L env s e c")
    case False
    then have "scan_runs L env base s names latest = Inr (Some k)"
      using Cons.prems(1) e
      by (auto simp: bind_result_Inr strip_suffix_Some completed_run_def
          split: if_splits option.splits sum.splits)
    from Cons.IH [OF this Cons.prems(2) P] False show ?thesis by auto
  next
    case True
    then obtain c where c: "completed_run L env s e c" by blast
    then obtain j where j: "is_file" "name = snd c @ ''.json''" "validate_run_id (snd c) = Inr ()"
      "load_journal L env (snd c) s = Inr j" "j_stage j = Completed" "fst c = j_updated_at_ms j"
      using e by (auto simp: completed_run_def)
    let ?next = "if (case latest of None \<Rightarrow> True | Some d \<Rightarrow> newer c d) then Some c else latest"
    have st: "strip_suffix_str name ''.json'' = Some (snd c)" using j(2) by (simp add: strip_suffix_Some)
    have cp: "(j_updated_at_ms j, snd c) = c" using j(6) by (metis prod.collapse)
    from Cons.prems(1) e j st obtain r where
      r: "load_result L env base (snd c) s = Inr (Some r)" and
      n: "scan_runs L env base s names ?next = Inr (Some k)"
      by (auto simp: bind_result_Inr and_then_Inr map_result_Inr ok_or_Inr Let_def cp)
    have Pc: "P c" using Cons.prems(3) c r by (cases c) auto
    with Cons.prems(2) have Pn: "\<forall>d. ?next = Some d \<longrightarrow> P d" by auto
    have only: "completed_run L env s e d \<Longrightarrow> d = c" for d
      using c by (auto simp: completed_run_def intro!: prod_eqI)
    from Cons.IH [OF n Pn P] have k: "P k" "\<forall>d. ?next = Some d \<longrightarrow> \<not> newer d k"
      "\<forall>e \<in> set names. \<forall>c. completed_run L env s e c \<longrightarrow> \<not> newer c k" by auto
    have "\<not> newer c k \<and> (\<forall>d. latest = Some d \<longrightarrow> \<not> newer d k)"
    proof (cases latest)
      case None
      with k(2) show ?thesis by simp
    next
      case (Some d)
      show ?thesis
      proof (cases "newer c d")
        case True
        then have "\<not> newer d c" using newer_trans newer_irrefl by blast
        moreover have "\<not> newer c k" using k(2) Some True by simp
        ultimately show ?thesis using Some not_newer_trans by blast
      next
        case False
        moreover have "\<not> newer d k" using k(2) Some False by simp
        ultimately show ?thesis using Some not_newer_trans by blast
      qed
    qed
    with k only show ?thesis by auto
  qed
qed

lemma load_after_complete:
  assumes L: "json_library L" "sha_library L"
    and judge: "canonical_judge (lr_judge_result input)"
    and save: "save_result L env input s = (s1, Inr (r, p))"
    and journal: "check_journal (lr_run_id input) j = Inr ()" "j_path j = journal_path (lr_run_id input)"
      "j_task_lock_digest j = Some (lr_task_lock_digest input)"
      "j_candidate_lock_digest j = Some (lr_candidate_lock_digest input)"
    and complete: "complete L env' clock (full_path base p) (lr_result_digest r) (j, s1) = ((j', s2), Inr ())"
    and events: "case lr_event_log_digest input of
        None \<Rightarrow> disk s (event_log_path (lr_run_id input)) = None
      | Some d \<Rightarrow> (\<exists>b. file_at s (event_log_path (lr_run_id input)) = Some b \<and> d = digest_bytes L b)"
    and quiet: "fault_free env''"
  shows "load_result L env'' base (lr_run_id input) s2 = Inr (Some r)"
proof -
  let ?id = "lr_run_id input"
  note sv = save_effect [OF save]
  from sv(5) have r [simp]: "lr_run_id r = ?id" "lr_schema r = schema_v6"
    "lr_task_lock_digest r = lr_task_lock_digest input"
    "lr_candidate_lock_digest r = lr_candidate_lock_digest input"
    "lr_event_log_digest r = lr_event_log_digest input" "lr_judge_result r = lr_judge_result input"
    by (auto simp: new_record_def)
  have vid: "validate_run_id ?id = Inr ()" using validate_result_Inr(3) [OF sv(3)] by simp
  note cp = complete_effect [OF complete journal(1-3) vid]
  have jl: "load_journal L env'' ?id s2 = Inr (j'\<lparr>j_path := journal_path ?id\<rparr>)"
    by (rule load_on_disk [OF L(1) quiet vid cp(1)])
  have "same_events ?id s s2" using sv(2) cp(2) by (simp add: same_events_def)
  then have el: "validate_event_log L env'' r s2 = Inr ()"
    using events read_optional_back(2) [OF quiet] read_back [OF quiet] digest_bytes_valid [OF L(2)]
    by (auto simp: validate_event_log_def same_events_def Let_def split: option.splits)
  have dec: "Option.bind (json_parse L (json_pretty L (local_result_json r))) local_result_of_json
      = Some r"
    using json_pretty_parse [OF L(1) json_value_local_result] local_result_of_local_result_json judge
    by simp
  have bind: "check_binding base (j'\<lparr>j_path := journal_path ?id\<rparr>) r = Inr ()"
    using cp(4-8) journal(3,4) sv(4) by (simp add: check_binding_def checks_Inr same_path_def)
  have "file_at s2 (result_path ?id) = Some (json_pretty L (local_result_json r))"
    using sv(1) cp(3) by simp
  with vid sv(3) read_optional_back(1) [OF quiet] dec jl bind el show ?thesis
    by (simp add: load_result_def)
qed

subsection \<open>A concrete run, for the witnesses\<close>

definition demo_digest :: "char \<Rightarrow> string" where
  "demo_digest c = sha256_prefix @ replicate 64 c"

definition demo_judge :: judge_result where
  "demo_judge = \<lparr>jr_schema = ''bench.judge.result.v1'', solution_verdict = ''valid'',
     jr_metrics = [(''score'', JStr ''1'')], diagnostics = JNull\<rparr>"

definition demo_input :: local_result where
  "demo_input = \<lparr>lr_schema = [], lr_result_digest = [], lr_governance_status = [],
     lr_run_id = ''local-1'', lr_task_id = ''task'', lr_task_lock_digest = demo_digest CHR ''a'',
     lr_agent = ''agent'', lr_candidate_lock_digest = demo_digest CHR ''b'',
     lr_agent_identity = ''agent-id'', lr_judge_identity = ''judge-id'',
     lr_runtime_provider = ''docker'', lr_model = None,
     lr_candidate_execution = Some execution_completed, lr_model_usage = None,
     lr_event_log_digest = None, lr_primary_metric = ''score'', lr_score = ''1'',
     lr_judge_result = demo_judge\<rparr>"

definition demo_record :: local_result where
  "demo_record = (new_record demo_input)\<lparr>lr_result_digest := demo_digest CHR ''0''\<rparr>"

definition demo_judging :: journal where
  "demo_judging = \<lparr>j_schema = journal_schema, j_run_id = ''local-1'', j_task_reference = ''task'',
     j_agent_reference = ''agent'', j_task_lock_digest = Some (demo_digest CHR ''a''),
     j_candidate_lock_digest = Some (demo_digest CHR ''b''), j_stage = Judging,
     j_updated_at_ms = 1, j_result_path = None, j_result_digest = None, j_error = None,
     j_path = journal_path ''local-1''\<rparr>"

lemma demo_digest_valid [simp]: "is_ascii_hexdigit c \<Longrightarrow> validate_digest (demo_digest c) = Inr ()"
  by (auto simp: validate_digest_ok demo_digest_def list_all_iff)

lemma demo_hex [simp]: "is_ascii_hexdigit CHR ''a''" "is_ascii_hexdigit CHR ''b''" "is_ascii_hexdigit CHR ''0''"
  by code_simp+

lemma demo_trims: "trim ''task'' = ''task''" "trim ''agent'' = ''agent''" "trim ''agent-id'' = ''agent-id''"
  "trim ''judge-id'' = ''judge-id''" "trim ''docker'' = ''docker''" "trim ''score'' = ''score''"
  by code_simp+

lemma demo_run_id [simp]: "validate_run_id ''local-1'' = Inr ()"
  by code_simp

lemma demo_calculate: "calculate toy_library (new_record demo_input) = Inr (demo_digest CHR ''0'')"
  "calculate toy_library demo_record = Inr (demo_digest CHR ''0'')"
  by (simp_all add: calculate_def new_record_def demo_record_def digest_json_def digest_bytes_def toy_library_def
      demo_digest_def schema_v4_def schema_v5_def schema_v6_def)

lemma demo_valid: "validate_result toy_library ''local-1'' demo_record = Inr ()"
  unfolding validate_result_def demo_calculate
  by (simp add: demo_record_def new_record_def demo_input_def checks_Inr and_then_Inr demo_trims
     validate_schema_fields_def validate_usage_def ensure_Inr schema_v4_def schema_v5_def schema_v6_def
     validate_execution_def execution_completed_def demo_judge_def is_timed_out_def)
   code_simp

lemma demo_saved:
  "\<exists>s1. save_result toy_library quiet_os demo_input empty_fs = (s1, Inr (demo_record, result_path ''local-1''))
  \<and> disk s1 [''runs''] = None \<and> staging_sequence s1 = 1 \<and> (\<forall>x. disk s1 [''runs'', x] = None) \<and>
  disk s1 [''results''] = Some (DirE mode_700) \<and>
  (\<forall>x. x \<noteq> ''local-1.json'' \<longrightarrow> disk s1 [''results'', x] = None)"
proof -
  have i: "lr_run_id demo_record = ''local-1''" "lr_run_id (new_record demo_input) = ''local-1''"
   by (simp_all add: demo_record_def new_record_def demo_input_def)
  show ?thesis
    unfolding save_result_def Let_def demo_calculate
    by (simp add: i demo_record_def[symmetric] demo_valid fs_step_defs result_path_def eval_nat_numeral)
qed

definition demo_saved_fs :: fs where
  "demo_saved_fs = fst (save_result toy_library quiet_os demo_input empty_fs)"

lemma demo_save:
  "save_result toy_library quiet_os demo_input empty_fs =
     (demo_saved_fs, Inr (demo_record, result_path ''local-1''))"
  using demo_saved by (auto simp: demo_saved_fs_def)

lemma demo_saved_runs:
  "disk demo_saved_fs [''runs''] = None" "disk demo_saved_fs [''runs'', x] = None"
  "disk demo_saved_fs [''results''] = Some (DirE mode_700)"
  "x \<noteq> ''local-1.json'' \<Longrightarrow> disk demo_saved_fs [''results'', x] = None"
  using demo_saved by (auto simp: demo_saved_fs_def)

definition demo_completion :: "run_state \<times> unit result" where
  "demo_completion =
     complete toy_library quiet_os (Inr 2) (full_path ''state'' (result_path ''local-1''))
       (lr_result_digest demo_record) (demo_judging, demo_saved_fs)"

lemma demo_complete: "demo_completion = ((fst (fst demo_completion), snd (fst demo_completion)), Inr ())"
proof -
  have "snd demo_completion = Inr ()"
    unfolding demo_completion_def
    by (simp add: op_defs demo_judging_def demo_record_def persist_def fs_step_defs journal_path_def
        demo_saved_runs eval_nat_numeral)
  then show ?thesis by (metis prod.collapse)
qed

lemma demo_completed_results:
  "disk (snd (fst demo_completion)) (''results'' # xs) = disk demo_saved_fs (''results'' # xs)"
  unfolding demo_completion_def
  by (simp add: op_defs demo_judging_def demo_record_def persist_def fs_step_defs journal_path_def
      demo_saved_runs eval_nat_numeral)

lemma demo_judge_canonical: "canonical_judge (lr_judge_result demo_input)"
  by (simp add: demo_input_def demo_judge_def canonical_judge_def map_of_members_def)

lemma demo_judging_ok: "check_journal (lr_run_id demo_input) demo_judging = Inr ()"
  by (simp add: check_journal_ok demo_judging_def demo_input_def)

lemma demo_load:
  assumes "fault_free env"
  shows "load_result toy_library env ''state'' ''local-1'' (snd (fst demo_completion)) =
     Inr (Some demo_record)"
proof -
  have "load_result toy_library env ''state'' (lr_run_id demo_input) (snd (fst demo_completion)) =
      Inr (Some demo_record)"
    by (rule load_after_complete [OF toy_json_library toy_sha_library demo_judge_canonical demo_save
          demo_judging_ok _ _ _ demo_complete [unfolded demo_completion_def] _ assms,
          folded demo_completion_def])
       (simp_all add: demo_judging_def demo_input_def empty_fs_def)
  then show ?thesis by (simp add: demo_input_def)
qed

subsection \<open>Properties\<close>



text \<open>
  C5 A result cannot be swapped under its journal: as long as the journal file of a run is the same,
  two successful loads of its result, from whatever else is on disk, return one and the same record,
  or their identities are an explicit SHA-256 collision.
\<close>

theorem result_bound_by_journal:
  assumes "json_library L"
    "load_result L env base rid s = Inr (Some r)" "load_result L env' base' rid s' = Inr (Some r')"
    "file_at s' (journal_path rid) = file_at s (journal_path rid)"
  shows "r = r' \<or> sha_collision L (json_compact L (identity_of r)) (json_compact L (identity_of r'))"
proof -
  from load_result_Some(2) [OF assms(2)] load_result_Some(2) [OF assms(3)] obtain j j' where
    j: "load_journal L env rid s = Inr j" "check_binding base j r = Inr ()" and
    j': "load_journal L env' rid s' = Inr j'" "check_binding base' j' r' = Inr ()" by blast
  have "j' = j" by (rule load_journal_unique [OF j(1) j'(1) assms(4)])
  with j(2) j'(2) have "lr_result_digest r = lr_result_digest r'"
    by (auto simp: check_binding_def checks_Inr)
  then show ?thesis
    by (rule valid_records_same_digest [OF assms(1) load_result_canonical [OF assms(1,2)]
          load_result_canonical [OF assms(1,3)] load_result_Some(1) [OF assms(2)]
          load_result_Some(1) [OF assms(3)]])
qed

theorem result_bound_by_journal_witness:
  "demo_record = demo_record \<or>
     sha_collision toy_library (json_compact toy_library (identity_of demo_record))
       (json_compact toy_library (identity_of demo_record))"
  by (rule result_bound_by_journal
        [OF toy_json_library demo_load [OF quiet_fault_free]
          demo_load [of "quiet_os\<lparr>pid := 8\<rparr>"] refl])
     (simp add: fault_free_def quiet_os_def)



end
