(* ===== verification/Comparison.thy ===== *)
theory Comparison
  imports Result_Record
begin

text \<open>
  \<open>comparison.rs\<close>: the paired comparison of a baseline and a candidate over the same tasks.
\<close>

datatype pair_outcome = BaselineWin | Tie | CandidateWin

fun outcome_name :: "pair_outcome \<Rightarrow> string" where
  "outcome_name BaselineWin = ''baseline_win''"
| "outcome_name Tie = ''tie''"
| "outcome_name CandidateWin = ''candidate_win''"

record descriptor =
  d_identity :: string
  d_model :: "string option"

record pair_comparison =
  pc_task_id :: string
  pc_task_lock_digest :: string
  pc_baseline_run_id :: string
  pc_candidate_run_id :: string
  pc_primary_metric :: string
  pc_baseline_score :: string
  pc_candidate_score :: string
  pc_outcome :: pair_outcome
  pc_baseline_timed_out :: bool
  pc_candidate_timed_out :: bool

record comparison_summary =
  cs_schema :: string
  cs_governance_status :: string
  cs_baseline :: descriptor
  cs_candidate :: descriptor
  cs_pair_count :: nat
  cs_baseline_wins :: nat
  cs_ties :: nat
  cs_candidate_wins :: nat
  cs_baseline_timeouts :: nat
  cs_candidate_timeouts :: nat
  cs_baseline_total_tokens :: "u64 option"
  cs_candidate_total_tokens :: "u64 option"
  cs_pairs :: "pair_comparison list"

definition describe :: "local_result \<Rightarrow> descriptor" where
  "describe r = \<lparr>d_identity = lr_agent_identity r, d_model = lr_model r\<rparr>"

definition parse_score :: "string \<Rightarrow> float64 result" where
  "parse_score value =
     bind_result (ok_or (parse64 value) ''invalid float literal'') (\<lambda>score.
       and_then (ensure (is_finite64 score) ''result score is not finite'') (Inr score))"

definition timed_out :: "local_result \<Rightarrow> bool" where
  "timed_out r = (case lr_candidate_execution r of None \<Rightarrow> False | Some e \<Rightarrow> is_timed_out e)"

subsection \<open>Token totals\<close>

record token_aggregate =
  saw_model :: bool
  agg_complete :: bool
  agg_total :: "u64 option"

definition no_tokens :: token_aggregate where
  "no_tokens = \<lparr>saw_model = False, agg_complete = False, agg_total = None\<rparr>"

text \<open>\<open>usize\<close> has 64 bits, so \<open>u64::try_from\<close> does not fail.\<close>

definition observe :: "local_result \<Rightarrow> token_aggregate \<Rightarrow> token_aggregate" where
  "observe r a =
     (if lr_model r = None then a
      else
        let a = (if saw_model a then a else a\<lparr>agg_complete := True\<rparr>);
            a = a\<lparr>saw_model := True\<rparr>
        in case lr_model_usage r of
             Some usage \<Rightarrow>
               (if agg_complete a
                then let total = checked_add (case agg_total a of None \<Rightarrow> 0 | Some t \<Rightarrow> t)
                                   (total_tokens usage)
                     in a\<lparr>agg_total := total, agg_complete := (total \<noteq> None)\<rparr>
                else a\<lparr>agg_complete := False, agg_total := None\<rparr>)
           | None \<Rightarrow> a\<lparr>agg_complete := False, agg_total := None\<rparr>)"

definition finish :: "token_aggregate \<Rightarrow> u64 option" where
  "finish a = (if saw_model a \<and> agg_complete a then agg_total a else None)"

subsection \<open>The comparison\<close>

text \<open>The counters and the list of the loop.\<close>

record tally =
  t_pairs :: "pair_comparison list"
  t_baseline_wins :: nat
  t_ties :: nat
  t_candidate_wins :: nat
  t_baseline_timeouts :: nat
  t_candidate_timeouts :: nat
  t_baseline_tokens :: token_aggregate
  t_candidate_tokens :: token_aggregate

definition empty_tally :: tally where
  "empty_tally =
     \<lparr>t_pairs = [], t_baseline_wins = 0, t_ties = 0, t_candidate_wins = 0,
      t_baseline_timeouts = 0, t_candidate_timeouts = 0, t_baseline_tokens = no_tokens,
      t_candidate_tokens = no_tokens\<rparr>"

definition check_pair :: "descriptor \<Rightarrow> descriptor \<Rightarrow> local_result \<times> local_result \<Rightarrow> unit result" where
  "check_pair baseline candidate pair =
     (let (b, c) = pair
      in checks
           [(describe b = baseline, ''baseline results do not identify one Candidate and model''),
            (describe c = candidate, ''candidate results do not identify one Candidate and model''),
            (lr_task_lock_digest b = lr_task_lock_digest c,
             ''result pair {} / {} does not bind the same Task lock''),
            (lr_task_id b = lr_task_id c \<and> lr_primary_metric b = lr_primary_metric c,
             ''result pair {} / {} has inconsistent Task metadata'')])"

definition pair_outcome_of :: "float64 \<Rightarrow> float64 \<Rightarrow> pair_outcome" where
  "pair_outcome_of baseline candidate =
     (if lt64 candidate baseline then BaselineWin
      else if lt64 baseline candidate then CandidateWin else Tie)"

definition compare_pair :: "local_result \<times> local_result \<Rightarrow> pair_comparison result" where
  "compare_pair pair =
     (let (b, c) = pair
      in bind_result (parse_score (lr_score b)) (\<lambda>bs.
         bind_result (parse_score (lr_score c)) (\<lambda>cs.
           Inr \<lparr>pc_task_id = lr_task_id b, pc_task_lock_digest = lr_task_lock_digest b,
                pc_baseline_run_id = lr_run_id b, pc_candidate_run_id = lr_run_id c,
                pc_primary_metric = lr_primary_metric b, pc_baseline_score = lr_score b,
                pc_candidate_score = lr_score c, pc_outcome = pair_outcome_of bs cs,
                pc_baseline_timed_out = timed_out b, pc_candidate_timed_out = timed_out c\<rparr>)))"

definition tally_pair ::
  "local_result \<times> local_result \<Rightarrow> pair_comparison \<Rightarrow> tally \<Rightarrow> tally" where
  "tally_pair pair p t =
     t\<lparr>t_pairs := t_pairs t @ [p],
       t_baseline_wins := t_baseline_wins t + (if pc_outcome p = BaselineWin then 1 else 0),
       t_ties := t_ties t + (if pc_outcome p = Tie then 1 else 0),
       t_candidate_wins := t_candidate_wins t + (if pc_outcome p = CandidateWin then 1 else 0),
       t_baseline_timeouts := t_baseline_timeouts t + (if pc_baseline_timed_out p then 1 else 0),
       t_candidate_timeouts := t_candidate_timeouts t + (if pc_candidate_timed_out p then 1 else 0),
       t_baseline_tokens := observe (fst pair) (t_baseline_tokens t),
       t_candidate_tokens := observe (snd pair) (t_candidate_tokens t)\<rparr>"

fun compare_loop ::
  "descriptor \<Rightarrow> descriptor \<Rightarrow> (local_result \<times> local_result) list \<Rightarrow> tally \<Rightarrow> tally result" where
  "compare_loop baseline candidate [] t = Inr t"
| "compare_loop baseline candidate (pair # pairs) t =
     and_then (check_pair baseline candidate pair)
       (bind_result (compare_pair pair)
         (\<lambda>p. compare_loop baseline candidate pairs (tally_pair pair p t)))"

definition summary_of_tally :: "descriptor \<Rightarrow> descriptor \<Rightarrow> tally \<Rightarrow> comparison_summary" where
  "summary_of_tally baseline candidate t =
     \<lparr>cs_schema = ''a3s.bench.comparison.v1'', cs_governance_status = ''local_unofficial'',
      cs_baseline = baseline, cs_candidate = candidate, cs_pair_count = length (t_pairs t),
      cs_baseline_wins = t_baseline_wins t, cs_ties = t_ties t,
      cs_candidate_wins = t_candidate_wins t, cs_baseline_timeouts = t_baseline_timeouts t,
      cs_candidate_timeouts = t_candidate_timeouts t,
      cs_baseline_total_tokens = finish (t_baseline_tokens t),
      cs_candidate_total_tokens = finish (t_candidate_tokens t), cs_pairs = t_pairs t\<rparr>"

definition compare_pairs :: "(local_result \<times> local_result) list \<Rightarrow> comparison_summary result" where
  "compare_pairs pairs =
     (case pairs of
        [] \<Rightarrow> Inl (Bail ''comparison requires at least one result pair'')
      | first # _ \<Rightarrow>
          let baseline = describe (fst first); candidate = describe (snd first)
          in bind_result (compare_loop baseline candidate pairs empty_tally) (\<lambda>t.
               Inr (summary_of_tally baseline candidate t)))"

subsection \<open>What the loop computes\<close>

lemma compare_loop_Inr:
  "compare_loop baseline candidate pairs t = Inr t' \<longleftrightarrow>
     (\<exists>ps. map_results compare_pair pairs = Inr ps \<and>
           (\<forall>pair \<in> set pairs. check_pair baseline candidate pair = Inr ()) \<and>
           t' = fold (\<lambda>(pair, p). tally_pair pair p) (zip pairs ps) t)"
proof (induction pairs arbitrary: t)
  case Nil
  then show ?case by auto
next
  case (Cons pair pairs)
  show ?case
    by (cases "compare_pair pair"; cases "map_results compare_pair pairs")
       (auto simp: and_then_Inr Cons)
qed

abbreviation tally_all ::
  "(local_result \<times> local_result) list \<Rightarrow> pair_comparison list \<Rightarrow> tally \<Rightarrow> tally" where
  "tally_all pairs ps \<equiv> fold (\<lambda>(pair, p). tally_pair pair p) (zip pairs ps)"

definition count :: "('a \<Rightarrow> bool) \<Rightarrow> 'a list \<Rightarrow> nat" where
  "count P xs = length (filter P xs)"

lemma count_simps [simp]: "count P [] = 0" "count P (x # xs) = (if P x then Suc (count P xs) else count P xs)"
  by (simp_all add: count_def)

lemma tally_all_spec:
  assumes "length pairs = length ps"
  shows "tally_all pairs ps t =
     \<lparr>t_pairs = t_pairs t @ ps,
      t_baseline_wins = t_baseline_wins t + count (\<lambda>p. pc_outcome p = BaselineWin) ps,
      t_ties = t_ties t + count (\<lambda>p. pc_outcome p = Tie) ps,
      t_candidate_wins = t_candidate_wins t + count (\<lambda>p. pc_outcome p = CandidateWin) ps,
      t_baseline_timeouts = t_baseline_timeouts t + count pc_baseline_timed_out ps,
      t_candidate_timeouts = t_candidate_timeouts t + count pc_candidate_timed_out ps,
      t_baseline_tokens = fold observe (map fst pairs) (t_baseline_tokens t),
      t_candidate_tokens = fold observe (map snd pairs) (t_candidate_tokens t)\<rparr>"
  using assms
proof (induction pairs ps arbitrary: t rule: list_induct2)
  case Nil
  then show ?case by (cases t) simp
next
  case (Cons pair pairs p ps)
  then show ?case by (simp add: tally_pair_def)
qed

text \<open>The summary of a successful comparison, from the list of the pairs' comparisons.\<close>

definition summary_of ::
  "(local_result \<times> local_result) list \<Rightarrow> pair_comparison list \<Rightarrow> comparison_summary" where
  "summary_of pairs ps =
     \<lparr>cs_schema = ''a3s.bench.comparison.v1'', cs_governance_status = ''local_unofficial'',
      cs_baseline = describe (fst (hd pairs)), cs_candidate = describe (snd (hd pairs)),
      cs_pair_count = length ps,
      cs_baseline_wins = count (\<lambda>p. pc_outcome p = BaselineWin) ps,
      cs_ties = count (\<lambda>p. pc_outcome p = Tie) ps,
      cs_candidate_wins = count (\<lambda>p. pc_outcome p = CandidateWin) ps,
      cs_baseline_timeouts = count pc_baseline_timed_out ps,
      cs_candidate_timeouts = count pc_candidate_timed_out ps,
      cs_baseline_total_tokens = finish (fold observe (map fst pairs) no_tokens),
      cs_candidate_total_tokens = finish (fold observe (map snd pairs) no_tokens),
      cs_pairs = ps\<rparr>"

lemma compare_pairs_Inr:
  "compare_pairs pairs = Inr summary \<longleftrightarrow>
     pairs \<noteq> [] \<and>
     (\<forall>pair \<in> set pairs. check_pair (describe (fst (hd pairs))) (describe (snd (hd pairs))) pair = Inr ()) \<and>
     (\<exists>ps. map_results compare_pair pairs = Inr ps \<and> summary = summary_of pairs ps)"
proof (cases pairs)
  case Nil
  then show ?thesis by (simp add: compare_pairs_def)
next
  case (Cons first rest)
  have len: "map_results compare_pair pairs = Inr ps \<Longrightarrow> length pairs = length ps" for ps
    by (simp add: map_results_Inr)
  have h: "hd pairs = first" "pairs \<noteq> []" using Cons by simp_all
  let ?b = "describe (fst (hd pairs))" and ?c = "describe (snd (hd pairs))"
  have "compare_pairs pairs = Inr summary \<longleftrightarrow>
      (\<exists>t. compare_loop ?b ?c pairs empty_tally = Inr t \<and> summary = summary_of_tally ?b ?c t)"
    unfolding compare_pairs_def Let_def
    using Cons h(1) by (auto simp: bind_result_Inr simp del: compare_loop.simps)
  also have "\<dots> \<longleftrightarrow> (\<forall>pair \<in> set pairs. check_pair ?b ?c pair = Inr ()) \<and>
      (\<exists>ps. map_results compare_pair pairs = Inr ps \<and>
        summary = summary_of_tally ?b ?c (tally_all pairs ps empty_tally))"
    unfolding compare_loop_Inr by blast
  also have "\<dots> \<longleftrightarrow> (\<forall>pair \<in> set pairs. check_pair ?b ?c pair = Inr ()) \<and>
      (\<exists>ps. map_results compare_pair pairs = Inr ps \<and> summary = summary_of pairs ps)"
    using tally_all_spec [OF len]
    by (auto simp: summary_of_tally_def summary_of_def empty_tally_def)
  finally show ?thesis using h(2) by blast
qed

subsection \<open>Swapping the sides\<close>

fun swap_outcome :: "pair_outcome \<Rightarrow> pair_outcome" where
  "swap_outcome BaselineWin = CandidateWin"
| "swap_outcome Tie = Tie"
| "swap_outcome CandidateWin = BaselineWin"

definition swap_comparison :: "pair_comparison \<Rightarrow> pair_comparison" where
  "swap_comparison p =
     p\<lparr>pc_baseline_run_id := pc_candidate_run_id p, pc_candidate_run_id := pc_baseline_run_id p,
       pc_baseline_score := pc_candidate_score p, pc_candidate_score := pc_baseline_score p,
       pc_outcome := swap_outcome (pc_outcome p),
       pc_baseline_timed_out := pc_candidate_timed_out p,
       pc_candidate_timed_out := pc_baseline_timed_out p\<rparr>"

definition swap_summary :: "comparison_summary \<Rightarrow> comparison_summary" where
  "swap_summary s =
     s\<lparr>cs_baseline := cs_candidate s, cs_candidate := cs_baseline s,
       cs_baseline_wins := cs_candidate_wins s, cs_candidate_wins := cs_baseline_wins s,
       cs_baseline_timeouts := cs_candidate_timeouts s,
       cs_candidate_timeouts := cs_baseline_timeouts s,
       cs_baseline_total_tokens := cs_candidate_total_tokens s,
       cs_candidate_total_tokens := cs_baseline_total_tokens s,
       cs_pairs := map swap_comparison (cs_pairs s)\<rparr>"

lemma swap_outcome_of: "pair_outcome_of y x = swap_outcome (pair_outcome_of x y)"
  by (auto simp: pair_outcome_of_def lt64_def)

lemma swap_outcome_iff [simp]:
  "swap_outcome x = BaselineWin \<longleftrightarrow> x = CandidateWin"
  "swap_outcome x = CandidateWin \<longleftrightarrow> x = BaselineWin" "swap_outcome x = Tie \<longleftrightarrow> x = Tie"
  by (cases x; simp)+

lemma count_map [simp]: "count P (map f xs) = count (\<lambda>x. P (f x)) xs"
  by (induction xs) auto

lemma check_pair_swap:
  "check_pair b c (prod.swap pair) = Inr () \<longleftrightarrow> check_pair c b pair = Inr ()"
  by (cases pair) (auto simp: check_pair_def checks_Inr)

lemma compare_pair_swap:
  "check_pair b c pair = Inr () \<Longrightarrow> compare_pair pair = Inr p \<Longrightarrow>
     compare_pair (prod.swap pair) = Inr (swap_comparison p)"
proof -
  assume k: "check_pair b c pair = Inr ()" and p: "compare_pair pair = Inr p"
  obtain x y where pair: "pair = (x, y)" by (cases pair)
  from p pair obtain xs ys where s: "parse_score (lr_score x) = Inr xs" "parse_score (lr_score y) = Inr ys"
    by (auto simp: compare_pair_def bind_result_Inr)
  from k pair have "lr_task_id y = lr_task_id x" "lr_task_lock_digest y = lr_task_lock_digest x"
    "lr_primary_metric y = lr_primary_metric x"
    by (simp_all add: check_pair_def checks_Inr)
  with p pair s swap_outcome_of [of ys xs] show ?thesis
    by (auto simp: compare_pair_def swap_comparison_def)
qed

lemma compare_pairs_swapped:
  assumes "\<forall>pair \<in> set pairs. check_pair b c pair = Inr ()" "map_results compare_pair pairs = Inr ps"
  shows "map_results compare_pair (map prod.swap pairs) = Inr (map swap_comparison ps)"
  unfolding map_results_Inr
proof (intro conjI allI impI)
  show "length (map swap_comparison ps) = length (map prod.swap pairs)"
    using assms(2) by (simp add: map_results_Inr)
  fix i
  assume i: "i < length (map prod.swap pairs)"
  then have "check_pair b c (pairs ! i) = Inr ()" "compare_pair (pairs ! i) = Inr (ps ! i)"
    "i < length ps" using assms by (auto simp: map_results_Inr)
  with i compare_pair_swap show
    "compare_pair (map prod.swap pairs ! i) = Inr (map swap_comparison ps ! i)" by simp
qed

lemma summary_of_swap:
  "pairs \<noteq> [] \<Longrightarrow> summary_of (map prod.swap pairs) (map swap_comparison ps) = swap_summary (summary_of pairs ps)"
  by (simp add: summary_of_def swap_summary_def hd_map swap_comparison_def comp_def
      fst_swap snd_swap)

subsection \<open>Token totals as a sum\<close>

text \<open>The usages of the records with a model, and their exact total.\<close>

definition with_model :: "local_result list \<Rightarrow> local_result list" where
  "with_model rs = filter (\<lambda>r. lr_model r \<noteq> None) rs"

definition usage_total :: "local_result \<Rightarrow> nat" where
  "usage_total r = (case lr_model_usage r of None \<Rightarrow> 0 | Some u \<Rightarrow> unat (total_tokens u))"

definition token_sum :: "local_result list \<Rightarrow> nat" where
  "token_sum rs = sum_list (map usage_total (with_model rs))"

definition all_used :: "local_result list \<Rightarrow> bool" where
  "all_used rs = (\<forall>r \<in> set (with_model rs). lr_model_usage r \<noteq> None)"

lemma token_simps [simp]:
  "with_model [] = []" "with_model (rs @ [r]) = with_model rs @ (if lr_model r = None then [] else [r])"
  by (simp_all add: with_model_def)

lemma unat_of_small: "n < 2 ^ 64 \<Longrightarrow> unat (of_nat n :: u64) = n"
  by (simp add: unsigned_of_nat take_bit_nat_eq_self)

lemma checked_add_of_nat:
  "n < 2 ^ 64 \<Longrightarrow> checked_add (of_nat n :: u64) t =
     (if n + unat t < 2 ^ 64 then Some (of_nat (n + unat t)) else None)"
  by (simp add: checked_add_def unat_of_small)

text \<open>The state of the aggregate after observing a list of records.\<close>

lemma observe_all:
  "fold observe rs no_tokens =
     (if with_model rs = [] then no_tokens
      else if all_used rs \<and> token_sum rs < 2 ^ 64
      then \<lparr>saw_model = True, agg_complete = True, agg_total = Some (of_nat (token_sum rs))\<rparr>
      else \<lparr>saw_model = True, agg_complete = False, agg_total = None\<rparr>)"
proof (induction rs rule: rev_induct)
  case Nil
  then show ?case by simp
next
  case (snoc r rs)
  show ?case
  proof (cases "lr_model r")
    case None
    with snoc show ?thesis by (simp add: observe_def all_used_def token_sum_def)
  next
    case (Some m)
    then show ?thesis
    proof (cases "lr_model_usage r")
      case None
      with Some snoc show ?thesis
        by (auto simp: observe_def all_used_def Let_def no_tokens_def)
    next
      case (Some u)
      with \<open>lr_model r = Some m\<close> snoc show ?thesis
        using checked_add_of_nat [of 0 "total_tokens u"]
          checked_add_of_nat [of "token_sum rs" "total_tokens u"]
        by (auto simp: observe_def all_used_def Let_def no_tokens_def token_sum_def usage_total_def)
    qed
  qed
qed

lemma finish_observe:
  "finish (fold observe rs no_tokens) =
     (if with_model rs \<noteq> [] \<and> all_used rs \<and> token_sum rs < 2 ^ 64
      then Some (of_nat (token_sum rs)) else None)"
  unfolding observe_all finish_def by (simp add: no_tokens_def)

lemma compare_pair_outcome:
  assumes "lr_score b = s" "lr_score c = t" "parse_score s = Inr x" "parse_score t = Inr y"
  shows "map_result pc_outcome (compare_pair (b, c)) = Inr (pair_outcome_of x y)"
  using assms by (simp add: compare_pair_def)

text \<open>A pair of records of one task, scored \<open>2\<close> and \<open>0\<close>.\<close>

definition demo_pair :: "local_result \<times> local_result" where
  "demo_pair = (demo_record\<lparr>lr_score := ''2''\<rparr>, demo_record\<lparr>lr_score := ''0''\<rparr>)"

definition demo_summary :: comparison_summary where
  "demo_summary = (case compare_pairs [demo_pair] of Inr s \<Rightarrow> s)"

lemma demo_scores:
  "parse_score ''2'' = Inr (Fin False 4503599627370496 (- 51))" "parse_score ''0'' = Inr (zero64 False)"
  "parse_score ''9007199254740992'' = Inr (Fin False 4503599627370496 1)"
  "parse_score ''9007199254740993'' = Inr (Fin False 4503599627370496 1)"
  by (simp_all add: parse_score_def parse64_literals [unfolded round64_literals] is_finite64_def)

lemma demo_compared: "compare_pairs [demo_pair] = Inr demo_summary"
  by (simp add: demo_summary_def compare_pairs_def demo_pair_def check_pair_def checks.simps Let_def
      compare_pair_def demo_scores describe_def)

lemma demo_outcomes: "map pc_outcome (cs_pairs demo_summary) = [BaselineWin]"
  by (simp add: demo_summary_def compare_pairs_def demo_pair_def check_pair_def checks.simps Let_def
      compare_pair_def demo_scores describe_def summary_of_tally_def tally_pair_def
      empty_tally_def pair_outcome_of_def lt64_def fin_le_def signed_def)

subsection \<open>Properties\<close>



text \<open>
  C8 An outcome never contradicts the scores: where the comparison says that one side wins, the
  decimal the other side's score spells is strictly smaller, as exact numbers, although the program
  compares rounded \<open>f64\<close> values.
\<close>

theorem outcome_is_sound:
  assumes "compare_pairs pairs = Inr s" "p \<in> set (cs_pairs s)"
  shows "(pc_outcome p = BaselineWin \<longrightarrow>
       (\<exists>b c. decimal_value (pc_baseline_score p) = Some b \<and>
              decimal_value (pc_candidate_score p) = Some c \<and> c < b)) \<and>
    (pc_outcome p = CandidateWin \<longrightarrow>
       (\<exists>b c. decimal_value (pc_baseline_score p) = Some b \<and>
              decimal_value (pc_candidate_score p) = Some c \<and> b < c))"
proof -
  from assms obtain ps where "map_results compare_pair pairs = Inr ps" "p \<in> set ps"
    unfolding compare_pairs_Inr by (auto simp: summary_of_def)
  then have "\<exists>pair. compare_pair pair = Inr p"
    unfolding map_results_Inr in_set_conv_nth by metis
  then obtain x y where s: "parse_score (pc_baseline_score p) = Inr x"
      "parse_score (pc_candidate_score p) = Inr y" "pc_outcome p = pair_outcome_of x y"
    by (auto simp: compare_pair_def bind_result_Inr split: prod.splits)
  then have "parse64 (pc_baseline_score p) = Some x" "is_finite64 x"
      "parse64 (pc_candidate_score p) = Some y" "is_finite64 y"
    by (auto simp: parse_score_def bind_result_Inr and_then_Inr ok_or_Inr ensure_Inr)
  then show ?thesis
    using s(3) parse64_less [of "pc_baseline_score p" x "pc_candidate_score p" y]
      parse64_less [of "pc_candidate_score p" y "pc_baseline_score p" x]
    by (auto simp: pair_outcome_of_def split: if_splits)
qed

theorem outcome_is_sound_witness:
  "\<exists>b c. decimal_value (pc_baseline_score (hd (cs_pairs demo_summary))) = Some b \<and>
         decimal_value (pc_candidate_score (hd (cs_pairs demo_summary))) = Some c \<and> c < b"
proof -
  obtain p where "cs_pairs demo_summary = [p]" "pc_outcome p = BaselineWin"
    using demo_outcomes by auto
  then show ?thesis using outcome_is_sound [OF demo_compared, of p] by auto
qed

text \<open>
  C9 Comparing is antisymmetric: with the two sides of every pair exchanged, the comparison succeeds
  and its summary is the same with baseline and candidate exchanged throughout.
\<close>

theorem comparison_antisymmetric:
  assumes "compare_pairs pairs = Inr s"
  shows "compare_pairs (map prod.swap pairs) = Inr (swap_summary s)"
proof -
  from assms obtain ps where ne: "pairs \<noteq> []" and ps: "map_results compare_pair pairs = Inr ps" and
    s: "s = summary_of pairs ps" and
    k: "\<forall>pair \<in> set pairs. check_pair (describe (fst (hd pairs))) (describe (snd (hd pairs))) pair = Inr ()"
    unfolding compare_pairs_Inr by blast
  have "\<forall>pair \<in> set (map prod.swap pairs).
      check_pair (describe (snd (hd pairs))) (describe (fst (hd pairs))) pair = Inr ()"
    using k by (auto simp: check_pair_swap simp del: swap_simp)
  moreover have "fst (hd (map prod.swap pairs)) = snd (hd pairs)"
      "snd (hd (map prod.swap pairs)) = fst (hd pairs)"
    using ne by (simp_all add: hd_map)
  ultimately show ?thesis
    unfolding compare_pairs_Inr
    using ne s summary_of_swap [OF ne] compare_pairs_swapped [OF k ps] by simp
qed

theorem comparison_antisymmetric_witness:
  "compare_pairs [prod.swap demo_pair] = Inr (swap_summary demo_summary)"
  using comparison_antisymmetric [OF demo_compared] by simp

text \<open>
  C10 Token totals: a side's total is reported exactly when some of its records used a model, every
  one that did has its usage, and the sum of their totals fits 64 bits; then it is that sum.
\<close>

theorem token_total_is_exact_sum:
  assumes "compare_pairs pairs = Inr s"
  shows "cs_baseline_total_tokens s =
      (let rs = map fst pairs
       in if with_model rs \<noteq> [] \<and> all_used rs \<and> token_sum rs < 2 ^ 64
          then Some (of_nat (token_sum rs)) else None) \<and>
    cs_candidate_total_tokens s =
      (let rs = map snd pairs
       in if with_model rs \<noteq> [] \<and> all_used rs \<and> token_sum rs < 2 ^ 64
          then Some (of_nat (token_sum rs)) else None)"
  using assms unfolding compare_pairs_Inr Let_def
  by (elim conjE exE) (simp only: summary_of_def comparison_summary.simps finish_observe)

theorem token_total_is_exact_sum_witness: "cs_baseline_total_tokens demo_summary = None"
  using token_total_is_exact_sum [OF demo_compared]
  by (simp add: demo_pair_def with_model_def demo_record_def new_record_def demo_input_def)


end
