(* ===== verification/Steps.thy ===== *)
theory Steps
  imports Digests
begin

text \<open>
  Steps over any state: a step returns the new state with its result, and \<open>seq\<close> goes on with the
  value of one that succeeds (the \<open>?\<close> of the code). \<open>then_do\<close> of \<open>State_Fs\<close> is its instance on files
  for steps without a value.
\<close>

definition seq :: "'s \<times> 'a result \<Rightarrow> ('a \<Rightarrow> 's \<Rightarrow> 's \<times> 'b result) \<Rightarrow> 's \<times> 'b result" where
  "seq x k = (case x of (s, Inl e) \<Rightarrow> (s, Inl e) | (s, Inr v) \<Rightarrow> k v s)"

text \<open>A result that leaves the state, and a step with the context of its error.\<close>

definition still :: "'a result \<Rightarrow> 's \<Rightarrow> 's \<times> 'a result" where
  "still r s = (s, r)"

definition step_context :: "string \<Rightarrow> 's \<times> 'a result \<Rightarrow> 's \<times> 'a result" where
  "step_context msg x = (case x of (s, r) \<Rightarrow> (s, with_context msg r))"

fun each_step :: "('a \<Rightarrow> 's \<Rightarrow> 's \<times> unit result) \<Rightarrow> 'a list \<Rightarrow> 's \<Rightarrow> 's \<times> unit result" where
  "each_step f [] s = (s, Inr ())"
| "each_step f (x # xs) s = seq (f x s) (\<lambda>_. each_step f xs)"

lemma seq_simps [simp]: "seq (s, Inl e) k = (s, Inl e)" "seq (s, Inr v) k = k v s"
  by (simp_all add: seq_def)

lemma still_simps [simp]: "snd (still r s) = r" "fst (still r s) = s"
  by (simp_all add: still_def)

lemma step_context_simps [simp]: "step_context msg (s, r) = (s, with_context msg r)"
  by (simp add: step_context_def)

lemma seq_Inr: "seq x k = (s', Inr w) \<longleftrightarrow> (\<exists>s v. x = (s, Inr v) \<and> k v s = (s', Inr w))"
  by (auto simp: seq_def split: prod.splits sum.splits)

lemma seq_cases:
  assumes "seq x k = (s', r)"
  obtains (stops) e where "x = (s', Inl e)" "r = Inl e"
    | (goes) s v where "x = (s, Inr v)" "k v s = (s', r)"
  using assms by (auto simp: seq_def split: prod.splits sum.splits)

lemma still_seq: "seq (still r s) k = (case r of Inl e \<Rightarrow> (s, Inl e) | Inr v \<Rightarrow> k v s)"
  by (simp add: seq_def still_def)

text \<open>A relation of states that every step keeps.\<close>

lemma seq_keeps:
  assumes "seq x k = (s', r)" "R s (fst x)" "\<And>v s1. x = (s1, Inr v) \<Longrightarrow> R s1 (fst (k v s1))"
    "\<And>a b c. R a b \<Longrightarrow> R b c \<Longrightarrow> R a c"
  shows "R s s'"
  using assms by (cases rule: seq_cases [OF assms(1)]) (fastforce)+

lemma each_step_keeps:
  assumes "\<And>x s. x \<in> set xs \<Longrightarrow> R s (fst (f x s))" "\<And>a. R a a" "\<And>a b c. R a b \<Longrightarrow> R b c \<Longrightarrow> R a c"
  shows "R s (fst (each_step f xs s))"
  using assms(1)
proof (induction xs arbitrary: s)
  case Nil
  then show ?case by (simp add: assms(2))
next
  case (Cons x xs)
  have x: "R s (fst (f x s))" using Cons.prems by simp
  have xs: "R a (fst (each_step f xs a))" for a
    using Cons.prems by (intro Cons.IH) simp
  show ?case
  proof (cases "f x s")
    case (Pair s1 r)
    with x assms(3) [OF _ xs] show ?thesis by (cases r) auto
  qed
qed

end
