(* ===== verification/Acl.thy ===== *)
theory Acl
  imports Bench_Prelude Float64
begin

text \<open>
  Parsed ACL documents, and the closed schemas of \<open>acl_schema.rs\<close>. The parser is the crate
  \<open>a3s_acl\<close>, which is not under \<open>src/\<close>: a function that reads a text takes the parser as an
  argument. A block is what the program reads of it: its name, its labels, its attributes (a map)
  and its child blocks; a value is read through \<open>as_str\<close>, \<open>as_number\<close>, \<open>as_bool\<close> or as a list.
\<close>

datatype avalue = AStr string | ANum float64 | ABool bool | AList "avalue list" | AOther string

datatype block =
  Block (bname: string) (labels: "string list") (attributes: "(string \<times> avalue) list") (blocks: "block list")

type_synonym acl_parser = "string \<Rightarrow> (block list) option"

definition attr :: "block \<Rightarrow> string \<Rightarrow> avalue option" where
  "attr b k = map_of (attributes b) k"

fun a_str :: "avalue \<Rightarrow> string option" where
  "a_str (AStr s) = Some s"
| "a_str _ = None"

fun a_number :: "avalue \<Rightarrow> float64 option" where
  "a_number (ANum x) = Some x"
| "a_number _ = None"

fun a_bool :: "avalue \<Rightarrow> bool option" where
  "a_bool (ABool b) = Some b"
| "a_bool _ = None"

fun a_list :: "avalue \<Rightarrow> avalue list option" where
  "a_list (AList vs) = Some vs"
| "a_list _ = None"

definition attr_str :: "block \<Rightarrow> string \<Rightarrow> string option" where
  "attr_str b k = Option.bind (attr b k) a_str"

definition attr_number :: "block \<Rightarrow> string \<Rightarrow> float64 option" where
  "attr_number b k = Option.bind (attr b k) a_number"

definition child_blocks :: "block \<Rightarrow> string \<Rightarrow> block list" where
  "child_blocks b name = filter (\<lambda>c. bname c = name) (blocks b)"

subsection \<open>Closed schemas\<close>

datatype label_rule = NoLabels | ExactlyLabels nat

record block_schema =
  bs_attributes :: "string list"
  bs_children :: "string list"
  bs_labels :: label_rule

definition validate_block :: "block \<Rightarrow> block_schema \<Rightarrow> unit result" where
  "validate_block b sc =
     and_then
       (case bs_labels sc of
          NoLabels \<Rightarrow> ensure (labels b = []) ''{context} must not have labels''
        | ExactlyLabels n \<Rightarrow> ensure (length (labels b) = n) ''{context} must have exactly {count} label(s)'')
       (and_then
          (each (\<lambda>k. ensure (k \<in> set (bs_attributes sc)) ''{context} contains unknown attribute {attribute:?}'')
             (map fst (attributes b)))
          (each (\<lambda>c. ensure (bname c \<in> set (bs_children sc)) ''{context} contains unknown block {:?}'')
             (blocks b)))"

definition validate_scalar_block :: "block \<Rightarrow> unit result" where
  "validate_scalar_block b =
     and_then (validate_block b \<lparr>bs_attributes = [bname b], bs_children = [], bs_labels = NoLabels\<rparr>)
       (ensure (card (fst ` set (attributes b)) = 1) ''{} must contain exactly one value'')"

definition labels_ok :: "label_rule \<Rightarrow> block \<Rightarrow> bool" where
  "labels_ok r b = (case r of NoLabels \<Rightarrow> labels b = [] | ExactlyLabels n \<Rightarrow> length (labels b) = n)"

lemma validate_block_Inr [result_simps]:
  "validate_block b sc = Inr u \<longleftrightarrow>
     labels_ok (bs_labels sc) b \<and> fst ` set (attributes b) \<subseteq> set (bs_attributes sc) \<and>
     bname ` set (blocks b) \<subseteq> set (bs_children sc)"
  by (auto simp: validate_block_def labels_ok_def result_simps split: label_rule.splits)

lemma panics_validate_block [simp]: "\<not> panics (validate_block b sc)"
  by (auto simp: validate_block_def panics_and_then dest: panics_each split: label_rule.splits)

subsection \<open>Reading a block\<close>

definition require_string :: "block \<Rightarrow> string \<Rightarrow> string option \<Rightarrow> string result" where
  "require_string b key expected =
     bind_result (ok_or (attr_str b key) ''{}.{} must be a string'') (\<lambda>value.
       and_then (when_some expected (\<lambda>e. ensure (value = e) ''{}.{} must be {:?}'')) (Inr value))"

definition unique_block :: "block \<Rightarrow> string \<Rightarrow> block result" where
  "unique_block b name =
     (case child_blocks b name of
        [c] \<Rightarrow> Inr c
      | _ \<Rightarrow> Inl (Bail ''{} must contain exactly one {} block''))"

definition string_list :: "block \<Rightarrow> string \<Rightarrow> string list result" where
  "string_list b name =
     (case attr b name of
        Some (AList items) \<Rightarrow> map_results (\<lambda>i. ok_or (a_str i) ''{}.{} items must be strings'') items
      | _ \<Rightarrow> Inl (Bail ''{}.{} must be a list''))"

lemma panics_require_string [simp]: "\<not> panics (require_string b k e)"
  by (auto simp: require_string_def panics_parts)

lemma panics_unique_block [simp]: "\<not> panics (unique_block b n)"
  by (auto simp: unique_block_def split: list.splits)

lemma panics_string_list [simp]: "\<not> panics (string_list b n)"
  by (auto simp: string_list_def dest: panics_map_results split: option.splits avalue.splits)

lemma unique_block_Inr: "unique_block b name = Inr c \<longleftrightarrow> child_blocks b name = [c]"
  by (auto simp: unique_block_def split: list.splits)

end
