(* ===== verification/State_Tree.thy ===== *)
theory State_Tree
  imports State_Fs
begin

text \<open>
  \<open>state_fs.rs\<close>, second half: operations on whole trees (\<open>sync_tree\<close>, \<open>validate_tree\<close>,
  \<open>seal_tree_read_only\<close>, \<open>seal_role_input_tree\<close>, \<open>remove_tree\<close>) and on the permissions
  of one file. A tree is a value; the entries of a directory come in the order the operating system
  lists them. As for the single files, the operating system decides which call fails, and the tree
  an operation leaves behind when it fails is part of its result.
\<close>

datatype node =
    RegFile mode nat string
  | Directory mode "(string \<times> node) list"
  | Symlink string
  | SpecialFile

type_synonym entries = "(string \<times> node) list"

text \<open>A system call without an effect on the model: only its failure matters.\<close>

definition call :: "os \<Rightarrow> syscall \<Rightarrow> unit result" where
  "call env c = (case fault env c of Some e \<Rightarrow> Inl (Io e) | None \<Rightarrow> Inr ())"

abbreviation not_a_directory :: error where
  "not_a_directory \<equiv> Io (OtherIo ''not a directory'')"

fun is_dir :: "node \<Rightarrow> bool" where
  "is_dir (Directory m es) = True"
| "is_dir t = False"

subsection \<open>Flushing and checking\<close>

text \<open>
  Each walk is a loop over the entries of a directory: \<open>.._entry\<close> is what the loop does with one
  entry, \<open>.._entries\<close> the loop.
\<close>

fun sync_entry :: "os \<Rightarrow> path \<Rightarrow> node \<Rightarrow> unit result"
  and sync_entries :: "os \<Rightarrow> path \<Rightarrow> entries \<Rightarrow> unit result" where
  "sync_entry env p (Directory m es) =
     and_then (call env (ReadDir p)) (and_then (sync_entries env p es) (call env (SyncDir p)))"
| "sync_entry env p (RegFile m l b) = call env (SyncFile p)"
| "sync_entry env p (Symlink x) = Inl (Bail ''durable tree contains a symlink'')"
| "sync_entry env p SpecialFile = Inl (Bail ''durable tree contains a special file'')"
| "sync_entries env p [] = Inr ()"
| "sync_entries env p ((n, t) # es) =
     and_then (call env (EntryAt (p @ [n])))
       (and_then (sync_entry env (p @ [n]) t) (sync_entries env p es))"

definition sync_tree :: "os \<Rightarrow> path \<Rightarrow> node \<Rightarrow> unit result" where
  "sync_tree env p t = (if is_dir t then sync_entry env p t else Inl not_a_directory)"

fun validate_entry :: "os \<Rightarrow> path \<Rightarrow> node \<Rightarrow> unit result"
  and validate_entries :: "os \<Rightarrow> path \<Rightarrow> entries \<Rightarrow> unit result" where
  "validate_entry env p (Directory m es) =
     and_then (call env (ReadDir p)) (validate_entries env p es)"
| "validate_entry env p (RegFile m l b) = Inr ()"
| "validate_entry env p (Symlink x) = Inl (Bail ''state tree contains a symlink'')"
| "validate_entry env p SpecialFile = Inl (Bail ''state tree contains a special file'')"
| "validate_entries env p [] = Inr ()"
| "validate_entries env p ((n, t) # es) =
     and_then (call env (EntryAt (p @ [n])))
       (and_then (validate_entry env (p @ [n]) t) (validate_entries env p es))"

definition validate_tree :: "os \<Rightarrow> path \<Rightarrow> node \<Rightarrow> unit result" where
  "validate_tree env p t = (if is_dir t then validate_entry env p t else Inl not_a_directory)"

subsection \<open>Permissions\<close>

definition executable_mode :: "mode \<Rightarrow> bool" where
  "executable_mode m = (m AND mode_111 \<noteq> 0)"

definition owner_mode :: "bool \<Rightarrow> bool \<Rightarrow> mode" where
  "owner_mode read_only executable =
     (if read_only then (if executable then mode_500 else mode_400)
      else (if executable then mode_700 else mode_600))"

definition role_mode :: "bool \<Rightarrow> mode" where
  "role_mode executable = (if executable then mode_555 else mode_444)"

text \<open>\<open>metadata\<close> and then \<open>set_permissions\<close> of a regular file.\<close>

definition chmod_file ::
  "(bool \<Rightarrow> mode) \<Rightarrow> os \<Rightarrow> path \<Rightarrow> mode \<times> nat \<times> string \<Rightarrow> node \<times> unit result" where
  "chmod_file f env p x =
     (case x of (m, l, b) \<Rightarrow>
        (case and_then (call env (Metadata p)) (call env (Chmod p)) of
           Inl e \<Rightarrow> (RegFile m l b, Inl e)
         | Inr _ \<Rightarrow> (RegFile (f (executable_mode m)) l b, Inr ())))"

definition set_owner_only_file ::
  "os \<Rightarrow> path \<Rightarrow> bool \<Rightarrow> mode \<times> nat \<times> string \<Rightarrow> node \<times> unit result" where
  "set_owner_only_file env p read_only = chmod_file (owner_mode read_only) env p"

definition is_executable :: "os \<Rightarrow> path \<Rightarrow> mode \<Rightarrow> bool result" where
  "is_executable env p m = and_then (call env (Metadata p)) (Inr (executable_mode m))"

subsection \<open>Sealing\<close>

text \<open>The two sealing operations differ in the modes they set and in their messages.\<close>

record seal_policy =
  sp_file :: "bool \<Rightarrow> mode"
  sp_dir :: mode
  sp_symlink :: string
  sp_special :: string

fun seal_entry :: "seal_policy \<Rightarrow> os \<Rightarrow> path \<Rightarrow> node \<Rightarrow> node \<times> unit result"
  and seal_entries :: "seal_policy \<Rightarrow> os \<Rightarrow> path \<Rightarrow> entries \<Rightarrow> entries \<times> unit result" where
  "seal_entry pol env p (Directory m es) =
     (case call env (ReadDir p) of
        Inl e \<Rightarrow> (Directory m es, Inl e)
      | Inr _ \<Rightarrow>
          (case seal_entries pol env p es of
             (es', Inl e) \<Rightarrow> (Directory m es', Inl e)
           | (es', Inr _) \<Rightarrow>
               (case call env (Chmod p) of
                  Inl e \<Rightarrow> (Directory m es', Inl e)
                | Inr _ \<Rightarrow> (Directory (sp_dir pol) es', Inr ()))))"
| "seal_entry pol env p (RegFile m l b) = chmod_file (sp_file pol) env p (m, l, b)"
| "seal_entry pol env p (Symlink x) = (Symlink x, Inl (Bail (sp_symlink pol)))"
| "seal_entry pol env p SpecialFile = (SpecialFile, Inl (Bail (sp_special pol)))"
| "seal_entries pol env p [] = ([], Inr ())"
| "seal_entries pol env p ((n, t) # es) =
     (case call env (EntryAt (p @ [n])) of
        Inl e \<Rightarrow> ((n, t) # es, Inl e)
      | Inr _ \<Rightarrow>
          (case seal_entry pol env (p @ [n]) t of
             (t', Inl e) \<Rightarrow> ((n, t') # es, Inl e)
           | (t', Inr _) \<Rightarrow>
               (case seal_entries pol env p es of (es', r) \<Rightarrow> ((n, t') # es', r))))"

definition seal_node :: "seal_policy \<Rightarrow> os \<Rightarrow> path \<Rightarrow> node \<Rightarrow> node \<times> unit result" where
  "seal_node pol env p t = (if is_dir t then seal_entry pol env p t else (t, Inl not_a_directory))"

definition owner_policy :: seal_policy where
  "owner_policy =
     \<lparr>sp_file = owner_mode True, sp_dir = mode_500, sp_symlink = ''sealed tree contains a symlink'',
      sp_special = ''sealed tree contains a special file''\<rparr>"

definition role_policy :: seal_policy where
  "role_policy =
     \<lparr>sp_file = role_mode, sp_dir = mode_555, sp_symlink = ''role input tree contains a symlink'',
      sp_special = ''role input tree contains a special file''\<rparr>"

definition seal_tree_read_only :: "os \<Rightarrow> path \<Rightarrow> node \<Rightarrow> node \<times> unit result" where
  "seal_tree_read_only = seal_node owner_policy"

definition seal_role_input_tree :: "os \<Rightarrow> path \<Rightarrow> node \<Rightarrow> node \<times> unit result" where
  "seal_role_input_tree = seal_node role_policy"

subsection \<open>Removal\<close>

text \<open>
  The inner function: what is left of the tree, the targets of the symbolic links whose mode it set
  to 600 (\<open>set_permissions\<close> follows a link, and its result is ignored), and the result.
\<close>

type_synonym removal = "node option \<times> string list \<times> unit result"

fun remove_entry :: "os \<Rightarrow> path \<Rightarrow> node \<Rightarrow> removal"
  and remove_entries :: "os \<Rightarrow> path \<Rightarrow> entries \<Rightarrow> entries \<times> string list \<times> unit result" where
  "remove_entry env p (Directory m es) =
     (case call env (Chmod p) of
        Inl e \<Rightarrow> (Some (Directory m es), [], Inl e)
      | Inr _ \<Rightarrow>
          (case call env (ReadDir p) of
             Inl e \<Rightarrow> (Some (Directory mode_700 es), [], Inl e)
           | Inr _ \<Rightarrow>
               (case remove_entries env p es of
                  (es', ts, Inl e) \<Rightarrow> (Some (Directory mode_700 es'), ts, Inl e)
                | (es', ts, Inr _) \<Rightarrow>
                    (case call env (RemoveDir p) of
                       Inl e \<Rightarrow> (Some (Directory mode_700 es'), ts, Inl e)
                     | Inr _ \<Rightarrow> (None, ts, Inr ())))))"
| "remove_entry env p (RegFile m l b) =
     (case call env (RemoveFile p) of
        Inl e \<Rightarrow> (Some (RegFile (if call env (Chmod p) = Inr () then mode_600 else m) l b), [], Inl e)
      | Inr _ \<Rightarrow> (None, [], Inr ()))"
| "remove_entry env p (Symlink x) =
     (case call env (RemoveFile p) of
        Inl e \<Rightarrow> (Some (Symlink x), (if call env (Chmod p) = Inr () then [x] else []), Inl e)
      | Inr _ \<Rightarrow> (None, (if call env (Chmod p) = Inr () then [x] else []), Inr ()))"
| "remove_entry env p SpecialFile =
     (case call env (RemoveFile p) of
        Inl e \<Rightarrow> (Some SpecialFile, [], Inl e)
      | Inr _ \<Rightarrow> (None, [], Inr ()))"
| "remove_entries env p [] = ([], [], Inr ())"
| "remove_entries env p ((n, t) # es) =
     (case call env (EntryAt (p @ [n])) of
        Inl e \<Rightarrow> ((n, t) # es, [], Inl e)
      | Inr _ \<Rightarrow>
          (case remove_entry env (p @ [n]) t of
             (left, ts, Inl e) \<Rightarrow>
               ((case left of None \<Rightarrow> es | Some t' \<Rightarrow> (n, t') # es), ts, Inl e)
           | (left, ts, Inr _) \<Rightarrow>
               (case remove_entries env p es of (es', ts', r) \<Rightarrow>
                  ((case left of None \<Rightarrow> es' | Some t' \<Rightarrow> (n, t') # es'), ts @ ts', r))))"

text \<open>On a root that is no directory, \<open>read_dir\<close> fails after the mode was set.\<close>

definition chmod_root :: "node \<Rightarrow> node" where
  "chmod_root t = (case t of RegFile m l b \<Rightarrow> RegFile mode_700 l b | _ \<Rightarrow> t)"

definition remove_inner :: "os \<Rightarrow> path \<Rightarrow> node \<Rightarrow> removal" where
  "remove_inner env p t =
     (if is_dir t then remove_entry env p t
      else (case call env (Chmod p) of
              Inl e \<Rightarrow> (Some t, [], Inl e)
            | Inr _ \<Rightarrow> (Some (chmod_root t), [], Inl not_a_directory)))"

definition remove_tree :: "os \<Rightarrow> path \<Rightarrow> node option \<Rightarrow> removal" where
  "remove_tree env p x =
     (case x of
        None \<Rightarrow>
          (case fault env (Chmod p) of
             Some NotFound \<Rightarrow> (None, [], Inr ())
           | Some e \<Rightarrow> (None, [], Inl (Io e))
           | None \<Rightarrow> (None, [], Inr ()))
      | Some t \<Rightarrow>
          (case remove_inner env p t of
             (left, ts, Inl (Io NotFound)) \<Rightarrow> (left, ts, Inr ())
           | res \<Rightarrow> res))"

subsection \<open>Plain trees\<close>

text \<open>Directories and regular files only.\<close>

fun plain :: "node \<Rightarrow> bool" where
  "plain (Directory m es) = list_all (\<lambda>x. plain (snd x)) es"
| "plain (RegFile m l b) = True"
| "plain (Symlink x) = False"
| "plain SpecialFile = False"

abbreviation plain_entries :: "entries \<Rightarrow> bool" where
  "plain_entries es \<equiv> list_all (\<lambda>x. plain (snd x)) es"

text \<open>What sealing must not change: everything but the modes, and of a file's mode whether it is
  executable.\<close>

fun shape :: "node \<Rightarrow> node" where
  "shape (Directory m es) = Directory 0 (map (\<lambda>x. (fst x, shape (snd x))) es)"
| "shape (RegFile m l b) = RegFile (if executable_mode m then mode_111 else 0) l b"
| "shape (Symlink x) = Symlink x"
| "shape SpecialFile = SpecialFile"

abbreviation shapes :: "entries \<Rightarrow> entries" where
  "shapes es \<equiv> map (\<lambda>x. (fst x, shape (snd x))) es"

text \<open>Every mode is the one the policy gives.\<close>

fun sealed :: "seal_policy \<Rightarrow> node \<Rightarrow> bool" where
  "sealed pol (Directory m es) = (m = sp_dir pol \<and> list_all (\<lambda>x. sealed pol (snd x)) es)"
| "sealed pol (RegFile m l b) = (m = sp_file pol (executable_mode m))"
| "sealed pol (Symlink x) = False"
| "sealed pol SpecialFile = False"

definition keeps_executable :: "seal_policy \<Rightarrow> bool" where
  "keeps_executable pol = (\<forall>x. executable_mode (sp_file pol x) = x)"

lemma call_Inr [simp]: "call env c = Inr u \<longleftrightarrow> fault env c = None"
  by (simp add: call_def split: option.splits)

lemma call_Inl [simp]: "call env c = Inl e \<longleftrightarrow> (\<exists>k. fault env c = Some k \<and> e = Io k)"
  by (auto simp: call_def split: option.splits)

lemma call_quiet [simp]: "fault_free env \<Longrightarrow> call env c = Inr ()"
  by (simp add: fault_free_def)

lemma executable_modes [simp]:
  "executable_mode mode_700" "executable_mode mode_500" "executable_mode mode_555"
  "\<not> executable_mode mode_600" "\<not> executable_mode mode_400" "\<not> executable_mode mode_444"
  by (simp_all add: executable_mode_def)

lemma policies_keep_executable [simp]:
  "keeps_executable owner_policy" "keeps_executable role_policy"
  by (auto simp: keeps_executable_def owner_policy_def role_policy_def owner_mode_def role_mode_def)

lemma fault_free_call [simp]: "fault_free env \<Longrightarrow> fault env c = None"
  by (simp add: fault_free_def)

lemma chmod_file_shape [simp]:
  "keeps_executable pol \<Longrightarrow>
     shape (fst (chmod_file (sp_file pol) env p (m, l, b))) = shape (RegFile m l b)"
  by (simp add: chmod_file_def keeps_executable_def split: sum.splits)

lemma seal_keeps_shape:
  assumes "keeps_executable pol"
  shows "shape (fst (seal_entry pol env p t)) = shape t"
    and "shapes (fst (seal_entries pol env p es)) = shapes es"
  using assms
  by (induction pol env p t and pol env p es rule: seal_entry_seal_entries.induct)
     (simp_all add: case_prod_beta split: sum.splits, metis prod.collapse)

lemma seal_success:
  assumes "keeps_executable pol"
  shows "snd (seal_entry pol env p t) = Inr () \<Longrightarrow> plain t \<and> sealed pol (fst (seal_entry pol env p t))"
    and "snd (seal_entries pol env p es) = Inr () \<Longrightarrow>
      plain_entries es \<and> list_all (\<lambda>x. sealed pol (snd x)) (fst (seal_entries pol env p es))"
  using assms
  by (induction pol env p t and pol env p es rule: seal_entry_seal_entries.induct)
     (simp_all add: case_prod_beta keeps_executable_def chmod_file_def split: sum.splits, (metis prod.collapse)+)

lemma seal_quiet:
  assumes "fault_free env"
  shows "plain t \<Longrightarrow> snd (seal_entry pol env p t) = Inr ()"
    and "plain_entries es \<Longrightarrow> snd (seal_entries pol env p es) = Inr ()"
  using assms
  by (induction pol env p t and pol env p es rule: seal_entry_seal_entries.induct)
     (auto simp: chmod_file_def split: sum.splits prod.splits)

lemma validate_success:
  shows "validate_entry env p t = Inr () \<Longrightarrow> plain t"
    and "validate_entries env p es = Inr () \<Longrightarrow> plain_entries es"
  by (induction env p t and env p es rule: validate_entry_validate_entries.induct)
     (auto simp: and_then_Inr)

lemma sync_success:
  shows "sync_entry env p t = Inr () \<Longrightarrow> plain t"
    and "sync_entries env p es = Inr () \<Longrightarrow> plain_entries es"
  by (induction env p t and env p es rule: sync_entry_sync_entries.induct)
     (auto simp: and_then_Inr)

lemma sync_quiet:
  assumes "fault_free env"
  shows "plain t \<Longrightarrow> sync_entry env p t = Inr ()"
    and "plain_entries es \<Longrightarrow> sync_entries env p es = Inr ()"
  using assms
  by (induction env p t and env p es rule: sync_entry_sync_entries.induct) auto

lemma validate_quiet:
  assumes "fault_free env"
  shows "plain t \<Longrightarrow> validate_entry env p t = Inr ()"
    and "plain_entries es \<Longrightarrow> validate_entries env p es = Inr ()"
  using assms
  by (induction env p t and env p es rule: validate_entry_validate_entries.induct) auto

subsection \<open>What removal leaves\<close>

fun link_targets :: "node \<Rightarrow> string list" where
  "link_targets (Directory m es) = concat (map (\<lambda>x. link_targets (snd x)) es)"
| "link_targets (RegFile m l b) = []"
| "link_targets (Symlink x) = [x]"
| "link_targets SpecialFile = []"

abbreviation entry_targets :: "entries \<Rightarrow> string list" where
  "entry_targets es \<equiv> concat (map (\<lambda>x. link_targets (snd x)) es)"

lemma remove_success:
  shows "snd (snd (remove_entry env p t)) = Inr () \<Longrightarrow> fst (remove_entry env p t) = None"
    and "snd (snd (remove_entries env p es)) = Inr () \<Longrightarrow> fst (remove_entries env p es) = []"
  by (induction env p t and env p es rule: remove_entry_remove_entries.induct)
     (auto split: sum.splits prod.splits option.splits)

lemma remove_quiet:
  assumes "fault_free env"
  shows "remove_entry env p t = (None, link_targets t, Inr ())"
    and "remove_entries env p es = ([], entry_targets es, Inr ())"
  using assms
  by (induction env p t and env p es rule: remove_entry_remove_entries.induct) simp_all

text \<open>An operating system error is one some call reported, or that the root is no directory.\<close>

lemma remove_faults:
  shows "snd (snd (remove_entry env p t)) = Inl (Io k) \<Longrightarrow> \<exists>c. fault env c = Some k"
    and "snd (snd (remove_entries env p es)) = Inl (Io k) \<Longrightarrow> \<exists>c. fault env c = Some k"
  by (induction env p t and env p es rule: remove_entry_remove_entries.induct)
     (auto split: sum.splits prod.splits option.splits)

lemma remove_tree_gone:
  assumes "snd (snd (remove_tree env p x)) = Inr ()" "\<And>c. fault env c \<noteq> Some NotFound"
  shows "fst (remove_tree env p x) = None"
proof (cases x)
  case None
  with assms show ?thesis by (auto simp: remove_tree_def split: option.splits io_kind.splits)
next
  case (Some t)
  obtain left ts r where r: "remove_inner env p t = (left, ts, r)" by (cases "remove_inner env p t")
  have "r \<noteq> Inl (Io NotFound)"
    using r assms(2) remove_faults(1) [of env p t NotFound]
    by (auto simp: remove_inner_def split: if_splits sum.splits)
  then have "remove_tree env p x = (left, ts, r)"
    using Some r by (auto simp: remove_tree_def split: sum.splits error.splits io_kind.splits)
  with assms(1) r show ?thesis
    using remove_success(1) [of env p t]
    by (auto simp: remove_inner_def split: if_splits sum.splits)
qed

subsection \<open>Properties\<close>

text \<open>
  C12 Sealing a tree never changes what it holds: whatever calls fail, names, contents, links and
  which files are executable stay as they were. When it succeeds, the tree has only directories
  and regular files and every mode is the policy's, and on a plain directory it succeeds unless a
  system call fails. This holds for the owner-only and for the role-input variant.
\<close>

theorem sealing_keeps_content:
  "shape (fst (seal_tree_read_only env p t)) = shape t \<and>
   shape (fst (seal_role_input_tree env p t)) = shape t \<and>
   (snd (seal_tree_read_only env p t) = Inr () \<longrightarrow>
      plain t \<and> sealed owner_policy (fst (seal_tree_read_only env p t))) \<and>
   (snd (seal_role_input_tree env p t) = Inr () \<longrightarrow>
      plain t \<and> sealed role_policy (fst (seal_role_input_tree env p t))) \<and>
   (fault_free env \<and> is_dir t \<and> plain t \<longrightarrow>
      snd (seal_tree_read_only env p t) = Inr () \<and> snd (seal_role_input_tree env p t) = Inr ())"
  using seal_keeps_shape(1) seal_quiet(1)
    seal_success(1) [of owner_policy env p t] seal_success(1) [of role_policy env p t]
  by (auto simp: seal_tree_read_only_def seal_role_input_tree_def seal_node_def)

definition demo_tree :: node where
  "demo_tree = Directory mode_700
     [(''run'', RegFile mode_700 1 ''#!''), (''d'', Directory mode_700 [(''x'', RegFile mode_600 1 ''1'')])]"

theorem sealing_keeps_content_witness:
  "sealed owner_policy (fst (seal_tree_read_only quiet_os [] demo_tree)) \<and>
   sealed role_policy (fst (seal_role_input_tree quiet_os [] demo_tree))"
  using sealing_keeps_content [of quiet_os "[]" demo_tree]
  by (simp add: quiet_fault_free demo_tree_def)

text \<open>
  C13 \<open>remove_tree\<close> removes any tree when no call fails; but on its way it changes the mode of the
  target of every symbolic link in the tree to 600, inside the tree or not. When it returns
  \<open>Ok\<close> and no call reported \<open>NotFound\<close>, nothing is left.
\<close>

theorem remove_tree_effect:
  assumes "is_dir t"
  shows "(fault_free env \<longrightarrow> remove_tree env p (Some t) = (None, link_targets t, Inr ())) \<and>
    ((\<forall>c. fault env c \<noteq> Some NotFound) \<longrightarrow> snd (snd (remove_tree env p (Some t))) = Inr () \<longrightarrow>
       fst (remove_tree env p (Some t)) = None)"
  using assms remove_quiet(1) remove_tree_gone [of env p "Some t"]
  by (simp add: remove_tree_def remove_inner_def)

theorem remove_tree_effect_witness:
  "remove_tree quiet_os [] (Some (Directory mode_700 [(''l'', Symlink ''/etc/hosts'')])) =
     (None, [''/etc/hosts''], Inr ())"
  using remove_tree_effect [of "Directory mode_700 [(''l'', Symlink ''/etc/hosts'')]" quiet_os "[]"]
  by (simp add: quiet_fault_free)

end
