(* ===== verification/Task_Snapshot.thy ===== *)
theory Task_Snapshot
  imports State_Tree Library_Instance
begin

text \<open>
  \<open>task_snapshot.rs\<close>: the content-addressed snapshot of a Task source. The files of a tree are
  listed and checked (\<open>collect\<close>), one digest is computed over them (\<open>tree_digest\<close>), and
  \<open>capture\<close> copies them into a staging directory, checks that nothing changed meanwhile, renames
  it to the artifact directory of its digest and seals it. The source is what other processes make
  it: \<open>source_view\<close> has what it is at each moment \<open>capture\<close> looks at it. Lower-casing a
  Unicode string is a parameter, \<open>lower\<close>.
\<close>

type_synonym walk = "path list \<times> string list"

definition path_text :: "path \<Rightarrow> string" where
  "path_text p = join_with ''/'' p"

definition safe_parts :: "string \<Rightarrow> bool" where
  "safe_parts s = list_all (\<lambda>part. part \<noteq> [] \<and> part \<noteq> ''.'' \<and> part \<noteq> ''..'') (split_char CHR ''/'' s)"

subsection \<open>The files of a tree\<close>

definition check_entry :: "(string \<Rightarrow> string) \<Rightarrow> path \<Rightarrow> node \<Rightarrow> walk \<Rightarrow> walk result" where
  "check_entry lower relative t w =
     (let normalized = path_text relative
      in and_then
           (checks
              [(\<not> (case t of Symlink _ \<Rightarrow> True | _ \<Rightarrow> False), ''snapshot source contains a symlink''),
               (valid_utf8 normalized, ''snapshot path is not UTF-8''),
               (normalized \<noteq> [] \<and> safe_parts normalized, ''snapshot source contains an unsafe path''),
               (lower normalized \<notin> set (snd w), ''snapshot source contains case-colliding paths'')])
           (Inr (fst w, lower normalized # snd w)))"

fun visit_entry :: "(string \<Rightarrow> string) \<Rightarrow> os \<Rightarrow> path \<Rightarrow> path \<Rightarrow> node \<Rightarrow> walk \<Rightarrow> walk result"
  and visit_entries :: "(string \<Rightarrow> string) \<Rightarrow> os \<Rightarrow> path \<Rightarrow> path \<Rightarrow> entries \<Rightarrow> walk \<Rightarrow> walk result" where
  "visit_entry lower env base rel (Directory m es) w =
     and_then (call env (ReadDir (base @ rel))) (visit_entries lower env base rel es w)"
| "visit_entry lower env base rel (RegFile m links b) w =
     and_then (call env (Metadata (base @ rel)))
       (and_then (ensure (links = 1) ''snapshot source contains a hard link'')
          (Inr (fst w @ [rel], snd w)))"
| "visit_entry lower env base rel (Symlink x) w = Inl (Bail ''snapshot source contains a symlink'')"
| "visit_entry lower env base rel SpecialFile w =
     Inl (Bail ''snapshot source contains a special file'')"
| "visit_entries lower env base rel [] w = Inr w"
| "visit_entries lower env base rel ((n, t) # es) w =
     and_then (call env (EntryAt (base @ rel @ [n])))
       (bind_result (check_entry lower (rel @ [n]) t w) (\<lambda>w.
        bind_result (visit_entry lower env base (rel @ [n]) t w) (\<lambda>w.
          visit_entries lower env base rel es w)))"

text \<open>\<open>PathBuf\<close>s are ordered by their components.\<close>

definition collect :: "(string \<Rightarrow> string) \<Rightarrow> os \<Rightarrow> path \<Rightarrow> node \<Rightarrow> path list result" where
  "collect lower env base t =
     (if is_dir t
      then bind_result (visit_entry lower env base [] t ([], [])) (\<lambda>w. Inr (sort (fst w)))
      else Inl not_a_directory)"

subsection \<open>The digest of a tree\<close>

fun node_at :: "node \<Rightarrow> path \<Rightarrow> node option" where
  "node_at t [] = Some t"
| "node_at (Directory m es) (n # p) =
     (case map_of es n of None \<Rightarrow> None | Some t \<Rightarrow> node_at t p)"
| "node_at t (n # p) = None"

definition digest_record :: "string \<Rightarrow> bool \<Rightarrow> string \<Rightarrow> string" where
  "digest_record name executable bytes =
     name @ [CHR 0x00] @ [if executable then CHR 0x01 else CHR 0x00] @ [CHR 0x00] @ bytes @ [CHR 0x00]"

definition file_record :: "os \<Rightarrow> path \<Rightarrow> node \<Rightarrow> path \<Rightarrow> string result" where
  "file_record env base tree relative =
     (case node_at tree relative of
        Some (RegFile m l b) \<Rightarrow>
          bind_result (is_executable env (base @ relative) m) (\<lambda>x.
            and_then (call env (ReadFile (base @ relative)))
              (Inr (digest_record (path_text relative) x b)))
      | Some _ \<Rightarrow> Inl (Io (OtherIo ''is a directory''))
      | None \<Rightarrow> Inl (Io NotFound))"

definition tree_digest :: "library \<Rightarrow> os \<Rightarrow> path \<Rightarrow> node \<Rightarrow> path list \<Rightarrow> string result" where
  "tree_digest L env base tree files =
     bind_result (map_results (file_record env base tree) files) (\<lambda>rs.
       Inr (digest_bytes L (concat rs)))"

definition real_directory :: "os \<Rightarrow> path \<Rightarrow> node option \<Rightarrow> bool result" where
  "real_directory env p x =
     (case fault env (Lstat p) of
        Some NotFound \<Rightarrow> Inr False
      | Some e \<Rightarrow> Inl (Io e)
      | None \<Rightarrow>
          (case x of None \<Rightarrow> Inr False
           | Some t \<Rightarrow>
               and_then (ensure (is_dir t) ''Bench artifact path is not a real directory: {}'') (Inr True)))"

definition verify_with ::
  "library \<Rightarrow> (string \<Rightarrow> string) \<Rightarrow> os \<Rightarrow> path \<Rightarrow> node \<Rightarrow> string \<Rightarrow> unit result" where
  "verify_with L lower env p t expected =
     bind_result (collect lower env p t) (\<lambda>files.
     bind_result (tree_digest L env p t files) (\<lambda>actual.
       ensure (actual = expected) ''artifact tree digest mismatch''))"

definition verify ::
  "library \<Rightarrow> (string \<Rightarrow> string) \<Rightarrow> os \<Rightarrow> path \<Rightarrow> node option \<Rightarrow> string \<Rightarrow> unit result" where
  "verify L lower env p x expected =
     bind_result (real_directory env p x) (\<lambda>present.
       and_then (ensure present ''artifact directory is missing'')
         (case x of None \<Rightarrow> Inl (Io NotFound) | Some t \<Rightarrow> verify_with L lower env p t expected))"

subsection \<open>Capture\<close>

text \<open>A file put into a tree; the directories above it are made as needed.\<close>

fun put_file :: "mode \<Rightarrow> path \<Rightarrow> node \<Rightarrow> node \<Rightarrow> node" where
  "put_file dm [] x t = x"
| "put_file dm (n # p) x (Directory m es) =
     Directory m
       (case map_of es n of
          None \<Rightarrow> es @ [(n, put_file dm p x (Directory dm []))]
        | Some t \<Rightarrow> map (\<lambda>(k, v). if k = n then (k, put_file dm p x t) else (k, v)) es)"
| "put_file dm (n # p) x t = t"

text \<open>What the source is: its canonical path, the tree at the first look, each file as it is when it
  is copied, the tree at the last look; and what another process put at the destination before the
  rename.\<close>

record source_view =
  sv_path :: "path result"
  sv_first :: node
  sv_copied :: "path \<Rightarrow> node option"
  sv_last :: node
  sv_rival :: "node option"

record artifact_state =
  as_fs :: fs
  as_trees :: "path \<Rightarrow> node option"

definition copy_file ::
  "os \<Rightarrow> source_view \<Rightarrow> path \<Rightarrow> path \<Rightarrow> node \<Rightarrow> node \<times> unit result" where
  "copy_file env src staging relative t =
     (let target = staging @ relative;
          changed = Inl (Bail ''source_changed: Task source changed during capture: {error}'')
      in case call env (MkDir (butlast target)) of
           Inl e \<Rightarrow> (t, Inl e)
         | Inr _ \<Rightarrow>
             (case (sv_copied src relative, call env (CopyFile target)) of
                (Some (RegFile m l b), Inr _) \<Rightarrow>
                  (case set_owner_only_file env target False (m, 1, b) of
                     (f, r) \<Rightarrow> (put_file (default_dir_mode env) relative f t, r))
              | _ \<Rightarrow> (t, changed)))"

fun copy_files ::
  "os \<Rightarrow> source_view \<Rightarrow> path \<Rightarrow> path list \<Rightarrow> node \<Rightarrow> node \<times> unit result" where
  "copy_files env src staging [] t = (t, Inr ())"
| "copy_files env src staging (f # fs) t =
     (case copy_file env src staging f t of
        (t', Inl e) \<Rightarrow> (t', Inl e)
      | (t', Inr _) \<Rightarrow> copy_files env src staging fs t')"

definition source_changed :: "'a result \<Rightarrow> 'a result" where
  "source_changed r =
     (case r of
        Inl _ \<Rightarrow> Inl (Bail ''source_changed: Task source changed during capture: {error:#}'')
      | Inr x \<Rightarrow> Inr x)"

definition ensure_stable_generation ::
  "library \<Rightarrow> (string \<Rightarrow> string) \<Rightarrow> os \<Rightarrow> path \<Rightarrow> node \<Rightarrow> path \<Rightarrow> node \<Rightarrow> path list \<Rightarrow> string \<Rightarrow> unit result"
  where
  "ensure_stable_generation L lower env base source staging captured files digest =
     bind_result (collect lower env staging captured) (\<lambda>captured_files.
     bind_result (tree_digest L env staging captured captured_files) (\<lambda>captured_digest.
     bind_result (source_changed (collect lower env base source)) (\<lambda>final_files.
     bind_result (source_changed (tree_digest L env base source final_files)) (\<lambda>final_digest.
       ensure (files = final_files \<and> digest = captured_digest \<and> digest = final_digest)
         ''source_changed: Task source changed during capture''))))"

text \<open>\<open>rename\<close> of a directory replaces an empty directory, and nothing else.\<close>

definition rename_blocked :: "node option \<Rightarrow> bool" where
  "rename_blocked x =
     (case x of None \<Rightarrow> False | Some (Directory m es) \<Rightarrow> es \<noteq> [] | Some _ \<Rightarrow> True)"

text \<open>The closure \<open>publish\<close>: what is at the staging path and at the destination afterwards.\<close>

definition publish_snapshot ::
  "library \<Rightarrow> (string \<Rightarrow> string) \<Rightarrow> os \<Rightarrow> source_view \<Rightarrow> path \<Rightarrow> path \<Rightarrow> path \<Rightarrow> path list \<Rightarrow> string \<Rightarrow>
     (node option \<times> node option) \<times> unit result" where
  "publish_snapshot L lower env src base staging destination files digest =
     (case copy_files env src staging files (Directory mode_700 []) of
        (t, Inl e) \<Rightarrow> ((Some t, sv_rival src), Inl e)
      | (t, Inr _) \<Rightarrow>
          (case and_then
                  (ensure_stable_generation L lower env base (sv_last src) staging t files digest)
                  (with_context ''could not sync artifact staging'' (sync_tree env staging t)) of
             Inl e \<Rightarrow> ((Some t, sv_rival src), Inl e)
           | Inr _ \<Rightarrow>
               (if fault env (RenameTo destination) = None \<and> \<not> rename_blocked (sv_rival src)
                then ((None, Some t), Inr ())
                else
                  ((Some t, sv_rival src),
                   bind_result (real_directory env destination (sv_rival src)) (\<lambda>present.
                     if present then Inr ()
                     else with_context ''could not publish artifact staging''
                            (Inl (Io (OtherIo ''rename''))))))))"

definition clean_staging :: "os \<Rightarrow> path \<Rightarrow> node option \<Rightarrow> node option \<times> unit result" where
  "clean_staging env staging x =
     (case x of
        None \<Rightarrow> (None, Inr ())
      | Some t \<Rightarrow>
          (case call env (RemoveDir staging) of
             Inl e \<Rightarrow> (Some t, with_context ''could not clean artifact staging'' (Inl e))
           | Inr _ \<Rightarrow> (None, Inr ())))"

definition finish_snapshot ::
  "library \<Rightarrow> (string \<Rightarrow> string) \<Rightarrow> os \<Rightarrow> path \<Rightarrow> string \<Rightarrow> node option \<Rightarrow> node option \<times> unit result" where
  "finish_snapshot L lower env destination digest x =
     (case with_context ''published artifact failed verification'' (verify L lower env destination x digest) of
        Inl e \<Rightarrow> (x, Inl e)
      | Inr _ \<Rightarrow>
          (case x of None \<Rightarrow> (x, Inr ())
           | Some t \<Rightarrow>
               (case seal_tree_read_only env destination t of
                  (t', r) \<Rightarrow>
                    (Some t',
                     and_then (with_context ''could not seal published artifact'' r)
                       (with_context ''could not sync artifact root'' (call env (SyncDir [''artifacts''])))))))"

definition allocate_staging :: "os \<Rightarrow> fs \<Rightarrow> fs \<times> path result" where
  "allocate_staging env f =
     (case secure_directory env [''artifacts''] f of
        (f, r) \<Rightarrow>
          then_do (f, with_context ''could not secure artifact root'' r) (\<lambda>f.
            case create_unique_staging_directory env [''artifacts''] ''snapshot'' f of
              (f, r) \<Rightarrow> (f, with_context ''could not allocate artifact staging directory'' r)))"

text \<open>The artifact exists: it is verified and sealed again.\<close>

definition capture_existing ::
  "library \<Rightarrow> (string \<Rightarrow> string) \<Rightarrow> os \<Rightarrow> path \<Rightarrow> string \<Rightarrow> node option \<Rightarrow> node option \<times> unit result" where
  "capture_existing L lower env destination digest x =
     (case verify L lower env destination x digest of
        Inl e \<Rightarrow> (x, Inl e)
      | Inr _ \<Rightarrow>
          (case x of None \<Rightarrow> (x, Inr ())
           | Some t \<Rightarrow>
               (case seal_tree_read_only env destination t of (t', r) \<Rightarrow> (Some t', r))))"

definition capture_new ::
  "library \<Rightarrow> (string \<Rightarrow> string) \<Rightarrow> os \<Rightarrow> source_view \<Rightarrow> path \<Rightarrow> path list \<Rightarrow> string \<Rightarrow> path \<Rightarrow>
     artifact_state \<Rightarrow> artifact_state \<times> unit result" where
  "capture_new L lower env src base files digest destination s =
     (case allocate_staging env (as_fs s) of
        (f, Inl e) \<Rightarrow> (s\<lparr>as_fs := f\<rparr>, Inl e)
      | (f, Inr staging) \<Rightarrow>
          (case publish_snapshot L lower env src base staging destination files digest of
             ((left, placed), published) \<Rightarrow>
               (case clean_staging env staging left of
                  (left', cleaned) \<Rightarrow>
                    (let s' = s\<lparr>as_fs := f,
                                as_trees := (as_trees s)(staging := left', destination := placed)\<rparr>
                     in case and_then cleaned published of
                          Inl e \<Rightarrow> (s', Inl e)
                        | Inr _ \<Rightarrow>
                            (case finish_snapshot L lower env destination digest placed of
                               (placed', r) \<Rightarrow>
                                 (s'\<lparr>as_trees := (as_trees s')(destination := placed')\<rparr>, r))))))"

definition capture_target ::
  "library \<Rightarrow> (string \<Rightarrow> string) \<Rightarrow> os \<Rightarrow> source_view \<Rightarrow> artifact_state \<Rightarrow>
     (path \<times> path list \<times> string \<times> path \<times> bool) result" where
  "capture_target L lower env src s =
     bind_result (sv_path src) (\<lambda>base.
     bind_result (collect lower env base (sv_first src)) (\<lambda>files.
     bind_result (tree_digest L env base (sv_first src) files) (\<lambda>digest.
     bind_result (artifact_path digest) (\<lambda>destination.
     bind_result (real_directory env destination (as_trees s destination)) (\<lambda>present.
       Inr (base, files, digest, destination, present))))))"

definition capture ::
  "library \<Rightarrow> (string \<Rightarrow> string) \<Rightarrow> os \<Rightarrow> source_view \<Rightarrow> artifact_state \<Rightarrow> artifact_state \<times> string result" where
  "capture L lower env src s =
     (case capture_target L lower env src s of
        Inl e \<Rightarrow> (s, Inl e)
      | Inr (base, files, digest, destination, present) \<Rightarrow>
          (if present
           then (case capture_existing L lower env destination digest (as_trees s destination) of
                   (x, r) \<Rightarrow>
                     (s\<lparr>as_trees := (as_trees s)(destination := x)\<rparr>, and_then r (Inr digest)))
           else (case capture_new L lower env src base files digest destination s of
                   (s', r) \<Rightarrow> (s', and_then r (Inr digest)))))"

subsection \<open>What the listing and the digest depend on\<close>

lemma visit_shape:
  assumes "fault_free env'"
  shows "visit_entry lower env base rel t w = Inr w' \<Longrightarrow> shape t' = shape t \<Longrightarrow>
      visit_entry lower env' base' rel t' w = Inr w'"
    and "visit_entries lower env base rel es w = Inr w' \<Longrightarrow> shapes es' = shapes es \<Longrightarrow>
      visit_entries lower env' base' rel es' w = Inr w'"
  using assms
proof (induction lower env base rel t w and lower env base rel es w
    arbitrary: t' w' and es' w' rule: visit_entry_visit_entries.induct)
  case (1 lower env base rel m es w)
  then show ?case by (cases t') (auto simp: and_then_Inr)
next
  case (2 lower env base rel m l b w)
  then show ?case by (cases t') (auto simp: and_then_Inr ensure_Inr)
next
  case (6 lower env base rel n t es w)
  from 6(4) obtain t1 es1 where es': "es' = (n, t1) # es1" "shape t1 = shape t" "shapes es1 = shapes es"
    by auto
  have "check_entry lower r t1 w = check_entry lower r t w" for r w
    using es'(2) by (cases t; cases t1) (simp_all add: check_entry_def)
  moreover from 6(3) obtain w1 w2 where
    w: "check_entry lower (rel @ [n]) t w = Inr w1" "visit_entry lower env base (rel @ [n]) t w1 = Inr w2"
      "visit_entries lower env base rel es w2 = Inr w'"
    by (auto simp: and_then_Inr bind_result_Inr)
  moreover have "visit_entry lower env' base' (rel @ [n]) t1 w1 = Inr w2"
    using 6(1) w(2) es'(2) 6(5) by blast
  moreover have "visit_entries lower env' base' rel es1 w2 = Inr w'"
    using 6(2) w(3) es'(3) 6(5) by blast
  ultimately show ?case using es'(1) 6(5) by simp
qed (auto simp: and_then_Inr)

lemma is_dir_shape: "is_dir (shape t) = is_dir t"
  by (cases t) simp_all

lemma collect_shape:
  "collect lower env base t = Inr fs \<Longrightarrow> shape t' = shape t \<Longrightarrow> fault_free env' \<Longrightarrow>
     collect lower env' base' t' = Inr fs"
  using visit_shape(1) [of env' lower env base "[]" t "([], [])"] is_dir_shape [of t] is_dir_shape [of t']
  by (fastforce simp: collect_def bind_result_Inr split: if_splits)

lemma map_of_shapes: "map_of (shapes es) n = map_option shape (map_of es n)"
  by (induction es) auto

lemma node_at_shape: "node_at (shape t) p = map_option shape (node_at t p)"
  by (induction t p rule: node_at.induct) (auto simp: map_of_shapes split: option.splits)

lemma file_record_shape:
  assumes "file_record env base t f = Inr r" "shape t' = shape t" "fault_free env'"
  shows "file_record env' base' t' f = Inr r"
proof -
  from assms(1) obtain m l b where n: "node_at t f = Some (RegFile m l b)"
    and r: "r = digest_record (path_text f) (executable_mode m) b"
    by (auto simp: file_record_def is_executable_def bind_result_Inr and_then_Inr split: option.splits node.splits)
  have "map_option shape (node_at t' f) = Some (shape (RegFile m l b))"
    using assms(2) n by (metis node_at_shape option.simps(9))
  then obtain m' where "node_at t' f = Some (RegFile m' l b)" "executable_mode m' = executable_mode m"
    by (cases "node_at t' f") (auto simp: executable_mode_def elim: shape.elims split: if_splits)
  with r assms(3) show ?thesis by (simp add: file_record_def is_executable_def)
qed

lemma tree_digest_shape:
  assumes "tree_digest L env base t fs = Inr d" "shape t' = shape t" "fault_free env'"
  shows "tree_digest L env' base' t' fs = Inr d"
proof -
  from assms(1) obtain rs where rs: "map_results (file_record env base t) fs = Inr rs"
    and d: "d = digest_bytes L (concat rs)"
    by (auto simp: tree_digest_def bind_result_Inr)
  have "map_results (file_record env' base' t') fs = Inr rs"
    using rs file_record_shape [OF _ assms(2,3)] by (auto simp: map_results_Inr)
  with d show ?thesis by (simp add: tree_digest_def)
qed

lemma verify_shape:
  assumes "verify_with L lower env base t d = Inr ()" "shape t' = shape t" "fault_free env'"
  shows "verify_with L lower env' base' t' d = Inr ()"
proof -
  from assms(1) obtain fs where fs: "collect lower env base t = Inr fs" "tree_digest L env base t fs = Inr d"
    by (auto simp: verify_with_def bind_result_Inr ensure_Inr)
  show ?thesis
    using collect_shape [OF fs(1) assms(2,3)] tree_digest_shape [OF fs(2) assms(2,3)]
    by (simp add: verify_with_def)
qed

subsection \<open>What the digest binds\<close>

text \<open>What a digest is computed over: of each file its path, whether it is executable, its bytes.\<close>

type_synonym listing = "(string \<times> bool \<times> string) list"

definition file_facts :: "node \<Rightarrow> path \<Rightarrow> string \<times> bool \<times> string" where
  "file_facts t f =
     (case node_at t f of
        Some (RegFile m l b) \<Rightarrow> (path_text f, executable_mode m, b)
      | _ \<Rightarrow> (path_text f, False, []))"

definition encode_listing :: "listing \<Rightarrow> string" where
  "encode_listing xs = concat (map (\<lambda>(n, x, b). digest_record n x b) xs)"

definition nul_free :: "listing \<Rightarrow> bool" where
  "nul_free xs = list_all (\<lambda>(n, x, b). CHR 0x00 \<notin> set n \<and> CHR 0x00 \<notin> set b) xs"

lemma until_nul:
  "CHR 0x00 \<notin> set a \<Longrightarrow> CHR 0x00 \<notin> set b \<Longrightarrow>
     a @ CHR 0x00 # r = b @ CHR 0x00 # s \<longleftrightarrow> a = b \<and> r = s"
proof (induction a arbitrary: b)
  case Nil
  then show ?case by (cases b) auto
next
  case (Cons x a)
  then show ?case by (cases b) auto
qed

lemma encode_listing_inj:
  "nul_free xs \<Longrightarrow> nul_free ys \<Longrightarrow> encode_listing xs = encode_listing ys \<Longrightarrow> xs = ys"
proof (induction xs arbitrary: ys)
  case Nil
  then show ?case
    by (cases ys) (auto simp: encode_listing_def digest_record_def)
next
  case (Cons x xs)
  obtain n e b where x: "x = (n, e, b)" by (cases x)
  show ?case
  proof (cases ys)
    case Nil
    with Cons.prems x show ?thesis by (simp add: encode_listing_def digest_record_def)
  next
    case (Cons y ys')
    obtain n' e' b' where y: "y = (n', e', b')" by (cases y)
    have enc: "encode_listing ((n, e, b) # zs) =
        n @ CHR 0x00 # (if e then CHR 0x01 else CHR 0x00) # CHR 0x00 # b @ CHR 0x00 # encode_listing zs"
      for n e b zs by (simp add: encode_listing_def digest_record_def)
    have "n = n' \<and> e = e' \<and> b = b' \<and> encode_listing xs = encode_listing ys'"
      using Cons.prems x y Cons
      by (auto simp: enc until_nul nul_free_def split: if_splits)
    with Cons.IH [of ys'] Cons.prems x y Cons show ?thesis by (simp add: nul_free_def)
  qed
qed

lemma tree_digest_listing:
  assumes "tree_digest L env base t fs = Inr d"
  shows "d = digest_bytes L (encode_listing (map (file_facts t) fs))"
proof -
  from assms obtain rs where rs: "map_results (file_record env base t) fs = Inr rs"
    and d: "d = digest_bytes L (concat rs)"
    by (auto simp: tree_digest_def bind_result_Inr)
  have "r = (\<lambda>(n, x, b). digest_record n x b) (file_facts t f)"
    if "file_record env base t f = Inr r" for f r
    using that
    by (auto simp: file_record_def file_facts_def is_executable_def bind_result_Inr and_then_Inr
        split: option.splits node.splits)
  then have "rs = map (\<lambda>f. (\<lambda>(n, x, b). digest_record n x b) (file_facts t f)) fs"
    using rs by (auto simp: map_results_Inr intro!: nth_equalityI)
  with d show ?thesis by (simp add: encode_listing_def comp_def)
qed

lemma verify_Inr:
  "verify L lower env p x d = Inr () \<Longrightarrow>
     \<exists>t. x = Some t \<and> is_dir t \<and> verify_with L lower env p t d = Inr ()"
  by (auto simp: verify_def real_directory_def bind_result_Inr and_then_Inr ensure_Inr
      split: option.splits io_kind.splits)

lemma verify_quiet:
  "is_dir t \<Longrightarrow> verify_with L lower env p t d = Inr () \<Longrightarrow> fault_free env \<Longrightarrow>
     verify L lower env p (Some t) d = Inr ()"
  by (simp add: verify_def real_directory_def)

text \<open>A tree that was verified and then sealed still verifies.\<close>

lemma verified_and_sealed:
  assumes "verify L lower env p (Some t) d = Inr ()" "seal_tree_read_only env p t = (t', Inr ())"
    "fault_free env'"
  shows "sealed owner_policy t' \<and> verify L lower env' p (Some t') d = Inr ()"
proof -
  from assms(2) have s: "shape t' = shape t" "sealed owner_policy t'"
    using seal_keeps_shape(1) [of owner_policy env p t] seal_success(1) [of owner_policy env p t]
    by (auto simp: seal_tree_read_only_def seal_node_def split: if_splits)
  from verify_Inr [OF assms(1)] have "is_dir t" "verify_with L lower env p t d = Inr ()" by auto
  with s verify_shape [OF _ s(1) assms(3)] assms(3) is_dir_shape [of t] is_dir_shape [of t']
  show ?thesis by (auto intro: verify_quiet)
qed

lemma capture_existing_Inr:
  assumes "capture_existing L lower env p d x = (x', Inr ())"
  shows "\<exists>t t'. x = Some t \<and> x' = Some t' \<and> verify L lower env p (Some t) d = Inr () \<and>
    seal_tree_read_only env p t = (t', Inr ())"
  using assms verify_Inr [of L lower env p x d]
  by (auto simp: capture_existing_def split: sum.splits option.splits prod.splits)

lemma finish_snapshot_Inr:
  assumes "finish_snapshot L lower env p d x = (x', Inr ())"
  shows "\<exists>t t'. x = Some t \<and> x' = Some t' \<and> verify L lower env p (Some t) d = Inr () \<and>
    seal_tree_read_only env p t = (t', Inr ())"
proof -
  from assms have v: "verify L lower env p x d = Inr ()"
    by (cases "verify L lower env p x d") (auto simp: finish_snapshot_def)
  from verify_Inr [OF v] obtain t where "x = Some t" by blast
  with assms v show ?thesis
    by (cases "seal_tree_read_only env p t")
       (auto simp: finish_snapshot_def and_then_Inr with_context_Inr)
qed

lemma capture_new_Inr:
  assumes "capture_new L lower env src base files d p s = (s', Inr ())"
  shows "\<exists>placed placed'. finish_snapshot L lower env p d placed = (placed', Inr ()) \<and>
    as_trees s' p = placed'"
proof -
  obtain f a where a: "allocate_staging env (as_fs s) = (f, a)" by (cases "allocate_staging env (as_fs s)")
  with assms obtain staging where st: "a = Inr staging"
    by (cases a) (auto simp: capture_new_def)
  obtain left placed published where
    pub: "publish_snapshot L lower env src base staging p files d = ((left, placed), published)"
    by (metis surj_pair)
  obtain left' cleaned where cl: "clean_staging env staging left = (left', cleaned)"
    by (metis surj_pair)
  from assms a st pub cl have "and_then cleaned published = Inr ()"
    by (cases "and_then cleaned published") (auto simp: capture_new_def)
  with assms a st pub cl show ?thesis
    by (cases "finish_snapshot L lower env p d placed") (auto simp: capture_new_def)
qed

subsection \<open>Properties\<close>

text \<open>
  C14 What \<open>capture\<close> promises: whenever it returns a digest, whatever other processes did to the
  source or to the destination meanwhile and whichever calls failed, the artifact directory of
  that digest holds a sealed tree, and verifying it against the digest succeeds.
\<close>
theorem captured_snapshot_verifies:
  assumes "capture L lower env src s = (s', Inr d)" "fault_free env'"
  shows "\<exists>p t. artifact_path d = Inr p \<and> as_trees s' p = Some t \<and> sealed owner_policy t \<and>
    verify L lower env' p (Some t) d = Inr ()"
proof -
  obtain base files p present where start: "capture_target L lower env src s = Inr (base, files, d, p, present)"
    using assms(1)
    by (auto simp: capture_def and_then_Inr split: sum.splits prod.splits if_splits)
  then have path: "artifact_path d = Inr p" by (auto simp: capture_target_def bind_result_Inr)
  have "\<exists>t t'. as_trees s' p = Some t' \<and> verify L lower env p (Some t) d = Inr () \<and>
      seal_tree_read_only env p t = (t', Inr ())"
  proof (cases present)
    case True
    then obtain x where "capture_existing L lower env p d (as_trees s p) = (x, Inr ())"
        "as_trees s' p = x"
      using assms(1) start by (auto simp: capture_def and_then_Inr split: prod.splits)
    with capture_existing_Inr show ?thesis by blast
  next
    case False
    then have "capture_new L lower env src base files d p s = (s', Inr ())"
      using assms(1) start by (auto simp: capture_def and_then_Inr split: prod.splits)
    from capture_new_Inr [OF this] finish_snapshot_Inr show ?thesis by metis
  qed
  with verified_and_sealed [OF _ _ assms(2)] path show ?thesis by blast
qed

definition demo_source :: node where
  "demo_source = Directory mode_700 [(''a'', RegFile mode_700 1 ''x'')]"

definition demo_view :: source_view where
  "demo_view = \<lparr>sv_path = Inr [''src''], sv_first = demo_source, sv_copied = node_at demo_source,
     sv_last = demo_source, sv_rival = None\<rparr>"

definition demo_artifacts :: artifact_state where
  "demo_artifacts = \<lparr>as_fs = empty_fs, as_trees = (\<lambda>p. None)\<rparr>"

definition demo_capture :: "artifact_state \<times> string result" where
  "demo_capture = capture toy_library (map to_ascii_lower) quiet_os demo_view demo_artifacts"

lemma demo_captured: "snd demo_capture = Inr (digest_bytes toy_library [])"
  by code_simp

theorem captured_snapshot_verifies_witness:
  "\<exists>p t. as_trees (fst demo_capture) p = Some t \<and> sealed owner_policy t"
proof -
  have "capture toy_library (map to_ascii_lower) quiet_os demo_view demo_artifacts =
      (fst demo_capture, Inr (digest_bytes toy_library []))"
    using demo_captured by (simp add: demo_capture_def prod_eq_iff)
  from captured_snapshot_verifies [OF this quiet_fault_free] show ?thesis by blast
qed

text \<open>
  C15 What the digest of a snapshot binds: two trees that both verify against one digest have the
  same files (paths, executable bits, contents) as long as no name and no content has a NUL byte,
  or their encodings are an explicit SHA-256 collision.
\<close>

theorem snapshot_digest_binds:
  assumes "verify L lower env p x d = Inr ()" "verify L lower' env' p' x' d = Inr ()"
  shows "\<exists>t fs t' fs'. x = Some t \<and> collect lower env p t = Inr fs \<and>
    x' = Some t' \<and> collect lower' env' p' t' = Inr fs' \<and>
    (nul_free (map (file_facts t) fs) \<longrightarrow> nul_free (map (file_facts t') fs') \<longrightarrow>
       map (file_facts t) fs = map (file_facts t') fs' \<or>
       sha_collision L (encode_listing (map (file_facts t) fs)) (encode_listing (map (file_facts t') fs')))"
proof -
  have "\<exists>t fs. x = Some t \<and> collect lower env p t = Inr fs \<and>
      d = digest_bytes L (encode_listing (map (file_facts t) fs))"
    if "verify L lower env p x d = Inr ()" for lower env p x
    using verify_Inr [OF that] tree_digest_listing
    by (fastforce simp: verify_with_def bind_result_Inr ensure_Inr)
  from this [OF assms(1)] this [OF assms(2)] show ?thesis
    by (metis digest_bytes_binds encode_listing_inj)
qed

theorem snapshot_digest_binds_witness:
  "\<exists>fs. collect (map to_ascii_lower) quiet_os [] demo_source = Inr fs \<and>
     nul_free (map (file_facts demo_source) fs)"
proof -
  have v: "verify toy_library (map to_ascii_lower) quiet_os [] (Some demo_source)
      (digest_bytes toy_library []) = Inr ()" by code_simp
  have "collect (map to_ascii_lower) quiet_os [] demo_source = Inr [[''a'']]" by code_simp
  moreover have "nul_free (map (file_facts demo_source) [[''a'']])" by code_simp
  ultimately show ?thesis using snapshot_digest_binds [OF v v] by auto
qed

text \<open>
  C16 Without that condition the digest binds nothing of the file boundaries: a tree with the single
  file \<open>a\<close>, whose content holds NUL bytes, and a tree with the two files \<open>a\<close> and \<open>b\<close> have one
  digest, whatever the hash function is.
\<close>

definition one_file :: node where
  "one_file = Directory mode_700
     [(''a'', RegFile mode_600 1
        (''X'' @ [CHR 0x00] @ ''b'' @ [CHR 0x00, CHR 0x00, CHR 0x00] @ ''Y''))]"

definition two_files :: node where
  "two_files = Directory mode_700 [(''a'', RegFile mode_600 1 ''X''), (''b'', RegFile mode_600 1 ''Y'')]"

theorem snapshot_digest_ambiguous:
  "\<exists>d. verify_with L (map to_ascii_lower) quiet_os [] one_file d = Inr () \<and>
       verify_with L (map to_ascii_lower) quiet_os [] two_files d = Inr ()"
proof -
  have c: "collect (map to_ascii_lower) quiet_os [] one_file = Inr [[''a'']]"
      "collect (map to_ascii_lower) quiet_os [] two_files = Inr [[''a''], [''b'']]"
    by code_simp+
  have r: "file_record quiet_os [] one_file [''a''] =
        Inr (''a'' @ [CHR 0x00, CHR 0x00, CHR 0x00] @ ''X'' @ [CHR 0x00] @ ''b'' @
             [CHR 0x00, CHR 0x00, CHR 0x00] @ ''Y'' @ [CHR 0x00])"
      "file_record quiet_os [] two_files [''a''] =
        Inr (''a'' @ [CHR 0x00, CHR 0x00, CHR 0x00] @ ''X'' @ [CHR 0x00])"
      "file_record quiet_os [] two_files [''b''] =
        Inr (''b'' @ [CHR 0x00, CHR 0x00, CHR 0x00] @ ''Y'' @ [CHR 0x00])"
    by code_simp+
  show ?thesis by (simp add: verify_with_def c tree_digest_def r ensure_Inr)
qed

end
