(* ===== verification/Submission.thy ===== *)
theory Submission
  imports Task_Snapshot "HOL-Library.Multiset"
begin

text \<open>
  \<open>submission.rs\<close>: which files of a candidate's terminal workspace become its submission. The
  glob matcher is the crate \<open>globset\<close>: which patterns it accepts and what they match is an
  argument. \<open>usize\<close> and \<open>u64\<close> are 64-bit words.
\<close>

record globs =
  glob_ok :: "string \<Rightarrow> bool"
  glob_set_ok :: "string list \<Rightarrow> bool"
  glob_match :: "string \<Rightarrow> string \<Rightarrow> bool"

record submission_policy =
  sub_include :: "string list"
  sub_exclude :: "string list"
  max_files :: u64
  max_total_bytes :: u64
  max_file_bytes :: u64

subsection \<open>Patterns\<close>

definition validate_pattern :: "string \<Rightarrow> string result" where
  "validate_pattern p =
     (let p = trim_end_char CHR ''/'' p
      in and_then
           (checks
              [(p \<noteq> [], ''submission pattern is empty''),
               (\<not> starts_with p ''/'' \<and> CHR 0x5C \<notin> set p,
                ''submission pattern is not relative POSIX syntax''),
               (list_all (\<lambda>seg. seg \<noteq> ''..'' \<and> seg \<noteq> []) (split_char CHR ''/'' p),
                ''submission pattern contains an unsafe path segment'')])
           (Inr p))"

text \<open>The globs one pattern stands for.\<close>

definition pattern_globs :: "string \<Rightarrow> string list" where
  "pattern_globs p =
     (if p = ''.'' \<or> p = ''**'' then [''**'']
      else if list_ex (\<lambda>c. c \<in> {CHR ''*'', CHR ''?'', CHR ''['', CHR '']''}) p
      then p # (if CHR ''/'' \<notin> set p then [''**/'' @ p] else [])
      else [p, p @ ''/**''])"

definition add_glob :: "globs \<Rightarrow> string \<Rightarrow> unit result" where
  "add_glob G p = (if glob_ok G p then Inr () else Inl (External ''globset''))"

fun collect_globs :: "globs \<Rightarrow> string list \<Rightarrow> string list result" where
  "collect_globs G [] = Inr []"
| "collect_globs G (p # ps) =
     bind_result (validate_pattern p) (\<lambda>q.
     and_then (each (add_glob G) (pattern_globs q))
       (map_result (\<lambda>gs. pattern_globs q @ gs) (collect_globs G ps)))"

definition compile_patterns :: "globs \<Rightarrow> string list \<Rightarrow> string list result" where
  "compile_patterns G ps =
     bind_result (collect_globs G ps) (\<lambda>gs.
       if glob_set_ok G gs then Inr gs else Inl (External ''globset''))"

definition validate_policy :: "globs \<Rightarrow> submission_policy \<Rightarrow> unit result" where
  "validate_policy G pol =
     bind_result (compile_patterns G (sub_include pol)) (\<lambda>_.
     bind_result (compile_patterns G (sub_exclude pol)) (\<lambda>_.
       checks
         [(max_files pol > 0, ''submission max_files must be positive''),
          (max_file_bytes pol > 0 \<and> max_file_bytes pol \<le> max_total_bytes pol,
           ''submission byte limits are invalid'')]))"

record terminal_matcher =
  tm_include :: "string list"
  tm_exclude :: "string list"

definition reserved :: "string \<Rightarrow> bool" where
  "reserved p = (p = ''.a3s'' \<or> starts_with p ''.a3s/'')"

definition matches :: "globs \<Rightarrow> terminal_matcher \<Rightarrow> string \<Rightarrow> bool" where
  "matches G tm p =
     (list_ex (\<lambda>g. glob_match G g p) (tm_include tm) \<and>
      \<not> list_ex (\<lambda>g. glob_match G g p) (tm_exclude tm) \<and> \<not> reserved p)"

definition compile_matcher :: "globs \<Rightarrow> submission_policy \<Rightarrow> terminal_matcher result" where
  "compile_matcher G pol =
     bind_result (compile_patterns G (sub_include pol)) (\<lambda>i.
     bind_result (compile_patterns G (sub_exclude pol)) (\<lambda>e.
       Inr \<lparr>tm_include = i, tm_exclude = e\<rparr>))"

subsection \<open>Paths\<close>

definition normalize :: "path \<Rightarrow> string result" where
  "normalize p =
     (let value = path_text p
      in and_then
           (checks
              [(valid_utf8 value, ''submission path is not UTF-8''),
               (value \<noteq> [] \<and> \<not> starts_with value ''/'' \<and> safe_parts value,
                ''submission contains an unsafe path'')])
           (Inr value))"

definition normalize_terminal_path :: "path \<Rightarrow> string result" where
  "normalize_terminal_path p =
     bind_result (normalize p) (\<lambda>n.
       and_then (ensure (length (split_char CHR ''/'' n) \<le> 65) ''terminal path is too deep'') (Inr n))"

subsection \<open>Limits\<close>

record terminal_limits =
  tl_policy :: submission_policy
  tl_selected :: u64
  tl_total :: u64

definition new_limits :: "submission_policy \<Rightarrow> terminal_limits" where
  "new_limits pol = \<lparr>tl_policy = pol, tl_selected = 0, tl_total = 0\<rparr>"

definition is_full :: "terminal_limits \<Rightarrow> bool" where
  "is_full l = (max_files (tl_policy l) \<le> tl_selected l)"

definition select :: "u64 \<Rightarrow> terminal_limits \<Rightarrow> terminal_limits \<times> bool" where
  "select sz l =
     (if is_full l \<or> sz > max_file_bytes (tl_policy l) then (l, False)
      else (case checked_add (tl_total l) sz of
              None \<Rightarrow> (l, False)
            | Some t \<Rightarrow>
                (if t > max_total_bytes (tl_policy l) then (l, False)
                 else (l\<lparr>tl_total := t, tl_selected := tl_selected l + 1\<rparr>, True))))"

subsection \<open>The files of a terminal workspace\<close>

type_synonym found = "(path \<times> u64) list"

fun terminal_entry ::
  "globs \<Rightarrow> terminal_matcher \<Rightarrow> submission_policy \<Rightarrow> os \<Rightarrow> path \<Rightarrow> path \<Rightarrow> node \<Rightarrow> found \<Rightarrow> found result"
  and terminal_entries ::
  "globs \<Rightarrow> terminal_matcher \<Rightarrow> submission_policy \<Rightarrow> os \<Rightarrow> path \<Rightarrow> path \<Rightarrow> entries \<Rightarrow> found \<Rightarrow> found result"
  where
  "terminal_entry G tm pol env base rel (Symlink x) fs = Inr fs"
| "terminal_entry G tm pol env base rel (Directory m es) fs =
     bind_result (normalize rel) (\<lambda>n.
     and_then (ensure (length (split_char CHR ''/'' n) \<le> 64) ''terminal path is too deep'')
       (and_then (call env (ReadDir (base @ rel))) (terminal_entries G tm pol env base rel es fs)))"
| "terminal_entry G tm pol env base rel (RegFile m l b) fs =
     bind_result (normalize rel) (\<lambda>n.
       if \<not> matches G tm n then Inr fs
       else and_then (call env (Metadata (base @ rel)))
              (if of_nat (length b) > max_file_bytes pol then Inr fs
               else Inr (fs @ [(rel, of_nat (length b))])))"
| "terminal_entry G tm pol env base rel SpecialFile fs = bind_result (normalize rel) (\<lambda>n. Inr fs)"
| "terminal_entries G tm pol env base rel [] fs = Inr fs"
| "terminal_entries G tm pol env base rel ((n, t) # es) fs =
     and_then (call env (EntryAt (base @ rel @ [n])))
       (bind_result (terminal_entry G tm pol env base (rel @ [n]) t fs) (\<lambda>fs.
          terminal_entries G tm pol env base rel es fs))"

fun select_files :: "terminal_limits \<Rightarrow> found \<Rightarrow> found" where
  "select_files l [] = []"
| "select_files l ((p, sz) # fs) =
     (if is_full l then []
      else (case select sz l of
              (l', True) \<Rightarrow> (p, sz) # select_files l' fs
            | (l', False) \<Rightarrow> select_files l' fs))"

definition collect_terminal_files ::
  "globs \<Rightarrow> os \<Rightarrow> path \<Rightarrow> node \<Rightarrow> submission_policy \<Rightarrow> terminal_matcher \<Rightarrow> found result" where
  "collect_terminal_files G env base t pol tm =
     (case t of
        Directory m es \<Rightarrow>
          and_then (call env (ReadDir base))
            (bind_result (terminal_entries G tm pol env base [] es []) (\<lambda>candidates.
               Inr (select_files (new_limits pol) (sort_key fst candidates))))
      | _ \<Rightarrow> Inl not_a_directory)"

subsection \<open>Projection\<close>

text \<open>The destination is a tree; \<open>secure_directory\<close> makes the directories of a path and sets the
  mode of the last to 700.\<close>

fun secure_dir_in :: "mode \<Rightarrow> path \<Rightarrow> node \<Rightarrow> node" where
  "secure_dir_in dm [] (Directory m es) = Directory mode_700 es"
| "secure_dir_in dm [] t = t"
| "secure_dir_in dm (n # p) (Directory m es) =
     Directory m
       (case map_of es n of
          None \<Rightarrow> es @ [(n, secure_dir_in dm p (Directory dm []))]
        | Some t \<Rightarrow> map (\<lambda>(k, v). if k = n then (k, secure_dir_in dm p t) else (k, v)) es)"
| "secure_dir_in dm (n # p) t = t"

definition project_file ::
  "os \<Rightarrow> path \<Rightarrow> (path \<Rightarrow> node option) \<Rightarrow> path \<Rightarrow> node \<Rightarrow> node \<times> unit result" where
  "project_file env dest source relative t =
     (let target = dest @ relative
      in case and_then (call env (MkDir (butlast target))) (call env (Chmod (butlast target))) of
           Inl e \<Rightarrow> (t, Inl e)
         | Inr _ \<Rightarrow>
             (let t = secure_dir_in (default_dir_mode env) (butlast relative) t
              in case (source relative, call env (CopyFile target)) of
                   (Some (RegFile m l b), Inr _) \<Rightarrow>
                     (case set_owner_only_file env target False (m, 1, b) of
                        (f, r) \<Rightarrow> (put_file (default_dir_mode env) relative f t, r))
                 | _ \<Rightarrow> (t, Inl (Context ''could not project submission file {}'' (Io NotFound)))))"

fun project_files ::
  "os \<Rightarrow> path \<Rightarrow> (path \<Rightarrow> node option) \<Rightarrow> found \<Rightarrow> node \<Rightarrow> node \<times> unit result" where
  "project_files env dest source [] t = (t, Inr ())"
| "project_files env dest source ((p, sz) # fs) t =
     (case project_file env dest source p t of
        (t', Inl e) \<Rightarrow> (t', Inl e)
      | (t', Inr _) \<Rightarrow> project_files env dest source fs t')"

definition project ::
  "globs \<Rightarrow> os \<Rightarrow> path \<Rightarrow> node \<Rightarrow> (path \<Rightarrow> node option) \<Rightarrow> path \<Rightarrow> submission_policy \<Rightarrow> node \<Rightarrow>
     node \<times> unit result" where
  "project G env base source copied dest pol t =
     (case bind_result (compile_matcher G pol) (collect_terminal_files G env base source pol) of
        Inl e \<Rightarrow> (t, Inl e)
      | Inr files \<Rightarrow>
          (case and_then (call env (MkDir dest)) (call env (Chmod dest)) of
             Inl e \<Rightarrow> (t, Inl e)
           | Inr _ \<Rightarrow> project_files env dest copied files (secure_dir_in (default_dir_mode env) [] t)))"

subsection \<open>The selection\<close>

text \<open>The reference: on natural numbers, take each file that fits, in order.\<close>

fun greedy :: "nat \<Rightarrow> nat \<Rightarrow> nat \<Rightarrow> (path \<times> nat) list \<Rightarrow> (path \<times> nat) list" where
  "greedy slots room largest [] = []"
| "greedy slots room largest ((p, sz) # fs) =
     (if slots > 0 \<and> sz \<le> room \<and> sz \<le> largest
      then (p, sz) # greedy (slots - 1) (room - sz) largest fs
      else greedy slots room largest fs)"

lemma greedy_full: "greedy 0 room largest fs = []"
  by (induction fs) auto

lemma greedy_bounds:
  "length (greedy slots room largest fs) \<le> slots \<and>
   sum_list (map snd (greedy slots room largest fs)) \<le> room \<and>
   (\<forall>f \<in> set (greedy slots room largest fs). snd f \<le> largest)"
proof (induction slots room largest fs rule: greedy.induct)
  case (1 slots room largest)
  then show ?case by simp
next
  case (2 slots room largest p sz fs)
  then show ?case by (cases "slots > 0 \<and> sz \<le> room \<and> sz \<le> largest") auto
qed

lemma unat_less_u64: "unat (w :: u64) < 2 ^ 64"
  using unsigned_less [of w] by simp

abbreviation sizes_nat :: "found \<Rightarrow> (path \<times> nat) list" where
  "sizes_nat fs \<equiv> map (\<lambda>(p, s). (p, unat s)) fs"

lemma select_files_greedy:
  assumes "tl_total l \<le> max_total_bytes (tl_policy l)" "tl_selected l \<le> max_files (tl_policy l)"
  shows "sizes_nat (select_files l fs) =
    greedy (unat (max_files (tl_policy l)) - unat (tl_selected l))
      (unat (max_total_bytes (tl_policy l)) - unat (tl_total l)) (unat (max_file_bytes (tl_policy l)))
      (sizes_nat fs)"
  using assms
proof (induction l fs rule: select_files.induct)
  case (1 l)
  then show ?case by simp
next
  case (2 l p sz fs)
  let ?pol = "tl_policy l"
  show ?case
  proof (cases "is_full l")
    case True
    then have "unat (max_files ?pol) - unat (tl_selected l) = 0"
      by (simp add: is_full_def word_le_nat_alt)
    with True show ?thesis by (simp add: greedy_full)
  next
    case False
    then have slots: "unat (tl_selected l) < unat (max_files ?pol)"
      by (simp add: is_full_def word_le_nat_alt)
    have total: "unat (tl_total l) \<le> unat (max_total_bytes ?pol)"
      using 2(3) by (simp add: word_le_nat_alt)
    have next_slot: "unat (tl_selected l + 1) = Suc (unat (tl_selected l))"
      using slots unat_less_u64 [of "max_files ?pol"] by (simp add: unat_word_ariths)
    show ?thesis
    proof (cases "unat sz \<le> unat (max_total_bytes ?pol) - unat (tl_total l) \<and> sz \<le> max_file_bytes ?pol")
      case True
      then have fits: "unat (tl_total l) + unat sz \<le> unat (max_total_bytes ?pol)" using total by linarith
      then have "unat (tl_total l) + unat sz < 2 ^ 64"
        using unat_less_u64 [of "max_total_bytes ?pol"] by simp
      then have add: "checked_add (tl_total l) sz = Some (tl_total l + sz)"
        and sum: "unat (tl_total l + sz) = unat (tl_total l) + unat sz"
        by (simp_all add: checked_add_def unat_word_ariths)
      let ?l = "l\<lparr>tl_total := tl_total l + sz, tl_selected := tl_selected l + 1\<rparr>"
      have sel: "select sz l = (?l, True)"
        using False True add sum fits by (simp add: select_def word_le_nat_alt word_less_nat_alt)
      have "sizes_nat (select_files ?l fs) =
          greedy (unat (max_files ?pol) - Suc (unat (tl_selected l)))
            (unat (max_total_bytes ?pol) - (unat (tl_total l) + unat sz))
            (unat (max_file_bytes ?pol)) (sizes_nat fs)"
        using 2(1) [OF False sel [symmetric]] slots fits next_slot sum
        by (simp add: word_le_nat_alt)
      with sel False True slots show ?thesis by (simp add: word_le_nat_alt)
    next
      case no: False
      have sel: "select sz l = (l, False)"
      proof (cases "sz \<le> max_file_bytes ?pol")
        case True
        with no have "unat (max_total_bytes ?pol) < unat (tl_total l) + unat sz" using total by linarith
        then show ?thesis
          using False True by (auto simp: select_def word_le_nat_alt word_less_nat_alt dest!: checked_add_Some split: option.splits)
      qed (auto simp: select_def word_le_nat_alt word_less_nat_alt)
      from 2(2) [OF False sel [symmetric]] 2(3,4) sel False no show ?thesis
        by (auto simp: word_le_nat_alt)
    qed
  qed
qed

subsection \<open>The candidates\<close>

text \<open>The names of a directory are distinct, in the whole tree.\<close>

fun proper_tree :: "node \<Rightarrow> bool" where
  "proper_tree (Directory m es) = (distinct (map fst es) \<and> list_all (\<lambda>x. proper_tree (snd x)) es)"
| "proper_tree t = True"

text \<open>A candidate: a regular file reached through real directories, whose path the policy selects
  and whose size is allowed.\<close>

definition candidate ::
  "globs \<Rightarrow> terminal_matcher \<Rightarrow> submission_policy \<Rightarrow> path \<Rightarrow> node \<Rightarrow> path \<times> u64 \<Rightarrow> bool" where
  "candidate G tm pol rel t f =
     (\<exists>p m l b. node_at t p = Some (RegFile m l b) \<and> fst f = rel @ p \<and> snd f = of_nat (length b) \<and>
        matches G tm (path_text (rel @ p)) \<and> of_nat (length b) \<le> max_file_bytes pol)"

lemma node_at_entry:
  "node_at (Directory m es) p = Some (RegFile m' l b) \<longleftrightarrow>
     (\<exists>n q t. p = n # q \<and> map_of es n = Some t \<and> node_at t q = Some (RegFile m' l b))"
  by (cases p) (auto split: option.splits)

lemma candidate_dir:
  "distinct (map fst es) \<Longrightarrow>
     candidate G tm pol rel (Directory m es) f \<longleftrightarrow>
       (\<exists>(n, t) \<in> set es. candidate G tm pol (rel @ [n]) t f)"
  by (fastforce simp: candidate_def node_at_entry dest: map_of_SomeD)

lemma candidate_prefix: "candidate G tm pol rel t f \<Longrightarrow> \<exists>p. fst f = rel @ p"
  by (auto simp: candidate_def)

lemma candidate_file:
  "candidate G tm pol rel (RegFile m l b) f \<longleftrightarrow>
     f = (rel, of_nat (length b)) \<and> matches G tm (path_text rel) \<and> of_nat (length b) \<le> max_file_bytes pol"
  by (cases f) (auto simp: candidate_def elim: node_at.elims)

lemma candidate_other [simp]:
  "\<not> candidate G tm pol rel (Symlink x) f" "\<not> candidate G tm pol rel SpecialFile f"
  by (auto simp: candidate_def elim: node_at.elims)

lemma normalize_Inr: "normalize p = Inr n \<Longrightarrow> n = path_text p"
  by (simp add: normalize_def and_then_Inr Let_def)

lemma terminal_walk:
  shows "terminal_entry G tm pol env base rel t fs = Inr fs' \<Longrightarrow> proper_tree t \<Longrightarrow>
      \<exists>new. fs' = fs @ new \<and> set new = Collect (candidate G tm pol rel t) \<and> distinct (map fst new)"
    and "terminal_entries G tm pol env base rel es fs = Inr fs' \<Longrightarrow>
      distinct (map fst es) \<Longrightarrow> list_all (\<lambda>x. proper_tree (snd x)) es \<Longrightarrow>
      \<exists>new. fs' = fs @ new \<and>
        set new = {f. \<exists>(n, t) \<in> set es. candidate G tm pol (rel @ [n]) t f} \<and> distinct (map fst new)"
proof (induction G tm pol env base rel t fs and G tm pol env base rel es fs
    arbitrary: fs' and fs' rule: terminal_entry_terminal_entries.induct)
  case (2 G tm pol env base rel m es fs)
  then show ?case by (auto simp: bind_result_Inr and_then_Inr candidate_dir)
next
  case (3 G tm pol env base rel m l b fs)
  then obtain n where n: "normalize rel = Inr n" by (auto simp: bind_result_Inr)
  from normalize_Inr [OF n] n 3 show ?case
    by (auto simp: and_then_Inr candidate_file split: if_splits)
next
  case (6 G tm pol env base rel n t es fs)
  from 6(3) obtain fs1 where w: "terminal_entry G tm pol env base (rel @ [n]) t fs = Inr fs1"
      "terminal_entries G tm pol env base rel es fs1 = Inr fs'"
    by (auto simp: and_then_Inr bind_result_Inr)
  have "\<exists>new. fs1 = fs @ new \<and> set new = Collect (candidate G tm pol (rel @ [n]) t) \<and> distinct (map fst new)"
    using 6(1) w(1) 6(5) by simp
  then obtain a where a: "fs1 = fs @ a" "set a = Collect (candidate G tm pol (rel @ [n]) t)"
      "distinct (map fst a)" by blast
  have "\<exists>new. fs' = fs1 @ new \<and>
        set new = {f. \<exists>(n, t) \<in> set es. candidate G tm pol (rel @ [n]) t f} \<and> distinct (map fst new)"
    using 6(2) w(2) 6(4,5) by simp
  then obtain b where b: "fs' = fs1 @ b"
      "set b = {f. \<exists>(n, t) \<in> set es. candidate G tm pol (rel @ [n]) t f}" "distinct (map fst b)"
    by blast
  have "fst ` set a \<inter> fst ` set b = {}"
  proof (rule ccontr)
    assume "fst ` set a \<inter> fst ` set b \<noteq> {}"
    then obtain f g where fg: "f \<in> set a" "g \<in> set b" "fst f = fst g" by blast
    with b(2) obtain n' t' where "(n', t') \<in> set es" "candidate G tm pol (rel @ [n']) t' g"
      by blast
    moreover from fg a(2) have "candidate G tm pol (rel @ [n]) t f" by auto
    ultimately have "n' = n"
      using fg(3) candidate_prefix [of G tm pol "rel @ [n']" t' g] candidate_prefix [of G tm pol "rel @ [n]" t f]
      by auto
    with \<open>(n', t') \<in> set es\<close> 6(4) show False by (force simp: image_iff)
  qed
  with a b show ?case by (intro exI [of _ "a @ b"]) auto
qed (auto simp: bind_result_Inr)

text \<open>The candidates in the order of their paths are determined by the tree alone, not by the order
  in which the operating system lists a directory.\<close>

definition ordered_candidates ::
  "globs \<Rightarrow> terminal_matcher \<Rightarrow> submission_policy \<Rightarrow> node \<Rightarrow> found \<Rightarrow> bool" where
  "ordered_candidates G tm pol t fs =
     (set fs = Collect (candidate G tm pol [] t) \<and> sorted_wrt (<) (map fst fs))"

lemma ordered_candidates_unique:
  assumes "ordered_candidates G tm pol t fs" "ordered_candidates G tm pol t fs'"
  shows "fs = fs'"
proof -
  have *: "sort_key fst gs = gs \<and> inj_on fst (set gs) \<and> distinct gs"
    if "ordered_candidates G tm pol t gs" for gs
    using that
    by (auto simp: ordered_candidates_def strict_sorted_iff distinct_map intro: sort_key_id_if_sorted)
  have "mset fs = mset fs'"
    using * [OF assms(1)] * [OF assms(2)] assms
    by (metis ordered_candidates_def set_eq_iff_mset_eq_distinct)
  with * [OF assms(1)] * [OF assms(2)] show ?thesis
    by (metis assms(2) ordered_candidates_def sort_key_inj_key_eq strict_sorted_iff)
qed

lemma sorted_candidates:
  assumes "terminal_entries G tm pol env base [] es [] = Inr fs" "proper_tree (Directory m es)"
  shows "ordered_candidates G tm pol (Directory m es) (sort_key fst fs)"
proof -
  from terminal_walk(2) [OF assms(1)] assms(2)
  have "set fs = {f. \<exists>(n, t) \<in> set es. candidate G tm pol ([] @ [n]) t f}" "distinct (map fst fs)"
    by auto
  moreover have "distinct (map fst (sort_key fst fs))"
    using \<open>distinct (map fst fs)\<close> by (metis distinct_map distinct_sort set_sort)
  ultimately show ?thesis
    using assms(2) candidate_dir [of es G tm pol "[]" m]
    by (simp add: ordered_candidates_def strict_sorted_iff set_eq_iff)
qed

subsection \<open>Writing files into a tree\<close>

text \<open>The regular file at a path, and a path at which a file can be put: every directory above it is
  one or is absent, and it is not itself a directory.\<close>

definition file_of :: "node \<Rightarrow> path \<Rightarrow> (mode \<times> nat \<times> string) option" where
  "file_of t p = (case node_at t p of Some (RegFile m l b) \<Rightarrow> Some (m, l, b) | _ \<Rightarrow> None)"

fun open_path :: "node \<Rightarrow> path \<Rightarrow> bool" where
  "open_path t [] = (\<not> is_dir t)"
| "open_path (Directory m es) (n # p) =
     (case map_of es n of None \<Rightarrow> True | Some t \<Rightarrow> open_path t p)"
| "open_path t (n # p) = False"

lemma map_of_update:
  "map_of (map (\<lambda>(k, v). if k = n then (k, f v) else (k, v)) es) m =
     (if m = n then map_option f (map_of es n) else map_of es m)"
  by (induction es) auto

lemma map_of_snoc: "map_of es n = None \<Longrightarrow> map_of (es @ [(n, v)]) m = (if m = n then Some v else map_of es m)"
  by (simp add: map_add_def split: option.splits)

lemma file_of_simps [simp]:
  "file_of (Directory m es) [] = None"
  "file_of (RegFile m l b) [] = Some (m, l, b)"
  "file_of (RegFile m l b) (n # p) = None"
  "file_of (Directory m es) (n # p) = (case map_of es n of None \<Rightarrow> None | Some t \<Rightarrow> file_of t p)"
  by (simp_all add: file_of_def split: option.splits)

lemma open_file: "\<not> is_dir t \<Longrightarrow> file_of t (n # p) = None"
  by (cases t) (simp_all add: file_of_def)

lemma file_of_put:
  "open_path t p \<Longrightarrow>
     file_of (put_file dm p (RegFile m l b) t) q = (if q = p then Some (m, l, b) else file_of t q)"
proof (induction p arbitrary: t q)
  case Nil
  then show ?case by (cases q) (auto simp: open_file)
next
  case (Cons n p)
  then obtain dm' es where t: "t = Directory dm' es" by (cases t) auto
  show ?case
  proof (cases "map_of es n")
    case None
    have "file_of (put_file dm p (RegFile m l b) (Directory dm [])) r =
        (if r = p then Some (m, l, b) else None)" for r
      using Cons.IH [of "Directory dm []" r] by (cases p; cases r) auto
    with t None show ?thesis by (cases q) (auto simp: map_of_snoc split: option.splits if_splits)
  next
    case (Some u)
    with Cons t show ?thesis by (cases q) (auto simp: map_of_update)
  qed
qed

lemma open_put:
  "open_path t q \<Longrightarrow> \<not> prefix p q \<Longrightarrow> \<not> prefix q p \<Longrightarrow> open_path (put_file dm p x t) q"
proof (induction p arbitrary: t q)
  case (Cons n p)
  then obtain k q' where q: "q = k # q'" by (cases q) auto
  with Cons.prems obtain dm' es where t: "t = Directory dm' es" by (cases t) auto
  show ?case
  proof (cases "map_of es n")
    case None
    have "open_path (put_file dm p x (Directory dm [])) q'" if "k = n"
      using Cons q that by (cases q') auto
    with t None q Cons.prems show ?thesis by (auto simp: map_of_snoc split: option.splits if_splits)
  next
    case (Some u)
    with Cons t q show ?thesis by (auto simp: map_of_update split: option.splits)
  qed
qed simp

lemma file_of_secure_dir: "file_of (secure_dir_in dm d t) q = file_of t q"
proof (induction dm d t arbitrary: q rule: secure_dir_in.induct)
  case (1 dm m es)
  then show ?case by (cases q) auto
next
  case (3 dm n p m es)
  show ?case
  proof (cases "map_of es n")
    case None
    have "file_of (secure_dir_in dm p (Directory dm [])) r = None" for r
      using 3(1) [OF None, of r] by (cases r) auto
    with None show ?thesis by (cases q) (auto simp: map_of_snoc split: option.splits if_splits)
  next
    case (Some u)
    have "file_of (secure_dir_in dm p u) r = file_of u r" for r
      using 3(2) Some map_of_SomeD [OF Some] by blast
    with Some show ?thesis by (cases q) (auto simp: map_of_update)
  qed
qed auto

lemma open_secure_dir: "open_path t q \<Longrightarrow> \<not> prefix q d \<Longrightarrow> open_path (secure_dir_in dm d t) q"
proof (induction dm d t arbitrary: q rule: secure_dir_in.induct)
  case (1 dm m es)
  then show ?case by (cases q) auto
next
  case (3 dm n p m es)
  then obtain k q' where q: "q = k # q'" by (cases q) auto
  show ?case
  proof (cases "map_of es n")
    case None
    have "open_path (secure_dir_in dm p (Directory dm [])) q'" if "k = n"
      using 3(1) [OF None] 3(4) q that by (cases q') auto
    with None q 3 show ?thesis by (auto simp: map_of_snoc split: option.splits if_splits)
  next
    case (Some u)
    have "open_path u r \<Longrightarrow> \<not> prefix r p \<Longrightarrow> open_path (secure_dir_in dm p u) r" for r
      using 3(2) Some map_of_SomeD [OF Some] by blast
    with Some 3(3,4) q show ?thesis by (auto simp: map_of_update split: option.splits)
  qed
qed auto

text \<open>What \<open>project\<close> writes for a file: the bytes, in a file of the owner only, executable as the
  source is.\<close>

definition projected :: "(path \<Rightarrow> node option) \<Rightarrow> path \<Rightarrow> (mode \<times> nat \<times> string) option" where
  "projected source p =
     (case source p of
        Some (RegFile m l b) \<Rightarrow> Some (owner_mode False (executable_mode m), 1, b)
      | _ \<Rightarrow> None)"

definition separate :: "path list \<Rightarrow> bool" where
  "separate ps = (distinct ps \<and> [] \<notin> set ps \<and> (\<forall>p \<in> set ps. \<forall>q \<in> set ps. prefix p q \<longrightarrow> p = q))"

lemma project_file_ok:
  assumes "project_file env dest source p t = (t', Inr ())" "open_path t p" "p \<noteq> []"
  shows "projected source p \<noteq> None \<and>
    (\<forall>q. file_of t' q = (if q = p then projected source p else file_of t q)) \<and>
    (\<forall>q. open_path t q \<longrightarrow> \<not> prefix p q \<longrightarrow> \<not> prefix q p \<longrightarrow> open_path t' q)"
proof -
  let ?dm = "default_dir_mode env" and ?u = "secure_dir_in (default_dir_mode env) (butlast p) t"
  from assms(1) obtain m l b where
    src: "source p = Some (RegFile m l b)" and
    t': "t' = put_file ?dm p (RegFile (owner_mode False (executable_mode m)) 1 b) ?u"
    by (auto simp: project_file_def set_owner_only_file_def chmod_file_def Let_def
        split: sum.splits option.splits node.splits prod.splits)
  have "\<not> prefix p (butlast p)"
    using assms(3) prefix_length_le [of p "butlast p"] by (cases p) auto
  then have "open_path ?u p" using assms(2) by (intro open_secure_dir)
  then have "file_of t' q = (if q = p then projected source p else file_of t q)" for q
    using src t' by (simp add: file_of_put file_of_secure_dir projected_def)
  moreover have "open_path t' q" if "open_path t q" "\<not> prefix p q" "\<not> prefix q p" for q
  proof -
    have "\<not> prefix q (butlast p)" using that(3) by (metis prefix_order.trans prefixeq_butlast)
    then show ?thesis using that t' by (simp add: open_put open_secure_dir)
  qed
  ultimately show ?thesis using src by (simp add: projected_def)
qed

lemma project_files_ok:
  assumes "project_files env dest source fs t = (t', Inr ())" "separate (map fst fs)"
    "\<forall>p \<in> fst ` set fs. open_path t p"
  shows "(\<forall>p \<in> fst ` set fs. projected source p \<noteq> None) \<and>
    (\<forall>q. file_of t' q = (if q \<in> fst ` set fs then projected source q else file_of t q))"
  using assms
proof (induction fs arbitrary: t)
  case Nil
  then show ?case by simp
next
  case (Cons f fs)
  obtain p sz where f: "f = (p, sz)" by (cases f)
  from Cons.prems(1) f obtain u where u: "project_file env dest source p t = (u, Inr ())"
      "project_files env dest source fs u = (t', Inr ())"
    by (auto split: prod.splits sum.splits)
  have p: "open_path t p" "p \<noteq> []" "p \<notin> fst ` set fs"
    "\<forall>q \<in> fst ` set fs. \<not> prefix p q \<and> \<not> prefix q p"
    using Cons.prems(2,3) f by (auto simp: separate_def)
  note ok = project_file_ok [OF u(1) p(1,2)]
  have "separate (map fst fs)" using Cons.prems(2) by (auto simp: separate_def)
  moreover have "\<forall>q \<in> fst ` set fs. open_path u q" using ok p Cons.prems(3) by auto
  ultimately have "(\<forall>p \<in> fst ` set fs. projected source p \<noteq> None) \<and>
    (\<forall>q. file_of t' q = (if q \<in> fst ` set fs then projected source q else file_of u q))"
    by (rule Cons.IH [OF u(2)])
  with ok f show ?case by auto
qed

lemma files_separate:
  assumes "node_at t p = Some (RegFile m l b)" "node_at t q = Some (RegFile m' l' b')" "prefix p q"
  shows "p = q"
  using assms
proof (induction p arbitrary: t q)
  case Nil
  then show ?case by (cases q) auto
next
  case (Cons n p)
  then obtain q' where "q = n # q'" by (cases q) auto
  moreover from Cons.prems(1) obtain dm es where "t = Directory dm es" by (cases t) auto
  ultimately show ?case using Cons by (auto split: option.splits)
qed

lemma select_files_subset: "set (select_files l fs) \<subseteq> set fs"
proof (induction l fs rule: select_files.induct)
  case (2 l p sz fs)
  then show ?case
    by (cases "is_full l"; cases "select sz l"; cases "snd (select sz l)") auto
qed simp

lemma select_files_distinct: "distinct (map fst fs) \<Longrightarrow> distinct (map fst (select_files l fs))"
proof (induction l fs rule: select_files.induct)
  case (2 l p sz fs)
  have "p \<notin> fst ` set (select_files l' fs)" for l'
    using 2(3) select_files_subset [of l' fs] by auto
  with 2 show ?case
    by (cases "is_full l"; cases "select sz l"; cases "snd (select sz l)") auto
qed simp

lemma collect_terminal_files_Inr:
  assumes "collect_terminal_files G env base t pol tm = Inr fs" "proper_tree t"
  obtains cs where "ordered_candidates G tm pol t cs" "fs = select_files (new_limits pol) cs"
proof -
  from assms(1) obtain m es c where t: "t = Directory m es"
    and c: "terminal_entries G tm pol env base [] es [] = Inr c"
    and fs: "fs = select_files (new_limits pol) (sort_key fst c)"
    by (cases t) (auto simp: collect_terminal_files_def and_then_Inr bind_result_Inr)
  from sorted_candidates [OF c] assms(2) t fs that show ?thesis by blast
qed

lemma selected_separate:
  assumes "ordered_candidates G tm pol (Directory m es) cs"
  shows "separate (map fst (select_files l cs))"
proof -
  have c: "distinct (map fst cs)" "set cs = Collect (candidate G tm pol [] (Directory m es))"
    using assms by (auto simp: ordered_candidates_def strict_sorted_iff)
  have n: "\<exists>m' l' b. node_at (Directory m es) p = Some (RegFile m' l' b)"
    if "p \<in> fst ` set (select_files l cs)" for p
  proof -
    from that select_files_subset [of l cs] obtain sz where "(p, sz) \<in> set cs" by auto
    with c(2) have "candidate G tm pol [] (Directory m es) (p, sz)" by blast
    then show ?thesis by (auto simp: candidate_def)
  qed
  have "[] \<notin> fst ` set (select_files l cs)" using n [of "[]"] by auto
  moreover have "p = q" if "p \<in> fst ` set (select_files l cs)" "q \<in> fst ` set (select_files l cs)" "prefix p q"
    for p q
    using n [OF that(1)] n [OF that(2)] files_separate that(3) by blast
  ultimately show ?thesis
    using select_files_distinct [OF c(1), of l] by (simp add: separate_def)
qed

subsection \<open>Properties\<close>

text \<open>
  C17 Which files are selected: the candidates (regular files reached through real directories, of
  an included, not excluded, not reserved path and of an allowed size), in the order of their
  paths, each taken as long as it fits the remaining number of files and bytes. The selection
  depends on the tree and the policy only, not on the order of the directory listings, and the
  64-bit counters compute the same as unbounded numbers.
\<close>

theorem terminal_selection_is_greedy:
  assumes "collect_terminal_files G env base t pol tm = Inr fs" "proper_tree t"
  shows "\<exists>!cs. ordered_candidates G tm pol t cs \<and>
    sizes_nat fs = greedy (unat (max_files pol)) (unat (max_total_bytes pol)) (unat (max_file_bytes pol))
      (sizes_nat cs)"
proof -
  from assms obtain cs where cs: "ordered_candidates G tm pol t cs" "fs = select_files (new_limits pol) cs"
    by (rule collect_terminal_files_Inr)
  have "sizes_nat fs = greedy (unat (max_files pol)) (unat (max_total_bytes pol))
      (unat (max_file_bytes pol)) (sizes_nat cs)"
    using select_files_greedy [of "new_limits pol" cs] cs(2) by (simp add: new_limits_def)
  with cs(1) ordered_candidates_unique show ?thesis by blast
qed

definition demo_globs :: globs where
  "demo_globs = \<lparr>glob_ok = (\<lambda>p. True), glob_set_ok = (\<lambda>ps. True), glob_match = (\<lambda>g p. g = ''**'' \<or> g = p)\<rparr>"

definition demo_policy :: submission_policy where
  "demo_policy = \<lparr>sub_include = [''**''], sub_exclude = [], max_files = 2, max_total_bytes = 3,
     max_file_bytes = 2\<rparr>"

definition demo_matcher :: terminal_matcher where
  "demo_matcher = \<lparr>tm_include = [''**''], tm_exclude = []\<rparr>"

definition demo_workspace :: node where
  "demo_workspace = Directory mode_700
     [(''b'', RegFile mode_600 1 ''12''), (''a'', RegFile mode_700 1 ''12''), (''.a3s'', RegFile mode_600 1 ''1''),
      (''c'', RegFile mode_600 1 ''1''), (''big'', RegFile mode_600 1 ''123''), (''l'', Symlink ''/etc'')]"

lemmas demo_defs = demo_globs_def demo_policy_def demo_matcher_def demo_workspace_def

lemmas walk_defs = collect_terminal_files_def normalize_def path_text_def safe_parts_def Let_def
  checks.simps is_ascii_def byte_def matches_def reserved_def starts_with_def new_limits_def
  select_def is_full_def checked_add_def

lemma demo_collected:
  "collect_terminal_files demo_globs quiet_os [] demo_workspace demo_policy demo_matcher =
     Inr [([''a''], 2), ([''c''], 1)]"
  by (simp add: demo_defs walk_defs) (simp add: word_le_nat_alt)

theorem terminal_selection_is_greedy_witness:
  "\<exists>cs. ordered_candidates demo_globs demo_matcher demo_policy demo_workspace cs \<and>
     greedy 2 3 2 (sizes_nat cs) = [([''a''], 2), ([''c''], 1)]"
  using terminal_selection_is_greedy [OF demo_collected]
  by (fastforce simp: demo_workspace_def demo_policy_def)

text \<open>
  C18 The limits of the submission hold: the selected files are at most \<open>max_files\<close>, none is larger
  than \<open>max_file_bytes\<close>, their sizes add up, as unbounded numbers, to at most \<open>max_total_bytes\<close>,
  and none is the runner's own state under \<open>.a3s\<close>.
\<close>

theorem terminal_selection_bounds:
  assumes "collect_terminal_files G env base t pol tm = Inr fs" "proper_tree t"
  shows "length fs \<le> unat (max_files pol) \<and>
    sum_list (map (unat \<circ> snd) fs) \<le> unat (max_total_bytes pol) \<and>
    (\<forall>(p, sz) \<in> set fs. sz \<le> max_file_bytes pol \<and> matches G tm (path_text p) \<and>
       \<not> reserved (path_text p))"
proof -
  from assms obtain cs where cs: "ordered_candidates G tm pol t cs" "fs = select_files (new_limits pol) cs"
    by (rule collect_terminal_files_Inr)
  have g: "sizes_nat fs = greedy (unat (max_files pol)) (unat (max_total_bytes pol))
      (unat (max_file_bytes pol)) (sizes_nat cs)"
    using select_files_greedy [of "new_limits pol" cs] cs(2) by (simp add: new_limits_def)
  have "map snd (sizes_nat fs) = map (unat \<circ> snd) fs" "length (sizes_nat fs) = length fs"
    by auto
  moreover have "\<forall>f \<in> set fs. candidate G tm pol [] t f"
    using cs select_files_subset by (fastforce simp: ordered_candidates_def)
  ultimately show ?thesis
    using greedy_bounds [of "unat (max_files pol)" "unat (max_total_bytes pol)"
        "unat (max_file_bytes pol)" "sizes_nat cs"] g
    by (fastforce simp: candidate_def matches_def)
qed

theorem terminal_selection_bounds_witness:
  "unat (2 :: u64) + unat (1 :: u64) \<le> 3"
  using terminal_selection_bounds [OF demo_collected]
  by (simp add: demo_workspace_def demo_policy_def)

text \<open>
  C19 What \<open>project\<close> leaves in an empty destination when it succeeds and the source does not change:
  exactly the selected files, each with its bytes, executable as in the source, and accessible to
  the owner only. Every regular file of the destination is one of them.
\<close>

theorem projection_is_the_selection:
  assumes "project G env base source (node_at source) dest pol (Directory m []) = (t', Inr ())"
    "proper_tree source"
  shows "\<exists>tm fs. compile_matcher G pol = Inr tm \<and>
    collect_terminal_files G env base source pol tm = Inr fs \<and>
    (\<forall>p. file_of t' p = (if p \<in> fst ` set fs then projected (node_at source) p else None)) \<and>
    (\<forall>p \<in> fst ` set fs. file_of t' p \<noteq> None)"
proof -
  from assms(1) obtain tm fs where tm: "compile_matcher G pol = Inr tm"
    and fs: "collect_terminal_files G env base source pol tm = Inr fs"
    and p: "project_files env dest (node_at source) fs (Directory mode_700 []) = (t', Inr ())"
    by (auto simp: project_def split: sum.splits dest!: bind_result_Inr [THEN iffD1])
  from fs obtain dm es where src: "source = Directory dm es"
    by (auto simp: collect_terminal_files_def split: node.splits)
  from fs assms(2) obtain cs where "ordered_candidates G tm pol source cs" "fs = select_files (new_limits pol) cs"
    by (rule collect_terminal_files_Inr)
  with selected_separate src have s: "separate (map fst fs)" by blast
  have "open_path (Directory mode_700 []) q" if "q \<in> fst ` set fs" for q
    using s that by (cases q) (auto simp: separate_def)
  from project_files_ok [OF p s] this
  have r: "\<forall>p \<in> fst ` set fs. projected (node_at source) p \<noteq> None"
      "\<forall>q. file_of t' q = (if q \<in> fst ` set fs then projected (node_at source) q
         else file_of (Directory mode_700 []) q)"
    by blast+
  have "file_of (Directory mode_700 []) q = None" for q by (cases q) simp_all
  with r tm fs show ?thesis by auto
qed

definition demo_projection :: "node \<times> unit result" where
  "demo_projection = project demo_globs quiet_os [] demo_workspace (node_at demo_workspace) [''out'']
     demo_policy (Directory mode_700 [])"

lemma demo_compiled: "compile_matcher demo_globs demo_policy = Inr demo_matcher"
  by (simp add: compile_matcher_def compile_patterns_def validate_pattern_def pattern_globs_def
      demo_defs add_glob_def trim_end_char_def starts_with_def checks.simps)

lemma demo_projected: "snd demo_projection = Inr ()"
  unfolding demo_projection_def project_def demo_compiled bind_result_simps demo_collected
  by (simp add: project_file_def set_owner_only_file_def chmod_file_def demo_workspace_def)

theorem projection_is_the_selection_witness:
  "file_of (fst demo_projection) [''a''] \<noteq> None \<and> file_of (fst demo_projection) [''big''] = None"
proof -
  have ok: "project demo_globs quiet_os [] demo_workspace (node_at demo_workspace) [''out'']
     demo_policy (Directory mode_700 []) = (fst demo_projection, Inr ())"
    using demo_projected by (simp add: demo_projection_def prod_eq_iff)
  have "proper_tree demo_workspace" by (simp add: demo_workspace_def)
  from projection_is_the_selection [OF ok this] obtain tm fs where
    "compile_matcher demo_globs demo_policy = Inr tm"
    "collect_terminal_files demo_globs quiet_os [] demo_workspace demo_policy tm = Inr fs"
    and r: "\<forall>p. file_of (fst demo_projection) p =
      (if p \<in> fst ` set fs then projected (node_at demo_workspace) p else None)"
      "\<forall>p \<in> fst ` set fs. file_of (fst demo_projection) p \<noteq> None"
    by blast
  then have "fs = [([''a''], 2), ([''c''], 1)]" using demo_compiled demo_collected by simp
  with r show ?thesis by simp
qed

end
