(* ===== verification/Judge_Source.thy ===== *)
theory Judge_Source
  imports State_Fs
begin

text \<open>
  \<open>judge_source.rs\<close>: the descriptor of a legacy Judge. The structs of the closed schema, their
  decoders as the derives give them, the validation, and \<open>load\<close>.
\<close>

subsection \<open>Rescale hints\<close>

datatype rescale_hint =
    Linear float64 float64
  | MinLinear float64 float64
  | MinLinearPositive float64 float64
  | MinInverseAnchor float64 float64
  | CompressionRatioCroppedGuarded float64 float64
  | LogAnchor float64 float64
  | PiecewiseMax float64 float64 float64 float64
  | LogMax float64 float64
  | PiecewiseLogMin float64 float64 float64 float64
  | Log1pMax float64 float64
  | LogMin float64 float64
  | PiecewiseMin float64 float64 float64 float64

fun two :: "('a \<Rightarrow> 'a \<Rightarrow> 'b) \<Rightarrow> 'a list \<Rightarrow> 'b option" where
  "two c [x, y] = Some (c x y)"
| "two c _ = None"

fun four :: "('a \<Rightarrow> 'a \<Rightarrow> 'a \<Rightarrow> 'a \<Rightarrow> 'b) \<Rightarrow> 'a list \<Rightarrow> 'b option" where
  "four c [x, y, z, u] = Some (c x y z u)"
| "four c _ = None"

text \<open>The variants: the tag, the fields in order, the constructor.\<close>

definition baseline_expert :: "string list" where
  "baseline_expert = [''baseline'', ''expert'']"

definition anchors :: "string list" where
  "anchors = [''anchor_raw'', ''anchor_score'']"

definition ranks :: "string list" where
  "ranks = [''baseline'', ''rank1'', ''rank30'', ''super_anchor'']"

definition hint_variants :: "(string \<times> string list \<times> (float64 list \<Rightarrow> rescale_hint option)) list" where
  "hint_variants =
     [(''linear'', [''lower'', ''upper''], two Linear),
      (''min_linear'', baseline_expert, two MinLinear),
      (''min_linear_positive'', baseline_expert, two MinLinearPositive),
      (''min_inverse_anchor'', anchors, two MinInverseAnchor),
      (''compression_ratio_cropped_guarded'', baseline_expert, two CompressionRatioCroppedGuarded),
      (''log_anchor'', anchors, two LogAnchor),
      (''piecewise_max'', ranks, four PiecewiseMax),
      (''log_max'', baseline_expert, two LogMax),
      (''piecewise_log_min'', ranks, four PiecewiseLogMin),
      (''log1p_max'', [''baseline'', ''upper''], two Log1pMax),
      (''log_min'', baseline_expert, two LogMin),
      (''piecewise_min'', ranks, four PiecewiseMin)]"

fun hint_parts :: "rescale_hint \<Rightarrow> string \<times> float64 list" where
  "hint_parts (Linear x y) = (''linear'', [x, y])"
| "hint_parts (MinLinear x y) = (''min_linear'', [x, y])"
| "hint_parts (MinLinearPositive x y) = (''min_linear_positive'', [x, y])"
| "hint_parts (MinInverseAnchor x y) = (''min_inverse_anchor'', [x, y])"
| "hint_parts (CompressionRatioCroppedGuarded x y) = (''compression_ratio_cropped_guarded'', [x, y])"
| "hint_parts (LogAnchor x y) = (''log_anchor'', [x, y])"
| "hint_parts (PiecewiseMax a b c d) = (''piecewise_max'', [a, b, c, d])"
| "hint_parts (LogMax x y) = (''log_max'', [x, y])"
| "hint_parts (PiecewiseLogMin a b c d) = (''piecewise_log_min'', [a, b, c, d])"
| "hint_parts (Log1pMax x y) = (''log1p_max'', [x, y])"
| "hint_parts (LogMin x y) = (''log_min'', [x, y])"
| "hint_parts (PiecewiseMin a b c d) = (''piecewise_min'', [a, b, c, d])"

definition hint_fields :: "string \<Rightarrow> string list" where
  "hint_fields k = (case map_of hint_variants k of None \<Rightarrow> [] | Some (fs, c) \<Rightarrow> fs)"

definition hint_json :: "rescale_hint \<Rightarrow> jval" where
  "hint_json h =
     (let (k, xs) = hint_parts h
      in JObj ((''kind'', JStr k) # zip (hint_fields k) (map (\<lambda>x. JNum (JFloat x)) xs)))"

text \<open>An internally tagged enum: the tag is the field \<open>kind\<close> of an object or the first item of an
  array, the rest is the struct of the variant.\<close>

definition dec_variant :: "string \<Rightarrow> jval \<Rightarrow> rescale_hint option" where
  "dec_variant k rest =
     (case map_of hint_variants k of
        None \<Rightarrow> None
      | Some (fs, c) \<Rightarrow>
          Option.bind (struct_fields True (map (\<lambda>f. (f, False)) fs) rest) (\<lambda>m.
          Option.bind (all_some (map (field_req as_f64 m) fs)) c))"

definition dec_hint :: "jval \<Rightarrow> rescale_hint option" where
  "dec_hint v =
     (case v of
        JObj kvs \<Rightarrow>
          (case filter (\<lambda>kv. fst kv = ''kind'') kvs of
             [(_, JStr k)] \<Rightarrow> dec_variant k (JObj (filter (\<lambda>kv. fst kv \<noteq> ''kind'') kvs))
           | _ \<Rightarrow> None)
      | JArr (JStr k # vs) \<Rightarrow> dec_variant k (JArr vs)
      | _ \<Rightarrow> None)"

subsection \<open>The descriptor\<close>

record evaluation =
  ev_mode :: string
  ev_source_command :: string
  ev_game_server_command :: "string option"
  ev_timeout_sec :: u64

record judge_image =
  ji_digest_resolution :: string
  ji_platform :: "string option"
  ji_reference :: string

record source_result =
  so_kind :: string
  so_parser :: string
  so_rescale_hint :: "rescale_hint option"
  so_score_direction :: string
  so_selection_hint :: string
  so_target_metric :: string

record judge_workspace =
  jw_source_path :: string
  jw_submission_exclude :: "string list"
  jw_submission_paths :: "string list"

record judge_descriptor =
  jd_schema :: string
  jd_admission :: string
  jd_kind :: string
  jd_requirements :: "string list"
  jd_evaluation :: evaluation
  jd_image :: judge_image
  jd_source_result :: source_result
  jd_workspace :: judge_workspace

definition required :: "string list \<Rightarrow> (string \<times> bool) list" where
  "required fs = map (\<lambda>f. (f, False)) fs"

definition dec_evaluation :: "jval \<Rightarrow> evaluation option" where
  "dec_evaluation v =
     Option.bind (struct_fields True
        [(''mode'', False), (''source_command'', False), (''source_game_server_command'', True),
         (''timeout_sec'', False)] v) (\<lambda>m.
     Option.bind (field_req as_str m ''mode'') (\<lambda>mode.
     Option.bind (field_req as_str m ''source_command'') (\<lambda>command.
     Option.bind (field_opt as_str m ''source_game_server_command'') (\<lambda>game.
     Option.bind (field_req dec_word m ''timeout_sec'') (\<lambda>timeout.
       Some \<lparr>ev_mode = mode, ev_source_command = command, ev_game_server_command = game,
             ev_timeout_sec = timeout\<rparr>)))))"

definition dec_image :: "jval \<Rightarrow> judge_image option" where
  "dec_image v =
     Option.bind (struct_fields True
        [(''digest_resolution'', False), (''platform'', True), (''ref'', False)] v) (\<lambda>m.
     Option.bind (field_req as_str m ''digest_resolution'') (\<lambda>resolution.
     Option.bind (field_opt as_str m ''platform'') (\<lambda>platform.
     Option.bind (field_req as_str m ''ref'') (\<lambda>reference.
       Some \<lparr>ji_digest_resolution = resolution, ji_platform = platform, ji_reference = reference\<rparr>))))"

definition dec_source_result :: "jval \<Rightarrow> source_result option" where
  "dec_source_result v =
     Option.bind (struct_fields True
        [(''kind'', False), (''parser'', False), (''rescale_hint'', True), (''score_direction'', False),
         (''selection_hint'', False), (''target_metric'', False)] v) (\<lambda>m.
     Option.bind (field_req as_str m ''kind'') (\<lambda>kind.
     Option.bind (field_req as_str m ''parser'') (\<lambda>parser.
     Option.bind (field_opt dec_hint m ''rescale_hint'') (\<lambda>hint.
     Option.bind (field_req as_str m ''score_direction'') (\<lambda>direction.
     Option.bind (field_req as_str m ''selection_hint'') (\<lambda>selection.
     Option.bind (field_req as_str m ''target_metric'') (\<lambda>target.
       Some \<lparr>so_kind = kind, so_parser = parser, so_rescale_hint = hint, so_score_direction = direction,
             so_selection_hint = selection, so_target_metric = target\<rparr>)))))))"

definition dec_workspace :: "jval \<Rightarrow> judge_workspace option" where
  "dec_workspace v =
     Option.bind (struct_fields True
        (required [''source_path'', ''submission_exclude'', ''submission_paths'']) v) (\<lambda>m.
     Option.bind (field_req as_str m ''source_path'') (\<lambda>source.
     Option.bind (field_req (dec_list as_str) m ''submission_exclude'') (\<lambda>exclude.
     Option.bind (field_req (dec_list as_str) m ''submission_paths'') (\<lambda>paths.
       Some \<lparr>jw_source_path = source, jw_submission_exclude = exclude, jw_submission_paths = paths\<rparr>))))"

definition dec_descriptor :: "jval \<Rightarrow> judge_descriptor option" where
  "dec_descriptor v =
     Option.bind (struct_fields True
        (required [''schema'', ''admission'', ''kind'', ''requirements'', ''evaluation'', ''image'',
           ''source_result'', ''workspace'']) v) (\<lambda>m.
     Option.bind (field_req as_str m ''schema'') (\<lambda>schema.
     Option.bind (field_req as_str m ''admission'') (\<lambda>admission.
     Option.bind (field_req as_str m ''kind'') (\<lambda>kind.
     Option.bind (field_req (dec_list as_str) m ''requirements'') (\<lambda>requirements.
     Option.bind (field_req dec_evaluation m ''evaluation'') (\<lambda>evaluation.
     Option.bind (field_req dec_image m ''image'') (\<lambda>image.
     Option.bind (field_req dec_source_result m ''source_result'') (\<lambda>result.
     Option.bind (field_req dec_workspace m ''workspace'') (\<lambda>workspace.
       Some \<lparr>jd_schema = schema, jd_admission = admission, jd_kind = kind,
             jd_requirements = requirements, jd_evaluation = evaluation, jd_image = image,
             jd_source_result = result, jd_workspace = workspace\<rparr>)))))))))"

subsection \<open>Validation and loading\<close>

definition validate_judge_source :: "judge_descriptor \<Rightarrow> unit result" where
  "validate_judge_source d =
     (let e = jd_evaluation d; i = jd_image d; r = jd_source_result d
      in and_then
           (checks
              [(jd_schema d = ''a3s-bench/judge-source/v1'', ''unsupported Judge source descriptor schema''),
               (jd_admission d = ''quarantined'', ''invalid Judge source admission''),
               (jd_kind d = ''oci'', ''unsupported Judge source kind''),
               (jd_requirements d \<noteq> [], ''Judge source requirements are empty''),
               (ev_timeout_sec e > 0, ''Judge source timeout must be positive''),
               (ev_mode e \<in> {''batch'', ''game_server''}, ''unsupported Judge source mode'')])
           (and_then
              (if ev_mode e = ''batch''
               then ensure (ev_source_command e \<noteq> []) ''batch Judge command is empty''
               else ensure (ev_game_server_command e \<notin> {None, Some []})
                      ''game Judge server command is empty'')
              (checks
                 [(ji_reference i \<noteq> [], ''Judge image reference is empty''),
                  (ji_digest_resolution i = ''required_at_task_lock'',
                   ''unsupported Judge image digest resolution''),
                  (so_kind r = ''legacy_stdout'', ''unsupported Judge source result kind''),
                  (so_score_direction r \<in> {''maximize'', ''minimize''}, ''unsupported Judge score direction''),
                  (so_selection_hint r \<in> {''score_first'', ''pass_rate_first'', ''valid_then_score''},
                   ''unsupported Judge selection hint''),
                  (so_target_metric r \<noteq> [], ''Judge target metric is empty''),
                  (starts_with (jw_source_path (jd_workspace d)) ''/'',
                   ''Judge workspace source path must be absolute'')])))"

record legacy_judge_source =
  ls_image :: string
  ls_command :: string
  ls_mode :: string
  ls_parser :: string
  ls_workspace_source_path :: string
  ls_rescale :: "jval option"
  ls_selection_hint :: string
  ls_platform :: "string option"
  ls_game_server_command :: "string option"
  ls_requires_model_gateway :: bool
  ls_timeout_sec :: u64

definition judge_source_of :: "judge_descriptor \<Rightarrow> legacy_judge_source" where
  "judge_source_of d =
     \<lparr>ls_image = ji_reference (jd_image d), ls_command = ev_source_command (jd_evaluation d),
      ls_mode = ev_mode (jd_evaluation d), ls_parser = so_parser (jd_source_result d),
      ls_workspace_source_path = jw_source_path (jd_workspace d),
      ls_rescale = map_option hint_json (so_rescale_hint (jd_source_result d)),
      ls_selection_hint = so_selection_hint (jd_source_result d),
      ls_platform = ji_platform (jd_image d),
      ls_game_server_command =
        (case ev_game_server_command (jd_evaluation d) of
           None \<Rightarrow> None | Some c \<Rightarrow> if c = [] then None else Some c),
      ls_requires_model_gateway = list_ex (\<lambda>r. r = ''model_gateway'') (jd_requirements d),
      ls_timeout_sec = ev_timeout_sec (jd_evaluation d)\<rparr>"

definition load_judge_source ::
  "library \<Rightarrow> os \<Rightarrow> path \<Rightarrow> fs \<Rightarrow> legacy_judge_source option result" where
  "load_judge_source L env p s =
     bind_result (read_optional_regular_file env p s) (\<lambda>x.
       case x of
         None \<Rightarrow> Inr None
       | Some bytes \<Rightarrow>
           bind_result
             (case Option.bind (json_parse L bytes) dec_descriptor of
                None \<Rightarrow> Inl (External ''serde_json'') | Some d \<Rightarrow> Inr d) (\<lambda>d.
           and_then (validate_judge_source d) (Inr (Some (judge_source_of d)))))"

text \<open>What the rest of the program relies on in a loaded source.\<close>

definition usable_judge_source :: "legacy_judge_source \<Rightarrow> bool" where
  "usable_judge_source src =
     (ls_image src \<noteq> [] \<and> ls_timeout_sec src > 0 \<and>
      starts_with (ls_workspace_source_path src) ''/'' \<and>
      (ls_mode src = ''batch'' \<and> ls_command src \<noteq> [] \<or>
       ls_mode src = ''game_server'' \<and> (\<exists>c. ls_game_server_command src = Some c \<and> c \<noteq> [])) \<and>
      ls_selection_hint src \<in> {''score_first'', ''pass_rate_first'', ''valid_then_score''} \<and>
      (\<forall>v. ls_rescale src = Some v \<longrightarrow> (\<exists>h. dec_hint v = Some h \<and> v = hint_json h)))"

lemma hint_roundtrip: "dec_hint (hint_json h) = Some h"
  by (cases h)
     (simp_all add: dec_hint_def hint_json_def dec_variant_def hint_fields_def hint_variants_def
       baseline_expert_def anchors_def ranks_def struct_fields_def field_req_def as_f64_def)

lemma load_judge_source_Some:
  assumes "load_judge_source L env p s = Inr (Some src)"
  shows "\<exists>d. validate_judge_source d = Inr () \<and> src = judge_source_of d"
  using assms
  by (auto simp: load_judge_source_def bind_result_Inr and_then_Inr split: option.splits)

lemma panics_load_judge_source [simp]: "\<not> panics (load_judge_source L env p s)"
  by (auto simp: load_judge_source_def read_optional_regular_file_def panics_parts
      validate_judge_source_def Let_def split: option.splits io_kind.splits entry.splits if_splits)

lemma loaded_source_usable:
  assumes "load_judge_source L env p s = Inr (Some src)"
  shows "usable_judge_source src"
proof -
  from load_judge_source_Some [OF assms] obtain d where
    v: "validate_judge_source d = Inr ()" and src: "src = judge_source_of d" by blast
  let ?e = "jd_evaluation d"
  have "ev_mode ?e = ''batch'' \<and> ev_source_command ?e \<noteq> [] \<or>
      ev_mode ?e = ''game_server'' \<and> (\<exists>c. ev_game_server_command ?e = Some c \<and> c \<noteq> [])"
    using v
    by (auto simp: validate_judge_source_def Let_def and_then_Inr checks_Inr ensure_Inr split: if_splits)
  with v hint_roundtrip show ?thesis
    unfolding src
    by (auto simp: validate_judge_source_def Let_def and_then_Inr checks_Inr usable_judge_source_def
        judge_source_of_def)
qed

end
