(* ===== verification/Task.thy ===== *)
theory Task
  imports Acl Submission Judge_Source Float64_Facts
begin

text \<open>
  \<open>task.rs\<close>: a Task descriptor (\<open>task.acl\<close>) is read, checked against its closed schema and
  turned into a \<open>TaskInfo\<close>. The ACL parser and the glob compiler are arguments. An
  \<open>unreachable!\<close> and an index that could be out of range are the error \<open>Panic\<close>.
\<close>

record metric_info =
  mi_name :: string
  mi_min :: float64
  mi_max :: float64
  mi_role :: string

record workspace_seed =
  ws_image :: string
  ws_source_path :: string
  ws_platform :: "string option"

record role_resources =
  cpu_limit :: u64
  memory_bytes :: u64

record task_resources =
  tr_work :: role_resources
  tr_judge :: role_resources

record workspace_import =
  wi_name :: string
  wi_source_path :: string
  wi_target_path :: string

record task_info =
  t_schema :: string
  t_id :: string
  t_name :: string
  t_category :: string
  t_judge_asset :: string
  t_work_image :: string
  t_work_platform :: "string option"
  t_network_need :: string
  t_allow_hosts :: "string list"
  t_candidate_timeout_sec :: u64
  t_metrics :: "metric_info list"
  t_workspace_seed :: "workspace_seed option"
  t_submission :: submission_policy
  t_resources :: task_resources
  t_imports :: "workspace_import list"
  t_legacy_judge :: "legacy_judge_source option"
  t_root :: path

definition max_cpu_limit :: u64 where "max_cpu_limit = 64"
definition max_memory_bytes :: u64 where "max_memory_bytes = 256 * 1024 * 1024 * 1024"
definition max_network_allow_hosts :: nat where "max_network_allow_hosts = 64"

definition legacy_work_resources :: role_resources where
  "legacy_work_resources = \<lparr>cpu_limit = 4, memory_bytes = 8 * 1024 * 1024 * 1024\<rparr>"

definition legacy_judge_resources :: role_resources where
  "legacy_judge_resources = \<lparr>cpu_limit = 4, memory_bytes = 16 * 1024 * 1024 * 1024\<rparr>"

definition task_v1 :: string where "task_v1 = ''a3s-bench/task/v1''"
definition task_v2 :: string where "task_v2 = ''a3s-bench/task/v2''"

subsection \<open>Network hosts\<close>

text \<open>\<open>str::parse::<IpAddr>\<close>: four decimal numbers below 256 without leading zeros, or eight groups
  of up to four hexadecimal digits, one run of zero groups written \<open>::\<close> and the last two groups
  possibly as an IPv4 address.\<close>

definition is_octet :: "string \<Rightarrow> bool" where
  "is_octet s =
     (s \<noteq> [] \<and> length s \<le> 3 \<and> list_all is_ascii_digit s \<and> (length s > 1 \<longrightarrow> hd s \<noteq> CHR ''0'') \<and>
      (case digits_value 0 s of None \<Rightarrow> False | Some n \<Rightarrow> n < 256))"

definition is_ipv4 :: "string \<Rightarrow> bool" where
  "is_ipv4 s = (let ps = split_char CHR ''.'' s in length ps = 4 \<and> list_all is_octet ps)"

definition is_group :: "string \<Rightarrow> bool" where
  "is_group s = (s \<noteq> [] \<and> length s \<le> 4 \<and> list_all is_ascii_hexdigit s)"

definition group_count :: "bool \<Rightarrow> string \<Rightarrow> nat option" where
  "group_count v4 s =
     (if s = [] then Some 0
      else let ps = split_char CHR '':'' s
           in if list_all is_group ps then Some (length ps)
              else if v4 \<and> list_all is_group (butlast ps) \<and> is_ipv4 (last ps) then Some (length ps + 1)
              else None)"

definition is_ipv6 :: "string \<Rightarrow> bool" where
  "is_ipv6 s =
     (case split_once s ''::'' of
        None \<Rightarrow> group_count True s = Some 8
      | Some (a, b) \<Rightarrow>
          (case (group_count False a, group_count True b) of
             (Some n, Some m) \<Rightarrow> n + m \<le> 7
           | _ \<Rightarrow> False))"

definition is_ip_addr :: "string \<Rightarrow> bool" where
  "is_ip_addr s = (is_ipv4 s \<or> is_ipv6 s)"

definition host_label :: "string \<Rightarrow> bool" where
  "host_label l =
     (l \<noteq> [] \<and> length l \<le> 63 \<and> is_ascii_alphanumeric (hd l) \<and> is_ascii_alphanumeric (last l) \<and>
      list_all (\<lambda>c. is_ascii_alphanumeric c \<or> c = CHR ''-'') l)"

definition validate_network_allow_host :: "string \<Rightarrow> unit result" where
  "validate_network_allow_host host =
     checks
       [(host \<noteq> [] \<and> length host \<le> 253 \<and> list_all is_ascii host \<and>
         list_all (\<lambda>c. \<not> is_ascii_control c) host \<and> list_all (\<lambda>c. \<not> is_ascii_uppercase c) host \<and>
         \<not> ends_with host ''.'',
         ''work.https_allow_hosts entries must be lowercase canonical ASCII DNS hostnames''),
        (\<not> is_ip_addr host, ''work.https_allow_hosts entries must not be IP literals''),
        (list_all host_label (split_char CHR ''.'' host),
         ''work.https_allow_hosts entries must be exact DNS hostnames without URLs, ports, or wildcards'')]"

definition parse_work_network_allow_hosts :: "block \<Rightarrow> string \<Rightarrow> string \<Rightarrow> string list result" where
  "parse_work_network_allow_hosts work schema need =
     bind_result
       (if attr work ''https_allow_hosts'' \<noteq> None
        then and_then
               (ensure (schema = task_v2)
                  ''Task v1 does not support work.https_allow_hosts; use a3s-bench/task/v2'')
               (string_list work ''https_allow_hosts'')
        else Inr []) (\<lambda>hosts.
     and_then
       (ensure (length hosts \<le> max_network_allow_hosts)
          ''work.https_allow_hosts exceeds the maximum of {MAX_NETWORK_ALLOW_HOSTS} hosts'')
     (and_then (each validate_network_allow_host hosts)
       (let hosts = remdups_adj (sort hosts)
        in and_then
             (if need = ''restricted_https''
              then ensure (hosts \<noteq> [])
                     ''work.network_need restricted_https requires work.https_allow_hosts''
              else if need = ''none'' \<or> need = ''public_internet''
              then ensure (hosts = [])
                     ''work.https_allow_hosts requires work.network_need restricted_https''
              else Inl (Panic ''work.network_need was validated''))
             (Inr hosts))))"

subsection \<open>Numbers\<close>

text \<open>\<open>u64::MAX as f64\<close> is \<open>2 ^ 64\<close>; \<open>as u64\<close> saturates.\<close>

definition positive_integer64 :: "float64 \<Rightarrow> bool" where
  "positive_integer64 x =
     (is_finite64 x \<and> le64 (of_nat64 1) x \<and> le64 x (of_nat64 (2 ^ 64 - 1)) \<and> integral64 x)"

definition optional_positive_integer :: "block \<Rightarrow> string \<Rightarrow> u64 option result" where
  "optional_positive_integer b name =
     (case attr b name of
        None \<Rightarrow> Inr None
      | Some v \<Rightarrow>
          bind_result (ok_or (a_number v) ''{}.{} must be a positive integer'') (\<lambda>x.
            and_then (ensure (positive_integer64 x) ''{}.{} must be a positive integer'')
              (Inr (Some (of_nat (to_u64 x))))))"

definition required_positive_integer :: "block \<Rightarrow> string \<Rightarrow> u64 result" where
  "required_positive_integer b name =
     bind_result (optional_positive_integer b name) (\<lambda>x.
       ok_or x ''{}.{} is required by a3s-bench/task/v2'')"

definition parse_role_resources :: "block \<Rightarrow> string \<Rightarrow> role_resources \<Rightarrow> role_resources result" where
  "parse_role_resources b schema legacy_default =
     (if schema = task_v1
      then and_then
             (ensure (attr b ''cpu_limit'' = None \<and> attr b ''memory_bytes'' = None)
                ''Task v1 does not support {} resource fields; use a3s-bench/task/v2'')
             (Inr legacy_default)
      else
        bind_result (required_positive_integer b ''cpu_limit'') (\<lambda>cpu.
        bind_result (required_positive_integer b ''memory_bytes'') (\<lambda>memory.
        and_then
          (checks
             [(cpu \<le> max_cpu_limit, ''{}.cpu_limit exceeds operator maximum {}''),
              (memory \<le> max_memory_bytes, ''{}.memory_bytes exceeds operator maximum {}'')])
          (Inr \<lparr>cpu_limit = cpu, memory_bytes = memory\<rparr>))))"

subsection \<open>Workspace imports\<close>

definition clean_components :: "string list \<Rightarrow> bool" where
  "clean_components cs = list_all (\<lambda>c. c \<noteq> [] \<and> c \<noteq> ''.'' \<and> c \<noteq> ''..'') cs"

definition plain_text :: "string \<Rightarrow> bool" where
  "plain_text s = (CHR '','' \<notin> set s \<and> CHR 0x00 \<notin> set s \<and> \<not> has_control s)"

definition runtime_mounts :: "string list" where
  "runtime_mounts = [''/proc'', ''/sys'', ''/dev'', ''/workspace'', ''/agent'']"

definition validate_workspace_import_source :: "string \<Rightarrow> unit result" where
  "validate_workspace_import_source p =
     and_then
       (ensure
          (starts_with p ''/'' \<and> p \<noteq> ''/'' \<and> plain_text p \<and> clean_components (tl (split_char CHR ''/'' p)))
          ''work.workspace_import.source_path must be a clean absolute directory path'')
       (each (\<lambda>m. ensure (p \<noteq> m \<and> \<not> starts_with p (m @ ''/''))
                ''work.workspace_import.source_path must not select a runtime mount'') runtime_mounts)"

definition validate_workspace_import_target :: "string \<Rightarrow> unit result" where
  "validate_workspace_import_target p =
     checks
       [(p \<noteq> [] \<and> (\<not> starts_with p ''/'' \<or> starts_with p ''/home/'') \<and> plain_text p \<and>
         clean_components
           (drop (if starts_with p ''/'' then 1 else 0) (split_char CHR ''/'' p)),
         ''work.workspace_import.target_path must be a clean relative path or absolute /home/... path''),
        (\<not> list_ex (\<lambda>c. c = ''.codex'') (split_char CHR ''/'' p),
         ''work.workspace_import.target_path must not select .codex'')]"

definition validate_workspace_import :: "workspace_import \<Rightarrow> unit result" where
  "validate_workspace_import v =
     and_then (validate_workspace_import_source (wi_source_path v))
       (and_then (validate_workspace_import_target (wi_target_path v))
          (ensure (plain_text (wi_name v)) ''work.workspace_import name contains an unsafe character''))"

definition relative_paths_overlap :: "string \<Rightarrow> string \<Rightarrow> bool" where
  "relative_paths_overlap l r = (l = r \<or> starts_with l (r @ ''/'') \<or> starts_with r (l @ ''/''))"

definition first_label :: "block \<Rightarrow> string result" where
  "first_label b = (case labels b of [] \<Rightarrow> Inl (Panic ''index out of bounds'') | l # _ \<Rightarrow> Inr l)"

definition parse_import :: "block \<Rightarrow> workspace_import result" where
  "parse_import b =
     and_then
       (ensure (length (labels b) = 1 \<and> hd (labels b) \<noteq> [])
          ''work.workspace_import must have one non-empty name label'')
       (bind_result (first_label b) (\<lambda>name.
        bind_result (require_string b ''source_path'' None) (\<lambda>source.
        bind_result (require_string b ''target_path'' None) (\<lambda>target.
          let v = \<lparr>wi_name = name, wi_source_path = source, wi_target_path = target\<rparr>
          in and_then (validate_workspace_import v) (Inr v)))))"

fun check_import_names :: "string list \<Rightarrow> workspace_import list \<Rightarrow> unit result" where
  "check_import_names seen [] = Inr ()"
| "check_import_names seen (i # is) =
     and_then (ensure (wi_name i \<notin> set seen) ''duplicate work.workspace_import name {:?}'')
       (check_import_names (wi_name i # seen) is)"

fun check_import_targets :: "workspace_import list \<Rightarrow> unit result" where
  "check_import_targets [] = Inr ()"
| "check_import_targets (i # is) =
     and_then
       (each (\<lambda>j. ensure (\<not> relative_paths_overlap (wi_target_path i) (wi_target_path j))
                ''work.workspace_import targets {:?} and {:?} overlap'') is)
       (check_import_targets is)"

definition parse_work_workspace_imports :: "block \<Rightarrow> string \<Rightarrow> workspace_import list result" where
  "parse_work_workspace_imports work schema =
     bind_result (map_results parse_import (child_blocks work ''workspace_import'')) (\<lambda>imports.
     and_then
       (ensure (schema = task_v2 \<or> imports = [])
          ''Task v1 does not support work.workspace_import; use a3s-bench/task/v2'')
       (and_then (check_import_names [] imports)
         (and_then (check_import_targets imports) (Inr imports))))"

subsection \<open>The rest of the descriptor\<close>

definition parse_submission :: "globs \<Rightarrow> block \<Rightarrow> submission_policy result" where
  "parse_submission G b =
     (let ms = child_blocks b ''submission''
      in and_then (ensure (length ms \<le> 1) ''Task may contain at most one submission block'')
           (bind_result
              (case ms of
                 m # _ \<Rightarrow>
                   bind_result (string_list m ''include'') (\<lambda>i.
                   bind_result (string_list m ''exclude'') (\<lambda>e. Inr (i, e)))
               | [] \<Rightarrow> Inr ([''**''], [''.git'', ''node_modules'', ''target''])) (\<lambda>(i, e).
            let pol = \<lparr>sub_include = i, sub_exclude = e, max_files = 50000,
                       max_total_bytes = 536870912, max_file_bytes = 67108864\<rparr>
            in and_then (validate_policy G pol) (Inr pol))))"

text \<open>The schema of a child of the root block, and of a block nested in it.\<close>

definition root_child_schema :: "string \<Rightarrow> block_schema option" where
  "root_child_schema name =
     map_of
       [(''workspace'', \<lparr>bs_attributes = [], bs_children = [''oci''], bs_labels = NoLabels\<rparr>),
        (''work'',
         \<lparr>bs_attributes = [''network_need'', ''https_allow_hosts'', ''cpu_limit'', ''memory_bytes''],
          bs_children = [''image'', ''workspace_import''], bs_labels = NoLabels\<rparr>),
        (''submission'', \<lparr>bs_attributes = [''include'', ''exclude''], bs_children = [], bs_labels = NoLabels\<rparr>),
        (''judge'',
         \<lparr>bs_attributes = [''asset'', ''solution_timeout_sec'', ''cpu_limit'', ''memory_bytes''],
          bs_children = [''requirements''], bs_labels = NoLabels\<rparr>),
        (''metric'',
         \<lparr>bs_attributes = [''type'', ''role'', ''direction'', ''min'', ''max'', ''normalization'', ''gate'',
            ''gate_failure_score_basis_points'', ''solution_failure_value'', ''public_report''],
          bs_children = [''measurement''], bs_labels = ExactlyLabels 1\<rparr>)] name"

definition nested_schema :: "string \<Rightarrow> block_schema option" where
  "nested_schema name =
     map_option
       (\<lambda>as. \<lparr>bs_attributes = as, bs_children = [],
              bs_labels = (if name = ''workspace_import'' then ExactlyLabels 1 else NoLabels)\<rparr>)
       (map_of
          [(''oci'', [''ref'', ''platform'', ''source_path'']),
           (''image'', [''ref'', ''platform'']),
           (''workspace_import'', [''source_path'', ''target_path'']),
           (''requirements'', [''cohort'']),
           (''measurement'',
            [''warmup_repeats'', ''measured_repeats'', ''estimator'', ''outlier_policy'', ''tolerance''])]
          name)"

definition validate_task_schema :: "block \<Rightarrow> unit result" where
  "validate_task_schema b =
     and_then
       (validate_block b
          \<lparr>bs_attributes = [''schema'', ''version'', ''name'', ''category'', ''description'', ''tags''],
           bs_children = [''workspace'', ''work'', ''submission'', ''judge'', ''metric''],
           bs_labels = ExactlyLabels 1\<rparr>)
       (each (\<lambda>c.
          case root_child_schema (bname c) of
            None \<Rightarrow> Inl (Panic ''root child names were validated'')
          | Some sc \<Rightarrow>
              and_then (validate_block c sc)
                (each (\<lambda>d.
                   case nested_schema (bname d) of
                     None \<Rightarrow> Inl (Panic ''nested child names were validated'')
                   | Some sd \<Rightarrow> validate_block d sd) (blocks c))) (blocks b))"

definition parse_workspace_seed :: "block \<Rightarrow> workspace_seed option result" where
  "parse_workspace_seed b =
     (let ms = child_blocks b ''workspace''
      in and_then (ensure (length ms \<le> 1) ''Task may contain at most one workspace block'')
           (case ms of
              [] \<Rightarrow> Inr None
            | workspace # _ \<Rightarrow>
                bind_result (unique_block workspace ''oci'') (\<lambda>oci.
                bind_result (require_string oci ''source_path'' None) (\<lambda>source.
                and_then (ensure (starts_with source ''/'') ''workspace.oci.source_path must be absolute'')
                  (bind_result (require_string oci ''ref'' None) (\<lambda>image.
                     Inr (Some \<lparr>ws_image = image, ws_source_path = source,
                                ws_platform = attr_str oci ''platform''\<rparr>)))))))"

definition parse_metric :: "block \<Rightarrow> metric_info result" where
  "parse_metric b =
     and_then (ensure (length (labels b) = 1) ''metric block must have one label'')
       (bind_result (ok_or (attr_number b ''min'') ''metric.min must be a number'') (\<lambda>lo.
        bind_result (ok_or (attr_number b ''max'') ''metric.max must be a number'') (\<lambda>hi.
        and_then (ensure (is_finite64 lo \<and> is_finite64 hi \<and> le64 lo hi) ''invalid metric range'')
          (bind_result (first_label b) (\<lambda>name.
           bind_result (require_string b ''role'' None) (\<lambda>role.
             Inr \<lparr>mi_name = name, mi_min = lo, mi_max = hi, mi_role = role\<rparr>))))))"

subsection \<open>Loading\<close>

text \<open>Reading and testing a file through a path, links followed.\<close>

definition read_to_string :: "os \<Rightarrow> path \<Rightarrow> fs \<Rightarrow> string result" where
  "read_to_string env p s =
     (case fault env (ReadFile p) of
        Some e \<Rightarrow> Inl (Io e)
      | None \<Rightarrow>
          (case (case disk s p of
                   Some (FileE _ b) \<Rightarrow> Some b
                 | Some (LinkE _) \<Rightarrow> link_file env p
                 | _ \<Rightarrow> None) of
             None \<Rightarrow> Inl (Io NotFound)
           | Some b \<Rightarrow> if valid_utf8 b then Inr b else Inl (Io (OtherIo ''invalid UTF-8''))))"

definition is_file :: "os \<Rightarrow> path \<Rightarrow> fs \<Rightarrow> bool" where
  "is_file env p s =
     (fault env (Metadata p) = None \<and>
      (case disk s p of
         Some (FileE _ _) \<Rightarrow> True
       | Some (LinkE _) \<Rightarrow> link_file env p \<noteq> None
       | _ \<Rightarrow> False))"

text \<open>\<open>Path::join\<close> of a text: an absolute one replaces the path.\<close>

definition join_text :: "path \<Rightarrow> string \<Rightarrow> path" where
  "join_text p s =
     (let cs = filter (\<lambda>c. c \<noteq> [] \<and> c \<noteq> ''.'') (split_char CHR ''/'' s)
      in if starts_with s ''/'' then cs else p @ cs)"

definition locate_task :: "os \<Rightarrow> path \<Rightarrow> fs \<Rightarrow> (path \<times> path) result" where
  "locate_task env reference s =
     (case (fault env (Lstat reference), disk s reference) of
        (Some e, _) \<Rightarrow> Inl (Context ''Task source does not exist: {}'' (Io e))
      | (None, None) \<Rightarrow> Inl (Context ''Task source does not exist: {}'' (Io NotFound))
      | (None, Some (LinkE _)) \<Rightarrow> Inl (Bail ''Task source must not be a symlink'')
      | (None, Some (DirE _)) \<Rightarrow> Inr (reference, reference @ [''task.acl''])
      | (None, Some _) \<Rightarrow>
          and_then
            (ensure (reference \<noteq> [] \<and> last reference = ''task.acl'') ''local Task file must be named task.acl'')
            (Inr (butlast reference, reference)))"

text \<open>What is read from the document, before the Judge source and the Judge Asset are looked up.\<close>

definition parse_task :: "globs \<Rightarrow> block \<Rightarrow> task_info result" where
  "parse_task G b =
     and_then (validate_task_schema b)
    (bind_result (require_string b ''schema'' None) (\<lambda>schema.
     and_then (ensure (schema = task_v1 \<or> schema = task_v2)
                 ''bench.schema must be a3s-bench/task/v1 or a3s-bench/task/v2'')
    (bind_result (require_string b ''version'' None) (\<lambda>_.
     bind_result (unique_block b ''judge'') (\<lambda>judge.
     bind_result (require_string judge ''asset'' None) (\<lambda>asset.
     bind_result (optional_positive_integer judge ''solution_timeout_sec'') (\<lambda>timeout.
     bind_result (unique_block b ''work'') (\<lambda>work.
     let need = (case attr_str work ''network_need'' of None \<Rightarrow> ''none'' | Some n \<Rightarrow> n)
     in and_then (ensure (need \<in> {''none'', ''restricted_https'', ''public_internet''})
                 ''work.network_need must be none, restricted_https, or public_internet'')
    (bind_result (parse_work_network_allow_hosts work schema need) (\<lambda>hosts.
     bind_result (unique_block work ''image'') (\<lambda>image.
     bind_result (require_string image ''ref'' None) (\<lambda>work_image.
     bind_result (map_results parse_metric (child_blocks b ''metric'')) (\<lambda>metrics.
     and_then (ensure (length (filter (\<lambda>m. mi_role m = ''primary'') metrics) = 1)
                 ''Task must declare exactly one primary metric'')
    (bind_result (parse_workspace_seed b) (\<lambda>seed.
     bind_result (parse_submission G b) (\<lambda>submission.
     bind_result (parse_role_resources work schema legacy_work_resources) (\<lambda>work_resources.
     bind_result (parse_role_resources judge schema legacy_judge_resources) (\<lambda>judge_resources.
     bind_result (parse_work_workspace_imports work schema) (\<lambda>imports.
     bind_result (first_label b) (\<lambda>name_label.
       Inr \<lparr>t_schema = schema, t_id = name_label, t_name = [], t_category = [], t_judge_asset = asset,
             t_work_image = work_image, t_work_platform = Option.bind seed ws_platform,
             t_network_need = need, t_allow_hosts = hosts,
             t_candidate_timeout_sec = (case timeout of None \<Rightarrow> 300 | Some n \<Rightarrow> n),
             t_metrics = metrics, t_workspace_seed = seed, t_submission = submission,
             t_resources = \<lparr>tr_work = work_resources, tr_judge = judge_resources\<rparr>,
             t_imports = imports, t_legacy_judge = None, t_root = []\<rparr>))))))))))))))))))))"

definition remote_asset :: "string \<Rightarrow> bool" where
  "remote_asset a =
     (starts_with a ''oci://'' \<or> starts_with a ''asset:'' \<or> starts_with a ''asset://'' \<or>
      starts_with a ''https://'')"

text \<open>From the root block to the Task, with the Judge source and the Judge Asset on disk.\<close>

definition task_of_block :: "library \<Rightarrow> globs \<Rightarrow> os \<Rightarrow> fs \<Rightarrow> path \<Rightarrow> block \<Rightarrow> task_info result" where
  "task_of_block L G env s base b =
     and_then
       (ensure (bname b = ''bench'' \<and> length (labels b) = 1) ''root block must be bench <task-id>'')
    (bind_result (parse_task G b) (\<lambda>t.
     bind_result (load_judge_source L env (base @ [''private'', ''judge'', ''judge.source.json'']) s) (\<lambda>legacy.
     and_then
       (if remote_asset (t_judge_asset t) then Inr ()
        else ensure (is_file env (join_text base (t_judge_asset t) @ [''.a3s'', ''asset.acl'']) s)
               ''local Judge Asset is missing {}/.a3s/asset.acl'')
    (bind_result (require_string b ''name'' None) (\<lambda>name.
     bind_result (require_string b ''category'' None) (\<lambda>category.
       Inr (t\<lparr>t_name := name, t_category := category, t_legacy_judge := legacy, t_root := base\<rparr>)))))))"

definition load_local ::
  "acl_parser \<Rightarrow> library \<Rightarrow> globs \<Rightarrow> os \<Rightarrow> path \<Rightarrow> fs \<Rightarrow> task_info result" where
  "load_local P L G env reference s =
     bind_result (locate_task env reference s) (\<lambda>(base, acl_path).
     bind_result (with_context ''could not read {}'' (read_to_string env acl_path s)) (\<lambda>source.
     bind_result (ok_or (P source) ''invalid {}: {error}'') (\<lambda>document.
       case document of
         [b] \<Rightarrow> task_of_block L G env s base b
       | _ \<Rightarrow> Inl (Bail ''task.acl must contain exactly one root block''))))"

subsection \<open>No panic\<close>

lemma panics_first_label: "panics (first_label b) \<longleftrightarrow> labels b = []"
  by (simp add: first_label_def split: list.splits)

lemma panics_compile_patterns [simp]: "\<not> panics (compile_patterns G ps)"
proof -
  have "\<not> panics (collect_globs G ps)"
  proof (induction ps)
    case (Cons p ps)
    have "\<not> panics (each (add_glob G) qs)" for qs
      by (auto simp: add_glob_def dest!: panics_each split: if_splits)
    with Cons show ?case
      by (auto simp: panics_parts validate_pattern_def Let_def)
  qed simp
  then show ?thesis by (simp add: compile_patterns_def panics_parts split: if_splits)
qed

lemma panics_validate_policy [simp]: "\<not> panics (validate_policy G pol)"
  by (simp add: validate_policy_def panics_parts)

lemma panics_optional_positive_integer [simp]: "\<not> panics (optional_positive_integer b n)"
  by (simp add: optional_positive_integer_def panics_parts split: option.splits)

lemma panics_parse_role_resources [simp]: "\<not> panics (parse_role_resources b sc d)"
  by (auto simp: parse_role_resources_def required_positive_integer_def panics_parts)

lemma panics_validate_host [simp]: "\<not> panics (validate_network_allow_host h)"
  by (simp add: validate_network_allow_host_def)

lemma panics_each_free: "(\<And>x. \<not> panics (f x)) \<Longrightarrow> \<not> panics (each f xs)"
  by (induction xs) (simp_all add: panics_and_then)

lemma panics_each_ensure [simp]: "\<not> panics (each (\<lambda>x. ensure (P x) (m x)) xs)"
  by (simp add: panics_each_free)

lemma panics_hosts:
  assumes "need \<in> {''none'', ''restricted_https'', ''public_internet''}"
  shows "\<not> panics (parse_work_network_allow_hosts work sc need)"
proof -
  have last: "\<not> panics
             (if need = ''restricted_https''
              then ensure A m
              else if need = ''none'' \<or> need = ''public_internet''
              then ensure B m'
              else Inl (Panic x))" for A B m m' x
    using assms by auto
  show ?thesis
    by (simp add: parse_work_network_allow_hosts_def panics_bind panics_and_then Let_def
        panics_each_free last)
qed

lemma panics_validate_import [simp]: "\<not> panics (validate_workspace_import v)"
  by (simp add: validate_workspace_import_def validate_workspace_import_source_def
      validate_workspace_import_target_def panics_and_then)

lemma panics_parse_import [simp]: "\<not> panics (parse_import b)"
  by (auto simp: parse_import_def panics_parts Let_def ensure_Inr panics_first_label)

lemma panics_check_names [simp]: "\<not> panics (check_import_names seen xs)"
  by (induction xs arbitrary: seen) (auto simp: panics_parts)

lemma panics_check_targets [simp]: "\<not> panics (check_import_targets xs)"
  by (induction xs) (auto simp: panics_parts dest!: panics_each)

lemma panics_imports [simp]: "\<not> panics (parse_work_workspace_imports work sc)"
  by (auto simp: parse_work_workspace_imports_def panics_parts dest!: panics_map_results)

lemma panics_parse_submission [simp]: "\<not> panics (parse_submission G b)"
  by (auto simp: parse_submission_def Let_def panics_parts split: list.splits)

lemma panics_parse_seed [simp]: "\<not> panics (parse_workspace_seed b)"
  by (auto simp: parse_workspace_seed_def Let_def panics_parts split: list.splits)

lemma panics_parse_metric [simp]: "\<not> panics (parse_metric b)"
  by (auto simp: parse_metric_def panics_parts ensure_Inr panics_first_label)

lemma root_child_nested:
  "root_child_schema name = Some sc \<Longrightarrow> x \<in> set (bs_children sc) \<Longrightarrow> nested_schema x \<noteq> None"
  by (auto simp: root_child_schema_def nested_schema_def split: if_splits)

lemma root_child_known:
  "name \<in> {''workspace'', ''work'', ''submission'', ''judge'', ''metric''} \<Longrightarrow> root_child_schema name \<noteq> None"
  by (auto simp: root_child_schema_def)

lemma panics_nested [simp]:
  "x \<in> set (bs_children sc) \<Longrightarrow> root_child_schema name = Some sc \<Longrightarrow> bname d = x \<Longrightarrow>
     \<not> panics (case nested_schema (bname d) of
        None \<Rightarrow> Inl (Panic ''nested child names were validated'') | Some sd \<Rightarrow> validate_block d sd)"
  using root_child_nested by (fastforce split: option.splits)

lemma panics_validate_task_schema [simp]: "\<not> panics (validate_task_schema b)"
proof
  assume "panics (validate_task_schema b)"
  then obtain c where
    names: "bname ` set (blocks b) \<subseteq> {''workspace'', ''work'', ''submission'', ''judge'', ''metric''}" and
    c: "c \<in> set (blocks b)" and
    p: "panics (case root_child_schema (bname c) of
            None \<Rightarrow> Inl (Panic ''root child names were validated'')
          | Some sc \<Rightarrow>
              and_then (validate_block c sc)
                (each (\<lambda>d.
                   case nested_schema (bname d) of
                     None \<Rightarrow> Inl (Panic ''nested child names were validated'')
                   | Some sd \<Rightarrow> validate_block d sd) (blocks c)))"
    by (auto simp: validate_task_schema_def panics_parts validate_block_Inr dest!: panics_each)
  from names c have "bname c \<in> {''workspace'', ''work'', ''submission'', ''judge'', ''metric''}" by blast
  from root_child_known [OF this] obtain sc where sc: "root_child_schema (bname c) = Some sc" by blast
  with p obtain d where v: "validate_block c sc = Inr ()" and d: "d \<in> set (blocks c)"
    and pd: "panics (case nested_schema (bname d) of
                 None \<Rightarrow> Inl (Panic ''nested child names were validated'')
               | Some sd \<Rightarrow> validate_block d sd)"
    by (auto simp: panics_parts dest!: panics_each)
  from v d have "bname d \<in> set (bs_children sc)" by (auto simp: validate_block_Inr)
  from panics_nested [OF this sc refl] pd show False by blast
qed

lemma validate_task_schema_label: "validate_task_schema b = Inr () \<Longrightarrow> length (labels b) = 1"
  by (simp add: validate_task_schema_def and_then_Inr validate_block_Inr labels_ok_def)

lemma panics_parse_task: "\<not> panics (parse_task G b)"
proof
  assume "panics (parse_task G b)"
  then have "validate_task_schema b = Inr () \<and> panics (first_label b)"
    using panics_hosts
    by (auto simp: parse_task_def panics_parts Let_def ensure_Inr dest!: panics_map_results)
  with validate_task_schema_label [of b] show False by (auto simp: panics_first_label)
qed

lemma panics_load_local: "\<not> panics (load_local P L G env r s)"
  using panics_parse_task
  by (auto simp: load_local_def task_of_block_def locate_task_def panics_parts split: prod.splits
      list.splits option.splits entry.splits)

subsection \<open>What a loaded Task satisfies\<close>

lemma map_results_from: "map_results f xs = Inr ys \<Longrightarrow> y \<in> set ys \<Longrightarrow> \<exists>x \<in> set xs. f x = Inr y"
  unfolding map_results_Inr by (metis in_set_conv_nth)

lemma one_and_max: "of_nat64 1 = Fin False 4503599627370496 (- 52)"
    "of_nat64 (2 ^ 64 - 1) = Fin False 4503599627370496 12"
  by (simp_all add: of_nat64_def round_eval)

text \<open>An accepted number is an integer from 1 to \<open>2 ^ 64\<close>, and what is read is that integer, except
  that \<open>2 ^ 64\<close> itself becomes \<open>2 ^ 64 - 1\<close>.\<close>

lemma positive_integer64_value:
  assumes "positive_integer64 x"
  obtains m e n where "x = Fin False m e" "real n = real m * 2 powi e" "1 \<le> n" "n \<le> 2 ^ 64"
    "to_u64 x = min (2 ^ 64 - 1) n"
proof -
  from assms obtain s m e where x: "x = Fin s m e" by (auto simp: positive_integer64_def is_finite64_def split: float64.splits)
  have lo: "1 \<le> fval s m e" and hi: "fval s m e \<le> 2 ^ 64"
    using assms unfolding positive_integer64_def x one_and_max
    by (simp_all add: fin_le_iff power_int_minus)
  have s: "s = False"
  proof (rule ccontr)
    assume "s \<noteq> False"
    then have "fval s m e \<le> 0" by simp
    with lo show False by linarith
  qed
  define n where "n = (if 0 \<le> e then m * 2 ^ nat e else m div 2 ^ nat (- e))"
  have v: "real n = real m * 2 powi e"
  proof (cases "0 \<le> e")
    case True
    then show ?thesis by (simp add: n_def power_int_def)
  next
    case False
    with assms have "2 ^ nat (- e) dvd m" by (simp add: positive_integer64_def x integral64_def)
    then have "real (m div 2 ^ nat (- e)) = real m / 2 ^ nat (- e)"
      by (simp add: real_of_nat_div)
    with False show ?thesis by (simp add: n_def power_int_def field_simps)
  qed
  have "1 \<le> n" using lo v s by simp
  moreover have "real n \<le> real (2 ^ 64)" using hi v s by simp
  then have "n \<le> 2 ^ 64" by (simp only: of_nat_le_iff)
  moreover have "to_u64 x = min (2 ^ 64 - 1) n" by (simp add: to_u64_def x s n_def)
  ultimately show ?thesis using that [of m e n] x s v by blast
qed

lemma optional_positive_integer_ge_1:
  assumes "optional_positive_integer b k = Inr (Some n)"
  shows "1 \<le> n"
proof -
  from assms obtain x where x: "positive_integer64 x" "n = of_nat (to_u64 x)"
    by (auto simp: optional_positive_integer_def bind_result_Inr and_then_Inr ensure_Inr split: option.splits)
  from positive_integer64_value [OF x(1)] obtain m where "1 \<le> m" "to_u64 x = min (2 ^ 64 - 1) m" by metis
  then have "1 \<le> to_u64 x" "to_u64 x < 2 ^ 64" by auto
  with x(2) show ?thesis by (simp add: word_le_nat_alt unat_of_nat)
qed

definition resources_ok :: "role_resources \<Rightarrow> bool" where
  "resources_ok r =
     (1 \<le> cpu_limit r \<and> cpu_limit r \<le> max_cpu_limit \<and>
      1 \<le> memory_bytes r \<and> memory_bytes r \<le> max_memory_bytes)"

lemma parse_role_resources_ok:
  assumes "parse_role_resources b sc d = Inr r" "resources_ok d"
  shows "resources_ok r \<and> (sc = task_v1 \<longrightarrow> r = d)"
  using assms optional_positive_integer_ge_1
  by (auto simp: parse_role_resources_def required_positive_integer_def bind_result_Inr and_then_Inr
      ok_or_Inr checks_Inr resources_ok_def split: if_splits)

lemma legacy_resources_ok: "resources_ok legacy_work_resources" "resources_ok legacy_judge_resources"
  by (simp_all add: resources_ok_def legacy_work_resources_def legacy_judge_resources_def
      max_cpu_limit_def max_memory_bytes_def)

definition hosts_ok :: "string \<Rightarrow> string list \<Rightarrow> bool" where
  "hosts_ok need hosts =
     (sorted_wrt (<) hosts \<and> length hosts \<le> max_network_allow_hosts \<and>
      (\<forall>h \<in> set hosts. validate_network_allow_host h = Inr ()) \<and>
      (hosts \<noteq> [] \<longleftrightarrow> need = ''restricted_https''))"

lemma remdups_adj_sort: "sorted_wrt (<) (remdups_adj (sort xs))"
proof -
  have "sorted_wrt (<) (remdups_adj ys)" if "sorted ys" for ys :: "'a list"
    using that by (induction ys rule: remdups_adj.induct) auto
  then show ?thesis by simp
qed

lemma parse_hosts_ok:
  assumes "parse_work_network_allow_hosts work sc need = Inr hosts"
  shows "hosts_ok need hosts \<and> (sc \<noteq> task_v2 \<longrightarrow> hosts = [])"
proof -
  from assms obtain hs where
    sel: "(if attr work ''https_allow_hosts'' \<noteq> None
        then and_then (ensure (sc = task_v2)
               ''Task v1 does not support work.https_allow_hosts; use a3s-bench/task/v2'')
               (string_list work ''https_allow_hosts'')
        else Inr []) = Inr hs"
    and hs: "length hs \<le> max_network_allow_hosts" "\<forall>h \<in> set hs. validate_network_allow_host h = Inr ()"
    and hosts: "hosts = remdups_adj (sort hs)"
    and chk: "(if need = ''restricted_https''
         then ensure (hosts \<noteq> []) ''work.network_need restricted_https requires work.https_allow_hosts''
         else if need = ''none'' \<or> need = ''public_internet''
         then ensure (hosts = []) ''work.https_allow_hosts requires work.network_need restricted_https''
         else Inl (Panic ''work.network_need was validated'')) = Inr ()"
    unfolding parse_work_network_allow_hosts_def Let_def bind_result_Inr and_then_Inr ensure_Inr each_Inr
      sum.inject by blast
  have sc: "sc \<noteq> task_v2 \<longrightarrow> hs = []" using sel by (simp add: and_then_Inr ensure_Inr split: if_splits)
  have need: "if need = ''restricted_https'' then hosts \<noteq> [] else hosts = []"
    using chk by (cases "need = ''restricted_https''"; cases "hosts = []") (simp_all split: if_splits)
  have "length hosts \<le> length hs" unfolding hosts by (metis length_sort remdups_adj_length)
  moreover have "hosts \<noteq> [] \<longleftrightarrow> need = ''restricted_https''" using need by (cases "need = ''restricted_https''") simp_all
  ultimately show ?thesis
    using hs sc hosts remdups_adj_sort [of hs] by (auto simp: hosts_ok_def)
qed

text \<open>Import targets that do not overlap as texts are different places: neither contains the
  other.\<close>

lemma join_with_append:
  "xs \<noteq> [] \<Longrightarrow> ys \<noteq> [] \<Longrightarrow> join_with c (xs @ ys) = join_with c xs @ c @ join_with c ys"
  by (induction c xs rule: join_with.induct) (auto simp: neq_Nil_conv)

lemma overlap_prefix:
  assumes "prefix (split_char CHR ''/'' a) (split_char CHR ''/'' b)"
  shows "relative_paths_overlap a b"
proof -
  from assms obtain r where r: "split_char CHR ''/'' b = split_char CHR ''/'' a @ r" by (auto simp: prefix_def)
  show ?thesis
  proof (cases "r = []")
    case True
    with r have "a = b" by (metis append_Nil2 join_split)
    then show ?thesis by (simp add: relative_paths_overlap_def)
  next
    case False
    have "b = join_with ''/'' (split_char CHR ''/'' a @ r)" using r by (metis join_split)
    also have "\<dots> = a @ ''/'' @ join_with ''/'' r" using False by (simp add: join_with_append join_split)
    finally show ?thesis by (simp add: relative_paths_overlap_def starts_with_iff)
  qed
qed

definition targets_apart :: "workspace_import \<Rightarrow> workspace_import \<Rightarrow> bool" where
  "targets_apart i j =
     (\<not> prefix (split_char CHR ''/'' (wi_target_path i)) (split_char CHR ''/'' (wi_target_path j)) \<and>
      \<not> prefix (split_char CHR ''/'' (wi_target_path j)) (split_char CHR ''/'' (wi_target_path i)))"

lemma relative_paths_overlap_sym: "relative_paths_overlap a b = relative_paths_overlap b a"
  by (auto simp: relative_paths_overlap_def)

lemma check_import_targets_apart:
  "check_import_targets xs = Inr u \<Longrightarrow> sorted_wrt targets_apart xs"
proof (induction xs)
  case (Cons x xs)
  have "targets_apart x y" if "y \<in> set xs" for y
  proof -
    have "\<not> relative_paths_overlap (wi_target_path x) (wi_target_path y)"
      using Cons.prems that by (auto simp: and_then_Inr each_Inr ensure_Inr)
    then show ?thesis
      unfolding targets_apart_def using overlap_prefix relative_paths_overlap_sym by blast
  qed
  with Cons show ?case by (simp add: and_then_Inr)
qed simp

lemma check_import_names_distinct:
  "check_import_names seen xs = Inr u \<Longrightarrow>
     distinct (map wi_name xs) \<and> set seen \<inter> wi_name ` set xs = {}"
  by (induction seen xs rule: check_import_names.induct) (auto simp: and_then_Inr ensure_Inr)

definition imports_ok :: "workspace_import list \<Rightarrow> bool" where
  "imports_ok xs =
     (distinct (map wi_name xs) \<and> sorted_wrt targets_apart xs \<and>
      (\<forall>i \<in> set xs. validate_workspace_import i = Inr ()))"

lemma parse_import_valid: "parse_import b = Inr i \<Longrightarrow> validate_workspace_import i = Inr ()"
  by (auto simp: parse_import_def bind_result_Inr and_then_Inr Let_def)

lemma parse_imports_ok:
  assumes "parse_work_workspace_imports work sc = Inr xs"
  shows "imports_ok xs \<and> (sc \<noteq> task_v2 \<longrightarrow> xs = [])"
proof -
  from assms have m: "map_results parse_import (child_blocks work ''workspace_import'') = Inr xs"
    and c: "sc = task_v2 \<or> xs = []" "check_import_names [] xs = Inr ()" "check_import_targets xs = Inr ()"
    by (auto simp: parse_work_workspace_imports_def bind_result_Inr and_then_Inr ensure_Inr)
  have "\<forall>i \<in> set xs. validate_workspace_import i = Inr ()"
    using map_results_from [OF m] parse_import_valid by blast
  with c check_import_targets_apart [OF c(3)] check_import_names_distinct [OF c(2)]
  show ?thesis by (auto simp: imports_ok_def)
qed

definition metric_ok :: "metric_info \<Rightarrow> bool" where
  "metric_ok m = (is_finite64 (mi_min m) \<and> is_finite64 (mi_max m) \<and> le64 (mi_min m) (mi_max m))"

lemma parse_metric_ok: "parse_metric b = Inr m \<Longrightarrow> metric_ok m"
  by (auto simp: parse_metric_def bind_result_Inr and_then_Inr ensure_Inr metric_ok_def)

definition valid_task :: "globs \<Rightarrow> task_info \<Rightarrow> bool" where
  "valid_task G t =
     (t_schema t \<in> {task_v1, task_v2} \<and>
      t_network_need t \<in> {''none'', ''restricted_https'', ''public_internet''} \<and>
      hosts_ok (t_network_need t) (t_allow_hosts t) \<and>
      1 \<le> t_candidate_timeout_sec t \<and>
      length (filter (\<lambda>m. mi_role m = ''primary'') (t_metrics t)) = 1 \<and>
      (\<forall>m \<in> set (t_metrics t). metric_ok m) \<and>
      validate_policy G (t_submission t) = Inr () \<and>
      resources_ok (tr_work (t_resources t)) \<and> resources_ok (tr_judge (t_resources t)) \<and>
      imports_ok (t_imports t) \<and>
      (t_schema t = task_v1 \<longrightarrow> t_allow_hosts t = [] \<and> t_imports t = [] \<and>
         t_resources t = \<lparr>tr_work = legacy_work_resources, tr_judge = legacy_judge_resources\<rparr>) \<and>
      (\<forall>src. t_legacy_judge t = Some src \<longrightarrow> usable_judge_source src))"

lemma schemas_differ: "task_v1 \<noteq> task_v2"
  by (simp add: task_v1_def task_v2_def)

lemma parse_submission_valid: "parse_submission G b = Inr pol \<Longrightarrow> validate_policy G pol = Inr ()"
  by (auto simp: parse_submission_def Let_def bind_result_Inr and_then_Inr split: list.splits prod.splits)

lemma parse_task_valid:
  assumes "parse_task G b = Inr t"
  shows "valid_task G t"
proof -
  from assms obtain schema asset timeout need hosts work_image metrics seed submission wr jr imps name work judge
    where schema: "schema = task_v1 \<or> schema = task_v2"
      and timeout: "optional_positive_integer judge ''solution_timeout_sec'' = Inr timeout"
      and need: "need \<in> {''none'', ''restricted_https'', ''public_internet''}"
      and hosts: "parse_work_network_allow_hosts work schema need = Inr hosts"
      and metrics: "map_results parse_metric (child_blocks b ''metric'') = Inr metrics"
        "length (filter (\<lambda>m. mi_role m = ''primary'') metrics) = 1"
      and sub: "parse_submission G b = Inr submission"
      and wr: "parse_role_resources work schema legacy_work_resources = Inr wr"
      and jr: "parse_role_resources judge schema legacy_judge_resources = Inr jr"
      and imps: "parse_work_workspace_imports work schema = Inr imps"
      and t: "t = \<lparr>t_schema = schema, t_id = name, t_name = [], t_category = [], t_judge_asset = asset,
             t_work_image = work_image, t_work_platform = Option.bind seed ws_platform,
             t_network_need = need, t_allow_hosts = hosts,
             t_candidate_timeout_sec = (case timeout of None \<Rightarrow> 300 | Some n \<Rightarrow> n),
             t_metrics = metrics, t_workspace_seed = seed, t_submission = submission,
             t_resources = \<lparr>tr_work = wr, tr_judge = jr\<rparr>,
             t_imports = imps, t_legacy_judge = None, t_root = []\<rparr>"
    unfolding parse_task_def Let_def
    by (simp only: bind_result_Inr and_then_Inr ensure_Inr) blast
  have "1 \<le> t_candidate_timeout_sec t"
    using timeout optional_positive_integer_ge_1 [of judge "''solution_timeout_sec''"]
    by (cases timeout) (auto simp: t)
  moreover have "\<forall>m \<in> set metrics. metric_ok m"
    using map_results_from [OF metrics(1)] parse_metric_ok by blast
  moreover have "hosts_ok need hosts" "schema \<noteq> task_v2 \<longrightarrow> hosts = []"
    using parse_hosts_ok [OF hosts] by blast+
  moreover have "imports_ok imps" "schema \<noteq> task_v2 \<longrightarrow> imps = []"
    using parse_imports_ok [OF imps] by blast+
  moreover have "resources_ok wr \<and> (schema = task_v1 \<longrightarrow> wr = legacy_work_resources)"
      "resources_ok jr \<and> (schema = task_v1 \<longrightarrow> jr = legacy_judge_resources)"
    by (rule parse_role_resources_ok [OF wr legacy_resources_ok(1)]
        parse_role_resources_ok [OF jr legacy_resources_ok(2)])+
  ultimately show ?thesis
    using schema need metrics(2) parse_submission_valid [OF sub] schemas_differ
    by (simp add: valid_task_def t)
qed

lemma load_local_block:
  assumes "load_local P L G env reference s = Inr t"
  shows "\<exists>base b. task_of_block L G env s base b = Inr t"
proof -
  obtain base document where
    d: "(case document of [b] \<Rightarrow> task_of_block L G env s base b
         | _ \<Rightarrow> Inl (Bail ''task.acl must contain exactly one root block'')) = Inr t"
    using assms unfolding load_local_def bind_result_Inr split_beta
    by (elim exE conjE) (erule that)
  then show ?thesis
    by (cases document; cases "tl document") auto
qed

subsection \<open>Properties\<close>

text \<open>
  Loading a Task never panics, whatever the document, the files and the failing calls: the
  \<open>unreachable!\<close> arms are unreachable and no index is out of range.
\<close>

lemma task_loading_never_panics: "\<not> panics (load_local P L G env reference s)"
  by (rule panics_load_local)


definition demo_block :: block where
  "demo_block = Block ''bench'' [''demo'']
     [(''schema'', AStr task_v1), (''version'', AStr ''1''), (''name'', AStr ''n''), (''category'', AStr ''c'')]
     [Block ''work'' [] [] [Block ''image'' [] [(''ref'', AStr ''alpine'')] []],
      Block ''judge'' [] [(''asset'', AStr ''asset:judge'')] [],
      Block ''metric'' [''m''] 
        [(''min'', ANum (zero64 False)), (''max'', ANum (zero64 False)), (''role'', AStr ''primary'')] []]"

definition demo_disk :: fs where
  "demo_disk =
     \<lparr>disk = [[''t''] \<mapsto> DirE mode_700, [''t'', ''task.acl''] \<mapsto> FileE mode_600 ''bench''],
      staging_sequence = 0\<rparr>"

definition demo_load :: "task_info result" where
  "demo_load = load_local (\<lambda>_. Some [demo_block]) toy_library demo_globs quiet_os [''t''] demo_disk"

lemma demo_loads: "\<not> isl demo_load"
  by code_simp


text \<open>
  C21 The hosts a role may reach are canonical: the accepted list is the strictly ascending list of
  the hosts the document names, however often and in whatever order it names them.
\<close>

theorem allow_hosts_are_canonical:
  assumes "parse_work_network_allow_hosts work sc need = Inr hosts" "string_list work ''https_allow_hosts'' = Inr listed"
  shows "hosts = sorted_list_of_set (set listed)"
proof -
  have "attr work ''https_allow_hosts'' \<noteq> None"
    using assms(2) by (auto simp: string_list_def split: option.splits)
  then have "hosts = remdups_adj (sort listed)"
    using assms
    by (auto simp: parse_work_network_allow_hosts_def bind_result_Inr and_then_Inr Let_def)
  then have "sorted_wrt (<) hosts" "set hosts = set listed"
    using remdups_adj_sort [of listed] by simp_all
  then show ?thesis
    by (metis sorted_list_of_set.idem_if_sorted_distinct strict_sorted_iff)
qed

definition demo_work :: block where
  "demo_work = Block ''work'' [] [(''https_allow_hosts'', AList [AStr ''b.org'', AStr ''a.org'', AStr ''b.org''])] []"

theorem allow_hosts_are_canonical_witness:
  "[''a.org'', ''b.org''] = sorted_list_of_set {''b.org'', ''a.org''}"
proof -
  have "parse_work_network_allow_hosts demo_work task_v2 ''restricted_https'' = Inr [''a.org'', ''b.org'']"
    by code_simp
  moreover have "string_list demo_work ''https_allow_hosts'' = Inr [''b.org'', ''a.org'', ''b.org'']"
    by code_simp
  ultimately show ?thesis
    using allow_hosts_are_canonical [of demo_work task_v2 "''restricted_https''"] by fastforce
qed


end
