(* ===== verification/Lock_Identity.thy ===== *)
theory Lock_Identity
  imports Ordered_Map Digests Task
begin

text \<open>
  The records of \<open>lock.rs\<close> with their JSON form (what the derives of \<open>Serialize\<close> and
  \<open>Deserialize\<close> say), \<open>lock_identity.rs\<close>, which computes the digest a lock carries of itself, and
  the validators of \<open>lock.rs\<close> that need nothing else.
\<close>

record task_lock =
  tl_schema :: string
  tl_lock_digest :: string
  tl_task_revision :: string
  tl_artifact_digest :: string
  tl_judge_revision :: string
  tl_judge_artifact_digest :: string
  tl_judge_model :: "string option"
  tl_resolved_images :: "(string \<times> string) list"
  tl_resources :: "task_resources option"
  tl_workspace_imports :: "workspace_import list option"
  tl_network_allow_hosts :: "string list option"

record product_lock =
  pl_name :: string
  pl_version :: string
  pl_target_triple :: "string option"
  pl_artifact_set_digest :: "string option"

record candidate_lock =
  cl_schema :: string
  cl_lock_digest :: string
  cl_candidate_revision :: string
  cl_artifact_digest :: string
  cl_model :: "string option"
  cl_reasoning_effort :: "string option"
  cl_product :: "product_lock option"

definition task_lock_v1 :: string where "task_lock_v1 = ''a3s.bench.task-lock.v1''"
definition task_lock_v2 :: string where "task_lock_v2 = ''a3s.bench.task-lock.v2''"
definition candidate_lock_v1 :: string where "candidate_lock_v1 = ''a3s.bench.candidate-lock.v1''"
definition candidate_lock_v2 :: string where "candidate_lock_v2 = ''a3s.bench.candidate-lock.v2''"
definition candidate_lock_v3 :: string where "candidate_lock_v3 = ''a3s.bench.candidate-lock.v3''"

lemmas lock_schemas =
  task_lock_v1_def task_lock_v2_def candidate_lock_v1_def candidate_lock_v2_def candidate_lock_v3_def

subsection \<open>JSON\<close>

definition images_json :: "(string \<times> string) list \<Rightarrow> jval" where
  "images_json m = JObj (map (\<lambda>(k, v). (k, JStr v)) m)"

definition role_resources_json :: "role_resources \<Rightarrow> jval" where
  "role_resources_json r =
     JObj [(''cpu_limit'', enc_word (cpu_limit r)), (''memory_bytes'', enc_word (memory_bytes r))]"

definition resources_json :: "task_resources \<Rightarrow> jval" where
  "resources_json r =
     JObj [(''work'', role_resources_json (tr_work r)), (''judge'', role_resources_json (tr_judge r))]"

definition import_json :: "workspace_import \<Rightarrow> jval" where
  "import_json i =
     JObj [(''name'', JStr (wi_name i)), (''source_path'', JStr (wi_source_path i)),
           (''target_path'', JStr (wi_target_path i))]"

definition imports_json :: "workspace_import list \<Rightarrow> jval" where
  "imports_json xs = JArr (map import_json xs)"

definition hosts_json :: "string list \<Rightarrow> jval" where
  "hosts_json hs = JArr (map JStr hs)"

definition task_lock_json :: "task_lock \<Rightarrow> jval" where
  "task_lock_json l =
     JObj ([(''schema'', JStr (tl_schema l)),
            (''lock_digest'', JStr (tl_lock_digest l)),
            (''task_revision'', JStr (tl_task_revision l)),
            (''artifact_digest'', JStr (tl_artifact_digest l)),
            (''judge_revision'', JStr (tl_judge_revision l)),
            (''judge_artifact_digest'', JStr (tl_judge_artifact_digest l)),
            (''judge_model'', enc_opt JStr (tl_judge_model l)),
            (''resolved_images'', images_json (tl_resolved_images l))]
           @ enc_skip ''resources'' resources_json (tl_resources l)
           @ enc_skip ''workspace_imports'' imports_json (tl_workspace_imports l)
           @ enc_skip ''network_allow_hosts'' hosts_json (tl_network_allow_hosts l))"

definition product_json :: "product_lock \<Rightarrow> jval" where
  "product_json p =
     JObj ([(''name'', JStr (pl_name p)), (''version'', JStr (pl_version p))]
           @ enc_skip ''target_triple'' JStr (pl_target_triple p)
           @ enc_skip ''artifact_set_digest'' JStr (pl_artifact_set_digest p))"

definition candidate_lock_json :: "candidate_lock \<Rightarrow> jval" where
  "candidate_lock_json l =
     JObj ([(''schema'', JStr (cl_schema l)),
            (''lock_digest'', JStr (cl_lock_digest l)),
            (''candidate_revision'', JStr (cl_candidate_revision l)),
            (''artifact_digest'', JStr (cl_artifact_digest l)),
            (''model'', enc_opt JStr (cl_model l))]
           @ enc_skip ''reasoning_effort'' JStr (cl_reasoning_effort l)
           @ enc_skip ''product'' product_json (cl_product l))"

text \<open>The derived decoders.\<close>

definition dec_images :: "jval \<Rightarrow> (string \<times> string) list option" where
  "dec_images v =
     (case v of
        JObj kvs \<Rightarrow> map_option map_of_members (all_some (map (\<lambda>(k, x). map_option (Pair k) (as_str x)) kvs))
      | _ \<Rightarrow> None)"

definition dec_role_resources :: "jval \<Rightarrow> role_resources option" where
  "dec_role_resources v =
     Option.bind (struct_fields True [(''cpu_limit'', False), (''memory_bytes'', False)] v) (\<lambda>m.
     Option.bind (field_req dec_word m ''cpu_limit'') (\<lambda>c.
     Option.bind (field_req dec_word m ''memory_bytes'') (\<lambda>b.
       Some \<lparr>cpu_limit = c, memory_bytes = b\<rparr>)))"

definition dec_resources :: "jval \<Rightarrow> task_resources option" where
  "dec_resources v =
     Option.bind (struct_fields True [(''work'', False), (''judge'', False)] v) (\<lambda>m.
     Option.bind (field_req dec_role_resources m ''work'') (\<lambda>w.
     Option.bind (field_req dec_role_resources m ''judge'') (\<lambda>j.
       Some \<lparr>tr_work = w, tr_judge = j\<rparr>)))"

definition dec_import :: "jval \<Rightarrow> workspace_import option" where
  "dec_import v =
     Option.bind
       (struct_fields True [(''name'', False), (''source_path'', False), (''target_path'', False)] v) (\<lambda>m.
     Option.bind (field_req as_str m ''name'') (\<lambda>n.
     Option.bind (field_req as_str m ''source_path'') (\<lambda>s.
     Option.bind (field_req as_str m ''target_path'') (\<lambda>t.
       Some \<lparr>wi_name = n, wi_source_path = s, wi_target_path = t\<rparr>))))"

definition task_lock_fields :: "(string \<times> bool) list" where
  "task_lock_fields =
     [(''schema'', False), (''lock_digest'', False), (''task_revision'', False),
      (''artifact_digest'', False), (''judge_revision'', False), (''judge_artifact_digest'', False),
      (''judge_model'', False), (''resolved_images'', False), (''resources'', True),
      (''workspace_imports'', True), (''network_allow_hosts'', True)]"

definition task_lock_of_json :: "jval \<Rightarrow> task_lock option" where
  "task_lock_of_json v =
     Option.bind (struct_fields True task_lock_fields v) (\<lambda>m.
     Option.bind (field_req as_str m ''schema'') (\<lambda>schema.
     Option.bind (field_req as_str m ''lock_digest'') (\<lambda>lock_digest.
     Option.bind (field_req as_str m ''task_revision'') (\<lambda>revision.
     Option.bind (field_req as_str m ''artifact_digest'') (\<lambda>artifact.
     Option.bind (field_req as_str m ''judge_revision'') (\<lambda>judge_revision.
     Option.bind (field_req as_str m ''judge_artifact_digest'') (\<lambda>judge_artifact.
     Option.bind (field_opt as_str m ''judge_model'') (\<lambda>model.
     Option.bind (field_req dec_images m ''resolved_images'') (\<lambda>images.
     Option.bind (field_opt dec_resources m ''resources'') (\<lambda>resources.
     Option.bind (field_opt (dec_list dec_import) m ''workspace_imports'') (\<lambda>wis.
     Option.bind (field_opt (dec_list as_str) m ''network_allow_hosts'') (\<lambda>hosts.
       Some \<lparr>tl_schema = schema, tl_lock_digest = lock_digest, tl_task_revision = revision,
             tl_artifact_digest = artifact, tl_judge_revision = judge_revision,
             tl_judge_artifact_digest = judge_artifact, tl_judge_model = model,
             tl_resolved_images = images, tl_resources = resources,
             tl_workspace_imports = wis, tl_network_allow_hosts = hosts\<rparr>))))))))))))"

definition product_fields :: "(string \<times> bool) list" where
  "product_fields =
     [(''name'', False), (''version'', False), (''target_triple'', True), (''artifact_set_digest'', True)]"

definition dec_product :: "jval \<Rightarrow> product_lock option" where
  "dec_product v =
     Option.bind (struct_fields True product_fields v) (\<lambda>m.
     Option.bind (field_req as_str m ''name'') (\<lambda>n.
     Option.bind (field_req as_str m ''version'') (\<lambda>ver.
     Option.bind (field_opt as_str m ''target_triple'') (\<lambda>t.
     Option.bind (field_opt as_str m ''artifact_set_digest'') (\<lambda>d.
       Some \<lparr>pl_name = n, pl_version = ver, pl_target_triple = t, pl_artifact_set_digest = d\<rparr>)))))"

definition candidate_lock_fields :: "(string \<times> bool) list" where
  "candidate_lock_fields =
     [(''schema'', False), (''lock_digest'', False), (''candidate_revision'', False),
      (''artifact_digest'', False), (''model'', False), (''reasoning_effort'', True), (''product'', True)]"

definition candidate_lock_of_json :: "jval \<Rightarrow> candidate_lock option" where
  "candidate_lock_of_json v =
     Option.bind (struct_fields True candidate_lock_fields v) (\<lambda>m.
     Option.bind (field_req as_str m ''schema'') (\<lambda>schema.
     Option.bind (field_req as_str m ''lock_digest'') (\<lambda>lock_digest.
     Option.bind (field_req as_str m ''candidate_revision'') (\<lambda>revision.
     Option.bind (field_req as_str m ''artifact_digest'') (\<lambda>artifact.
     Option.bind (field_opt as_str m ''model'') (\<lambda>model.
     Option.bind (field_opt as_str m ''reasoning_effort'') (\<lambda>effort.
     Option.bind (field_opt dec_product m ''product'') (\<lambda>product.
       Some \<lparr>cl_schema = schema, cl_lock_digest = lock_digest, cl_candidate_revision = revision,
             cl_artifact_digest = artifact, cl_model = model, cl_reasoning_effort = effort,
             cl_product = product\<rparr>))))))))"

subsection \<open>Identity\<close>

definition task_identity_head :: "task_lock \<Rightarrow> (string \<times> jval) list" where
  "task_identity_head l =
     [(''schema'', JStr (tl_schema l)),
      (''task_revision'', JStr (tl_task_revision l)),
      (''artifact_digest'', JStr (tl_artifact_digest l)),
      (''judge_revision'', JStr (tl_judge_revision l)),
      (''judge_artifact_digest'', JStr (tl_judge_artifact_digest l)),
      (''judge_model'', enc_opt JStr (tl_judge_model l)),
      (''resolved_images'', images_json (tl_resolved_images l))]"

definition legacy_task_lock_identity :: "task_lock \<Rightarrow> jval" where
  "legacy_task_lock_identity l = JObj (task_identity_head l)"

definition task_lock_identity :: "task_lock \<Rightarrow> jval" where
  "task_lock_identity l =
     JObj (task_identity_head l
           @ [(''resources'', enc_opt resources_json (tl_resources l)),
              (''workspace_imports'', enc_opt imports_json (tl_workspace_imports l))]
           @ enc_skip ''network_allow_hosts'' hosts_json (tl_network_allow_hosts l))"

definition legacy_candidate_lock_identity :: "candidate_lock \<Rightarrow> jval" where
  "legacy_candidate_lock_identity l =
     JObj ([(''schema'', JStr (cl_schema l)),
            (''candidate_revision'', JStr (cl_candidate_revision l)),
            (''artifact_digest'', JStr (cl_artifact_digest l)),
            (''model'', enc_opt JStr (cl_model l))]
           @ enc_skip ''product'' product_json (cl_product l))"

definition candidate_lock_identity :: "candidate_lock \<Rightarrow> jval" where
  "candidate_lock_identity l =
     JObj ([(''schema'', JStr (cl_schema l)),
            (''candidate_revision'', JStr (cl_candidate_revision l)),
            (''artifact_digest'', JStr (cl_artifact_digest l)),
            (''model'', enc_opt JStr (cl_model l)),
            (''reasoning_effort'', enc_opt JStr (cl_reasoning_effort l))]
           @ enc_skip ''product'' product_json (cl_product l))"

definition task_digest :: "library \<Rightarrow> task_lock \<Rightarrow> string" where
  "task_digest L l =
     (if tl_schema l = task_lock_v2 then digest_json L (task_lock_identity l)
      else digest_json L (legacy_task_lock_identity l))"

definition candidate_digest :: "library \<Rightarrow> candidate_lock \<Rightarrow> string" where
  "candidate_digest L l =
     (if cl_schema l = candidate_lock_v3 then digest_json L (candidate_lock_identity l)
      else digest_json L (legacy_candidate_lock_identity l))"

subsection \<open>Validators\<close>

definition validate_reasoning_effort :: "string \<Rightarrow> unit result" where
  "validate_reasoning_effort v =
     ensure (v \<in> {''none'', ''minimal'', ''low'', ''medium'', ''high'', ''xhigh''})
       ''reasoning effort must be one of none, minimal, low, medium, high, or xhigh''"

definition spark_model :: string where "spark_model = ''gpt-5.3-codex-spark''"

definition validate_model_reasoning_compatibility :: "string option \<Rightarrow> string option \<Rightarrow> unit result" where
  "validate_model_reasoning_compatibility model effort =
     (if model = Some spark_model
      then ensure (effort \<in> Some ` {''low'', ''medium'', ''high'', ''xhigh''})
             ''gpt-5.3-codex-spark requires reasoning effort low, medium, high, or xhigh''
      else Inr ())"

definition codex_model_char :: "char \<Rightarrow> bool" where
  "codex_model_char c = (is_ascii_alphanumeric c \<or> c \<in> {CHR ''.'', CHR ''_'', CHR ''-'', CHR ''/''})"

definition validate_codex_model :: "string \<Rightarrow> unit result" where
  "validate_codex_model v =
     ensure (v \<noteq> [] \<and> length v \<le> 256 \<and> list_all codex_model_char v \<and>
             \<not> starts_with v ''/'' \<and> \<not> ends_with v ''/'' \<and> \<not> contains_str v ''//'')
       ''Codex model must contain only ASCII letters, digits, ., _, -, and /''"

subsection \<open>Round trips\<close>

lemma dec_images_json: "sorted_keys m \<Longrightarrow> dec_images (images_json m) = Some m"
proof -
  have "all_some (map (\<lambda>(k, x). map_option (Pair k) (as_str x)) (map (\<lambda>(k, v). (k, JStr v)) m)) = Some m"
    for m :: "(string \<times> string) list"
    by (induction m) auto
  then show "sorted_keys m \<Longrightarrow> ?thesis" by (simp add: dec_images_def images_json_def map_of_members_fixed)
qed

lemma dec_role_resources_json: "dec_role_resources (role_resources_json r) = Some r"
  by (simp add: dec_role_resources_def role_resources_json_def struct_fields_def field_req_def)

lemma dec_resources_json: "dec_resources (resources_json r) = Some r"
  by (simp add: dec_resources_def resources_json_def struct_fields_def field_req_def dec_role_resources_json)

lemma dec_import_json: "dec_import (import_json i) = Some i"
  by (simp add: dec_import_def import_json_def struct_fields_def field_req_def)

lemma dec_imports_json: "dec_list dec_import (imports_json xs) = Some xs"
  by (simp add: dec_list_def imports_json_def dec_import_json comp_def)

lemma dec_hosts_json: "dec_list as_str (hosts_json xs) = Some xs"
  by (simp add: dec_list_def hosts_json_def comp_def)

lemma json_not_null [simp]:
  "resources_json r \<noteq> JNull" "imports_json xs \<noteq> JNull" "hosts_json hs \<noteq> JNull" "product_json p \<noteq> JNull"
  by (simp_all add: resources_json_def imports_json_def hosts_json_def product_json_def)

lemma dec_product_json: "dec_product (product_json p) = Some p"
proof -
  have m: "struct_fields True product_fields (product_json p) =
      (case product_json p of JObj kvs \<Rightarrow> Some (map_of kvs) | _ \<Rightarrow> None)"
    unfolding product_json_def jval.case
    by (rule struct_fields_encoded) (simp_all add: product_fields_def subseq_enc_skip)
  show ?thesis
    by (simp add: dec_product_def m) (simp add: product_json_def struct_roundtrip del: map_of_append)
qed

lemma task_lock_of_task_lock_json:
  assumes "sorted_keys (tl_resolved_images l)"
  shows "task_lock_of_json (task_lock_json l) = Some l"
proof -
  have m: "struct_fields True task_lock_fields (task_lock_json l) =
      (case task_lock_json l of JObj kvs \<Rightarrow> Some (map_of kvs) | _ \<Rightarrow> None)"
    unfolding task_lock_json_def jval.case
    by (rule struct_fields_encoded) (simp_all add: task_lock_fields_def subseq_enc_skip)
  show ?thesis
    using dec_images_json [OF assms]
    by (simp add: task_lock_of_json_def m)
       (simp add: task_lock_json_def struct_roundtrip opt_value_skip dec_resources_json dec_imports_json
          dec_hosts_json del: map_of_append)
qed

lemma candidate_lock_of_candidate_lock_json:
  "candidate_lock_of_json (candidate_lock_json l) = Some l"
proof -
  have m: "struct_fields True candidate_lock_fields (candidate_lock_json l) =
      (case candidate_lock_json l of JObj kvs \<Rightarrow> Some (map_of kvs) | _ \<Rightarrow> None)"
    unfolding candidate_lock_json_def jval.case
    by (rule struct_fields_encoded) (simp_all add: candidate_lock_fields_def subseq_enc_skip)
  show ?thesis
    by (simp add: candidate_lock_of_json_def m)
       (simp add: candidate_lock_json_def struct_roundtrip opt_value_skip dec_product_json del: map_of_append)
qed

subsection \<open>What the digests bind\<close>

text \<open>The fields a lock of its schema may have: those its identity covers.\<close>

definition task_lock_ready :: "task_lock \<Rightarrow> bool" where
  "task_lock_ready l =
     (tl_schema l = task_lock_v2 \<or>
      tl_resources l = None \<and> tl_workspace_imports l = None \<and> tl_network_allow_hosts l = None)"

definition candidate_lock_ready :: "candidate_lock \<Rightarrow> bool" where
  "candidate_lock_ready l = (cl_schema l = candidate_lock_v3 \<or> cl_reasoning_effort l = None)"

definition task_identity_of :: "task_lock \<Rightarrow> jval" where
  "task_identity_of l =
     (if tl_schema l = task_lock_v2 then task_lock_identity l else legacy_task_lock_identity l)"

definition candidate_identity_of :: "candidate_lock \<Rightarrow> jval" where
  "candidate_identity_of l =
     (if cl_schema l = candidate_lock_v3 then candidate_lock_identity l
      else legacy_candidate_lock_identity l)"

lemma digests_of:
  "task_digest L l = digest_json L (task_identity_of l)"
  "candidate_digest L c = digest_json L (candidate_identity_of c)"
  by (simp_all add: task_digest_def task_identity_of_def candidate_digest_def candidate_identity_of_def)

lemma json_inj [simp]:
  "resources_json r = resources_json r' \<longleftrightarrow> r = r'" "imports_json xs = imports_json ys \<longleftrightarrow> xs = ys"
  "hosts_json hs = hosts_json gs \<longleftrightarrow> hs = gs" "product_json p = product_json q \<longleftrightarrow> p = q"
  by (metis dec_resources_json dec_imports_json dec_hosts_json dec_product_json option.inject)+

lemma images_json_inj [simp]: "images_json m = images_json n \<longleftrightarrow> m = n"
proof -
  have "inj (\<lambda>(k :: string, v). (k, JStr v))" by (auto simp: inj_on_def)
  then show ?thesis by (simp add: images_json_def inj_map_eq_map)
qed

lemma json_value_parts [simp]:
  "json_value (resources_json r)" "json_value (imports_json xs)" "json_value (hosts_json hs)"
  "json_value (product_json p)" "json_value (images_json m)"
  by (auto simp: resources_json_def role_resources_json_def imports_json_def import_json_def hosts_json_def
      product_json_def images_json_def ball_Un)

lemma json_value_locks [simp]:
  "json_value (task_lock_json l)" "json_value (candidate_lock_json c)"
  "json_value (task_identity_of l)" "json_value (candidate_identity_of c)"
  by (auto simp: task_lock_json_def candidate_lock_json_def task_identity_of_def task_lock_identity_def
      legacy_task_lock_identity_def task_identity_head_def candidate_identity_of_def
      candidate_lock_identity_def legacy_candidate_lock_identity_def ball_Un)

interpretation task_locks: sealed_record task_identity_of "\<lambda>l. l\<lparr>tl_lock_digest := []\<rparr>"
    task_lock_ready tl_lock_digest
proof unfold_locales
  fix a b :: task_lock
  show "a = b" if "a\<lparr>tl_lock_digest := []\<rparr> = b\<lparr>tl_lock_digest := []\<rparr>" "tl_lock_digest a = tl_lock_digest b"
    using that by (cases a; cases b) simp
  assume ready: "task_lock_ready a" "task_lock_ready b" and eq: "task_identity_of a = task_identity_of b"
  have head: "task_identity_head a = task_identity_head b"
    using eq by (auto simp: task_identity_of_def task_lock_identity_def legacy_task_lock_identity_def
        task_identity_head_def split: if_splits)
  then have s: "tl_schema a = tl_schema b" by (simp add: task_identity_head_def)
  have "tl_resources a = tl_resources b \<and> tl_workspace_imports a = tl_workspace_imports b \<and>
      tl_network_allow_hosts a = tl_network_allow_hosts b"
    using eq s ready by (cases "tl_schema b = task_lock_v2")
      (simp_all add: task_identity_of_def task_lock_identity_def task_lock_ready_def
         task_identity_head_def enc_opt_inj enc_skip_inj)
  with head show "a\<lparr>tl_lock_digest := []\<rparr> = b\<lparr>tl_lock_digest := []\<rparr>"
    by (cases a; cases b) (simp add: task_identity_head_def)
qed simp

interpretation candidate_locks: sealed_record candidate_identity_of "\<lambda>l. l\<lparr>cl_lock_digest := []\<rparr>"
    candidate_lock_ready cl_lock_digest
proof unfold_locales
  fix a b :: candidate_lock
  show "a = b" if "a\<lparr>cl_lock_digest := []\<rparr> = b\<lparr>cl_lock_digest := []\<rparr>" "cl_lock_digest a = cl_lock_digest b"
    using that by (cases a; cases b) simp
  assume ready: "candidate_lock_ready a" "candidate_lock_ready b"
    and eq: "candidate_identity_of a = candidate_identity_of b"
  have s: "cl_schema a = cl_schema b"
    using eq by (auto simp: candidate_identity_of_def candidate_lock_identity_def
        legacy_candidate_lock_identity_def split: if_splits)
  with eq ready show "a\<lparr>cl_lock_digest := []\<rparr> = b\<lparr>cl_lock_digest := []\<rparr>"
    by (cases a; cases b; cases "cl_schema b = candidate_lock_v3")
       (auto simp: candidate_identity_of_def candidate_lock_identity_def legacy_candidate_lock_identity_def
          candidate_lock_ready_def enc_opt_inj enc_skip_inj)
qed simp

end
