(* ===== verification/Config.thy ===== *)
theory Config
  imports Lock_Identity
begin

text \<open>
  \<open>config.rs\<close> and \<open>runtime_selection.rs\<close>: the shared configuration \<open>.a3s/config.acl\<close> and the
  private one \<open>.a3s/bench/config.acl\<close>, where they are looked for, what they may say, and the route
  to a model. \<open>ProviderId::parse\<close> is library code and an argument (\<open>provider_id\<close>); a path is a list
  of names from the root of the file system here, and \<open>home\<close> is the variable \<open>HOME\<close>.
\<close>

datatype selection_source = BenchDefault | OperatorConfig

record runtime_selection =
  rs_provider :: string
  rs_source :: selection_source

definition bench_default :: "(string \<Rightarrow> string result) \<Rightarrow> runtime_selection result" where
  "bench_default provider_id =
     map_result (\<lambda>p. \<lparr>rs_provider = p, rs_source = BenchDefault\<rparr>) (provider_id ''docker'')"

definition operator :: "string \<Rightarrow> runtime_selection" where
  "operator p = \<lparr>rs_provider = p, rs_source = OperatorConfig\<rparr>"

record private_bench =
  pb_codex_reasoning_effort :: "string option"
  pb_disable_auto_resume :: bool
  pb_parallel_game_sessions :: bool

definition default_private_bench :: private_bench where
  "default_private_bench =
     \<lparr>pb_codex_reasoning_effort = None, pb_disable_auto_resume = False, pb_parallel_game_sessions = True\<rparr>"

record local_config =
  lc_path :: "path option"
  lc_bench_path :: "path option"
  lc_runtime :: runtime_selection
  lc_judge_model :: "string option"
  lc_codex_reasoning_effort :: "string option"
  lc_disable_auto_resume :: bool
  lc_parallel_game_sessions :: bool

record model_route =
  mr_model :: string
  mr_api_key :: string
  mr_base_url :: string

subsection \<open>Model references\<close>

definition parse_model_reference :: "string \<Rightarrow> (string \<times> string) result" where
  "parse_model_reference v =
     bind_result (ok_or (split_once v ''/'') ''model route {value:?} must use provider/model'') (\<lambda>(provider, model).
       and_then
         (ensure (provider \<noteq> [] \<and> model \<noteq> [] \<and> \<not> contains_str model ''/'')
            ''model route {value:?} must use provider/model'')
         (Inr (provider, model)))"

definition validate_model_reference :: "string \<Rightarrow> unit result" where
  "validate_model_reference v = map_result (\<lambda>_. ()) (parse_model_reference v)"

text \<open>An optional attribute: \<open>map(read).transpose()\<close>.\<close>

definition optional_attr :: "block \<Rightarrow> string \<Rightarrow> (avalue \<Rightarrow> 'a option) \<Rightarrow> string \<Rightarrow> 'a option result" where
  "optional_attr b k read msg = transpose_result (map_option (\<lambda>v. ok_or (read v) msg) (attr b k))"

definition nonblank_str :: "avalue \<Rightarrow> string option" where
  "nonblank_str v = (case a_str v of Some s \<Rightarrow> if trim s \<noteq> [] then Some s else None | None \<Rightarrow> None)"

definition attribute_names :: "block \<Rightarrow> string set" where
  "attribute_names b = fst ` set (attributes b)"

subsection \<open>The two configurations\<close>

definition named_blocks :: "block list \<Rightarrow> string \<Rightarrow> block list" where
  "named_blocks doc name = filter (\<lambda>b. bname b = name) doc"

definition parse_bench :: "block list \<Rightarrow> string option result" where
  "parse_bench doc =
     and_then (ensure (length (named_blocks doc ''bench'') \<le> 1) ''config.acl contains duplicate bench blocks'')
       (case named_blocks doc ''bench'' of
          [] \<Rightarrow> Inr None
        | b # _ \<Rightarrow>
            and_then
              (checks
                 [(labels b = [], ''bench block must not have labels''),
                  (attribute_names b \<subseteq> {''judge_model''} \<and> blocks b = [],
                   ''shared .a3s/config.acl bench block supports only judge_model; move codex_reasoning_effort to .a3s/bench/config.acl'')])
              (bind_result
                 (optional_attr b ''judge_model'' nonblank_str
                    ''bench.judge_model must be a non-empty provider/model'') (\<lambda>model.
               and_then (when_some model validate_model_reference) (Inr model))))"

definition parse_private_bench :: "block list \<Rightarrow> private_bench result" where
  "parse_private_bench doc =
     (case doc of
        [] \<Rightarrow> Inr default_private_bench
      | b # rest \<Rightarrow>
          and_then
            (ensure (rest = [] \<and> bname b = ''bench'' \<and> labels b = [] \<and> blocks b = [] \<and>
                attribute_names b \<subseteq> {''codex_reasoning_effort'', ''disable_auto_resume'', ''parallel_game_sessions''})
              ''private bench config supports only codex_reasoning_effort, disable_auto_resume, or parallel_game_sessions'')
            (bind_result
               (optional_attr b ''codex_reasoning_effort'' nonblank_str
                  ''bench.codex_reasoning_effort must be a non-empty reasoning effort'') (\<lambda>effort.
             and_then (when_some effort validate_reasoning_effort)
            (bind_result
               (optional_attr b ''disable_auto_resume'' a_bool ''bench.disable_auto_resume must be a boolean'') (\<lambda>dar.
             bind_result
               (optional_attr b ''parallel_game_sessions'' a_bool
                  ''bench.parallel_game_sessions must be a boolean'') (\<lambda>pgs.
               Inr \<lparr>pb_codex_reasoning_effort = effort,
                    pb_disable_auto_resume = (case dar of None \<Rightarrow> False | Some x \<Rightarrow> x),
                    pb_parallel_game_sessions = (case pgs of None \<Rightarrow> True | Some x \<Rightarrow> x)\<rparr>))))))"

definition parse_runtime :: "(string \<Rightarrow> string result) \<Rightarrow> block list \<Rightarrow> runtime_selection result" where
  "parse_runtime provider_id doc =
     and_then (ensure (length (named_blocks doc ''runtime'') \<le> 1) ''config.acl contains duplicate runtime blocks'')
       (case named_blocks doc ''runtime'' of
          [] \<Rightarrow> bench_default provider_id
        | b # _ \<Rightarrow>
            and_then (ensure (labels b = []) ''runtime block must not have labels'')
              (bind_result (ok_or (attr_str b ''provider'') ''runtime.provider must be a non-empty string'') (\<lambda>p.
               and_then (ensure (trim p \<noteq> []) ''runtime.provider must not be empty'')
                 (map_result operator (provider_id p)))))"

subsection \<open>Where the configurations are\<close>

text \<open>\<open>Path::ancestors\<close> of an absolute path.\<close>

definition ancestors :: "path \<Rightarrow> path list" where
  "ancestors p = map (\<lambda>n. take n p) (rev [0..<Suc (length p)])"

definition discover_at :: "os \<Rightarrow> fs \<Rightarrow> path option \<Rightarrow> path \<Rightarrow> path \<Rightarrow> path option" where
  "discover_at env s home tail start =
     (case filter (\<lambda>p. is_file env p s) (map (\<lambda>d. d @ tail) (ancestors start)) of
        p # _ \<Rightarrow> Some p
      | [] \<Rightarrow>
          (case home of
             None \<Rightarrow> None
           | Some h \<Rightarrow> if is_file env (h @ tail) s then Some (h @ tail) else None))"

definition discover_path :: "os \<Rightarrow> fs \<Rightarrow> path option \<Rightarrow> path \<Rightarrow> path option" where
  "discover_path env s home start = discover_at env s home [''.a3s'', ''config.acl''] start"

definition discover_private_bench_path :: "os \<Rightarrow> fs \<Rightarrow> path option \<Rightarrow> path \<Rightarrow> path option" where
  "discover_private_bench_path env s home start =
     discover_at env s home [''.a3s'', ''bench'', ''config.acl''] start"

definition read_document :: "acl_parser \<Rightarrow> os \<Rightarrow> path \<Rightarrow> fs \<Rightarrow> block list result" where
  "read_document P env p s =
     bind_result (with_context ''could not read {}'' (read_to_string env p s)) (\<lambda>source.
       ok_or (P source) ''invalid {}: {error}'')"

definition discover ::
  "acl_parser \<Rightarrow> (string \<Rightarrow> string result) \<Rightarrow> os \<Rightarrow> path option \<Rightarrow> fs \<Rightarrow> path \<Rightarrow> local_config result" where
  "discover P provider_id env home s start =
     (let p = discover_path env s home start;
          bp = discover_private_bench_path env s home start
      in bind_result
           (case p of
              None \<Rightarrow> map_result (\<lambda>r. (r, None)) (bench_default provider_id)
            | Some p \<Rightarrow>
                bind_result (read_document P env p s) (\<lambda>doc.
                bind_result (parse_bench doc) (\<lambda>model.
                  map_result (\<lambda>r. (r, model)) (parse_runtime provider_id doc)))) (\<lambda>(runtime, model).
         bind_result
           (transpose_result (map_option (\<lambda>q. bind_result (read_document P env q s) parse_private_bench) bp)) (\<lambda>pb.
         let pb = (case pb of None \<Rightarrow> default_private_bench | Some x \<Rightarrow> x)
         in Inr \<lparr>lc_path = p, lc_bench_path = bp, lc_runtime = runtime, lc_judge_model = model,
                 lc_codex_reasoning_effort = pb_codex_reasoning_effort pb,
                 lc_disable_auto_resume = pb_disable_auto_resume pb,
                 lc_parallel_game_sessions = pb_parallel_game_sessions pb\<rparr>)))"

subsection \<open>Model routes\<close>

definition first_label_is :: "string \<Rightarrow> block \<Rightarrow> bool" where
  "first_label_is l b = (case labels b of [] \<Rightarrow> False | x # _ \<Rightarrow> x = l)"

text \<open>\<open>attributes.get(a).or(attributes.get(b))\<close>, then a string that is not empty.\<close>

definition secret_attr :: "block \<Rightarrow> string \<Rightarrow> string \<Rightarrow> string option" where
  "secret_attr b k k' =
     (case Option.bind (or_else (attr b k) (attr b k')) a_str of
        Some s \<Rightarrow> if s \<noteq> [] then Some s else None
      | None \<Rightarrow> None)"

definition route_of :: "block list \<Rightarrow> string \<Rightarrow> string \<Rightarrow> model_route result" where
  "route_of doc provider_name model_name =
     (case filter (\<lambda>b. bname b = ''providers'' \<and> first_label_is provider_name b) doc of
        [b] \<Rightarrow>
          and_then (ensure (length (labels b) = 1) ''provider block must have one label'')
         (and_then
            (ensure (length (filter (\<lambda>c. bname c = ''models'' \<and> first_label_is model_name c) (blocks b)) = 1)
               ''model {reference:?} must be configured exactly once'')
         (bind_result (ok_or (secret_attr b ''api_key'' ''apiKey'') ''provider {provider_id:?} has no api_key'') (\<lambda>key.
          bind_result (ok_or (secret_attr b ''base_url'' ''baseUrl'') ''provider {provider_id:?} has no base_url'') (\<lambda>url.
            Inr \<lparr>mr_model = model_name, mr_api_key = key, mr_base_url = url\<rparr>))))
      | _ \<Rightarrow> Inl (Bail ''provider {provider_id:?} must be configured exactly once''))"

definition resolve_model_route ::
  "acl_parser \<Rightarrow> os \<Rightarrow> fs \<Rightarrow> path \<Rightarrow> string \<Rightarrow> model_route result" where
  "resolve_model_route P env s p reference =
     bind_result (parse_model_reference reference) (\<lambda>(provider, model).
     bind_result (read_document P env p s) (\<lambda>doc. route_of doc provider model))"

subsection \<open>What is found and what it says\<close>

lemma ancestors_hd: "ancestors p = p # map (\<lambda>n. take n p) (rev [0..<length p])"
  by (simp add: ancestors_def)

text \<open>\<open>nearest env s tail start n\<close>: the configuration is that of the ancestor of length \<open>n\<close>, and no longer
  ancestor has one.\<close>

definition nearest :: "os \<Rightarrow> fs \<Rightarrow> path \<Rightarrow> path \<Rightarrow> nat \<Rightarrow> bool" where
  "nearest env s tail start n =
     (n \<le> length start \<and> is_file env (take n start @ tail) s \<and>
      (\<forall>m. n < m \<longrightarrow> m \<le> length start \<longrightarrow> \<not> is_file env (take m start @ tail) s))"

lemma nearest_ancestor:
  assumes "filter (\<lambda>p. is_file env p s) (map (\<lambda>d. d @ tail) (ancestors start)) = p # ps"
  shows "\<exists>n. nearest env s tail start n \<and> p = take n start @ tail"
proof -
  let ?xs = "map (\<lambda>d. d @ tail) (ancestors start)"
  have nth: "?xs ! j = take (length start - j) start @ tail" if "j \<le> length start" for j
    using that by (simp add: ancestors_def rev_nth del: upt_Suc)
  from assms obtain us vs where x: "?xs = us @ p # vs" "is_file env p s" "\<forall>u \<in> set us. \<not> is_file env u s"
    by (auto simp: filter_eq_Cons_iff)
  have "length ?xs = Suc (length start)" by (simp add: ancestors_def)
  with x(1) have i: "length us \<le> length start" by simp
  have "p = take (length start - length us) start @ tail"
    using nth [OF i] x(1) by (metis nth_append_length)
  moreover have "\<not> is_file env (take m start @ tail) s"
    if m: "length start - length us < m" "m \<le> length start" for m
  proof -
    have j: "length start - m < length us" "length start - m \<le> length start" using m i by auto
    have "us ! (length start - m) = ?xs ! (length start - m)" using x(1) j(1) by (metis nth_append)
    also have "\<dots> = take m start @ tail" using nth [OF j(2)] m(2) by simp
    finally show ?thesis using x(3) j(1) by (metis nth_mem)
  qed
  ultimately show ?thesis
    using x(2) by (intro exI [of _ "length start - length us"]) (auto simp: nearest_def)
qed

text \<open>Where a discovered configuration is: at the nearest ancestor that has one, or, when none has, at
  home.\<close>

definition found_at :: "os \<Rightarrow> fs \<Rightarrow> path option \<Rightarrow> path \<Rightarrow> path \<Rightarrow> path \<Rightarrow> bool" where
  "found_at env s home tail start p =
     ((\<exists>n. nearest env s tail start n \<and> p = take n start @ tail) \<or>
      ((\<forall>n \<le> length start. \<not> is_file env (take n start @ tail) s) \<and>
       (\<exists>h. home = Some h \<and> p = h @ tail \<and> is_file env p s)))"

lemma discover_at_Some:
  assumes "discover_at env s home tail start = Some p"
  shows "found_at env s home tail start p"
proof (cases "filter (\<lambda>p. is_file env p s) (map (\<lambda>d. d @ tail) (ancestors start))")
  case Nil
  then have "\<forall>n \<in> set (rev [0..<Suc (length start)]). \<not> is_file env (take n start @ tail) s"
    by (simp add: ancestors_def filter_empty_conv del: upt_Suc)
  moreover from Nil assms have "\<exists>h. home = Some h \<and> p = h @ tail \<and> is_file env p s"
    by (auto simp: discover_at_def split: option.splits if_splits)
  ultimately show ?thesis by (auto simp: found_at_def simp del: upt_Suc)
next
  case (Cons q qs)
  with assms have "q = p" by (simp add: discover_at_def)
  with nearest_ancestor [OF Cons] show ?thesis by (auto simp: found_at_def)
qed

lemma parse_bench_Inr: "parse_bench doc = Inr model \<Longrightarrow> model = Some m \<Longrightarrow> validate_model_reference m = Inr ()"
  by (auto simp: parse_bench_def and_then_Inr bind_result_Inr when_some_Inr split: list.splits)

lemma parse_private_bench_Inr:
  "parse_private_bench doc = Inr pb \<Longrightarrow> pb_codex_reasoning_effort pb = Some e \<Longrightarrow>
     validate_reasoning_effort e = Inr ()"
  by (auto simp: parse_private_bench_def and_then_Inr bind_result_Inr when_some_Inr default_private_bench_def
      split: list.splits)

lemma split_once_Some: "split_once s p = Some (a, b) \<Longrightarrow> s = a @ p @ b"
  by (auto simp: split_once_def dest!: find_str_Some split: option.splits)

lemma parse_model_reference_Inr:
  assumes "parse_model_reference v = Inr (provider, model)"
  shows "v = provider @ ''/'' @ model \<and> provider \<noteq> [] \<and> model \<noteq> [] \<and> CHR ''/'' \<notin> set model"
proof -
  from assms have v: "split_once v ''/'' = Some (provider, model)" "provider \<noteq> []" "model \<noteq> []"
    "\<not> contains_str model ''/''"
    by (auto simp: parse_model_reference_def bind_result_Inr and_then_Inr ensure_Inr ok_or_Inr)
  have "\<exists>u w. model = u @ ''/'' @ w" if "CHR ''/'' \<in> set model"
    using that by (simp add: in_set_conv_decomp)
  with v split_once_Some [OF v(1)] show ?thesis by (auto simp: contains_str_iff)
qed

lemma secret_attr_Some: "secret_attr b k k' = Some v \<Longrightarrow> v \<noteq> []"
  by (auto simp: secret_attr_def split: option.splits if_splits)

lemma route_of_Inr:
  assumes "route_of doc provider model = Inr r"
  shows "\<exists>b. filter (\<lambda>b. bname b = ''providers'' \<and> first_label_is provider b) doc = [b] \<and>
    labels b = [provider] \<and> mr_model r = model \<and> mr_api_key r \<noteq> [] \<and> mr_base_url r \<noteq> [] \<and>
    length (filter (\<lambda>c. bname c = ''models'' \<and> first_label_is model c) (blocks b)) = 1"
proof -
  let ?bs = "filter (\<lambda>b. bname b = ''providers'' \<and> first_label_is provider b) doc"
  from assms obtain b where b: "?bs = [b]"
    by (auto simp: route_of_def split: list.splits)
  then have "b \<in> set ?bs" by simp
  then have "first_label_is provider b" by simp
  with assms b show ?thesis
    by (auto simp: route_of_def and_then_Inr bind_result_Inr ensure_Inr ok_or_Inr first_label_is_def
        length_Suc_conv dest!: secret_attr_Some split: list.splits)
qed

subsection \<open>Properties\<close>

text \<open>
  C25 The configuration of a directory: each of the two files is the one of the nearest ancestor that
  has one, or that of the home directory when no ancestor has one; a judge model is a valid model
  reference, a reasoning effort one of the six known ones; and only a configuration file can choose
  the Runtime provider.
\<close>

theorem discovered_config:
  assumes "discover P provider_id env home s start = Inr c"
  shows "(\<forall>p. lc_path c = Some p \<longrightarrow> found_at env s home [''.a3s'', ''config.acl''] start p) \<and>
    (\<forall>p. lc_bench_path c = Some p \<longrightarrow> found_at env s home [''.a3s'', ''bench'', ''config.acl''] start p) \<and>
    (\<forall>m. lc_judge_model c = Some m \<longrightarrow> lc_path c \<noteq> None \<and> validate_model_reference m = Inr ()) \<and>
    (\<forall>e. lc_codex_reasoning_effort c = Some e \<longrightarrow> lc_bench_path c \<noteq> None \<and> validate_reasoning_effort e = Inr ()) \<and>
    (rs_source (lc_runtime c) = OperatorConfig \<longrightarrow> lc_path c \<noteq> None)"
proof -
  have found: "lc_path c = discover_path env s home start" "lc_bench_path c = discover_private_bench_path env s home start"
    using assms by (auto simp: discover_def Let_def bind_result_Inr split: option.splits)
  show ?thesis
    using assms discover_at_Some found unfolding discover_path_def discover_private_bench_path_def
    by (auto simp: discover_def discover_path_def discover_private_bench_path_def Let_def bind_result_Inr
        map_result_Inr bench_default_def default_private_bench_def transpose_result_Inr split: option.splits)
      (metis parse_bench_Inr parse_private_bench_Inr)+
qed

definition demo_config_disk :: fs where
  "demo_config_disk =
     \<lparr>disk = [[''home'', ''.a3s'', ''config.acl''] \<mapsto> FileE mode_600 ''shared'',
              [''home'', ''.a3s'', ''bench'', ''config.acl''] \<mapsto> FileE mode_600 ''private''],
      staging_sequence = 0\<rparr>"

definition demo_config_parser :: acl_parser where
  "demo_config_parser text =
     (if text = ''private''
      then Some [Block ''bench'' [] [(''codex_reasoning_effort'', AStr ''high'')] []]
      else Some [Block ''bench'' [] [(''judge_model'', AStr ''custom/grader'')] [],
                 Block ''providers'' [''custom'']
                   [(''api_key'', AStr ''secret''), (''base_url'', AStr ''https://example.test/v1'')]
                   [Block ''models'' [''grader''] [] []]])"

definition demo_config :: "local_config result" where
  "demo_config = discover demo_config_parser Inr quiet_os None demo_config_disk [''home'', ''work'']"

lemma demo_config_found:
  "\<exists>c. demo_config = Inr c \<and> lc_judge_model c = Some ''custom/grader'' \<and> lc_codex_reasoning_effort c = Some ''high''"
proof -
  have "(case demo_config of Inl e \<Rightarrow> False
    | Inr c \<Rightarrow> lc_judge_model c = Some ''custom/grader'' \<and> lc_codex_reasoning_effort c = Some ''high'')"
    by code_simp
  then show ?thesis by (auto split: sum.splits)
qed

theorem discovered_config_witness: "\<exists>c. demo_config = Inr c \<and> lc_path c \<noteq> None \<and> lc_bench_path c \<noteq> None"
proof -
  obtain c where c: "demo_config = Inr c" "lc_judge_model c \<noteq> None" "lc_codex_reasoning_effort c \<noteq> None"
    using demo_config_found by auto
  with discovered_config [OF c(1) [unfolded demo_config_def]] show ?thesis by auto
qed



end
