(* ===== verification/Asset.thy ===== *)
theory Asset
  imports Task
begin

text \<open>
  \<open>asset.rs\<close>: an Asset package (the directory of a candidate or a Judge) and its manifest. A
  package is a tree at a path; its files are read through the disk that the tree makes. Packages
  from an OCI image, from the installation directory and from relative paths are found by functions
  that are arguments of \<open>resolve\<close>.
\<close>

datatype candidate_protocol = AgentTool | A3sCodeExec | CodexExec

record asset_package =
  ap_root :: path
  ap_entrypoint :: string
  ap_definition_path :: "string option"
  ap_identity :: string
  ap_protocol :: candidate_protocol

text \<open>The disk a tree at a path makes.\<close>

fun entry_of :: "node \<Rightarrow> entry" where
  "entry_of (RegFile m l b) = FileE m b"
| "entry_of (Directory m es) = DirE m"
| "entry_of (Symlink x) = LinkE x"
| "entry_of SpecialFile = SpecialE"

definition tree_fs :: "path \<Rightarrow> node \<Rightarrow> fs" where
  "tree_fs base t =
     \<lparr>disk = (\<lambda>p. if take (length base) p = base then map_option entry_of (node_at t (drop (length base) p))
                  else None),
      staging_sequence = 0\<rparr>"

subsection \<open>The identity of a package\<close>

fun identity_entry :: "os \<Rightarrow> path \<Rightarrow> path \<Rightarrow> node \<Rightarrow> path list \<Rightarrow> path list result"
  and identity_entries :: "os \<Rightarrow> path \<Rightarrow> path \<Rightarrow> entries \<Rightarrow> path list \<Rightarrow> path list result" where
  "identity_entry env base rel (Directory m es) fs =
     and_then (call env (ReadDir (base @ rel))) (identity_entries env base rel es fs)"
| "identity_entry env base rel (RegFile m l b) fs = Inr (fs @ [rel])"
| "identity_entry env base rel (Symlink x) fs = Inl (Bail ''Asset package must not contain symlinks'')"
| "identity_entry env base rel SpecialFile fs = Inl (Bail ''Asset package contains a special file'')"
| "identity_entries env base rel [] fs = Inr fs"
| "identity_entries env base rel ((n, t) # es) fs =
     and_then (call env (EntryAt (base @ rel @ [n])))
       (bind_result (identity_entry env base (rel @ [n]) t fs) (\<lambda>fs.
          identity_entries env base rel es fs))"

text \<open>\<open>to_string_lossy\<close> of a name that is no UTF-8 replaces bytes; that is an argument.\<close>

definition identity_record :: "(string \<Rightarrow> string) \<Rightarrow> os \<Rightarrow> path \<Rightarrow> node \<Rightarrow> path \<Rightarrow> string result" where
  "identity_record lossy env base t f =
     (case node_at t f of
        Some (RegFile m l b) \<Rightarrow>
          bind_result (is_executable env (base @ f) m) (\<lambda>x.
            and_then (call env (ReadFile (base @ f)))
              (Inr (digest_record
                      (if valid_utf8 (path_text f) then path_text f else lossy (path_text f)) x b)))
      | Some _ \<Rightarrow> Inl (Io (OtherIo ''is a directory''))
      | None \<Rightarrow> Inl (Io NotFound))"

definition tree_identity :: "library \<Rightarrow> (string \<Rightarrow> string) \<Rightarrow> os \<Rightarrow> path \<Rightarrow> node \<Rightarrow> string result" where
  "tree_identity L lossy env base t =
     and_then (call env (Metadata base))
    (bind_result (if is_dir t then identity_entry env base [] t [] else Inl not_a_directory) (\<lambda>files.
     bind_result (map_results (identity_record lossy env base t) (sort files)) (\<lambda>rs.
       Inr (digest_bytes L (concat rs)))))"

subsection \<open>The manifest\<close>

definition asset_scalars :: "string list" where
  "asset_scalars =
     [''version'', ''category'', ''kind'', ''name'', ''description'', ''service'', ''created_by'']"

definition structured_schema :: "string \<Rightarrow> block_schema option" where
  "structured_schema name =
     map_of
       [(''source'', \<lparr>bs_attributes = [''package_path'', ''entrypoint'', ''definition_path''],
                      bs_children = [], bs_labels = NoLabels\<rparr>),
        (''metadata'', \<lparr>bs_attributes = [''asset_acl_path''], bs_children = [], bs_labels = NoLabels\<rparr>),
        (''runtime'', \<lparr>bs_attributes = [''kind'', ''isolation'', ''runtime_kind'', ''protocol'', ''agent_kind''],
                       bs_children = [], bs_labels = NoLabels\<rparr>),
        (''capability'', \<lparr>bs_attributes = [''input_schema'', ''output_schema'', ''network'', ''model_gateway''],
                          bs_children = [], bs_labels = ExactlyLabels 1\<rparr>)] name"

definition asset_structured :: "string list" where
  "asset_structured = [''source'', ''metadata'', ''runtime'', ''capability'']"

definition top_blocks :: "block list \<Rightarrow> string \<Rightarrow> block list" where
  "top_blocks doc name = filter (\<lambda>b. bname b = name) doc"

definition validate_asset_block :: "block \<Rightarrow> unit result" where
  "validate_asset_block b =
     and_then
       (ensure (bname b \<in> set asset_scalars \<or> bname b \<in> set asset_structured)
          ''Asset package contains unknown top-level field or block {:?}'')
       (if bname b \<in> set asset_scalars then validate_scalar_block b
        else (case structured_schema (bname b) of
                None \<Rightarrow> Inl (Panic ''top-level names were validated'')
              | Some sc \<Rightarrow> validate_block b sc))"

definition validate_asset_schema :: "block list \<Rightarrow> unit result" where
  "validate_asset_schema doc =
     and_then (each validate_asset_block doc)
       (each (\<lambda>n. ensure (length (top_blocks doc n) \<le> 1) ''Asset package contains duplicate {name}'')
          (asset_scalars @ [''source'', ''metadata'', ''runtime'']))"

definition require_top :: "block list \<Rightarrow> string \<Rightarrow> string \<Rightarrow> unit result" where
  "require_top doc key expected =
     (case top_blocks doc key of
        [b] \<Rightarrow> ensure (attr_str b key = Some expected) ''Asset package {key} must be {expected:?}''
      | _ \<Rightarrow> Inl (Bail ''Asset package must define {key} exactly once''))"

definition unique_top_block :: "block list \<Rightarrow> string \<Rightarrow> block result" where
  "unique_top_block doc name =
     (case top_blocks doc name of
        [b] \<Rightarrow> Inr b
      | _ \<Rightarrow> Inl (Bail ''Asset package must contain exactly one {name} block''))"

text \<open>\<open>Path::components\<close>: repeated separators and inner dots are skipped.\<close>

datatype component = RootDir | CurDir | ParentDir | Normal string

definition components_of :: "string \<Rightarrow> component list" where
  "components_of s =
     (let cs = split_char CHR ''/'' s;
          name = (\<lambda>c. if c = ''..'' then ParentDir else Normal c);
          rest = (\<lambda>ds. map name (filter (\<lambda>c. c \<noteq> [] \<and> c \<noteq> ''.'') ds))
      in if s = [] then []
         else if hd cs = [] then RootDir # rest (tl cs)
         else if hd cs = ''.'' then CurDir # rest (tl cs)
         else rest cs)"

fun is_normal :: "component \<Rightarrow> bool" where
  "is_normal (Normal c) = True"
| "is_normal _ = False"

definition validate_package_path :: "string \<Rightarrow> unit result" where
  "validate_package_path p =
     checks
       [(p \<noteq> [], ''{field} must not be empty''),
        (list_all is_normal (components_of p), ''{field} must be a normalized package-relative path'')]"

definition protocol_of :: "string \<Rightarrow> candidate_protocol result" where
  "protocol_of s =
     (if s = ''agent-tool'' then Inr AgentTool
      else if s = ''a3s-code-exec'' then Inr A3sCodeExec
      else if s = ''codex-exec'' then Inr CodexExec
      else Inl (Bail ''unsupported Candidate runtime protocol {value:?}''))"

definition runtime_protocol :: "block list \<Rightarrow> string" where
  "runtime_protocol doc =
     (case Option.bind (case top_blocks doc ''runtime'' of [] \<Rightarrow> None | b # _ \<Rightarrow> Some b)
             (\<lambda>b. attr_str b ''protocol'') of
        None \<Rightarrow> ''agent-tool'' | Some s \<Rightarrow> s)"

text \<open>\<open>root.join(text).is_file()\<close>: a text that ends in a separator or a dot names a directory.\<close>

definition names_file :: "string \<Rightarrow> bool" where
  "names_file p = (last (split_char CHR ''/'' p) \<noteq> [] \<and> last (split_char CHR ''/'' p) \<noteq> ''.'')"

definition is_package_file :: "os \<Rightarrow> path \<Rightarrow> fs \<Rightarrow> string \<Rightarrow> bool" where
  "is_package_file env base s p = (names_file p \<and> is_file env (join_text base p) s)"

text \<open>What \<open>load_directory\<close> reads of the parsed manifest.\<close>

definition parse_asset ::
  "os \<Rightarrow> path \<Rightarrow> fs \<Rightarrow> string \<Rightarrow> block list \<Rightarrow> asset_package result" where
  "parse_asset env base s identity doc =
     and_then (validate_asset_schema doc)
    (and_then (require_top doc ''version'' ''a3s.asset.v1'')
    (and_then (require_top doc ''category'' ''agent'')
    (bind_result (unique_top_block doc ''source'') (\<lambda>source.
     bind_result (ok_or (attr_str source ''entrypoint'') ''source.entrypoint must be a string'') (\<lambda>entry.
     let file = hd (split_char CHR '':'' entry)
     in and_then (validate_package_path file)
    (and_then (ensure (is_package_file env base s file) ''Asset package entrypoint is missing: {file}'')
    (bind_result
       (transpose_result
          (map_option (\<lambda>v. ok_or (a_str v) ''source.definition_path must be a string'')
             (attr source ''definition_path''))) (\<lambda>definition.
     bind_result (protocol_of (runtime_protocol doc)) (\<lambda>protocol.
     and_then
       (when_some definition (\<lambda>p.
          and_then (validate_package_path p)
            (ensure (is_package_file env base s p) ''Asset package definition is missing: {path}'')))
    (and_then
       (ensure (protocol = AgentTool \<or> definition \<noteq> None)
          ''native product Candidate adapter must define source.definition_path'')
    (and_then (call env (Metadata base))
       (Inr \<lparr>ap_root = base, ap_entrypoint = entry, ap_definition_path = definition,
             ap_identity = identity, ap_protocol = protocol\<rparr>))))))))))))"

definition load_directory ::
  "acl_parser \<Rightarrow> os \<Rightarrow> path \<Rightarrow> fs \<Rightarrow> string \<Rightarrow> asset_package result" where
  "load_directory P env base s identity =
     bind_result (with_context ''could not read {}'' (read_to_string env (base @ [''.a3s'', ''asset.acl'']) s))
       (\<lambda>source.
     bind_result (ok_or (P source) ''invalid {}: {error}'') (\<lambda>doc. parse_asset env base s identity doc))"

definition load_asset ::
  "acl_parser \<Rightarrow> library \<Rightarrow> (string \<Rightarrow> string) \<Rightarrow> os \<Rightarrow> path \<Rightarrow> node option \<Rightarrow> asset_package result" where
  "load_asset P L lossy env base x =
     (case (fault env (Lstat base), x) of
        (Some e, _) \<Rightarrow> Inl (Context ''Asset package does not exist: {}'' (Io e))
      | (None, None) \<Rightarrow> Inl (Context ''Asset package does not exist: {}'' (Io NotFound))
      | (None, Some t) \<Rightarrow>
          and_then (ensure (is_dir t) ''local Asset package must be a real directory'')
            (bind_result (tree_identity L lossy env base t) (\<lambda>identity.
               load_directory P env base (tree_fs base t) identity)))"

definition resolve_asset ::
  "(string \<Rightarrow> asset_package result) \<Rightarrow> (string \<Rightarrow> asset_package result) \<Rightarrow>
   (string \<Rightarrow> asset_package result) \<Rightarrow> string \<Rightarrow> asset_package result" where
  "resolve_asset builtin relative oci reference =
     (if reference \<in> {''a3s-code'', ''a3s-code-core'', ''codex''} then builtin reference
      else if starts_with reference ''./'' \<or> starts_with reference ''../'' then relative reference
      else bind_result (ok_or (strip_prefix_str reference ''oci://'')
                          ''unsupported Asset package reference {reference:?}'') oci)"

definition load_manifest_entrypoint :: "acl_parser \<Rightarrow> os \<Rightarrow> path \<Rightarrow> fs \<Rightarrow> string result" where
  "load_manifest_entrypoint P env manifest s =
     bind_result (read_to_string env manifest s) (\<lambda>source.
     bind_result (ok_or (P source) ''invalid {}: {error}'') (\<lambda>doc.
     and_then (validate_asset_schema doc)
    (bind_result (unique_top_block doc ''source'') (\<lambda>b.
       ok_or (attr_str b ''entrypoint'') ''source.entrypoint must be a string''))))"

subsection \<open>The definition of a model candidate\<close>

definition model_instructions_path :: "asset_package \<Rightarrow> path result" where
  "model_instructions_path a =
     map_result (join_text (ap_root a))
       (ok_or (ap_definition_path a) ''model-backed Candidate adapter must define source.definition_path'')"

fun scan_frontmatter :: "string list \<Rightarrow> u64 option \<Rightarrow> u64 option result" where
  "scan_frontmatter [] value = Inl (Bail ''model Candidate frontmatter is not closed'')"
| "scan_frontmatter (line # lines) value =
     (if trim line = ''---'' then Inr value
      else (case strip_prefix_str (trim line) ''max_steps:'' of
              None \<Rightarrow> scan_frontmatter lines value
            | Some raw \<Rightarrow>
                and_then (ensure (value = None) ''model Candidate max_steps is duplicated'')
                  (bind_result
                     (case parse_unsigned 64 (trim raw) of
                        None \<Rightarrow> Inl (External ''ParseIntError'') | Some n \<Rightarrow> Inr n) (\<lambda>n.
                   and_then (ensure (n \<ge> 1) ''model Candidate max_steps must be >= 1'')
                     (scan_frontmatter lines (Some (of_nat n)))))))"

definition max_steps_of :: "string \<Rightarrow> u64 result" where
  "max_steps_of definition_text =
     (case str_lines definition_text of
        [] \<Rightarrow> Inl (Bail ''model Candidate definition must start with frontmatter'')
      | first # lines \<Rightarrow>
          and_then (ensure (trim first = ''---'') ''model Candidate definition must start with frontmatter'')
            (map_result (\<lambda>v. case v of None \<Rightarrow> - 1 | Some n \<Rightarrow> n) (scan_frontmatter lines None)))"

definition model_max_steps :: "os \<Rightarrow> fs \<Rightarrow> asset_package \<Rightarrow> u64 result" where
  "model_max_steps env s a =
     bind_result (model_instructions_path a) (\<lambda>p.
     bind_result
       (if names_file (the (ap_definition_path a)) then read_to_string env p s
        else Inl (Io (OtherIo ''not a directory''))) max_steps_of)"

subsection \<open>The two walks\<close>

text \<open>Where a snapshot accepts a tree, the walk of an Asset package lists the same files.\<close>

lemma walks_agree:
  assumes "fault_free env'"
  shows "visit_entry lower env base rel t w = Inr w' \<Longrightarrow> is_dir t \<or> valid_utf8 (path_text rel) \<Longrightarrow>
      \<exists>gs. fst w' = fst w @ gs \<and> identity_entry env' base' rel t fs = Inr (fs @ gs) \<and>
        (\<forall>g \<in> set gs. valid_utf8 (path_text g))"
    and "visit_entries lower env base rel es w = Inr w' \<Longrightarrow>
      \<exists>gs. fst w' = fst w @ gs \<and> identity_entries env' base' rel es fs = Inr (fs @ gs) \<and>
        (\<forall>g \<in> set gs. valid_utf8 (path_text g))"
  using assms
proof (induction lower env base rel t w and lower env base rel es w
    arbitrary: w' fs and w' fs rule: visit_entry_visit_entries.induct)
  case (6 lower env base rel n t es w)
  from 6(3) obtain w1 w2 where
    w: "check_entry lower (rel @ [n]) t w = Inr w1" "visit_entry lower env base (rel @ [n]) t w1 = Inr w2"
      "visit_entries lower env base rel es w2 = Inr w'"
    by (auto simp: and_then_Inr bind_result_Inr)
  from w(1) have c: "fst w1 = fst w" "valid_utf8 (path_text (rel @ [n]))"
    by (auto simp: check_entry_def Let_def and_then_Inr checks_Inr)
  obtain g1 where g1: "fst w2 = fst w1 @ g1"
      "identity_entry env' base' (rel @ [n]) t fs = Inr (fs @ g1)" "\<forall>g \<in> set g1. valid_utf8 (path_text g)"
    using 6(1) [OF w(2) _ 6(4)] c(2) by blast
  obtain g2 where g2: "fst w' = fst w2 @ g2"
      "identity_entries env' base' rel es (fs @ g1) = Inr ((fs @ g1) @ g2)" "\<forall>g \<in> set g2. valid_utf8 (path_text g)"
    using 6(2) [OF w(3) 6(4)] by blast
  from g1 g2 c(1) 6(4) show ?case by (intro exI [of _ "g1 @ g2"]) auto
qed (auto simp: and_then_Inr ensure_Inr)

lemma record_agrees:
  assumes "file_record env base t f = Inr r" "valid_utf8 (path_text f)" "fault_free env'"
  shows "identity_record lossy env' base' t f = Inr r"
  using file_record_shape [OF assms(1) refl assms(3), of base'] assms(2)
  by (simp add: file_record_def identity_record_def split: option.splits node.splits)

text \<open>A walk that succeeds has met no symbolic link.\<close>

lemma no_symlinks:
  "identity_entry env base rel t fs = Inr gs \<Longrightarrow> node_at t p \<noteq> Some (Symlink x)"
  "identity_entries env base rel es fs = Inr gs \<Longrightarrow> (k, u) \<in> set es \<Longrightarrow> node_at u p \<noteq> Some (Symlink x)"
proof (induction env base rel t fs and env base rel es fs
    arbitrary: gs p and gs p k u rule: identity_entry_identity_entries.induct)
  case (1 env base rel m es fs)
  then show ?case
    by (cases p) (auto simp: and_then_Inr split: option.splits dest!: map_of_SomeD)
next
  case (2 env base rel m l b fs)
  then show ?case by (cases p) auto
next
  case (6 env base rel n t es fs)
  from 6(3) obtain hs where
    hs: "identity_entry env base (rel @ [n]) t fs = Inr hs" "identity_entries env base rel es hs = Inr gs"
    by (auto simp: and_then_Inr bind_result_Inr)
  with 6(1) [OF hs(1)] 6(2) [OF hs(2)] 6(4) show ?case by auto
qed auto

subsection \<open>A package that loads\<close>

text \<open>A path of the package: its names lead to a regular file of the tree.\<close>

definition package_file :: "node \<Rightarrow> string \<Rightarrow> bool" where
  "package_file t p =
     (\<exists>ns m l b. components_of p = map Normal ns \<and> node_at t ns = Some (RegFile m l b))"

lemma components_inside:
  assumes "validate_package_path p = Inr ()"
  shows "components_of p = map Normal (filter (\<lambda>c. c \<noteq> [] \<and> c \<noteq> ''.'') (split_char CHR ''/'' p))"
    "\<not> starts_with p ''/''"
proof -
  let ?cs = "split_char CHR ''/'' p"
  from assms have p: "p \<noteq> []" "list_all is_normal (components_of p)"
    by (auto simp: validate_package_path_def checks_Inr)
  then have h: "hd ?cs \<noteq> []" "hd ?cs \<noteq> ''.''" by (auto simp: components_of_def Let_def)
  have "\<forall>c \<in> set ?cs. c \<noteq> []\<and> c \<noteq> ''.'' \<longrightarrow> c \<noteq> ''..''"
    using p h by (auto simp: components_of_def Let_def list_all_iff split: if_splits)
  with p h show "components_of p = map Normal (filter (\<lambda>c. c \<noteq> [] \<and> c \<noteq> ''.'') ?cs)"
    by (auto simp: components_of_def Let_def intro!: map_cong)
  show "\<not> starts_with p ''/''"
    using h(1) p(1) by (cases p) (auto simp: starts_with_def split: list.splits)
qed

lemma package_file_found:
  assumes "validate_package_path p = Inr ()" "is_package_file env base (tree_fs base t) p"
    "identity_entry env' base' [] t [] = Inr gs"
  shows "package_file t p"
proof -
  let ?ns = "filter (\<lambda>c. c \<noteq> [] \<and> c \<noteq> ''.'') (split_char CHR ''/'' p)"
  have "join_text base p = base @ ?ns" using components_inside(2) [OF assms(1)] by (simp add: join_text_def)
  with assms(2) obtain x where "node_at t ?ns = Some x" "x = SpecialFile \<longrightarrow> False" "is_dir x \<longrightarrow> False"
    "\<forall>y. x = Symlink y \<longrightarrow> node_at t ?ns = Some (Symlink y)"
    by (cases "node_at t ?ns"; cases "the (node_at t ?ns)")
       (auto simp: is_package_file_def is_file_def tree_fs_def)
  moreover from this no_symlinks(1) [OF assms(3)] obtain m l b where "x = RegFile m l b"
    by (cases x) auto
  ultimately show ?thesis using components_inside(1) [OF assms(1)] by (auto simp: package_file_def)
qed

lemma parse_asset_Inr:
  assumes "parse_asset env base s identity doc = Inr a"
  shows "ap_root a = base \<and> ap_identity a = identity \<and>
    (ap_protocol a \<noteq> AgentTool \<longrightarrow> ap_definition_path a \<noteq> None) \<and>
    (\<forall>p \<in> insert (hd (split_char CHR '':'' (ap_entrypoint a))) (set_option (ap_definition_path a)).
       validate_package_path p = Inr () \<and> is_package_file env base s p)"
  using assms unfolding parse_asset_def Let_def bind_result_Inr and_then_Inr ensure_Inr when_some_Inr sum.inject
  by (elim conjE exE, hypsubst) auto

lemma load_asset_Inr:
  assumes "load_asset P L lossy env base x = Inr a"
  obtains t identity doc where "x = Some t" "is_dir t" "tree_identity L lossy env base t = Inr identity"
    "parse_asset env base (tree_fs base t) identity doc = Inr a"
  using assms
  by (auto simp: load_asset_def load_directory_def bind_result_Inr and_then_Inr ensure_Inr with_context_Inr
      split: option.splits)

lemma panics_call [simp]: "\<not> panics (call env c)"
  by (simp add: call_def split: option.splits)

lemma panics_walk [simp]:
  "\<not> panics (identity_entry env base rel t fs)" "\<not> panics (identity_entries env base rel es fs)"
  by (induction env base rel t fs and env base rel es fs rule: identity_entry_identity_entries.induct)
     (auto simp: panics_parts)

lemma panics_tree_identity [simp]: "\<not> panics (tree_identity L lossy env base t)"
  by (auto simp: tree_identity_def identity_record_def is_executable_def panics_parts
      dest!: panics_map_results split: option.splits node.splits)

lemma panics_validate_asset_schema [simp]: "\<not> panics (validate_asset_schema doc)"
  by (auto simp: validate_asset_schema_def validate_asset_block_def validate_scalar_block_def panics_parts
      asset_structured_def structured_schema_def dest!: panics_each split: option.splits if_splits)

lemma panics_read_to_string [simp]: "\<not> panics (read_to_string env p s)"
  by (auto simp: read_to_string_def split: option.splits entry.splits)

lemma panics_parse_asset [simp]: "\<not> panics (parse_asset env base s identity doc)"
  by (auto simp: parse_asset_def Let_def panics_parts require_top_def unique_top_block_def
      validate_package_path_def protocol_of_def split: list.splits option.splits if_splits)

lemma panics_load_asset [simp]: "\<not> panics (load_asset P L lossy env base x)"
  by (auto simp: load_asset_def load_directory_def panics_parts split: option.splits)

lemma scan_frontmatter_positive:
  "scan_frontmatter lines v = Inr r \<Longrightarrow> \<forall>n. v = Some n \<longrightarrow> 1 \<le> n \<Longrightarrow> \<forall>n. r = Some n \<longrightarrow> 1 \<le> n"
proof (induction lines v arbitrary: r rule: scan_frontmatter.induct)
  case (2 line lines v)
  show ?case
  proof (cases "strip_prefix_str (trim line) ''max_steps:''")
    case None
    with 2 show ?thesis by (auto split: if_splits)
  next
    case (Some raw)
    have "1 \<le> (of_nat n :: u64)" if "parse_unsigned 64 s = Some n" "1 \<le> n" for n s
      using that by (auto simp: parse_unsigned_def Let_def word_le_nat_alt unat_of_nat split: option.splits if_splits)
    with 2 Some show ?thesis
      by (cases "trim line = ''---''") (auto simp: and_then_Inr bind_result_Inr ensure_Inr split: option.splits)
  qed
qed simp

lemma max_steps_positive: "max_steps_of s = Inr n \<Longrightarrow> 1 \<le> n"
  by (auto simp: max_steps_of_def and_then_Inr ensure_Inr map_result_Inr dest!: scan_frontmatter_positive
      split: list.splits option.splits)

subsection \<open>Properties\<close>

text \<open>
  C23 One content address: whenever a snapshot of a tree has a digest, the identity of the same tree
  as an Asset package is that digest, wherever it lies. So the revision a lock records of a Judge or
  a candidate is the digest of the artifact it was captured into.
\<close>

theorem package_identity_is_snapshot_digest:
  assumes "collect lower env base t = Inr files" "tree_digest L env base t files = Inr d" "fault_free env'"
  shows "tree_identity L lossy env' base' t = Inr d"
proof -
  from assms(1) obtain w where w: "is_dir t" "visit_entry lower env base [] t ([], []) = Inr w"
    and files: "files = sort (fst w)"
    by (auto simp: collect_def bind_result_Inr split: if_splits)
  obtain gs where gs: "fst w = gs" "identity_entry env' base' [] t [] = Inr gs"
      "\<forall>g \<in> set gs. valid_utf8 (path_text g)"
    using walks_agree(1) [OF assms(3) w(2), of base' "[]"] w(1) by auto
  from assms(2) obtain rs where rs: "map_results (file_record env base t) files = Inr rs"
    and d: "d = digest_bytes L (concat rs)"
    by (auto simp: tree_digest_def bind_result_Inr)
  have utf: "valid_utf8 (path_text (files ! i))" if "i < length files" for i
    using that gs(1,3) files by (metis nth_mem set_sort)
  have "map_results (identity_record lossy env' base' t) files = Inr rs"
    using rs record_agrees [OF _ utf assms(3)] unfolding map_results_Inr by blast
  with gs w(1) files d assms(3) show ?thesis by (simp add: tree_identity_def)
qed

theorem package_identity_is_snapshot_digest_witness:
  "\<exists>d. tree_identity toy_library (\<lambda>s. s) quiet_os [''p''] demo_source = Inr d"
proof -
  have c: "collect (map to_ascii_lower) quiet_os [] demo_source = Inr [[''a'']]" by code_simp
  have "tree_digest toy_library quiet_os [] demo_source [[''a'']] = Inr (digest_bytes toy_library [])"
    by code_simp
  from package_identity_is_snapshot_digest [OF c this quiet_fault_free] show ?thesis by blast
qed

text \<open>
  C24 A package that loads is a real directory without symbolic links, identified by the digest of
  all its files; the entrypoint (up to a colon) and the definition, where there is one, are regular
  files inside it, reached by names only, and a native product adapter has a definition.
\<close>

theorem loaded_package_is_inside:
  assumes "load_asset P L lossy env base x = Inr a"
  shows "\<exists>t. x = Some t \<and> is_dir t \<and> (\<forall>p y. node_at t p \<noteq> Some (Symlink y)) \<and> ap_root a = base \<and>
    tree_identity L lossy env base t = Inr (ap_identity a) \<and>
    package_file t (hd (split_char CHR '':'' (ap_entrypoint a))) \<and>
    (\<forall>p. ap_definition_path a = Some p \<longrightarrow> package_file t p) \<and>
    (ap_protocol a \<noteq> AgentTool \<longrightarrow> ap_definition_path a \<noteq> None)"
proof -
  obtain t identity doc where t: "x = Some t" "is_dir t" "tree_identity L lossy env base t = Inr identity"
    and a: "parse_asset env base (tree_fs base t) identity doc = Inr a"
    using load_asset_Inr [OF assms] .
  then obtain gs where gs: "identity_entry env base [] t [] = Inr gs"
    by (auto simp: tree_identity_def and_then_Inr bind_result_Inr)
  show ?thesis
    using t parse_asset_Inr [OF a] package_file_found [OF _ _ gs] no_symlinks(1) [OF gs] by auto
qed

definition demo_manifest :: "block list" where
  "demo_manifest =
     [Block ''version'' [] [(''version'', AStr ''a3s.asset.v1'')] [],
      Block ''category'' [] [(''category'', AStr ''agent'')] [],
      Block ''source'' [] [(''entrypoint'', AStr ''src/run:main'')] []]"

definition demo_package :: node where
  "demo_package = Directory mode_700
     [(''.a3s'', Directory mode_700 [(''asset.acl'', RegFile mode_600 1 ''version'')]),
      (''src'', Directory mode_700 [(''run'', RegFile mode_600 1 ''x'')])]"

definition demo_asset :: "asset_package result" where
  "demo_asset = load_asset (\<lambda>_. Some demo_manifest) toy_library (\<lambda>s. s) quiet_os [''p''] (Some demo_package)"

lemma demo_asset_loads: "\<not> isl demo_asset"
  by code_simp

theorem loaded_package_is_inside_witness:
  "\<exists>a. demo_asset = Inr a \<and> package_file demo_package (hd (split_char CHR '':'' (ap_entrypoint a)))"
proof -
  obtain a where a: "demo_asset = Inr a" using demo_asset_loads by (metis isl_def old.sum.exhaust)
  with loaded_package_is_inside [OF a [unfolded demo_asset_def]] show ?thesis by auto
qed

end
