(* ===== verification/Lock.thy ===== *)
theory Lock
  imports Config Asset "HOL-Library.Product_Lexorder" "HOL-Library.Option_ord"
begin

text \<open>
  \<open>lock.rs\<close>: Task and candidate locks, how they are created and what is checked when they are
  loaded. What a lock needs of the rest is a \<open>world\<close>: the libraries, what the tree at a path outside
  the artifact store is and what a capture sees at a path, and what the other modules answer (the
  Docker image resolution of \<open>runtime\<close>, the runner images of \<open>os_runtime\<close>, OCI packages, installed
  and cached products).
\<close>

record world =
  w_parser :: acl_parser
  w_lib :: library
  w_globs :: globs
  w_lower :: "string \<Rightarrow> string"
  w_lossy :: "string \<Rightarrow> string"
  w_os :: os
  w_outside :: "path \<Rightarrow> node option"
  w_view :: "path \<Rightarrow> source_view"
  w_resolve_image :: "string \<Rightarrow> string option \<Rightarrow> string result"
  w_runner_images :: "(string \<times> string) list result"
  w_builtin :: "string \<Rightarrow> asset_package result"
  w_relative :: "string \<Rightarrow> asset_package result"
  w_oci :: "string \<Rightarrow> asset_package result"
  w_a3s_version :: "string result"
  w_codex_prepare :: "(string \<times> string \<times> string) result"
  w_codex_cached :: "product_lock \<Rightarrow> unit result"

definition os_runtime_provider :: string where "os_runtime_provider = ''os-runtime''"

subsection \<open>Reading the artifact store\<close>

text \<open>The tree at a path: inside an artifact, a part of its tree; elsewhere, and where a name of the
  path is \<open>..\<close>, what the operating system finds.\<close>

definition tree_of :: "world \<Rightarrow> artifact_state \<Rightarrow> path \<Rightarrow> node option" where
  "tree_of W s p =
     (case p of
        a # h # rest \<Rightarrow>
          (case as_trees s [a, h] of
             Some t \<Rightarrow> if ''..'' \<in> set rest then w_outside W p else node_at t rest
           | None \<Rightarrow> w_outside W p)
      | _ \<Rightarrow> w_outside W p)"

definition store_fs :: "world \<Rightarrow> artifact_state \<Rightarrow> fs" where
  "store_fs W s = \<lparr>disk = (\<lambda>p. map_option entry_of (tree_of W s p)), staging_sequence = 0\<rparr>"

definition task_at :: "world \<Rightarrow> artifact_state \<Rightarrow> path \<Rightarrow> task_info result" where
  "task_at W s p = load_local (w_parser W) (w_lib W) (w_globs W) (w_os W) p (store_fs W s)"

definition asset_at :: "world \<Rightarrow> artifact_state \<Rightarrow> path \<Rightarrow> asset_package result" where
  "asset_at W s p = load_asset (w_parser W) (w_lib W) (w_lossy W) (w_os W) p (tree_of W s p)"

definition capture_at :: "world \<Rightarrow> path \<Rightarrow> artifact_state \<Rightarrow> artifact_state \<times> string result" where
  "capture_at W p s = capture (w_lib W) (w_lower W) (w_os W) (w_view W p) s"

definition verify_at :: "world \<Rightarrow> artifact_state \<Rightarrow> path \<Rightarrow> string \<Rightarrow> unit result" where
  "verify_at W s p d = verify (w_lib W) (w_lower W) (w_os W) p (as_trees s p) d"

subsection \<open>Lock files\<close>

text \<open>The parent of a relative path of one name is the empty path, which cannot be opened.\<close>

definition write_exclusive :: "os \<Rightarrow> bool \<Rightarrow> path \<Rightarrow> string \<Rightarrow> fs \<Rightarrow> fs \<times> unit result" where
  "write_exclusive env absolute p bytes s =
     then_do
       (case syscall env (OpenNew p) s
               (case disk s p of
                  Some _ \<Rightarrow> (s, Inl (Io AlreadyExists))
                | None \<Rightarrow> (s\<lparr>disk := (disk s)(p \<mapsto> FileE mode_600 [])\<rparr>, Inr ())) of
          (s, r) \<Rightarrow> (s, with_context ''could not create lock {}'' r))
       (\<lambda>s. then_do
          (case fault env (WriteAll p) of
             Some e \<Rightarrow>
               (s\<lparr>disk := (disk s)(p \<mapsto> FileE mode_600 (take (short_write env p) (bytes @ [CHR 0x0A])))\<rparr>,
                Inl (Io e))
           | None \<Rightarrow> (s\<lparr>disk := (disk s)(p \<mapsto> FileE mode_600 (bytes @ [CHR 0x0A]))\<rparr>, Inr ()))
       (\<lambda>s. then_do (syscall env (SyncFile p) s (s, Inr ()))
       (\<lambda>s. if butlast p = [] \<and> \<not> absolute then (s, Inl (Io NotFound))
            else syscall env (SyncDir (butlast p)) s (s, Inr ()))))"

definition store_lock :: "world \<Rightarrow> bool \<Rightarrow> path \<Rightarrow> jval \<Rightarrow> artifact_state \<Rightarrow> artifact_state \<times> unit result" where
  "store_lock W absolute output v s =
     (case write_exclusive (w_os W) absolute output (json_pretty (w_lib W) v) (as_fs s) of
        (f, r) \<Rightarrow> (s\<lparr>as_fs := f\<rparr>, r))"

definition read_lock_file :: "world \<Rightarrow> artifact_state \<Rightarrow> path \<Rightarrow> string result" where
  "read_lock_file W s p = read_regular_file (w_os W) p (as_fs s)"

definition read_lock :: "world \<Rightarrow> artifact_state \<Rightarrow> (jval \<Rightarrow> 'a option) \<Rightarrow> path \<Rightarrow> 'a result" where
  "read_lock W s dec p =
     bind_result (read_lock_file W s p) (\<lambda>bytes.
       case Option.bind (json_parse (w_lib W) bytes) dec of
         None \<Rightarrow> Inl (External ''serde_json'') | Some l \<Rightarrow> Inr l)"

subsection \<open>Creating a Task lock\<close>

definition image_key :: "string \<Rightarrow> string option \<Rightarrow> string" where
  "image_key reference platform =
     (case platform of None \<Rightarrow> ''native'' | Some p \<Rightarrow> p) @ ''|'' @ reference"

definition task_image_references :: "task_info \<Rightarrow> (string \<times> string option) list" where
  "task_image_references t =
     remdups_adj (sort
       ([(t_work_image t, t_work_platform t)]
        @ (case t_workspace_seed t of None \<Rightarrow> [] | Some seed \<Rightarrow> [(ws_image seed, ws_platform seed)])
        @ (case t_legacy_judge t of None \<Rightarrow> [] | Some j \<Rightarrow> [(ls_image j, ls_platform j)])))"

fun resolve_images ::
  "(string \<Rightarrow> string option \<Rightarrow> string result) \<Rightarrow> (string \<times> string option) list \<Rightarrow> (string \<times> string) list \<Rightarrow>
     (string \<times> string) list result" where
  "resolve_images f [] m = Inr m"
| "resolve_images f ((reference, platform) # rs) m =
     bind_result (f reference platform) (\<lambda>immutable.
       resolve_images f rs (map_insert (image_key reference platform) immutable m))"

definition requires_judge_model :: "task_info \<Rightarrow> bool" where
  "requires_judge_model t = (\<exists>j \<in> set_option (t_legacy_judge t). ls_requires_model_gateway j)"

definition asset_resolve :: "world \<Rightarrow> string \<Rightarrow> asset_package result" where
  "asset_resolve W reference = resolve_asset (w_builtin W) (w_relative W) (w_oci W) reference"

definition resolve_judge :: "world \<Rightarrow> artifact_state \<Rightarrow> task_info \<Rightarrow> asset_package result" where
  "resolve_judge W s t =
     (if starts_with (t_judge_asset t) ''oci://'' then asset_resolve W (t_judge_asset t)
      else asset_at W s (join_text (t_root t) (t_judge_asset t)))"

text \<open>The steps between the two captures: the Task, the judge model of the lock, and the Judge.\<close>

definition plan_task_lock ::
  "world \<Rightarrow> artifact_state \<Rightarrow> string \<Rightarrow> string option \<Rightarrow> string \<Rightarrow>
     (task_info \<times> string option \<times> asset_package) result" where
  "plan_task_lock W s provider judge_model digest =
     bind_result (artifact_path digest) (\<lambda>captured.
     bind_result (task_at W s captured) (\<lambda>task.
     and_then
       (checks
          [(provider \<noteq> os_runtime_provider \<or> t_schema task = task_v1,
            ''os-runtime cannot enforce explicit a3s-bench/task/v2 resources; use the Docker Runtime''),
           (\<not> requires_judge_model task \<or> judge_model \<noteq> None,
            ''Task {:?} requires bench.judge_model in .a3s/config.acl'')])
    (let judge_model = (if requires_judge_model task then judge_model else None)
     in and_then (when_some judge_model validate_model_reference)
          (map_result (\<lambda>judge. (task, judge_model, judge)) (resolve_judge W s task)))))"

definition lock_images :: "world \<Rightarrow> string \<Rightarrow> task_info \<Rightarrow> (string \<times> string) list result" where
  "lock_images W provider task =
     (if provider = os_runtime_provider then map_result map_of_members (w_runner_images W)
      else resolve_images (w_resolve_image W) (task_image_references task) [])"

definition lock_schema_parts ::
  "task_info \<Rightarrow> (string \<times> task_resources option \<times> workspace_import list option \<times> string list option) result" where
  "lock_schema_parts task =
     (if t_schema task = task_v1 then Inr (task_lock_v1, None, None, None)
      else if t_schema task = task_v2
      then Inr (task_lock_v2, Some (t_resources task), Some (t_imports task),
                if t_allow_hosts task \<noteq> [] then Some (t_allow_hosts task) else None)
      else Inl (Panic ''Task schema was validated''))"

definition seal_task_lock :: "library \<Rightarrow> task_lock \<Rightarrow> task_lock" where
  "seal_task_lock L l = l\<lparr>tl_lock_digest := task_digest L l\<rparr>"

definition seal_candidate_lock :: "library \<Rightarrow> candidate_lock \<Rightarrow> candidate_lock" where
  "seal_candidate_lock L l = l\<lparr>cl_lock_digest := candidate_digest L l\<rparr>"

definition make_task_lock ::
  "world \<Rightarrow> artifact_state \<Rightarrow> string \<Rightarrow> task_info \<Rightarrow> string option \<Rightarrow> string \<Rightarrow> string \<Rightarrow> task_lock result" where
  "make_task_lock W s provider task judge_model digest judge_digest =
     bind_result (artifact_path judge_digest) (\<lambda>judge_artifact.
     bind_result (asset_at W s judge_artifact) (\<lambda>locked_judge.
     bind_result (lock_images W provider task) (\<lambda>images.
     bind_result (lock_schema_parts task) (\<lambda>(schema, resources, wis, hosts).
       Inr (seal_task_lock (w_lib W)
         \<lparr>tl_schema = schema, tl_lock_digest = [], tl_task_revision = digest,
                  tl_artifact_digest = digest, tl_judge_revision = ap_identity locked_judge,
                  tl_judge_artifact_digest = judge_digest, tl_judge_model = judge_model,
                  tl_resolved_images = images, tl_resources = resources,
                  tl_workspace_imports = wis, tl_network_allow_hosts = hosts\<rparr>)))))"

definition create_task_with_provider ::
  "world \<Rightarrow> path \<Rightarrow> bool \<Rightarrow> string option \<Rightarrow> bool \<Rightarrow> path \<Rightarrow> string \<Rightarrow> artifact_state \<Rightarrow>
     artifact_state \<times> task_lock result" where
  "create_task_with_provider W source source_is_dir judge_model absolute output provider s =
     (case capture_at W (if source_is_dir then source else butlast source) s of
        (s, Inl e) \<Rightarrow> (s, Inl e)
      | (s, Inr digest) \<Rightarrow>
          (case plan_task_lock W s provider judge_model digest of
             Inl e \<Rightarrow> (s, Inl e)
           | Inr (task, judge_model, judge) \<Rightarrow>
               (case capture_at W (ap_root judge) s of
                  (s, Inl e) \<Rightarrow> (s, Inl e)
                | (s, Inr judge_digest) \<Rightarrow>
                    (case make_task_lock W s provider task judge_model digest judge_digest of
                       Inl e \<Rightarrow> (s, Inl e)
                     | Inr value \<Rightarrow>
                         (case store_lock W absolute output (task_lock_json value) s of
                            (s, Inl e) \<Rightarrow> (s, Inl e)
                          | (s, Inr _) \<Rightarrow> (s, Inr value))))))"

subsection \<open>Loading a Task lock\<close>

definition check_task_lock :: "library \<Rightarrow> task_lock \<Rightarrow> unit result" where
  "check_task_lock L l =
     and_then (ensure (tl_schema l = task_lock_v1 \<or> tl_schema l = task_lock_v2) ''invalid TaskLock schema'')
    (and_then (validate_digest (tl_lock_digest l))
       (checks
          [(task_digest L l = tl_lock_digest l, ''TaskLock semantic digest mismatch''),
           (tl_task_revision l = tl_artifact_digest l, ''TaskLock revision does not match artifact digest''),
           (trim (tl_judge_revision l) \<noteq> [], ''TaskLock Judge revision is empty'')]))"

definition check_task_binding :: "task_lock \<Rightarrow> task_info \<Rightarrow> unit result" where
  "check_task_binding l t =
     (if tl_schema l = task_lock_v1 \<and> t_schema t = task_v1
      then ensure (tl_resources l = None \<and> tl_workspace_imports l = None \<and> tl_network_allow_hosts l = None)
             ''TaskLock v1 must not contain resources, workspace imports, or network allow hosts''
      else if tl_schema l = task_lock_v2 \<and> t_schema t = task_v2
      then checks
             [(tl_resources l = Some (t_resources t),
               ''TaskLock resources do not match the locked Task artifact''),
              (tl_workspace_imports l = Some (t_imports t),
               ''TaskLock workspace imports do not match the locked Task artifact''),
              (tl_network_allow_hosts l \<noteq> Some [], ''TaskLock network allow hosts must omit an empty list''),
              ((case tl_network_allow_hosts l of None \<Rightarrow> [] | Some hs \<Rightarrow> hs) = t_allow_hosts t,
               ''TaskLock network allow hosts do not match the locked Task artifact'')]
      else if tl_schema l = task_lock_v1 \<and> t_schema t = task_v2
      then Inl (Bail ''TaskLock v1 cannot bind a task/v2 artifact'')
      else if tl_schema l = task_lock_v2 \<and> t_schema t = task_v1
      then Inl (Bail ''TaskLock v2 cannot bind a task/v1 artifact'')
      else Inl (Panic ''Task and TaskLock schemas were validated''))"

definition check_judge_model :: "task_lock \<Rightarrow> task_info \<Rightarrow> unit result" where
  "check_judge_model l t =
     and_then
       (ensure (requires_judge_model t = (tl_judge_model l \<noteq> None))
          ''TaskLock Judge model binding does not match Task requirements'')
       (when_some (tl_judge_model l) validate_model_reference)"

record loaded_task_lock =
  ll_lock :: task_lock
  ll_task_artifact :: path
  ll_judge_artifact :: path

definition load_task :: "world \<Rightarrow> path \<Rightarrow> artifact_state \<Rightarrow> loaded_task_lock result" where
  "load_task W p s =
     bind_result (read_lock W s task_lock_of_json p) (\<lambda>l.
     and_then (check_task_lock (w_lib W) l)
    (bind_result (artifact_path (tl_artifact_digest l)) (\<lambda>artifact.
     and_then (with_context ''locked Task artifact is unavailable or corrupt''
                 (verify_at W s artifact (tl_artifact_digest l)))
    (bind_result (with_context ''locked Task artifact is invalid'' (task_at W s artifact)) (\<lambda>t.
     and_then (check_task_binding l t)
    (and_then (check_judge_model l t)
    (bind_result (artifact_path (tl_judge_artifact_digest l)) (\<lambda>judge_artifact.
     and_then (with_context ''locked Judge artifact is unavailable or corrupt''
                 (verify_at W s judge_artifact (tl_judge_artifact_digest l)))
    (bind_result (with_context ''locked Judge artifact is not an Asset package'' (asset_at W s judge_artifact)) (\<lambda>judge.
     and_then (ensure (ap_identity judge = tl_judge_revision l) ''TaskLock Judge revision does not match artifact'')
       (Inr \<lparr>ll_lock = l, ll_task_artifact = artifact, ll_judge_artifact = judge_artifact\<rparr>)))))))))))"

subsection \<open>Creating a candidate lock\<close>

definition locked_effort :: "candidate_protocol \<Rightarrow> string option \<Rightarrow> string option \<Rightarrow> string option result" where
  "locked_effort protocol effort default_effort =
     and_then (when_some default_effort validate_reasoning_effort)
    (and_then
       (when_some effort (\<lambda>e.
          and_then (validate_reasoning_effort e)
            (ensure (protocol = CodexExec) ''reasoning effort is supported only by the native Codex Candidate'')))
       (Inr (if protocol = CodexExec then or_else effort default_effort else effort)))"

definition lock_product :: "world \<Rightarrow> candidate_protocol \<Rightarrow> product_lock option result" where
  "lock_product W protocol =
     (case protocol of
        AgentTool \<Rightarrow> Inr None
      | A3sCodeExec \<Rightarrow>
          map_result (\<lambda>v. Some \<lparr>pl_name = ''a3s-cli'', pl_version = v, pl_target_triple = None,
                                pl_artifact_set_digest = None\<rparr>) (w_a3s_version W)
      | CodexExec \<Rightarrow>
          map_result (\<lambda>(version, triple, digest).
             Some \<lparr>pl_name = ''codex-cli'', pl_version = version, pl_target_triple = Some triple,
                   pl_artifact_set_digest = Some digest\<rparr>) (w_codex_prepare W))"

definition candidate_schema :: "candidate_protocol \<Rightarrow> string" where
  "candidate_schema protocol =
     (case protocol of AgentTool \<Rightarrow> candidate_lock_v1 | A3sCodeExec \<Rightarrow> candidate_lock_v2
      | CodexExec \<Rightarrow> candidate_lock_v3)"

definition make_candidate_lock ::
  "world \<Rightarrow> artifact_state \<Rightarrow> string option \<Rightarrow> string option \<Rightarrow> string option \<Rightarrow> string \<Rightarrow> candidate_lock result" where
  "make_candidate_lock W s model effort default_effort digest =
     bind_result (artifact_path digest) (\<lambda>captured.
     bind_result (asset_at W s captured) (\<lambda>asset.
     bind_result (locked_effort (ap_protocol asset) effort default_effort) (\<lambda>effort.
     and_then (validate_model_reasoning_compatibility model effort)
    (and_then (if ap_protocol asset = CodexExec then when_some model validate_codex_model else Inr ())
    (and_then
       (if model \<noteq> None \<and> ap_protocol asset = AgentTool
        then bind_result (with_context ''Candidate cannot be locked with a model'' (model_instructions_path asset)) (\<lambda>_.
             map_result (\<lambda>_. ())
               (with_context ''Candidate cannot be locked with a model''
                  (model_max_steps (w_os W) (store_fs W s) asset)))
        else Inr ())
    (bind_result (lock_product W (ap_protocol asset)) (\<lambda>product.
       Inr (seal_candidate_lock (w_lib W)
         \<lparr>cl_schema = candidate_schema (ap_protocol asset), cl_lock_digest = [],
                  cl_candidate_revision = ap_identity asset, cl_artifact_digest = digest,
                  cl_model = model, cl_reasoning_effort = effort, cl_product = product\<rparr>))))))))"

definition create_candidate_with_codex_default ::
  "world \<Rightarrow> string \<Rightarrow> string option \<Rightarrow> string option \<Rightarrow> string option \<Rightarrow> bool \<Rightarrow> path \<Rightarrow> artifact_state \<Rightarrow>
     artifact_state \<times> candidate_lock result" where
  "create_candidate_with_codex_default W reference model effort default_effort absolute output s =
     (case asset_resolve W reference of
        Inl e \<Rightarrow> (s, Inl e)
      | Inr asset \<Rightarrow>
          (case capture_at W (ap_root asset) s of
             (s, Inl e) \<Rightarrow> (s, Inl e)
           | (s, Inr digest) \<Rightarrow>
               (case make_candidate_lock W s model effort default_effort digest of
                  Inl e \<Rightarrow> (s, Inl e)
                | Inr value \<Rightarrow>
                    (case store_lock W absolute output (candidate_lock_json value) s of
                       (s, Inl e) \<Rightarrow> (s, Inl e)
                     | (s, Inr _) \<Rightarrow> (s, Inr value)))))"

definition create_candidate_with_options ::
  "world \<Rightarrow> string \<Rightarrow> string option \<Rightarrow> string option \<Rightarrow> bool \<Rightarrow> path \<Rightarrow> artifact_state \<Rightarrow>
     artifact_state \<times> candidate_lock result" where
  "create_candidate_with_options W reference model effort absolute output s =
     create_candidate_with_codex_default W reference model effort None absolute output s"

definition create_candidate ::
  "world \<Rightarrow> string \<Rightarrow> string option \<Rightarrow> bool \<Rightarrow> path \<Rightarrow> artifact_state \<Rightarrow> artifact_state \<times> candidate_lock result" where
  "create_candidate W reference model absolute output s =
     create_candidate_with_options W reference model None absolute output s"

subsection \<open>Loading a candidate lock\<close>

definition check_candidate_lock :: "library \<Rightarrow> candidate_lock \<Rightarrow> unit result" where
  "check_candidate_lock L l =
     and_then
       (ensure (cl_schema l \<in> {candidate_lock_v1, candidate_lock_v2, candidate_lock_v3})
          ''invalid CandidateLock schema'')
    (and_then (validate_digest (cl_lock_digest l))
    (and_then (ensure (candidate_digest L l = cl_lock_digest l) ''CandidateLock semantic digest mismatch'')
    (and_then
       (ensure (\<not> (cl_schema l = candidate_lock_v2 \<and> (\<exists>p \<in> set_option (cl_product l). pl_name p = ''codex-cli'')))
          ''legacy native Codex CandidateLock v2 is not a containerized lock; regenerate the CandidateLock'')
    (and_then
       (if cl_schema l = candidate_lock_v3
        then and_then (when_some (cl_model l) validate_codex_model)
            (and_then (when_some (cl_reasoning_effort l) validate_reasoning_effort)
               (validate_model_reasoning_compatibility (cl_model l) (cl_reasoning_effort l)))
        else Inr ())
       (ensure (trim (cl_candidate_revision l) \<noteq> []) ''CandidateLock revision is empty'')))))"

definition check_product :: "world \<Rightarrow> candidate_lock \<Rightarrow> candidate_protocol \<Rightarrow> unit result" where
  "check_product W l protocol =
     (case (protocol, cl_product l) of
        (AgentTool, None) \<Rightarrow>
          checks
            [(cl_schema l = candidate_lock_v1, ''Agent Candidate uses the historical CandidateLock v1 schema''),
             (cl_reasoning_effort l = None, ''Agent Candidate lock contains a Codex-only reasoning effort'')]
      | (A3sCodeExec, Some product) \<Rightarrow>
          and_then
            (checks
               [(cl_schema l = candidate_lock_v2 \<and> pl_name product = ''a3s-cli'',
                 ''A3S Code Candidate has an invalid product lock''),
                (cl_reasoning_effort l = None \<and> pl_target_triple product = None \<and>
                   pl_artifact_set_digest product = None,
                 ''A3S Code Candidate lock contains containerized Codex fields'')])
            (bind_result (w_a3s_version W) (\<lambda>v.
               ensure (v = pl_version product) ''installed A3S CLI does not match locked version {:?}''))
      | (CodexExec, Some product) \<Rightarrow>
          and_then
            (checks
               [(pl_name product = ''codex-cli'', ''Codex Candidate has an invalid product lock''),
                (pl_target_triple product \<noteq> None \<and> pl_artifact_set_digest product \<noteq> None,
                 ''legacy native Codex CandidateLock v2 is not a containerized lock; regenerate the CandidateLock''),
                (cl_schema l = candidate_lock_v3, ''Codex Candidate has an invalid product lock schema'')])
            (w_codex_cached W product)
      | _ \<Rightarrow> Inl (Bail ''Candidate protocol does not match its product lock''))"

definition load_candidate :: "world \<Rightarrow> path \<Rightarrow> artifact_state \<Rightarrow> (candidate_lock \<times> path) result" where
  "load_candidate W p s =
     bind_result (read_lock W s candidate_lock_of_json p) (\<lambda>l.
     and_then (check_candidate_lock (w_lib W) l)
    (bind_result (artifact_path (cl_artifact_digest l)) (\<lambda>artifact.
     and_then (with_context ''locked Candidate artifact is unavailable or corrupt''
                 (verify_at W s artifact (cl_artifact_digest l)))
    (bind_result (with_context ''locked Candidate artifact is not a Candidate adapter'' (asset_at W s artifact)) (\<lambda>c.
     and_then (ensure (ap_identity c = cl_candidate_revision l) ''CandidateLock revision does not match artifact'')
    (and_then (check_product W l (ap_protocol c)) (Inr (l, artifact))))))))"

subsection \<open>What a lock that loads binds\<close>

lemma lock_schemas_differ [simp]:
  "task_lock_v1 \<noteq> task_lock_v2" "candidate_lock_v1 \<noteq> candidate_lock_v2"
  "candidate_lock_v1 \<noteq> candidate_lock_v3" "candidate_lock_v2 \<noteq> candidate_lock_v3"
  by (simp_all add: lock_schemas)

lemma load_task_Inr:
  assumes "load_task W p s = Inr x"
  shows "check_task_lock (w_lib W) (ll_lock x) = Inr ()" "read_lock W s task_lock_of_json p = Inr (ll_lock x)"
    "\<exists>t. check_task_binding (ll_lock x) t = Inr ()"
  using assms by (auto simp: load_task_def bind_result_Inr and_then_Inr)

lemma load_candidate_Inr:
  assumes "load_candidate W p s = Inr (l, a)"
  shows "check_candidate_lock (w_lib W) l = Inr ()" "read_lock W s candidate_lock_of_json p = Inr l"
    "\<exists>protocol. check_product W l protocol = Inr ()"
  using assms by (auto simp: load_candidate_def bind_result_Inr and_then_Inr)

lemma task_binding_ready:
  assumes "check_task_binding l t = Inr ()"
  shows "task_lock_ready l"
  using assms by (auto simp: check_task_binding_def task_lock_ready_def ensure_Inr split: if_splits)

lemma product_ready: "check_product W l protocol = Inr () \<Longrightarrow> candidate_lock_ready l"
  by (auto simp: check_product_def candidate_lock_ready_def and_then_Inr checks_Inr
      split: candidate_protocol.splits option.splits)

lemma check_task_lock_Inr:
  "check_task_lock L l = Inr () \<Longrightarrow> tl_lock_digest l = digest_json L (task_identity_of l)"
  by (simp add: check_task_lock_def and_then_Inr checks_Inr digests_of)

lemma check_candidate_lock_Inr:
  "check_candidate_lock L l = Inr () \<Longrightarrow> cl_lock_digest l = digest_json L (candidate_identity_of l)"
  by (simp add: check_candidate_lock_def and_then_Inr ensure_Inr digests_of)

subsection \<open>What creation writes\<close>

lemma write_exclusive_Inr:
  assumes "write_exclusive env absolute p b s = (s', Inr ())"
  shows "disk s' p = Some (FileE mode_600 (b @ [CHR 0x0A]))" "absolute \<or> butlast p \<noteq> []"
  using assms
  by (auto simp: write_exclusive_def syscall_def then_do_def with_context_def
      split: option.splits prod.splits sum.splits if_splits)

lemma store_lock_Inr:
  assumes "store_lock W absolute p v s = (s', Inr ())"
  shows "disk (as_fs s') p = Some (FileE mode_600 (json_pretty (w_lib W) v @ [CHR 0x0A]))"
    "as_trees s' = as_trees s" "absolute \<or> butlast p \<noteq> []"
  using assms write_exclusive_Inr
  by (auto simp: store_lock_def split: prod.splits)

lemma tree_of_trees: "as_trees s' = as_trees s \<Longrightarrow> tree_of W s' = tree_of W s"
  by (auto simp: tree_of_def fun_eq_iff split: list.splits)

lemma asset_at_trees: "as_trees s' = as_trees s \<Longrightarrow> asset_at W s' = asset_at W s"
  by (rule ext) (simp only: asset_at_def tree_of_trees [of s' s])

lemma resolve_images_sorted: "resolve_images f rs m = Inr m' \<Longrightarrow> sorted_keys m \<Longrightarrow> sorted_keys m'"
  by (induction f rs m rule: resolve_images.induct) (auto simp: bind_result_Inr map_insert_sorted)

lemma lock_images_sorted: "lock_images W provider t = Inr m \<Longrightarrow> sorted_keys m"
  by (auto simp: lock_images_def map_result_Inr map_of_members_sorted split: if_splits
      dest: resolve_images_sorted)

lemma asset_revision_visible:
  assumes "asset_at W s p = Inr a"
  shows "trim (ap_identity a) \<noteq> []"
proof -
  obtain t doc where "tree_identity (w_lib W) (w_lossy W) (w_os W) p t = Inr (ap_identity a)"
    using load_asset_Inr [OF assms [unfolded asset_at_def]] parse_asset_Inr by metis
  then obtain b where "ap_identity a = digest_bytes (w_lib W) b"
    by (auto simp: tree_identity_def bind_result_Inr and_then_Inr dest!: sym [of "digest_bytes _ _"])
  then have "CHR ''s'' \<in> set (ap_identity a)" by (simp add: digest_bytes_def sha256_prefix_def)
  then have "CHR ''s'' \<in> set (trim (ap_identity a))"
    by (rule trim_keeps) (simp add: white_seqs_def byte_def)
  then show ?thesis by auto
qed

lemma loaded_schema:
  assumes "task_at W s p = Inr t"
  shows "t_schema t = task_v1 \<or> t_schema t = task_v2"
proof -
  obtain base b where "task_of_block (w_lib W) (w_globs W) (w_os W) (store_fs W s) base b = Inr t"
    using load_local_block [OF assms [unfolded task_at_def]] by blast
  then obtain u where "parse_task (w_globs W) b = Inr u" "t_schema t = t_schema u"
    unfolding task_of_block_def by (auto simp: bind_result_Inr and_then_Inr)
  with parse_task_valid show ?thesis by (fastforce simp: valid_task_def)
qed

lemma lock_of_schema:
  assumes "lock_schema_parts t = Inr (sc, r, i, h)" "tl_schema l = sc" "tl_resources l = r"
    "tl_workspace_imports l = i" "tl_network_allow_hosts l = h"
  shows "check_task_binding l t = Inr ()" "sc = task_lock_v1 \<or> sc = task_lock_v2"
  using assms(1) schemas_differ lock_schemas_differ(1) [symmetric]
  unfolding check_task_binding_def assms(2-5)
  by (auto simp: lock_schema_parts_def checks_Inr ensure_Inr split: if_splits)

lemma digest_ignores_itself [simp]:
  "task_digest L (l\<lparr>tl_lock_digest := d\<rparr>) = task_digest L l"
  "candidate_digest L (c\<lparr>cl_lock_digest := d\<rparr>) = candidate_digest L c"
  by (simp_all add: task_digest_def task_lock_identity_def legacy_task_lock_identity_def
      task_identity_head_def candidate_digest_def candidate_lock_identity_def legacy_candidate_lock_identity_def)

lemma make_task_lock_Inr:
  assumes "make_task_lock W s provider t jm d jd = Inr l" "sha_library (w_lib W)"
  shows "check_task_lock (w_lib W) l = Inr ()" "check_task_binding l t = Inr ()"
    "tl_artifact_digest l = d" "tl_judge_model l = jm" "sorted_keys (tl_resolved_images l)"
    "\<exists>ja j. artifact_path (tl_judge_artifact_digest l) = Inr ja \<and> asset_at W s ja = Inr j \<and>
       ap_identity j = tl_judge_revision l"
proof -
  from assms(1) obtain ja j m sc r i h where
    ja: "artifact_path jd = Inr ja" "asset_at W s ja = Inr j" and m: "lock_images W provider t = Inr m"
    and sc: "lock_schema_parts t = Inr (sc, r, i, h)"
    and l: "l = seal_task_lock (w_lib W)
       \<lparr>tl_schema = sc, tl_lock_digest = [], tl_task_revision = d, tl_artifact_digest = d,
        tl_judge_revision = ap_identity j, tl_judge_artifact_digest = jd, tl_judge_model = jm,
        tl_resolved_images = m, tl_resources = r, tl_workspace_imports = i, tl_network_allow_hosts = h\<rparr>"
    by (auto simp: make_task_lock_def bind_result_Inr)
  define v where "v =
       \<lparr>tl_schema = sc, tl_lock_digest = [], tl_task_revision = d, tl_artifact_digest = d,
        tl_judge_revision = ap_identity j, tl_judge_artifact_digest = jd, tl_judge_model = jm,
        tl_resolved_images = m, tl_resources = r, tl_workspace_imports = i, tl_network_allow_hosts = h\<rparr>"
  have v: "l = v\<lparr>tl_lock_digest := task_digest (w_lib W) v\<rparr>" "tl_schema v = sc"
    "tl_task_revision v = d" "tl_artifact_digest v = d" "tl_judge_revision v = ap_identity j"
    "tl_judge_artifact_digest v = jd" "tl_judge_model v = jm" "tl_resolved_images v = m"
    "tl_resources v = r" "tl_workspace_imports v = i" "tl_network_allow_hosts v = h"
    using l by (simp_all add: v_def seal_task_lock_def)
  show "check_task_binding l t = Inr ()" using lock_of_schema(1) [OF sc] v by simp
  have "validate_digest (task_digest (w_lib W) v) = Inr ()"
    unfolding digests_of by (rule digest_json_valid [OF assms(2)])
  then show "check_task_lock (w_lib W) l = Inr ()"
    using lock_of_schema(2) [OF sc, of v] asset_revision_visible [OF ja(2)] v
    by (simp add: check_task_lock_def and_then_Inr checks_Inr ensure_Inr)
  show "\<exists>ja j. artifact_path (tl_judge_artifact_digest l) = Inr ja \<and> asset_at W s ja = Inr j \<and>
      ap_identity j = tl_judge_revision l"
    using ja v by simp
  show "tl_artifact_digest l = d" "tl_judge_model l = jm" "sorted_keys (tl_resolved_images l)"
    using v lock_images_sorted [OF m] by simp_all
qed

lemma locked_effort_Inr:
  assumes "locked_effort protocol e d = Inr x"
  shows "when_some x validate_reasoning_effort = Inr ()" "protocol \<noteq> CodexExec \<Longrightarrow> x = None"
  using assms
  by (cases e; cases d; auto simp: locked_effort_def and_then_Inr ensure_Inr split: if_splits)+

lemma make_candidate_lock_Inr:
  assumes "make_candidate_lock W s model effort default_effort d = Inr l" "sha_library (w_lib W)"
  shows "check_candidate_lock (w_lib W) l = Inr () \<and> cl_artifact_digest l = d \<and> cl_model l = model \<and>
    (\<exists>p a. artifact_path d = Inr p \<and> asset_at W s p = Inr a \<and> ap_identity a = cl_candidate_revision l \<and>
       check_product (W\<lparr>w_codex_cached := \<lambda>_. Inr ()\<rparr>) l (ap_protocol a) = Inr ())"
proof -
  from assms(1) obtain p a x pr where
    a: "artifact_path d = Inr p" "asset_at W s p = Inr a"
    and x: "locked_effort (ap_protocol a) effort default_effort = Inr x"
      "validate_model_reasoning_compatibility model x = Inr ()"
      "(if ap_protocol a = CodexExec then when_some model validate_codex_model else Inr ()) = Inr ()"
    and pr: "lock_product W (ap_protocol a) = Inr pr"
    and l: "l = seal_candidate_lock (w_lib W)
       \<lparr>cl_schema = candidate_schema (ap_protocol a), cl_lock_digest = [], cl_candidate_revision = ap_identity a,
        cl_artifact_digest = d, cl_model = model, cl_reasoning_effort = x, cl_product = pr\<rparr>"
    unfolding make_candidate_lock_def bind_result_Inr and_then_Inr sum.inject by blast
  define v where "v =
       \<lparr>cl_schema = candidate_schema (ap_protocol a), cl_lock_digest = [], cl_candidate_revision = ap_identity a,
        cl_artifact_digest = d, cl_model = model, cl_reasoning_effort = x, cl_product = pr\<rparr>"
  have v: "l = v\<lparr>cl_lock_digest := candidate_digest (w_lib W) v\<rparr>" "cl_schema v = candidate_schema (ap_protocol a)"
    "cl_candidate_revision v = ap_identity a" "cl_artifact_digest v = d" "cl_model v = model"
    "cl_reasoning_effort v = x" "cl_product v = pr"
    using l by (simp_all add: v_def seal_candidate_lock_def)
  have "validate_digest (candidate_digest (w_lib W) v) = Inr ()"
    unfolding digests_of by (rule digest_json_valid [OF assms(2)])
  then have "check_candidate_lock (w_lib W) l = Inr ()"
    using v x locked_effort_Inr [OF x(1)] pr asset_revision_visible [OF a(2)] lock_schemas_differ [symmetric]
    by (cases "ap_protocol a")
       (auto simp: check_candidate_lock_def and_then_Inr checks_Inr ensure_Inr candidate_schema_def
          lock_product_def map_result_Inr)
  moreover have "check_product (W\<lparr>w_codex_cached := \<lambda>_. Inr ()\<rparr>) l (ap_protocol a) = Inr ()"
    using v locked_effort_Inr [OF x(1)] pr
    by (cases "ap_protocol a")
       (auto simp: check_product_def candidate_schema_def lock_product_def map_result_Inr and_then_Inr checks_Inr
          bind_result_Inr ensure_Inr)
  ultimately show ?thesis using a v by auto
qed

subsection \<open>No panic\<close>

lemma panics_visit [simp]:
  "\<not> panics (visit_entry lower env base rel t w)" "\<not> panics (visit_entries lower env base rel es w)"
  by (induction lower env base rel t w and lower env base rel es w rule: visit_entry_visit_entries.induct)
     (auto simp: panics_parts check_entry_def Let_def)

lemma panics_verify [simp]: "\<not> panics (verify L lower env p x d)"
proof -
  have "\<not> panics (tree_digest L env p t fs)" for t fs
    by (auto simp: tree_digest_def file_record_def is_executable_def panics_parts dest!: panics_map_results
        split: option.splits node.splits)
  moreover have "\<not> panics (collect lower env p t)" for t
    by (simp add: collect_def panics_parts)
  ultimately show ?thesis
    by (auto simp: verify_def verify_with_def real_directory_def panics_parts split: option.splits io_kind.splits)
qed

lemma panics_artifact_path [simp]: "\<not> panics (artifact_path d)"
  by (auto simp: artifact_path_def panics_parts)

lemma panics_validate_model_reference [simp]: "\<not> panics (validate_model_reference m)"
  by (auto simp: validate_model_reference_def parse_model_reference_def panics_parts split: prod.splits)

lemma panics_check_binding:
  assumes "check_task_lock L l = Inr ()" "t_schema t = task_v1 \<or> t_schema t = task_v2"
  shows "\<not> panics (check_task_binding l t)"
  using assms by (auto simp: check_task_binding_def check_task_lock_def and_then_Inr ensure_Inr)

lemma panics_read_lock [simp]: "\<not> panics (read_lock W s dec p)"
  by (auto simp: read_lock_def read_lock_file_def read_regular_file_def read_optional_regular_file_def panics_parts
      split: option.splits io_kind.splits entry.splits)

lemma panics_check_task_lock [simp]: "\<not> panics (check_task_lock L l)"
  by (auto simp: check_task_lock_def validate_digest_def panics_parts)

lemma panics_load_task: "\<not> panics (load_task W p s)"
  by (auto simp: load_task_def panics_parts verify_at_def task_at_def asset_at_def check_judge_model_def
      with_context_Inr panics_load_local dest!: loaded_schema [unfolded task_at_def] panics_check_binding)

subsection \<open>A concrete world\<close>

text \<open>One tree that is a Task and, at its root, the Judge's Asset package and a candidate.\<close>

definition demo_bundle :: node where
  "demo_bundle = Directory mode_700
     [(''.a3s'', Directory mode_700 [(''asset.acl'', RegFile mode_600 1 ''asset'')]),
      (''run'', RegFile mode_600 1 ''x''), (''task.acl'', RegFile mode_600 1 ''task'')]"

definition demo_task_block :: block where
  "demo_task_block = Block ''bench'' [''demo'']
     [(''schema'', AStr task_v1), (''version'', AStr ''1''), (''name'', AStr ''n''), (''category'', AStr ''c'')]
     [Block ''work'' [] [] [Block ''image'' [] [(''ref'', AStr ''alpine'')] []],
      Block ''judge'' [] [(''asset'', AStr ''.'')] [],
      Block ''metric'' [''m''] 
        [(''min'', ANum (zero64 False)), (''max'', ANum (zero64 False)), (''role'', AStr ''primary'')] []]"

definition demo_asset_blocks :: "block list" where
  "demo_asset_blocks =
     [Block ''version'' [] [(''version'', AStr ''a3s.asset.v1'')] [],
      Block ''category'' [] [(''category'', AStr ''agent'')] [],
      Block ''source'' [] [(''entrypoint'', AStr ''run'')] []]"

definition demo_bundle_view :: source_view where
  "demo_bundle_view = \<lparr>sv_path = Inr [''src''], sv_first = demo_bundle, sv_copied = node_at demo_bundle,
     sv_last = demo_bundle, sv_rival = None\<rparr>"

definition demo_world :: world where
  "demo_world =
     \<lparr>w_parser = (\<lambda>s. Some (if s = ''task'' then [demo_task_block] else demo_asset_blocks)),
      w_lib = toy_library, w_globs = demo_globs, w_lower = map to_ascii_lower, w_lossy = (\<lambda>s. s),
      w_os = quiet_os, w_outside = (\<lambda>_. None), w_view = (\<lambda>_. demo_bundle_view),
      w_resolve_image = (\<lambda>r p. Inr (r @ ''@sha256'')), w_runner_images = Inr [],
      w_builtin = (\<lambda>_. Inr \<lparr>ap_root = [''src''], ap_entrypoint = ''run'', ap_definition_path = None,
                             ap_identity = [], ap_protocol = AgentTool\<rparr>),
      w_relative = (\<lambda>_. Inl (Io NotFound)), w_oci = (\<lambda>_. Inl (Io NotFound)),
      w_a3s_version = Inl (Io NotFound), w_codex_prepare = Inl (Io NotFound), w_codex_cached = (\<lambda>_. Inr ())\<rparr>"

definition demo_task_lock :: "artifact_state \<times> task_lock result" where
  "demo_task_lock =
     create_task_with_provider demo_world [''src''] True None True [''task.lock''] ''docker'' demo_artifacts"

definition demo_candidate_lock :: "artifact_state \<times> candidate_lock result" where
  "demo_candidate_lock =
     create_candidate_with_codex_default demo_world ''codex'' None None None True [''c.lock''] demo_artifacts"

lemma demo_task_lock_created: "\<not> isl (snd demo_task_lock)"
  by code_simp

lemma demo_candidate_lock_created: "\<not> isl (snd demo_candidate_lock)"
  by code_simp

definition demo_artifact_digest :: string where
  "demo_artifact_digest = digest_bytes toy_library []"

definition demo_bare_lock :: task_lock where
  "demo_bare_lock =
     \<lparr>tl_schema = task_lock_v1, tl_lock_digest = [], tl_task_revision = demo_artifact_digest,
      tl_artifact_digest = demo_artifact_digest, tl_judge_revision = demo_artifact_digest,
      tl_judge_artifact_digest = demo_artifact_digest, tl_judge_model = None,
      tl_resolved_images = [(''native|alpine'', ''alpine@sha256'')], tl_resources = None,
      tl_workspace_imports = None, tl_network_allow_hosts = None\<rparr>"

definition demo_lock :: task_lock where
  "demo_lock = seal_task_lock toy_library demo_bare_lock"

definition demo_store :: artifact_state where
  "demo_store =
     \<lparr>as_fs = \<lparr>disk = [[''task.lock''] \<mapsto>
          FileE mode_600 (json_pretty toy_library (task_lock_json demo_lock) @ [CHR 0x0A])], staging_sequence = 0\<rparr>,
      as_trees = [[''artifacts'', replicate 64 CHR ''0''] \<mapsto> demo_bundle]\<rparr>"

definition demo_loaded :: "loaded_task_lock result" where
  "demo_loaded = load_task demo_world [''task.lock''] demo_store"

lemma toy_parse_newline:
  "json_value v \<Longrightarrow> json_parse toy_library (json_pretty toy_library v @ [CHR 0x0A]) = Some v"
  using get_put_json(1) [of v "length (put_json v) + 1" "[CHR 0x0A]"]
  by (simp add: toy_library_def del: get_json.simps)

lemma demo_world_simps [simp]: "w_lib demo_world = toy_library" "w_os demo_world = quiet_os"
  by (simp_all add: demo_world_def)

lemma demo_read_lock: "read_lock demo_world demo_store task_lock_of_json [''task.lock''] = Inr demo_lock"
proof -
  have "sorted_keys (tl_resolved_images demo_lock)" by (simp add: demo_lock_def seal_task_lock_def demo_bare_lock_def)
  then show ?thesis
    by (simp add: read_lock_def read_lock_file_def read_regular_file_def read_optional_regular_file_def
        demo_store_def quiet_os_def toy_parse_newline task_lock_of_task_lock_json)
qed

lemma demo_artifact: "artifact_path demo_artifact_digest = Inr [''artifacts'', replicate 64 CHR ''0'']"
  by (simp add: artifact_path_ok demo_artifact_digest_def digest_bytes_def toy_library_def char_defs list_all_iff)

lemma demo_verified: "verify_at demo_world demo_store [''artifacts'', replicate 64 CHR ''0''] demo_artifact_digest = Inr ()"
  by code_simp

lemma demo_task_loaded:
  "\<exists>t. task_at demo_world demo_store [''artifacts'', replicate 64 CHR ''0''] = Inr t \<and> t_schema t = task_v1 \<and>
     t_legacy_judge t = None"
proof -
  have "(case task_at demo_world demo_store [''artifacts'', replicate 64 CHR ''0''] of Inl e \<Rightarrow> False
      | Inr t \<Rightarrow> t_schema t = task_v1 \<and> t_legacy_judge t = None)" by code_simp
  then show ?thesis by (auto split: sum.splits)
qed

lemma demo_judge_loaded:
  "\<exists>a. asset_at demo_world demo_store [''artifacts'', replicate 64 CHR ''0''] = Inr a \<and>
     ap_identity a = demo_artifact_digest"
proof -
  have "(case asset_at demo_world demo_store [''artifacts'', replicate 64 CHR ''0''] of Inl e \<Rightarrow> False
      | Inr a \<Rightarrow> ap_identity a = demo_artifact_digest)" by code_simp
  then show ?thesis by (auto split: sum.splits)
qed

lemma demo_lock_checked: "check_task_lock toy_library demo_lock = Inr ()"
proof -
  have "CHR ''s'' \<in> set (trim demo_artifact_digest)"
    by (rule trim_keeps) (simp_all add: demo_artifact_digest_def digest_bytes_def sha256_prefix_def white_seqs_def byte_def)
  then have "trim demo_artifact_digest \<noteq> []" by auto
  moreover have "validate_digest (task_digest toy_library l) = Inr ()" for l
    unfolding digests_of by (rule digest_json_valid [OF toy_sha_library])
  ultimately show ?thesis
    by (simp add: check_task_lock_def and_then_Inr checks_Inr ensure_Inr demo_lock_def seal_task_lock_def)
       (simp add: demo_bare_lock_def)
qed

lemma demo_lock_loads: "\<exists>x. demo_loaded = Inr x"
proof -
  have l: "tl_schema demo_lock = task_lock_v1" "tl_artifact_digest demo_lock = demo_artifact_digest"
    "tl_judge_artifact_digest demo_lock = demo_artifact_digest" "tl_judge_revision demo_lock = demo_artifact_digest"
    "tl_judge_model demo_lock = None" "tl_resources demo_lock = None" "tl_workspace_imports demo_lock = None"
    "tl_network_allow_hosts demo_lock = None"
    by (simp_all add: demo_lock_def seal_task_lock_def demo_bare_lock_def)
  obtain t a where "task_at demo_world demo_store [''artifacts'', replicate 64 CHR ''0''] = Inr t"
    "t_schema t = task_v1" "t_legacy_judge t = None"
    "asset_at demo_world demo_store [''artifacts'', replicate 64 CHR ''0''] = Inr a"
    "ap_identity a = demo_artifact_digest"
    using demo_task_loaded demo_judge_loaded by blast
  then show ?thesis
    by (simp add: demo_loaded_def load_task_def demo_read_lock demo_lock_checked demo_artifact demo_verified l
        check_task_binding_def check_judge_model_def requires_judge_model_def)
qed

subsection \<open>Properties\<close>

text \<open>
  C27 A Task lock cannot be changed under its digest: two locks that load, whatever the disks, with
  one \<open>lock_digest\<close> are equal in every field, those its identity leaves out in version 1 included, or
  their identities are an explicit SHA-256 collision.
\<close>

theorem task_lock_digest_binds:
  assumes "json_library (w_lib W)" "load_task W p s = Inr x" "load_task W' p' s' = Inr y" "w_lib W' = w_lib W"
    "tl_lock_digest (ll_lock x) = tl_lock_digest (ll_lock y)"
  shows "ll_lock x = ll_lock y \<or>
    sha_collision (w_lib W) (json_compact (w_lib W) (task_identity_of (ll_lock x)))
      (json_compact (w_lib W) (task_identity_of (ll_lock y)))"
proof (rule task_locks.same_digest [OF assms(1)])
  show "task_lock_ready (ll_lock x)" "task_lock_ready (ll_lock y)"
    using load_task_Inr(3) [OF assms(2)] load_task_Inr(3) [OF assms(3)] task_binding_ready by blast+
  show "tl_lock_digest (ll_lock x) = digest_json (w_lib W) (task_identity_of (ll_lock x))"
    by (rule check_task_lock_Inr [OF load_task_Inr(1) [OF assms(2)]])
  show "tl_lock_digest (ll_lock y) = digest_json (w_lib W) (task_identity_of (ll_lock y))"
    using check_task_lock_Inr [OF load_task_Inr(1) [OF assms(3)]] assms(4) by simp
qed (rule assms(5))

theorem task_lock_digest_binds_witness:
  "\<exists>x. demo_loaded = Inr x \<and>
     (ll_lock x = ll_lock x \<or> sha_collision toy_library (json_compact toy_library (task_identity_of (ll_lock x)))
       (json_compact toy_library (task_identity_of (ll_lock x))))"
proof -
  obtain x where x: "load_task demo_world [''task.lock''] demo_store = Inr x"
    using demo_lock_loads by (auto simp: demo_loaded_def)
  have "json_library (w_lib demo_world)" by (simp add: demo_world_def toy_json_library)
  from task_lock_digest_binds [OF this x x refl refl] x show ?thesis
    by (auto simp: demo_loaded_def demo_world_def)
qed





text \<open>
  Loading a Task lock never panics: the \<open>unreachable!\<close> arm is unreachable.\<close>

lemma task_lock_loading_never_panics: "\<not> panics (load_task W p s)"
  by (rule panics_load_task)

text \<open>
  C30 A lock cannot be created at a bare file name: the parent of the relative path \<open>task.lock\<close> is the
  empty path, whose directory cannot be opened for syncing, so creation fails although the lock file
  was written.
\<close>

theorem bare_output_never_succeeds:
  "create_task_with_provider W source source_is_dir jm False [n] provider s \<noteq> (s', Inr l)"
  using store_lock_Inr(3) [of W False "[n]"]
  by (auto simp: create_task_with_provider_def split: prod.splits sum.splits)

end
