(* ===== verification/Suite.thy ===== *)
theory Suite
  imports Steps Lock Comparison
begin

text \<open>
  \<open>suite.rs\<close>: a suite runs a baseline and a candidate on a list of Tasks. Its plan (the locks and the
  state) is made in a staging directory and renamed into place; after every run the state is written,
  so that a suite that fails is resumed where it stopped. The runs themselves are an argument
  (\<open>bench_run::execute_options\<close>).
\<close>

record candidate_spec =
  cs_agent :: string
  cs_model :: "string option"
  cs_reasoning_effort :: "string option"

record suite_spec =
  ss_id :: string
  ss_tasks :: "string list"
  ss_baseline_spec :: candidate_spec
  ss_candidate_spec :: candidate_spec
  ss_digest :: string

record suite_member =
  sm_task_reference :: string
  sm_baseline_run_id :: "string option"
  sm_candidate_run_id :: "string option"

record suite_state =
  sr_schema :: string
  sr_suite_run_id :: string
  sr_suite_id :: string
  sr_spec_digest :: string
  sr_members :: "suite_member list"

definition suite_schema :: string where "suite_schema = ''a3s.bench.suite-run.v1''"

subsection \<open>The state file\<close>

definition member_json :: "suite_member \<Rightarrow> jval" where
  "member_json m =
     JObj [(''task_reference'', JStr (sm_task_reference m)),
           (''baseline_run_id'', enc_opt JStr (sm_baseline_run_id m)),
           (''candidate_run_id'', enc_opt JStr (sm_candidate_run_id m))]"

definition suite_state_json :: "suite_state \<Rightarrow> jval" where
  "suite_state_json st =
     JObj [(''schema'', JStr (sr_schema st)),
           (''suite_run_id'', JStr (sr_suite_run_id st)),
           (''suite_id'', JStr (sr_suite_id st)),
           (''spec_digest'', JStr (sr_spec_digest st)),
           (''members'', JArr (map member_json (sr_members st)))]"

definition member_of_json :: "jval \<Rightarrow> suite_member option" where
  "member_of_json v =
     Option.bind
       (struct_fields True
          [(''task_reference'', False), (''baseline_run_id'', False), (''candidate_run_id'', False)] v) (\<lambda>m.
     Option.bind (field_req as_str m ''task_reference'') (\<lambda>reference.
     Option.bind (field_opt as_str m ''baseline_run_id'') (\<lambda>baseline.
     Option.bind (field_opt as_str m ''candidate_run_id'') (\<lambda>cand.
       Some \<lparr>sm_task_reference = reference, sm_baseline_run_id = baseline,
             sm_candidate_run_id = cand\<rparr>))))"

definition suite_state_of_json :: "jval \<Rightarrow> suite_state option" where
  "suite_state_of_json v =
     Option.bind
       (struct_fields True
          [(''schema'', False), (''suite_run_id'', False), (''suite_id'', False), (''spec_digest'', False),
           (''members'', False)] v) (\<lambda>m.
     Option.bind (field_req as_str m ''schema'') (\<lambda>schema.
     Option.bind (field_req as_str m ''suite_run_id'') (\<lambda>run_id.
     Option.bind (field_req as_str m ''suite_id'') (\<lambda>suite_id.
     Option.bind (field_req as_str m ''spec_digest'') (\<lambda>digest.
     Option.bind (field_req (dec_list member_of_json) m ''members'') (\<lambda>members.
       Some \<lparr>sr_schema = schema, sr_suite_run_id = run_id, sr_suite_id = suite_id,
             sr_spec_digest = digest, sr_members = members\<rparr>))))))"

lemma member_of_member_json: "member_of_json (member_json m) = Some m"
  by (cases m)
     (simp add: member_of_json_def member_json_def struct_fields_def struct_roundtrip)

lemma suite_state_of_suite_state_json: "suite_state_of_json (suite_state_json st) = Some st"
  by (cases st)
     (simp add: suite_state_of_json_def suite_state_json_def struct_fields_def struct_roundtrip
        dec_list_def member_of_member_json comp_def)

lemma json_value_suite_state [simp]: "json_value (suite_state_json st)"
  by (auto simp: suite_state_json_def member_json_def)

subsection \<open>The arguments of \<open>suite run\<close>\<close>

fun suite_options ::
  "string list \<Rightarrow> string option \<Rightarrow> bool \<Rightarrow> (string option \<times> bool) result" where
  "suite_options [] resume json = Inr (resume, json)"
| "suite_options (a # rest) resume json =
     (if a = ''--resume'' \<and> resume = None \<and> rest \<noteq> []
      then suite_options (tl rest) (Some (hd rest)) json
      else if a = ''--json'' \<and> \<not> json then suite_options rest resume True
      else Inl (Bail ''invalid or duplicate suite run option {value:?}''))"

definition parse_run_args :: "string list \<Rightarrow> (string \<times> string option \<times> bool) result" where
  "parse_run_args args =
     (case args of
        [] \<Rightarrow> Inl (Bail ''suite run requires one suite.acl'')
      | source # rest \<Rightarrow> map_result (\<lambda>(resume, json). (source, resume, json)) (suite_options rest None False))"

subsection \<open>The specification\<close>

definition validate_suite_schema :: "block \<Rightarrow> unit result" where
  "validate_suite_schema b =
     and_then
       (validate_block b
          \<lparr>bs_attributes = [''schema'', ''tasks''], bs_children = [''candidate''], bs_labels = ExactlyLabels 1\<rparr>)
    (and_then
       (checks
          [(bname b = ''bench_suite'', ''suite root must be bench_suite''),
           (length (blocks b) = 2, ''suite must define two candidates'')])
       (each (\<lambda>c. validate_block c
            \<lparr>bs_attributes = [''agent'', ''model'', ''reasoning_effort''], bs_children = [],
             bs_labels = ExactlyLabels 1\<rparr>)
          (blocks b)))"

definition suite_string :: "block \<Rightarrow> string \<Rightarrow> string result" where
  "suite_string b k = ok_or (attr_str b k) ''{}.{} must be a string''"

definition candidate_of_block :: "block \<Rightarrow> string \<Rightarrow> candidate_spec result" where
  "candidate_of_block b role =
     (case filter (\<lambda>c. case labels c of l # _ \<Rightarrow> l = role | [] \<Rightarrow> False) (blocks b) of
        [c] \<Rightarrow>
          bind_result (transpose_result (map_option (\<lambda>_. suite_string c ''reasoning_effort'') (attr c ''reasoning_effort''))) (\<lambda>effort.
          and_then (when_some effort validate_reasoning_effort)
         (bind_result (transpose_result (map_option (\<lambda>_. suite_string c ''model'') (attr c ''model''))) (\<lambda>model.
          bind_result (suite_string c ''agent'') (\<lambda>agent.
            Inr \<lparr>cs_agent = agent, cs_model = model, cs_reasoning_effort = effort\<rparr>))))
      | _ \<Rightarrow> Inl (Bail ''suite requires one cand {role:?}''))"

text \<open>\<open>json!\<close> makes maps with sorted keys.\<close>

definition candidate_spec_json :: "bool \<Rightarrow> candidate_spec \<Rightarrow> jval" where
  "candidate_spec_json with_effort c =
     JObj (map_of_members
       ([(''agent'', JStr (cs_agent c)), (''model'', enc_opt JStr (cs_model c))]
        @ (if with_effort then [(''reasoning_effort'', enc_opt JStr (cs_reasoning_effort c))] else [])))"

definition spec_json :: "string \<Rightarrow> string list \<Rightarrow> candidate_spec \<Rightarrow> candidate_spec \<Rightarrow> jval" where
  "spec_json suite_id tasks baseline cand =
     (let with_effort = (\<not> (cs_reasoning_effort baseline = None \<and> cs_reasoning_effort cand = None))
      in JObj (map_of_members
           [(''id'', JStr suite_id), (''tasks'', JArr (map JStr tasks)),
            (''baseline'', candidate_spec_json with_effort baseline),
            (''candidate'', candidate_spec_json with_effort cand)]))"

definition spec_digest :: "library \<Rightarrow> string \<Rightarrow> string list \<Rightarrow> candidate_spec \<Rightarrow> candidate_spec \<Rightarrow> string" where
  "spec_digest L suite_id tasks baseline cand = digest_json L (spec_json suite_id tasks baseline cand)"

definition spec_of_block :: "library \<Rightarrow> block \<Rightarrow> suite_spec result" where
  "spec_of_block L b =
     and_then (validate_suite_schema b)
    (bind_result (suite_string b ''schema'') (\<lambda>schema.
     and_then (ensure (schema = ''a3s-bench/suite/v1'') ''unsupported suite schema'')
    (bind_result (string_list b ''tasks'') (\<lambda>tasks.
     and_then
       (checks
          [(tasks \<noteq> [], ''suite tasks must not be empty''),
           (length tasks \<le> 128, ''suite may contain at most 128 tasks'')])
    (bind_result (candidate_of_block b ''baseline'') (\<lambda>baseline.
     bind_result (candidate_of_block b ''candidate'') (\<lambda>cand.
       let suite_id = hd (labels b)
       in Inr \<lparr>ss_id = suite_id, ss_tasks = tasks, ss_baseline_spec = baseline, ss_candidate_spec = cand,
               ss_digest = spec_digest L suite_id tasks baseline cand\<rparr>)))))))"

definition load_spec :: "acl_parser \<Rightarrow> library \<Rightarrow> os \<Rightarrow> path \<Rightarrow> fs \<Rightarrow> suite_spec result" where
  "load_spec P L env p s =
     and_then
       (with_context ''suite source is unavailable: {}''
          (case fault env (Lstat p) of
             Some e \<Rightarrow> Inl (Io e)
           | None \<Rightarrow> if disk s p = None then Inl (Io NotFound) else Inr ()))
    (and_then
       (ensure (case disk s p of Some (FileE _ _) \<Rightarrow> True | _ \<Rightarrow> False)
          ''suite source must be a real regular file'')
    (bind_result (read_to_string env p s) (\<lambda>source.
     bind_result (ok_or (P source) ''invalid {}: {error}'') (\<lambda>document.
       case document of
         [b] \<Rightarrow> spec_of_block L b
       | _ \<Rightarrow> Inl (Bail ''suite ACL must have one root block'')))))"

subsection \<open>Planning\<close>

text \<open>
  What the suite gets from the rest: the locks' \<open>world\<close>, the answers of \<open>config::discover\<close>, of
  \<open>runtime::preflight\<close> and of the catalog, the clock, the tree \<open>sync_tree\<close> finds at a path, the runs,
  and how the system answers the writes of each state.
\<close>

record suite_host =
  sh_world :: world
  sh_config :: "local_config result"
  sh_runtime :: "runtime_selection \<Rightarrow> string result"
  sh_resolve :: "string \<Rightarrow> (path \<times> bool) result"
  sh_clock :: "u128 result"
  sh_tree :: "fs \<Rightarrow> path \<Rightarrow> node"
  sh_launch :: "path \<Rightarrow> path \<Rightarrow> artifact_state \<Rightarrow> artifact_state \<times> string result"
  sh_os :: "suite_state \<Rightarrow> os"

definition on_fs :: "(fs \<Rightarrow> fs \<times> 'a result) \<Rightarrow> artifact_state \<Rightarrow> artifact_state \<times> 'a result" where
  "on_fs f s = (case f (as_fs s) of (g, r) \<Rightarrow> (s\<lparr>as_fs := g\<rparr>, r))"

definition new_suite_run_id :: "u128 \<Rightarrow> nat \<Rightarrow> u64 \<Rightarrow> string" where
  "new_suite_run_id now process sequence =
     ''suite-'' @ show_nat (unat now) @ ''-'' @ show_nat process @ ''-'' @ show_nat (unat sequence)"

definition validate_suite_run_id :: "string \<Rightarrow> unit result" where
  "validate_suite_run_id v =
     checks
       [(starts_with v ''suite-'' \<and> length v \<le> 128, ''invalid suite run ID''),
        (list_all (\<lambda>c. is_ascii_alphanumeric c \<or> c = CHR ''-'') v, ''invalid suite run ID'')]"

definition persist_suite :: "library \<Rightarrow> os \<Rightarrow> path \<Rightarrow> suite_state \<Rightarrow> artifact_state \<Rightarrow> artifact_state \<times> unit result" where
  "persist_suite L env root_path st =
     on_fs (secure_atomic_write env (root_path @ [''state.json'']) (json_pretty L (suite_state_json st)))"

text \<open>\<open>std::fs::rename\<close> of a directory to a path where nothing is, and \<open>remove_dir_all\<close>, which leaves
  what it fails to remove.\<close>

definition rename_dir :: "os \<Rightarrow> path \<Rightarrow> path \<Rightarrow> fs \<Rightarrow> fs \<times> unit result" where
  "rename_dir env source target s =
     syscall env (RenameTo target) s
       (case (disk s source, disk s target) of
          (None, _) \<Rightarrow> (s, Inl (Io NotFound))
        | (_, Some _) \<Rightarrow> (s, Inl (Io (OtherIo ''directory not empty'')))
        | (Some _, None) \<Rightarrow>
            (s\<lparr>disk := (\<lambda>q. if prefix target q then disk s (source @ drop (length target) q)
                            else if prefix source q then None else disk s q)\<rparr>, Inr ()))"

definition remove_dir_all :: "os \<Rightarrow> path \<Rightarrow> fs \<Rightarrow> fs" where
  "remove_dir_all env p s =
     s\<lparr>disk := (\<lambda>q. if prefix p q \<and> fault env (RemoveFile q) = None then None else disk s q)\<rparr>"

definition task_lock_name :: "nat \<Rightarrow> string" where
  "task_lock_name index = ''task-'' @ show_nat index @ ''.lock.json''"

definition planned_state :: "suite_spec \<Rightarrow> string \<Rightarrow> suite_state" where
  "planned_state spec run_id =
     \<lparr>sr_schema = suite_schema, sr_suite_run_id = run_id, sr_suite_id = ss_id spec,
      sr_spec_digest = ss_digest spec,
      sr_members = map (\<lambda>t. \<lparr>sm_task_reference = t, sm_baseline_run_id = None, sm_candidate_run_id = None\<rparr>)
        (ss_tasks spec)\<rparr>"

definition lock_candidate ::
  "suite_host \<Rightarrow> candidate_spec \<Rightarrow> path \<Rightarrow> artifact_state \<Rightarrow> artifact_state \<times> candidate_lock result" where
  "lock_candidate H c output s =
     create_candidate_with_options (sh_world H) (cs_agent c) (cs_model c) (cs_reasoning_effort c) True output s"

definition lock_member ::
  "suite_host \<Rightarrow> path \<Rightarrow> string option \<Rightarrow> string \<Rightarrow> nat \<times> string \<Rightarrow> artifact_state \<Rightarrow> artifact_state \<times> unit result" where
  "lock_member H staging judge_model provider member s =
     (let (index, task) = member
      in seq (still (sh_resolve H task) s) (\<lambda>(source, is_directory) s.
         seq (create_task_with_provider (sh_world H) source is_directory judge_model True
                (staging @ [task_lock_name index]) provider s) (\<lambda>_.
         still (Inr ()))))"

definition plan_steps ::
  "suite_host \<Rightarrow> suite_spec \<Rightarrow> path \<Rightarrow> string \<Rightarrow> artifact_state \<Rightarrow> artifact_state \<times> suite_state result" where
  "plan_steps H spec staging run_id s =
     (let W = sh_world H; st = planned_state spec run_id
      in seq (lock_candidate H (ss_baseline_spec spec) (staging @ [''baseline.candidate-lock.json'']) s) (\<lambda>_ s.
         seq (lock_candidate H (ss_candidate_spec spec) (staging @ [''candidate.candidate-lock.json'']) s) (\<lambda>_ s.
         seq (still (sh_config H) s) (\<lambda>config s.
         seq (still (sh_runtime H (lc_runtime config)) s) (\<lambda>provider s.
         seq (each_step (lock_member H staging (lc_judge_model config) provider)
                (enumerate 0 (ss_tasks spec)) s) (\<lambda>_ s.
         seq (persist_suite (w_lib W) (w_os W) staging st s) (\<lambda>_ s.
         seq (still (sync_tree (w_os W) staging (sh_tree H (as_fs s) staging)) s) (\<lambda>_.
         still (Inr st)))))))))"

definition plan_suite ::
  "suite_host \<Rightarrow> suite_spec \<Rightarrow> u64 \<times> artifact_state \<Rightarrow>
     (u64 \<times> artifact_state) \<times> (path \<times> suite_state) result" where
  "plan_suite H spec state =
     (let (n, s) = state; env = w_os (sh_world H)
      in case seq (on_fs (secure_directory env [''suites'']) s)
                (\<lambda>_. on_fs (create_unique_staging_directory env [''suites''] ''suite'')) of
           (s, Inl e) \<Rightarrow> ((n, s), Inl e)
         | (s, Inr staging) \<Rightarrow>
             (case sh_clock H of
                Inl e \<Rightarrow> ((n, s), Inl e)
              | Inr now \<Rightarrow>
                  let run_id = new_suite_run_id now (pid env) n; destination = [''suites'', run_id]
                  in case plan_steps H spec staging run_id s of
                       (s, Inl e) \<Rightarrow> ((n + 1, s\<lparr>as_fs := remove_dir_all env staging (as_fs s)\<rparr>), Inl e)
                     | (s, Inr st) \<Rightarrow>
                         (case on_fs (rename_dir env staging destination) s of
                            (s, Inl e) \<Rightarrow> ((n + 1, s), Inl e)
                          | (s, Inr _) \<Rightarrow> ((n + 1, s), Inr (destination, st)))))"

subsection \<open>Resuming\<close>

definition check_member :: "suite_member \<times> string \<Rightarrow> unit result" where
  "check_member m =
     and_then (ensure (sm_task_reference (fst m) = snd m) ''suite task order changed'')
    (and_then (when_some (sm_baseline_run_id (fst m)) validate_run_id)
       (when_some (sm_candidate_run_id (fst m)) validate_run_id))"

definition validate_suite_state :: "suite_state \<Rightarrow> string \<Rightarrow> suite_spec \<Rightarrow> unit result" where
  "validate_suite_state st run_id spec =
     and_then
       (checks
          [(sr_schema st = suite_schema, ''unsupported suite state''),
           (sr_suite_run_id st = run_id, ''suite state identity mismatch''),
           (sr_suite_id st = ss_id spec \<and> sr_spec_digest st = ss_digest spec,
            ''suite source changed since the run was planned''),
           (length (sr_members st) = length (ss_tasks spec), ''suite member count changed'')])
       (each check_member (zip (sr_members st) (ss_tasks spec)))"

definition resume_state ::
  "library \<Rightarrow> os \<Rightarrow> string \<Rightarrow> suite_spec \<Rightarrow> artifact_state \<Rightarrow> (path \<times> suite_state) result" where
  "resume_state L env run_id spec s =
     and_then (validate_suite_run_id run_id)
       (let root_path = [''suites'', run_id]
        in bind_result (read_regular_file env (root_path @ [''state.json'']) (as_fs s)) (\<lambda>bytes.
           bind_result (ok_or (Option.bind (json_parse L bytes) suite_state_of_json) ''serde_json'') (\<lambda>st.
           and_then (validate_suite_state st run_id spec) (Inr (root_path, st)))))"

subsection \<open>Running the members\<close>

text \<open>One side of a member: nothing when it has its run, else the run and the write of the state.
  The two blocks of the loop are \<open>run_baseline\<close> and \<open>run_candidate\<close>.\<close>

type_synonym suite_run = "suite_state \<times> artifact_state"

definition set_member :: "nat \<Rightarrow> (suite_member \<Rightarrow> suite_member) \<Rightarrow> suite_state \<Rightarrow> suite_state" where
  "set_member index f st = st\<lparr>sr_members := (sr_members st)[index := f (sr_members st ! index)]\<rparr>"

definition save_suite :: "suite_host \<Rightarrow> path \<Rightarrow> suite_state \<Rightarrow> artifact_state \<Rightarrow> suite_run \<times> unit result" where
  "save_suite H root_path st s =
     (case persist_suite (w_lib (sh_world H)) (sh_os H st) root_path st s of (s, r) \<Rightarrow> ((st, s), r))"

definition run_baseline :: "suite_host \<Rightarrow> path \<Rightarrow> nat \<Rightarrow> suite_run \<Rightarrow> suite_run \<times> unit result" where
  "run_baseline H root_path index x =
     (let (st, s) = x
      in if sm_baseline_run_id (sr_members st ! index) \<noteq> None then (x, Inr ())
         else
           case sh_launch H (root_path @ [task_lock_name index]) (root_path @ [''baseline.candidate-lock.json'']) s of
             (s, Inl e) \<Rightarrow> ((st, s), with_context ''suite {} baseline member {index} failed; resume with --resume {}'' (Inl e))
           | (s, Inr run) \<Rightarrow> save_suite H root_path (set_member index (\<lambda>m. m\<lparr>sm_baseline_run_id := Some run\<rparr>) st) s)"

definition run_candidate :: "suite_host \<Rightarrow> path \<Rightarrow> nat \<Rightarrow> suite_run \<Rightarrow> suite_run \<times> unit result" where
  "run_candidate H root_path index x =
     (let (st, s) = x
      in if sm_candidate_run_id (sr_members st ! index) \<noteq> None then (x, Inr ())
         else
           case sh_launch H (root_path @ [task_lock_name index]) (root_path @ [''candidate.candidate-lock.json'']) s of
             (s, Inl e) \<Rightarrow> ((st, s), with_context ''suite {} candidate member {index} failed; resume with --resume {}'' (Inl e))
           | (s, Inr run) \<Rightarrow> save_suite H root_path (set_member index (\<lambda>m. m\<lparr>sm_candidate_run_id := Some run\<rparr>) st) s)"

definition run_member :: "suite_host \<Rightarrow> path \<Rightarrow> nat \<Rightarrow> suite_run \<Rightarrow> suite_run \<times> unit result" where
  "run_member H root_path index x =
     seq (run_baseline H root_path index x) (\<lambda>_. run_candidate H root_path index)"

definition run_members :: "suite_host \<Rightarrow> path \<Rightarrow> suite_run \<Rightarrow> suite_run \<times> unit result" where
  "run_members H root_path x = each_step (run_member H root_path) [0..<length (sr_members (fst x))] x"

definition load_pair ::
  "library \<Rightarrow> os \<Rightarrow> string \<Rightarrow> fs \<Rightarrow> suite_member \<Rightarrow> (local_result \<times> local_result) result" where
  "load_pair L env base s m =
     bind_result (ok_or (sm_baseline_run_id m) ''suite baseline result is incomplete'') (\<lambda>b.
     bind_result (ok_or (sm_candidate_run_id m) ''suite candidate result is incomplete'') (\<lambda>c.
     bind_result (bind_result (load_result L env base b s) (\<lambda>r. ok_or r ''suite baseline result is unavailable'')) (\<lambda>br.
     bind_result (bind_result (load_result L env base c s) (\<lambda>r. ok_or r ''suite candidate result is unavailable'')) (\<lambda>cr.
       Inr (br, cr)))))"

definition load_pairs ::
  "library \<Rightarrow> os \<Rightarrow> string \<Rightarrow> fs \<Rightarrow> suite_state \<Rightarrow> (local_result \<times> local_result) list result" where
  "load_pairs L env base s st = map_results (load_pair L env base s) (sr_members st)"

definition execute_suite ::
  "suite_host \<Rightarrow> string \<Rightarrow> (string \<Rightarrow> path) \<Rightarrow> string list \<Rightarrow> u64 \<times> artifact_state \<Rightarrow>
     (u64 \<times> artifact_state) \<times> comparison_summary result" where
  "execute_suite H base path_of args state =
     (let W = sh_world H; L = w_lib W; env = w_os W
      in seq (still (and_then (ensure (case args of a # _ \<Rightarrow> a = ''run'' | [] \<Rightarrow> False)
                 ''usage: suite run <suite.acl> [--resume <suite-run-id>] [--json]'')
               (parse_run_args (tl args))) state) (\<lambda>(source, resume, json) state.
         seq (still (load_spec (w_parser W) L env (path_of source) (as_fs (snd state))) state) (\<lambda>spec state.
         seq (case resume of
                Some run_id \<Rightarrow> still (resume_state L env run_id spec (snd state)) state
              | None \<Rightarrow> plan_suite H spec state) (\<lambda>(root_path, st) (n, s).
         case run_members H root_path (st, s) of
           ((st, s), Inl e) \<Rightarrow> ((n, s), Inl e)
         | ((st, s), Inr _) \<Rightarrow>
             still (bind_result (load_pairs L env base (as_fs s) st) compare_pairs) (n, s)))))"

subsection \<open>The identity of a specification\<close>

lemma spec_json_inj:
  "spec_json i ts b c = spec_json i' ts' b' c' \<Longrightarrow> i = i' \<and> ts = ts' \<and> b = b' \<and> c = c'"
  by (cases b; cases c; cases b'; cases c')
     (auto simp: spec_json_def candidate_spec_json_def map_of_members_def Let_def inj_map_eq_map inj_on_def
        split: if_splits)

lemma json_value_spec [simp]: "json_value (spec_json i ts b c)"
  by (auto simp: spec_json_def candidate_spec_json_def map_of_members_def Let_def)

definition digested :: "library \<Rightarrow> suite_spec \<Rightarrow> bool" where
  "digested L spec =
     (ss_digest spec = spec_digest L (ss_id spec) (ss_tasks spec) (ss_baseline_spec spec) (ss_candidate_spec spec))"

lemma load_spec_digested: "load_spec P L env p s = Inr spec \<Longrightarrow> digested L spec"
proof -
  have "digested L spec" if "spec_of_block L b = Inr spec" for b
    using that by (auto simp: spec_of_block_def digested_def Let_def result_simps)
  then show "load_spec P L env p s = Inr spec \<Longrightarrow> digested L spec"
    unfolding load_spec_def bind_result_Inr and_then_Inr
    by (elim exE conjE) (simp split: list.splits)
qed

definition spec_text :: "library \<Rightarrow> suite_spec \<Rightarrow> string" where
  "spec_text L spec =
     json_compact L (spec_json (ss_id spec) (ss_tasks spec) (ss_baseline_spec spec) (ss_candidate_spec spec))"

lemma same_spec:
  assumes "json_library L" "digested L a" "digested L b" "ss_digest a = ss_digest b"
  shows "a = b \<or> sha_collision L (spec_text L a) (spec_text L b)"
proof -
  let ?json = "\<lambda>x. spec_json (ss_id x) (ss_tasks x) (ss_baseline_spec x) (ss_candidate_spec x)"
  have "digest_json L (?json a) = digest_json L (?json b)"
    using assms(2-4) by (simp add: digested_def spec_digest_def)
  then have "?json a = ?json b \<or> sha_collision L (spec_text L a) (spec_text L b)"
    using digest_json_binds [OF assms(1)] by (simp add: spec_text_def)
  moreover have "a = b" if "?json a = ?json b"
    using spec_json_inj [OF that] assms(4) by (cases a; cases b) simp
  ultimately show ?thesis by blast
qed

subsection \<open>The state on disk\<close>

definition stored_suite :: "library \<Rightarrow> artifact_state \<Rightarrow> path \<Rightarrow> suite_state \<Rightarrow> bool" where
  "stored_suite L s root_path st =
     (file_at (as_fs s) (root_path @ [''state.json'']) = Some (json_pretty L (suite_state_json st)))"

lemma state_json_path [simp]: "state_path (root_path @ [''state.json''])"
  by (simp add: state_path_def dotted_def starts_with_def)

lemma persist_suite_stored:
  assumes "persist_suite L env root_path st s = (s', r)"
  shows "file_at (as_fs s') (root_path @ [''state.json'']) = file_at (as_fs s) (root_path @ [''state.json'']) \<or>
      stored_suite L s' root_path st"
    "r = Inr () \<Longrightarrow> stored_suite L s' root_path st"
proof -
  obtain f where "secure_atomic_write env (root_path @ [''state.json'']) (json_pretty L (suite_state_json st)) (as_fs s) = (f, r)"
    "s' = s\<lparr>as_fs := f\<rparr>"
    using assms by (auto simp: persist_suite_def on_fs_def split: prod.splits)
  with state_files.write_cases [of env _ _ "as_fs s" f r] state_files.write_ok [of env _ _ "as_fs s" f "()"]
  show "file_at (as_fs s') (root_path @ [''state.json'']) = file_at (as_fs s) (root_path @ [''state.json'']) \<or>
      stored_suite L s' root_path st"
    "r = Inr () \<Longrightarrow> stored_suite L s' root_path st"
    by (auto simp: stored_suite_def)
qed

lemma resume_stored:
  assumes "json_library L" "fault_free env" "validate_suite_run_id run_id = Inr ()"
    "stored_suite L s [''suites'', run_id] st" "validate_suite_state st run_id spec = Inr ()"
  shows "resume_state L env run_id spec s = Inr ([''suites'', run_id], st)"
proof -
  have "read_regular_file env [''suites'', run_id, ''state.json''] (as_fs s) = Inr (json_pretty L (suite_state_json st))"
    using assms(2,4) read_back by (simp add: stored_suite_def)
  moreover have "json_parse L (json_pretty L (suite_state_json st)) = Some (suite_state_json st)"
    using assms(1) by (simp add: json_pretty_parse)
  ultimately show ?thesis
    using assms(3,5) by (simp add: resume_state_def suite_state_of_suite_state_json)
qed

subsection \<open>Progress\<close>

text \<open>A later member keeps the runs of an earlier one; a valid member has valid run IDs.\<close>

definition keeps_run :: "string option \<Rightarrow> string option \<Rightarrow> bool" where
  "keeps_run a b = (a = None \<or> b = a)"

definition member_extends :: "suite_member \<Rightarrow> suite_member \<Rightarrow> bool" where
  "member_extends a b =
     (sm_task_reference b = sm_task_reference a \<and> keeps_run (sm_baseline_run_id a) (sm_baseline_run_id b) \<and>
      keeps_run (sm_candidate_run_id a) (sm_candidate_run_id b))"

definition extends :: "suite_state \<Rightarrow> suite_state \<Rightarrow> bool" where
  "extends a b =
     (b = a\<lparr>sr_members := sr_members b\<rparr> \<and> list_all2 member_extends (sr_members a) (sr_members b))"

definition member_complete :: "suite_member \<Rightarrow> bool" where
  "member_complete m = (sm_baseline_run_id m \<noteq> None \<and> sm_candidate_run_id m \<noteq> None)"

lemma member_extends_refl [simp]: "member_extends m m"
  by (simp add: member_extends_def keeps_run_def)

lemma extends_refl [simp]: "extends st st"
  by (simp add: extends_def list_all2_refl)

lemma extends_trans: "extends a b \<Longrightarrow> extends b c \<Longrightarrow> extends a c"
proof -
  assume ab: "extends a b" and bc: "extends b c"
  have "member_extends x y \<Longrightarrow> member_extends y z \<Longrightarrow> member_extends x z" for x y z
    by (auto simp: member_extends_def keeps_run_def)
  with ab bc have "list_all2 member_extends (sr_members a) (sr_members c)"
    unfolding extends_def by (blast intro: list_all2_trans)
  moreover have "c = a\<lparr>sr_members := sr_members c\<rparr>"
    using ab bc by (cases a; cases b; cases c) (simp add: extends_def)
  ultimately show ?thesis by (simp add: extends_def)
qed

lemma extends_set_member:
  assumes "index < length (sr_members st)" "member_extends (sr_members st ! index) (f (sr_members st ! index))"
  shows "extends st (set_member index f st)"
  using assms by (auto simp: extends_def set_member_def list_all2_conv_all_nth nth_list_update)

lemma extends_complete:
  "extends a b \<Longrightarrow> i < length (sr_members a) \<Longrightarrow> member_complete (sr_members a ! i) \<Longrightarrow> member_complete (sr_members b ! i)"
  by (auto simp: extends_def list_all2_conv_all_nth member_complete_def member_extends_def keeps_run_def)

definition valid_member :: "suite_member \<Rightarrow> bool" where
  "valid_member m =
     (\<forall>r \<in> set_option (sm_baseline_run_id m) \<union> set_option (sm_candidate_run_id m). validate_run_id r = Inr ())"

lemma check_members:
  "length ms = length ts \<Longrightarrow>
     each check_member (zip ms ts) = Inr () \<longleftrightarrow> map sm_task_reference ms = ts \<and> list_all valid_member ms"
proof (induction ms ts rule: list_induct2)
  case (Cons m ms t ts)
  have "check_member (m, t) = Inr () \<longleftrightarrow> sm_task_reference m = t \<and> valid_member m"
    by (auto simp: check_member_def and_then_Inr ensure_Inr when_some_def valid_member_def split: option.splits)
  with Cons.IH show ?case by (auto simp: and_then_Inr)
qed simp

lemma validate_suite_state_Inr:
  "validate_suite_state st run_id spec = Inr () \<longleftrightarrow>
     sr_schema st = suite_schema \<and> sr_suite_run_id st = run_id \<and> sr_suite_id st = ss_id spec \<and>
     sr_spec_digest st = ss_digest spec \<and> map sm_task_reference (sr_members st) = ss_tasks spec \<and>
     list_all valid_member (sr_members st)"
proof -
  have "length (sr_members st) = length (ss_tasks spec)" if "map sm_task_reference (sr_members st) = ss_tasks spec"
    using that by (metis length_map)
  then show ?thesis
    unfolding validate_suite_state_def and_then_Inr checks_Inr using check_members by auto
qed

lemma valid_set_member:
  assumes "validate_suite_state st run_id spec = Inr ()" "index < length (sr_members st)"
    "\<And>m. valid_member m \<Longrightarrow> valid_member (f m)" "\<And>m. sm_task_reference (f m) = sm_task_reference m"
  shows "validate_suite_state (set_member index f st) run_id spec = Inr ()"
proof -
  have "map sm_task_reference ((sr_members st)[index := f (sr_members st ! index)]) = map sm_task_reference (sr_members st)"
    using assms(2,4) by (simp add: map_update list_update_same_conv)
  moreover have "list_all valid_member ((sr_members st)[index := f (sr_members st ! index)])"
    using assms by (auto simp: validate_suite_state_Inr list_all_length nth_list_update)
  ultimately show ?thesis
    using assms(1) by (simp add: validate_suite_state_Inr set_member_def)
qed

text \<open>
  What a step of the loop keeps, for runs that return valid IDs and leave the state file alone: the
  state in memory extends the one before, and so does what is on disk, which the state in memory
  extends and, after a step that succeeds, is.
\<close>

definition launch_keeps :: "suite_host \<Rightarrow> path \<Rightarrow> bool" where
  "launch_keeps H root_path =
     (\<forall>task cand s s' r. sh_launch H task cand s = (s', r) \<longrightarrow>
        file_at (as_fs s') (root_path @ [''state.json'']) = file_at (as_fs s) (root_path @ [''state.json'']) \<and>
        (\<forall>run. r = Inr run \<longrightarrow> validate_run_id run = Inr ()))"

definition progress :: "suite_host \<Rightarrow> path \<Rightarrow> string \<Rightarrow> suite_spec \<Rightarrow> suite_run \<Rightarrow> suite_run \<times> unit result \<Rightarrow> bool" where
  "progress H root_path run_id spec x y =
     (\<exists>d. stored_suite (w_lib (sh_world H)) (snd (fst y)) root_path d \<and> extends (fst x) d \<and>
        extends d (fst (fst y)) \<and> (snd y = Inr () \<longrightarrow> d = fst (fst y)) \<and>
        validate_suite_state d run_id spec = Inr () \<and> validate_suite_state (fst (fst y)) run_id spec = Inr ())"

lemma stored_same_file:
  "file_at (as_fs s') (p @ [''state.json'']) = file_at (as_fs s) (p @ [''state.json'']) \<Longrightarrow>
     stored_suite L s' p st = stored_suite L s p st"
  by (simp add: stored_suite_def)

lemma save_progress:
  assumes "stored_suite (w_lib (sh_world H)) s1 root_path st" "extends st st'"
    "validate_suite_state st run_id spec = Inr ()" "validate_suite_state st' run_id spec = Inr ()"
  shows "progress H root_path run_id spec (st, s) (save_suite H root_path st' s1)"
proof -
  obtain s2 r where p: "persist_suite (w_lib (sh_world H)) (sh_os H st') root_path st' s1 = (s2, r)"
    by (cases "persist_suite (w_lib (sh_world H)) (sh_os H st') root_path st' s1")
  from persist_suite_stored [OF p] assms(1)
  have "stored_suite (w_lib (sh_world H)) s2 root_path st \<or> stored_suite (w_lib (sh_world H)) s2 root_path st'"
    "r = Inr () \<Longrightarrow> stored_suite (w_lib (sh_world H)) s2 root_path st'"
    using stored_same_file by blast+
  then show ?thesis
    using assms(2-4) p by (cases "r = Inr ()") (auto simp: progress_def save_suite_def)
qed

lemma launched_progress:
  assumes keeps: "launch_keeps H root_path" and x: "stored_suite (w_lib (sh_world H)) s root_path st"
      "validate_suite_state st run_id spec = Inr ()" "index < length (sr_members st)"
    and f: "\<And>run m. valid_member m \<Longrightarrow> validate_run_id run = Inr () \<Longrightarrow> valid_member (f run m)"
      "\<And>run m. sm_task_reference (f run m) = sm_task_reference m"
      "\<And>run. member_extends (sr_members st ! index) (f run (sr_members st ! index))"
  shows "progress H root_path run_id spec (st, s)
     (case sh_launch H task cand s of
        (s, Inl e) \<Rightarrow> ((st, s), Inl (Context msg e))
      | (s, Inr run) \<Rightarrow> save_suite H root_path (set_member index (f run) st) s)"
proof -
  obtain s1 r where l: "sh_launch H task cand s = (s1, r)" by (cases "sh_launch H task cand s")
  with keeps have k: "stored_suite (w_lib (sh_world H)) s1 root_path st"
    "\<And>run. r = Inr run \<Longrightarrow> validate_run_id run = Inr ()"
    using x(1) stored_same_file unfolding launch_keeps_def by blast+
  show ?thesis
  proof (cases r)
    case (Inl e)
    with l k x show ?thesis by (auto simp: progress_def intro!: exI [of _ st])
  next
    case (Inr run)
    have "validate_suite_state (set_member index (f run) st) run_id spec = Inr ()"
      using x k(2) [OF Inr] f by (intro valid_set_member) auto
    moreover have "extends st (set_member index (f run) st)"
      using x(3) f(3) by (rule extends_set_member)
    ultimately show ?thesis
      using save_progress [OF k(1), of "set_member index (f run) st" run_id spec s] x(2) l Inr
      by (simp add: progress_def)
  qed
qed

lemma no_progress:
  "stored_suite (w_lib (sh_world H)) s root_path st \<Longrightarrow> validate_suite_state st run_id spec = Inr () \<Longrightarrow>
     progress H root_path run_id spec (st, s) ((st, s), Inr ())"
  by (auto simp: progress_def)

lemma side_progress:
  assumes "launch_keeps H root_path" "stored_suite (w_lib (sh_world H)) s root_path st"
    "validate_suite_state st run_id spec = Inr ()" "index < length (sr_members st)"
  shows "progress H root_path run_id spec (st, s) (run_baseline H root_path index (st, s))"
    "progress H root_path run_id spec (st, s) (run_candidate H root_path index (st, s))"
proof -
  show "progress H root_path run_id spec (st, s) (run_baseline H root_path index (st, s))"
    using no_progress [OF assms(2,3)]
    by (auto simp: run_baseline_def intro!: launched_progress [OF assms(1-4)]
        simp: valid_member_def member_extends_def keeps_run_def)
  show "progress H root_path run_id spec (st, s) (run_candidate H root_path index (st, s))"
    using no_progress [OF assms(2,3)]
    by (auto simp: run_candidate_def intro!: launched_progress [OF assms(1-4)]
        simp: valid_member_def member_extends_def keeps_run_def)
qed

text \<open>A step that succeeds leaves its side of the member with a run.\<close>

lemma save_suite_fst: "fst (fst (save_suite H root_path st s)) = st"
  by (simp add: save_suite_def split: prod.splits)

lemma side_complete:
  assumes "index < length (sr_members st)"
  shows "run_baseline H root_path index (st, s) = ((st', s'), Inr ()) \<Longrightarrow>
      sm_baseline_run_id (sr_members st' ! index) \<noteq> None"
    "run_candidate H root_path index (st, s) = ((st', s'), Inr ()) \<Longrightarrow>
      sm_candidate_run_id (sr_members st' ! index) \<noteq> None"
proof -
  have save: "st' = st1" if "save_suite H root_path st1 s1 = ((st', s'), r)" for st1 s1 r
    using that save_suite_fst [of H root_path st1 s1] by simp
  show "run_baseline H root_path index (st, s) = ((st', s'), Inr ()) \<Longrightarrow>
      sm_baseline_run_id (sr_members st' ! index) \<noteq> None"
    using assms by (auto simp: run_baseline_def set_member_def split: if_splits prod.splits sum.splits dest!: save)
  show "run_candidate H root_path index (st, s) = ((st', s'), Inr ()) \<Longrightarrow>
      sm_candidate_run_id (sr_members st' ! index) \<noteq> None"
    using assms by (auto simp: run_candidate_def set_member_def split: if_splits prod.splits sum.splits dest!: save)
qed

lemma progress_extends: "progress H root_path run_id spec (st, s) ((st', s'), r) \<Longrightarrow> extends st st'"
  by (auto simp: progress_def intro: extends_trans)

lemma progress_trans:
  assumes "progress H root_path run_id spec x (y, Inr ())" "progress H root_path run_id spec y z"
  shows "progress H root_path run_id spec x z"
proof -
  have "extends (fst x) (fst y)" using assms(1) by (auto simp: progress_def intro: extends_trans)
  with assms(2) show ?thesis unfolding progress_def by (blast intro: extends_trans)
qed

lemma progress_stored:
  "progress H root_path run_id spec x ((st, s), Inr ()) \<Longrightarrow>
     stored_suite (w_lib (sh_world H)) s root_path st \<and> validate_suite_state st run_id spec = Inr ()"
  by (auto simp: progress_def)

lemma extends_length: "extends a b \<Longrightarrow> length (sr_members b) = length (sr_members a)"
  by (auto simp: extends_def dest: list_all2_lengthD)

lemma member_progress:
  assumes "launch_keeps H root_path" "stored_suite (w_lib (sh_world H)) s root_path st"
    "validate_suite_state st run_id spec = Inr ()" "index < length (sr_members st)"
    "run_member H root_path index (st, s) = ((st', s'), r)"
  shows "progress H root_path run_id spec (st, s) ((st', s'), r) \<and>
    (r = Inr () \<longrightarrow> member_complete (sr_members st' ! index))"
proof (cases rule: seq_cases [OF assms(5) [unfolded run_member_def]])
  case (1 e)
  with side_progress(1) [OF assms(1-4)] show ?thesis by auto
next
  case (2 x v)
  obtain st1 s1 where x: "x = (st1, s1)" by (cases x)
  have p: "progress H root_path run_id spec (st, s) ((st1, s1), Inr ())"
    using side_progress(1) [OF assms(1-4)] 2 x by simp
  have n: "index < length (sr_members st1)" using assms(4) extends_length [OF progress_extends [OF p]] by simp
  have q: "progress H root_path run_id spec (st1, s1) ((st', s'), r)"
    using side_progress(2) [OF assms(1)] progress_stored [OF p] n 2 x by metis
  have "sm_baseline_run_id (sr_members st1 ! index) \<noteq> None"
    using side_complete(1) [OF assms(4)] 2 x by simp
  then have "sm_baseline_run_id (sr_members st' ! index) \<noteq> None"
    using progress_extends [OF q] n
    by (auto simp: extends_def list_all2_conv_all_nth member_extends_def keeps_run_def)
  moreover have "r = Inr () \<Longrightarrow> sm_candidate_run_id (sr_members st' ! index) \<noteq> None"
    using side_complete(2) [OF n] 2 x by simp
  ultimately show ?thesis using progress_trans [OF p q] by (simp add: member_complete_def)
qed

lemma members_progress:
  assumes "launch_keeps H root_path" "stored_suite (w_lib (sh_world H)) s root_path st"
    "validate_suite_state st run_id spec = Inr ()" "set is \<subseteq> {0..<length (sr_members st)}"
    "each_step (run_member H root_path) is (st, s) = ((st', s'), r)"
  shows "progress H root_path run_id spec (st, s) ((st', s'), r) \<and>
    (r = Inr () \<longrightarrow> (\<forall>i \<in> set is. member_complete (sr_members st' ! i)))"
  using assms(2-5)
proof (induction "is" arbitrary: st s)
  case Nil
  then show ?case using no_progress by auto
next
  case (Cons i js)
  obtain st1 s1 r1 where m: "run_member H root_path i (st, s) = ((st1, s1), r1)"
    by (metis prod.collapse)
  have i: "i < length (sr_members st)" using Cons.prems(3) by simp
  note p = member_progress [OF assms(1) Cons.prems(1,2) i m]
  show ?case
  proof (cases r1)
    case (Inl e)
    with p m Cons.prems(4) show ?thesis by auto
  next
    case (Inr u)
    then have rest: "each_step (run_member H root_path) js (st1, s1) = ((st', s'), r)"
      using m Cons.prems(4) by simp
    have p1: "progress H root_path run_id spec (st, s) ((st1, s1), Inr ())" using p Inr by simp
    have js: "set js \<subseteq> {0..<length (sr_members st1)}"
      using Cons.prems(3) extends_length [OF progress_extends [OF p1]] by auto
    note ih = Cons.IH [OF _ _ js rest] progress_stored [OF p1]
    then have q: "progress H root_path run_id spec (st1, s1) ((st', s'), r)"
      and c: "r = Inr () \<longrightarrow> (\<forall>i \<in> set js. member_complete (sr_members st' ! i))" by blast+
    have "member_complete (sr_members st' ! i)"
      using extends_complete [OF progress_extends [OF q]] p Inr i extends_length [OF progress_extends [OF p1]] by simp
    with c progress_trans [OF p1 q] show ?thesis by auto
  qed
qed

subsection \<open>What a plan leaves\<close>

lemma new_suite_run_id_valid:
  assumes "process < 2 ^ 32"
  shows "validate_suite_run_id (new_suite_run_id now process n) = Inr ()"
proof -
  have "length (show_nat (unat now)) \<le> 39" by (rule show_nat_length [OF unat_decimal(1)]) simp
  moreover have "length (show_nat process) \<le> 10" using assms by (intro show_nat_length) simp_all
  moreover have "length (show_nat (unat n)) \<le> 20"
    by (rule show_nat_length [OF unat_decimal(2)]) simp
  moreover have "list_all run_id_char ''suite-''" "run_id_char CHR ''-''"
    by (simp_all add: run_id_char_def char_defs)
  ultimately have "starts_with (new_suite_run_id now process n) ''suite-'' \<and>
      length (new_suite_run_id now process n) \<le> 128 \<and> list_all run_id_char (new_suite_run_id now process n)"
    by (simp add: new_suite_run_id_def show_nat_run_id starts_with_def)
  then show ?thesis
    by (simp add: validate_suite_run_id_def checks_Inr run_id_char_def list_all_iff)
qed

lemma planned_state_valid:
  "validate_suite_state (planned_state spec run_id) run_id spec = Inr ()"
  by (simp add: validate_suite_state_Inr planned_state_def valid_member_def list_all_iff comp_def)

lemma plan_steps_stored:
  assumes "plan_steps H spec staging run_id s = (s', Inr st)"
  shows "st = planned_state spec run_id" "stored_suite (w_lib (sh_world H)) s' staging st"
proof -
  from assms obtain s1 where "st = planned_state spec run_id"
    "persist_suite (w_lib (sh_world H)) (w_os (sh_world H)) staging st s1 = (s', Inr ())"
    unfolding plan_steps_def Let_def seq_Inr still_def by auto
  then show "st = planned_state spec run_id" "stored_suite (w_lib (sh_world H)) s' staging st"
    using persist_suite_stored(2) by blast+
qed

lemma renamed_stored:
  assumes "on_fs (rename_dir env source target) s = (s', Inr ())" "stored_suite L s source st"
  shows "stored_suite L s' target st"
  using assms
  by (auto simp: on_fs_def rename_dir_def syscall_def stored_suite_def file_at_def content_def
      split: option.splits prod.splits)

lemma plan_suite_stored:
  assumes "plan_suite H spec (n, s) = ((n', s'), Inr (root_path, st))"
  shows "\<exists>now. st = planned_state spec (new_suite_run_id now (pid (w_os (sh_world H))) n)"
    "root_path = [''suites'', sr_suite_run_id st]" "stored_suite (w_lib (sh_world H)) s' root_path st"
proof -
  from assms obtain now staging s1 s2 where
    p: "plan_steps H spec staging (new_suite_run_id now (pid (w_os (sh_world H))) n) s1 = (s2, Inr st)" and
    r: "on_fs (rename_dir (w_os (sh_world H)) staging root_path) s2 = (s', Inr ())" and
    path: "root_path = [''suites'', new_suite_run_id now (pid (w_os (sh_world H))) n]"
    by (auto simp: plan_suite_def Let_def split: prod.splits sum.splits)
  note ps = plan_steps_stored [OF p]
  from ps(1) show "\<exists>now. st = planned_state spec (new_suite_run_id now (pid (w_os (sh_world H))) n)" ..
  from ps(1) path show "root_path = [''suites'', sr_suite_run_id st]" by (simp add: planned_state_def)
  from renamed_stored [OF r ps(2)] show "stored_suite (w_lib (sh_world H)) s' root_path st" .
qed

subsection \<open>A concrete suite\<close>

definition demo_candidate_spec :: candidate_spec where
  "demo_candidate_spec = \<lparr>cs_agent = ''codex'', cs_model = None, cs_reasoning_effort = None\<rparr>"

definition demo_suite :: suite_spec where
  "demo_suite =
     \<lparr>ss_id = ''core'', ss_tasks = [''task''], ss_baseline_spec = demo_candidate_spec,
      ss_candidate_spec = demo_candidate_spec,
      ss_digest = spec_digest toy_library ''core'' [''task''] demo_candidate_spec demo_candidate_spec\<rparr>"

definition demo_host :: suite_host where
  "demo_host =
     \<lparr>sh_world = demo_world,
      sh_config = Inr \<lparr>lc_path = None, lc_bench_path = None,
        lc_runtime = \<lparr>rs_provider = ''docker'', rs_source = BenchDefault\<rparr>, lc_judge_model = None,
        lc_codex_reasoning_effort = None, lc_disable_auto_resume = False, lc_parallel_game_sessions = False\<rparr>,
      sh_runtime = (\<lambda>r. Inr (rs_provider r)), sh_resolve = (\<lambda>_. Inr ([''src''], True)), sh_clock = Inr 1,
      sh_tree = (\<lambda>_ _. Directory mode_700 []), sh_launch = (\<lambda>_ _ s. (s, Inr ''local-1-1-0'')),
      sh_os = (\<lambda>_. quiet_os)\<rparr>"

definition demo_plan :: "(u64 \<times> artifact_state) \<times> (path \<times> suite_state) result" where
  "demo_plan = plan_suite demo_host demo_suite (0, demo_artifacts)"


end
