(* ===== verification/Suite_Progress.thy ===== *)
theory Suite_Progress
  imports Suite
begin

text \<open>
  What a suite promises: a plan that succeeds can be resumed, only with the specification it was made
  of, and a suite that stops at any run can be resumed where it stopped.
\<close>

subsection \<open>A plan that succeeds\<close>

text \<open>The artifact of every capture is in the store already, so that the disk only gets the locks.\<close>

definition demo_sealed :: node where
  "demo_sealed = Directory mode_500
     [(''.a3s'', Directory mode_500 [(''asset.acl'', RegFile mode_400 1 ''asset'')]),
      (''run'', RegFile mode_400 1 ''x''), (''task.acl'', RegFile mode_400 1 ''task'')]"

definition demo_place :: path where "demo_place = [''artifacts'', replicate 64 CHR ''0'']"

definition demo_with :: "fs \<Rightarrow> artifact_state" where
  "demo_with f = \<lparr>as_fs = f, as_trees = (\<lambda>p. if p = demo_place then Some demo_sealed else None)\<rparr>"

lemma demo_with_simps [simp]:
  "as_fs (demo_with f) = f" "(demo_with f)\<lparr>as_fs := g\<rparr> = demo_with g" "demo_with f = demo_with g \<longleftrightarrow> f = g"
  by (simp_all add: demo_with_def)

lemma demo_capture_again: "capture_at demo_world p (demo_with f) = (demo_with f, Inr demo_artifact_digest)"
proof -
  have "(case capture_target toy_library (map to_ascii_lower) quiet_os demo_bundle_view (demo_with f) of
      Inl e \<Rightarrow> False
    | Inr (base, files, digest, destination, present) \<Rightarrow>
        digest = demo_artifact_digest \<and> destination = demo_place \<and> present)"
    by code_simp
  then obtain base files where "capture_target toy_library (map to_ascii_lower) quiet_os demo_bundle_view (demo_with f) =
      Inr (base, files, demo_artifact_digest, demo_place, True)"
    by (auto split: sum.splits)
  moreover have "capture_existing toy_library (map to_ascii_lower) quiet_os demo_place demo_artifact_digest
      (Some demo_sealed) = (Some demo_sealed, Inr ())"
    by code_simp
  ultimately show ?thesis
    by (simp add: capture_at_def capture_def demo_world_def demo_with_def fun_upd_idem)
qed

lemma demo_candidate_planned:
  "\<exists>l. make_candidate_lock demo_world (demo_with f) None None None demo_artifact_digest = Inr l"
proof -
  have "\<not> isl (make_candidate_lock demo_world (demo_with f) None None None demo_artifact_digest)" by code_simp
  then show ?thesis by (auto simp: isl_def) (metis sum.exhaust)
qed

lemma demo_task_planned:
  "\<exists>task judge l. plan_task_lock demo_world (demo_with f) ''docker'' None demo_artifact_digest = Inr (task, None, judge) \<and>
     make_task_lock demo_world (demo_with f) ''docker'' task None demo_artifact_digest demo_artifact_digest = Inr l"
proof -
  have "case plan_task_lock demo_world (demo_with f) ''docker'' None demo_artifact_digest of Inl e \<Rightarrow> False
    | Inr (task, m, judge) \<Rightarrow> m = None \<and>
        \<not> isl (make_task_lock demo_world (demo_with f) ''docker'' task None demo_artifact_digest demo_artifact_digest)"
    by code_simp
  then show ?thesis by (auto simp: isl_def split: sum.splits) (metis sum.exhaust)
qed

text \<open>A new file at \<open>p\<close>, whatever it holds.\<close>

definition file_added :: "path \<Rightarrow> fs \<Rightarrow> fs \<Rightarrow> bool" where
  "file_added p f g = (\<exists>b. g = f\<lparr>disk := (disk f)(p \<mapsto> FileE mode_600 b)\<rparr>)"

lemma demo_store_lock:
  "disk f p = None \<Longrightarrow> \<exists>g. store_lock demo_world True p v (demo_with f) = (demo_with g, Inr ()) \<and> file_added p f g"
  by (auto simp: store_lock_def write_exclusive_def file_added_def)

lemma demo_lock_candidate:
  assumes "disk f p = None"
  shows "\<exists>g l. lock_candidate demo_host demo_candidate_spec p (demo_with f) = (demo_with g, Inr l) \<and> file_added p f g"
proof -
  obtain l where l: "make_candidate_lock demo_world (demo_with f) None None None demo_artifact_digest = Inr l"
    using demo_candidate_planned by blast
  obtain g where "store_lock demo_world True p (candidate_lock_json l) (demo_with f) = (demo_with g, Inr ())" "file_added p f g"
    using demo_store_lock [OF assms] by blast
  moreover have "\<exists>a. asset_resolve demo_world ''codex'' = Inr a"
    by (simp add: asset_resolve_def demo_world_def resolve_asset_def)
  ultimately show ?thesis
    using l by (auto simp: lock_candidate_def create_candidate_with_options_def create_candidate_with_codex_default_def
        demo_host_def demo_candidate_spec_def demo_capture_again)
qed

lemma demo_lock_member:
  assumes "disk f (staging @ [task_lock_name 0]) = None"
  shows "\<exists>g. lock_member demo_host staging None ''docker'' (0, t) (demo_with f) = (demo_with g, Inr ()) \<and>
     file_added (staging @ [task_lock_name 0]) f g"
proof -
  obtain task judge l where
    p: "plan_task_lock demo_world (demo_with f) ''docker'' None demo_artifact_digest = Inr (task, None, judge)" and
    l: "make_task_lock demo_world (demo_with f) ''docker'' task None demo_artifact_digest demo_artifact_digest = Inr l"
    using demo_task_planned by blast
  obtain g where "store_lock demo_world True (staging @ [task_lock_name 0]) (task_lock_json l) (demo_with f) =
      (demo_with g, Inr ())" "file_added (staging @ [task_lock_name 0]) f g"
    using demo_store_lock [OF assms] by blast
  with p l show ?thesis
    by (auto simp: lock_member_def create_task_with_provider_def still_def demo_host_def demo_capture_again)
qed

definition demo_staging :: path where "demo_staging = [''suites'', ''.tmp-suite-7-0'']"

definition demo_staged_fs :: fs where
  "demo_staged_fs = \<lparr>disk = [[''suites''] \<mapsto> DirE mode_700, demo_staging \<mapsto> DirE mode_700], staging_sequence = 1\<rparr>"

lemma demo_pid: "show_nat (pid quiet_os) = ''7''"
  by code_simp

lemma demo_staged:
  "seq (on_fs (secure_directory quiet_os [''suites'']) (demo_with empty_fs))
      (\<lambda>_. on_fs (create_unique_staging_directory quiet_os [''suites''] ''suite'')) =
   (demo_with demo_staged_fs, Inr demo_staging)"
proof -
  have "show_nat 0 = ''0''" "list_all run_id_char ''suite''" by code_simp+
  then show ?thesis
    by (simp add: on_fs_def create_unique_staging_directory_def eval_nat_numeral(2,3) fs_step_defs demo_pid
        create_secure_directory_exclusive_def staging_name_def fun_upd_idem_iff demo_staged_fs_def demo_staging_def)
qed

lemma demo_persisted:
  assumes "disk f [''suites''] = Some (DirE mode_700)" "disk f demo_staging = Some (DirE mode_700)"
    "disk f (demo_staging @ [''.state.json.tmp-7-1'']) = None" "disk f (demo_staging @ [''state.json'']) = None"
    "staging_sequence f = 1"
  shows "\<exists>g. persist_suite toy_library quiet_os demo_staging st (demo_with f) = (demo_with g, Inr ()) \<and>
    disk g demo_staging = Some (DirE mode_700) \<and> (\<forall>x. disk g [''suites'', x] = disk f [''suites'', x])"
proof -
  have "show_nat (Suc 0) = ''1''" by code_simp
  with assms show ?thesis
    by (simp add: persist_suite_def on_fs_def demo_staging_def fs_step_defs eval_nat_numeral(2,3) temp_name_def demo_pid
        fun_upd_idem_iff)
qed

text \<open>The three locks are new files next to each other.\<close>

lemma file_added_other: "file_added p f g \<Longrightarrow> q \<noteq> p \<Longrightarrow> disk g q = disk f q"
  by (auto simp: file_added_def)

lemma file_added_sequence: "file_added p f g \<Longrightarrow> staging_sequence g = staging_sequence f"
  by (auto simp: file_added_def)

lemma demo_locked:
  "\<exists>g. plan_steps demo_host demo_suite demo_staging run_id (demo_with demo_staged_fs) =
       seq (persist_suite toy_library quiet_os demo_staging (planned_state demo_suite run_id) (demo_with g)) (\<lambda>_.
       still (Inr (planned_state demo_suite run_id))) \<and> staging_sequence g = 1 \<and>
     (\<forall>q. last q \<notin> {''baseline.candidate-lock.json'', ''candidate.candidate-lock.json'', ''task-0.lock.json''} \<longrightarrow>
        disk g q = disk demo_staged_fs q)"
proof -
  have t: "task_lock_name 0 = ''task-0.lock.json''" by code_simp
  have n: "disk demo_staged_fs (demo_staging @ [x]) = None" for x
    by (simp add: demo_staged_fs_def demo_staging_def)
  obtain g1 l1 where 1: "lock_candidate demo_host demo_candidate_spec (demo_staging @ [''baseline.candidate-lock.json''])
      (demo_with demo_staged_fs) = (demo_with g1, Inr l1)"
    and a1: "file_added (demo_staging @ [''baseline.candidate-lock.json'']) demo_staged_fs g1"
    using demo_lock_candidate [OF n] by blast
  have "disk g1 (demo_staging @ [''candidate.candidate-lock.json'']) = None"
    using file_added_other [OF a1] n by simp
  then obtain g2 l2 where 2: "lock_candidate demo_host demo_candidate_spec
      (demo_staging @ [''candidate.candidate-lock.json'']) (demo_with g1) = (demo_with g2, Inr l2)"
    and a2: "file_added (demo_staging @ [''candidate.candidate-lock.json'']) g1 g2"
    using demo_lock_candidate by blast
  have "disk g2 (demo_staging @ [task_lock_name 0]) = None"
    using file_added_other [OF a1] file_added_other [OF a2] n t by simp
  then obtain g3 where 3: "lock_member demo_host demo_staging None ''docker'' (0, ''task'') (demo_with g2) =
      (demo_with g3, Inr ())"
    and a3: "file_added (demo_staging @ [task_lock_name 0]) g2 g3"
    using demo_lock_member by blast
  have "disk g3 q = disk demo_staged_fs q"
    if "last q \<notin> {''baseline.candidate-lock.json'', ''candidate.candidate-lock.json'', ''task-0.lock.json''}" for q
    using that file_added_other [OF a1, of q] file_added_other [OF a2, of q] file_added_other [OF a3, of q] t
    by (cases q rule: rev_cases) auto
  moreover have "staging_sequence g3 = 1"
    using file_added_sequence [OF a1] file_added_sequence [OF a2] file_added_sequence [OF a3]
    by (simp add: demo_staged_fs_def)
  ultimately show ?thesis
    using 1 2 3 by (intro exI [of _ g3]) (auto simp: plan_steps_def Let_def still_def demo_host_def demo_suite_def sync_tree_def seq_def split: prod.splits sum.splits)
qed

lemma demo_planned:
  "\<exists>s st. plan_suite demo_host demo_suite (0, demo_with empty_fs) =
     ((1, s), Inr ([''suites'', ''suite-1-7-0''], st))"
proof -
  obtain g where g: "plan_steps demo_host demo_suite demo_staging ''suite-1-7-0'' (demo_with demo_staged_fs) =
       seq (persist_suite toy_library quiet_os demo_staging (planned_state demo_suite ''suite-1-7-0'') (demo_with g)) (\<lambda>_.
       still (Inr (planned_state demo_suite ''suite-1-7-0'')))" "staging_sequence g = 1"
    and same: "\<And>q. last q \<notin> {''baseline.candidate-lock.json'', ''candidate.candidate-lock.json'', ''task-0.lock.json''} \<Longrightarrow>
        disk g q = disk demo_staged_fs q"
    using demo_locked [of "''suite-1-7-0''"] by blast
  obtain g4 where 4: "persist_suite toy_library quiet_os demo_staging (planned_state demo_suite ''suite-1-7-0'') (demo_with g) =
      (demo_with g4, Inr ())"
    "disk g4 demo_staging = Some (DirE mode_700)" "\<forall>x. disk g4 [''suites'', x] = disk g [''suites'', x]"
    using demo_persisted [of g "planned_state demo_suite ''suite-1-7-0''"] g(2)
    by (auto simp: same demo_staged_fs_def demo_staging_def)
  have none: "disk g4 [''suites'', ''suite-1-7-0''] = None"
    using 4(3) by (simp add: same demo_staged_fs_def demo_staging_def)
  obtain s where r: "on_fs (rename_dir quiet_os demo_staging [''suites'', ''suite-1-7-0'']) (demo_with g4) = (s, Inr ())"
    using 4(2) none by (simp add: on_fs_def rename_dir_def)
  have "new_suite_run_id 1 (pid quiet_os) 0 = ''suite-1-7-0''" by code_simp
  moreover have "w_os (sh_world demo_host) = quiet_os" "sh_clock demo_host = Inr 1" by (simp_all add: demo_host_def)
  ultimately show ?thesis
    using 4(1) g(1) r by (simp add: plan_suite_def demo_staged still_def) (simp add: Let_def)
qed

subsection \<open>Properties\<close>

text \<open>
  C34 A planned suite can be resumed: a plan that succeeds is on disk under its run ID, with a member for
  each Task and no run yet, and resuming it finds exactly it; a specification with which it can be
  resumed at all is the one planned, or the texts of the two collide under SHA-256.
\<close>

theorem planned_suite_resumes:
  assumes "json_library (w_lib (sh_world H))" "fault_free env" "pid (w_os (sh_world H)) < 2 ^ 32"
    and plan: "plan_suite H spec (n, s) = ((n', s'), Inr (root_path, st))"
    and "digested (w_lib (sh_world H)) spec" "digested (w_lib (sh_world H)) spec'"
  shows "resume_state (w_lib (sh_world H)) env (sr_suite_run_id st) spec s' = Inr (root_path, st) \<and>
    map sm_task_reference (sr_members st) = ss_tasks spec \<and>
    list_all (\<lambda>m. sm_baseline_run_id m = None \<and> sm_candidate_run_id m = None) (sr_members st) \<and>
    (resume_state (w_lib (sh_world H)) env (sr_suite_run_id st) spec' s' = Inr (root_path, st) \<longrightarrow>
       spec' = spec \<or> sha_collision (w_lib (sh_world H)) (spec_text (w_lib (sh_world H)) spec') (spec_text (w_lib (sh_world H)) spec))"
proof -
  let ?L = "w_lib (sh_world H)"
  note p = plan_suite_stored [OF plan]
  from p(1) obtain now where st: "st = planned_state spec (new_suite_run_id now (pid (w_os (sh_world H))) n)" ..
  have "validate_suite_run_id (sr_suite_run_id st) = Inr ()" "validate_suite_state st (sr_suite_run_id st) spec = Inr ()"
    using new_suite_run_id_valid [OF assms(3)] planned_state_valid st by (simp_all add: planned_state_def)
  then have "resume_state ?L env (sr_suite_run_id st) spec s' = Inr (root_path, st)"
    using resume_stored [OF assms(1,2)] p(2,3) by simp
  moreover have "spec' = spec \<or> sha_collision ?L (spec_text ?L spec') (spec_text ?L spec)"
    if "resume_state ?L env (sr_suite_run_id st) spec' s' = Inr (root_path, st)"
  proof -
    from that have "sr_spec_digest st = ss_digest spec'"
      by (auto simp: resume_state_def Let_def bind_result_Inr and_then_Inr validate_suite_state_Inr)
    then show ?thesis using same_spec [OF assms(1,6,5)] st by (simp add: planned_state_def)
  qed
  ultimately show ?thesis using st by (simp add: planned_state_def list_all_iff comp_def)
qed

theorem planned_suite_resumes_witness:
  "\<exists>s st. plan_suite demo_host demo_suite (0, demo_with empty_fs) = ((1, s), Inr ([''suites'', ''suite-1-7-0''], st)) \<and>
     resume_state toy_library quiet_os (sr_suite_run_id st) demo_suite s = Inr ([''suites'', ''suite-1-7-0''], st)"
proof -
  obtain s st where p: "plan_suite demo_host demo_suite (0, demo_with empty_fs) =
      ((1, s), Inr ([''suites'', ''suite-1-7-0''], st))"
    using demo_planned by blast
  have H: "w_lib (sh_world demo_host) = toy_library" "pid (w_os (sh_world demo_host)) < 2 ^ 32"
    by (simp_all add: demo_host_def quiet_os_def)
  have "digested toy_library demo_suite" by (simp add: digested_def demo_suite_def)
  with planned_suite_resumes [OF _ quiet_fault_free H(2) p] H(1) p toy_json_library show ?thesis by auto
qed


definition demo_state :: suite_state where
  "demo_state = planned_state demo_suite ''suite-1-7-0''"

definition demo_state_store :: artifact_state where
  "demo_state_store = demo_with \<lparr>disk = [[''suites'', ''suite-1-7-0'', ''state.json''] \<mapsto>
     FileE mode_600 (json_pretty toy_library (suite_state_json demo_state))], staging_sequence = 1\<rparr>"

definition demo_run :: "suite_run \<times> unit result" where
  "demo_run = run_members demo_host [''suites'', ''suite-1-7-0''] (demo_state, demo_state_store)"


end
