(* ===== verification/Archive.thy ===== *)
theory Archive
  imports Steps State_Tree
begin

text \<open>
  \<open>workspace.rs\<close>, the transfer of an archive out of a container: \<open>docker cp\<close> writes it, \<open>tar\<close> extracts
  it, and the program pumps the bytes between the two and counts them. What the two processes and the
  clock do is an argument: the steps of the pump with what it reads, and what each round of the polling
  loop sees.
\<close>

definition export_max_bytes :: u64 where "export_max_bytes = 32 * 1024 * 1024 * 1024"
definition stderr_limit :: nat where "stderr_limit = 64 * 1024"

subsection \<open>Commands\<close>

definition docker_copy_command :: "string \<Rightarrow> string \<Rightarrow> string list" where
  "docker_copy_command container source_path =
     [''docker'', ''cp'', container @ '':'' @ trim_end_char CHR ''/'' source_path @ ''/.'', ''-'']"

definition docker_copy_file_command :: "string \<Rightarrow> string \<Rightarrow> string list" where
  "docker_copy_file_command container source_path = [''docker'', ''cp'', container @ '':'' @ source_path, ''-'']"

definition tar_extract_command :: "string \<Rightarrow> string list" where
  "tar_extract_command destination = [''tar'', ''-x'', ''--no-same-owner'', ''-C'', destination]"

subsection \<open>The pump\<close>

text \<open>The limit, and how much had been read when it was passed.\<close>

datatype pump_error = Deadline | Limit u64 u64 | PumpIo io_kind

text \<open>A step: whether the deadline has passed, what the read gives (the empty text at the end of the
  archive), and whether the write, or the flush at the end, fails. The list ends where the pump returns.\<close>

type_synonym pump_step = "bool \<times> (io_kind + string) \<times> io_kind option"

fun pump_archive :: "u64 \<Rightarrow> pump_step list \<Rightarrow> u64 \<Rightarrow> string \<Rightarrow> string \<times> (pump_error + u64)" where
  "pump_archive max_bytes [] transferred out = (out, Inl Deadline)"
| "pump_archive max_bytes ((late, chunk, write_fault) # steps) transferred out =
     (if late then (out, Inl Deadline)
      else case chunk of
        Inl e \<Rightarrow> (out, Inl (PumpIo e))
      | Inr bytes \<Rightarrow>
          if bytes = [] then (out, case write_fault of Some e \<Rightarrow> Inl (PumpIo e) | None \<Rightarrow> Inr transferred)
          else (case checked_add transferred (of_nat (length bytes)) of
                  None \<Rightarrow> (out, Inl (Limit max_bytes (- 1)))
                | Some following \<Rightarrow>
                    if following > max_bytes then (out, Inl (Limit max_bytes following))
                    else (case write_fault of
                            Some e \<Rightarrow> (out, Inl (PumpIo e))
                          | None \<Rightarrow> pump_archive max_bytes steps following (out @ bytes))))"

subsection \<open>The error output of a process\<close>

record bounded_stderr =
  bs_bytes :: string
  bs_truncated :: bool

text \<open>The reads up to the end of the stream; \<open>limit.saturating_sub(len).min(count)\<close> bytes of each are kept.\<close>

fun read_bounded_stderr :: "nat \<Rightarrow> (io_kind + string) list \<Rightarrow> bounded_stderr \<Rightarrow> io_kind + bounded_stderr" where
  "read_bounded_stderr limit [] o' = Inr o'"
| "read_bounded_stderr limit (Inl e # reads) o' = Inl e"
| "read_bounded_stderr limit (Inr chunk # reads) o' =
     (if chunk = [] then Inr o'
      else let retained = min (limit - length (bs_bytes o')) (length chunk)
           in read_bounded_stderr limit reads
                \<lparr>bs_bytes = bs_bytes o' @ take retained chunk,
                 bs_truncated = (bs_truncated o' \<or> retained < length chunk)\<rparr>)"

text \<open>\<open>join_stderr_reader\<close>: the reader's thread may have panicked or failed.\<close>

definition join_stderr_reader :: "string \<Rightarrow> (io_kind + bounded_stderr) option \<Rightarrow> bounded_stderr" where
  "join_stderr_reader process r =
     (case r of
        Some (Inr out) \<Rightarrow> out
      | Some (Inl e) \<Rightarrow>
          \<lparr>bs_bytes = ''could not read '' @ process @ '' stderr: {error}'', bs_truncated = False\<rparr>
      | None \<Rightarrow> \<lparr>bs_bytes = process @ '' stderr reader panicked'', bs_truncated = False\<rparr>)"

definition stderr_suffix :: "(string \<Rightarrow> string) \<Rightarrow> string \<Rightarrow> bounded_stderr \<Rightarrow> string" where
  "stderr_suffix lossy process out =
     (let text = trim (lossy (bs_bytes out))
      in if text = [] then []
         else '': '' @ process @ '': '' @ text @ (if bs_truncated out then '' [truncated]'' else []))"

subsection \<open>The pipeline\<close>

text \<open>One round of the loop: whether the deadline has passed, the answer of \<open>try_wait\<close> for a process
  that has not ended yet, and whether the pump has sent its result or its channel is closed without one.\<close>

datatype pump_message = NotYet | Arrived | Disconnected

record pipeline_round =
  pr_late :: bool
  pr_copy :: "io_kind + bool option"
  pr_extract :: "io_kind + bool option"
  pr_pump :: pump_message

datatype pipeline_abort = AbortTimeout | CopyFailed | ExtractFailed | AbortPump pump_error | Monitor error

datatype archive_error = Pump pump_error | Other error

definition poll_child :: "io_kind + bool option \<Rightarrow> bool option \<Rightarrow> io_kind + bool option" where
  "poll_child answer status = (if status = None then answer else Inr status)"

text \<open>The loop ends with the statuses and the pump's result it has, or aborts; after the last round
  that is listed the deadline passes.\<close>

fun poll_loop ::
  "pump_error + u64 \<Rightarrow> pipeline_round list \<Rightarrow> bool option \<Rightarrow> bool option \<Rightarrow> u64 option \<Rightarrow> pipeline_abort option \<times> u64 option"
  where
  "poll_loop pumped [] copy extraction got = (Some AbortTimeout, got)"
| "poll_loop pumped (r # rounds) copy extraction got =
     (if pr_late r then (Some AbortTimeout, got)
      else case poll_child (pr_copy r) copy of
        Inl e \<Rightarrow> (Some (Monitor (Context ''could not poll Docker copy'' (Io e))), got)
      | Inr copy \<Rightarrow>
          if copy = Some False then (Some CopyFailed, got)
          else (case poll_child (pr_extract r) extraction of
            Inl e \<Rightarrow> (Some (Monitor (Context ''could not poll workspace extraction'' (Io e))), got)
          | Inr extraction \<Rightarrow>
              if extraction = Some False then (Some ExtractFailed, got)
              else (case (if got = None then pr_pump r else NotYet, pumped) of
                (Disconnected, _) \<Rightarrow> (Some (Monitor (Bail ''workspace archive pump exited without a result'')), got)
              | (Arrived, Inl e) \<Rightarrow> (Some (AbortPump e), got)
              | (m, _) \<Rightarrow>
                  let got = (if m = Arrived then (case pumped of Inr n \<Rightarrow> Some n | Inl _ \<Rightarrow> got) else got)
                  in if copy \<noteq> None \<and> extraction \<noteq> None \<and> got \<noteq> None then (None, got)
                     else poll_loop pumped rounds copy extraction got)))"

text \<open>What the run of a pipeline sees.\<close>

record pipeline_view =
  pl_spawn_copy :: "unit result"
  pl_spawn_extract :: "unit result"
  pl_steps :: "pump_step list"
  pl_rounds :: "pipeline_round list"
  pl_copy_wait :: "io_kind + bool"
  pl_extract_wait :: "io_kind + bool"
  pl_pump_joined :: bool

definition lift_error :: "'a result \<Rightarrow> archive_error + 'a" where
  "lift_error r = (case r of Inl e \<Rightarrow> Inl (Other e) | Inr v \<Rightarrow> Inr v)"

definition waited :: "string \<Rightarrow> io_kind + bool \<Rightarrow> bool result" where
  "waited msg r = (case r of Inl e \<Rightarrow> Inl (Context msg (Io e)) | Inr success \<Rightarrow> Inr success)"

definition abort_error :: "pipeline_abort \<Rightarrow> archive_error" where
  "abort_error a =
     (case a of
        AbortTimeout \<Rightarrow> Other (Bail ''workspace OCI export exceeded its {:?} deadline{}{}'')
      | CopyFailed \<Rightarrow> Other (Bail ''workspace OCI source_path is unavailable{}'')
      | ExtractFailed \<Rightarrow> Other (Bail ''could not extraction workspace OCI seed{}'')
      | AbortPump e \<Rightarrow> Pump e
      | Monitor e \<Rightarrow> Other e)"

definition run_archive_pipeline :: "pipeline_view \<Rightarrow> u64 \<Rightarrow> archive_error + u64" where
  "run_archive_pipeline V max_bytes =
     (let pumped = snd (pump_archive max_bytes (pl_steps V) 0 [])
      in case lift_error
                (and_then (with_context ''could not start workspace OCI copy'' (pl_spawn_copy V))
                          (with_context ''could not start workspace OCI extraction'' (pl_spawn_extract V))) of
           Inl e \<Rightarrow> Inl e
         | Inr _ \<Rightarrow>
             (case poll_loop pumped (pl_rounds V) None None None of
                (abort, got) \<Rightarrow>
                  (case lift_error
                          (bind_result (waited ''could not wait for Docker workspace copy'' (pl_copy_wait V)) (\<lambda>copy.
                           bind_result (waited ''could not wait for workspace extraction'' (pl_extract_wait V)) (\<lambda>extraction.
                             and_then (ensure (pl_pump_joined V) ''workspace archive pump panicked'') (Inr (copy, extraction))))) of
                     Inl e \<Rightarrow> Inl e
                   | Inr (copy, extraction) \<Rightarrow>
                       (case abort of
                          Some a \<Rightarrow> Inl (abort_error a)
                        | None \<Rightarrow>
                            if \<not> copy then Inl (Other (Bail ''workspace OCI source_path is unavailable{}''))
                            else if \<not> extraction then Inl (Other (Bail ''could not extraction workspace OCI seed{}''))
                            else (case got of
                                    Some n \<Rightarrow> Inr n
                                  | None \<Rightarrow> Inl (Other (Panic ''pump result is populated before pipeline completion'')))))))"

subsection \<open>What a transfer shows\<close>

definition chunks_of :: "pump_step list \<Rightarrow> string" where
  "chunks_of steps = concat (map (\<lambda>(late, chunk, f). case chunk of Inl e \<Rightarrow> [] | Inr b \<Rightarrow> b) steps)"

text \<open>The reads fill a buffer of 64 KiB.\<close>

definition buffered :: "pump_step list \<Rightarrow> bool" where
  "buffered steps = (\<forall>(late, chunk, f) \<in> set steps. \<forall>b. chunk = Inr b \<longrightarrow> length b \<le> 64 * 1024)"

text \<open>A pump that succeeds has written a prefix of what it could read, counted exactly and below the limit.\<close>

lemma pump_archive_Inr:
  assumes "pump_archive max_bytes steps transferred out = (out', Inr n)" "buffered steps"
    "transferred \<le> max_bytes" "unat transferred = length out"
  shows "unat n = length out' \<and> n \<le> max_bytes \<and> (\<exists>rest. out @ chunks_of steps = out' @ rest)"
  using assms
proof (induction max_bytes steps transferred out rule: pump_archive.induct)
  case (1 max_bytes transferred out)
  then show ?case by simp
next
  case (2 max_bytes late chunk write_fault steps transferred out)
  from 2(2) obtain bytes where chunk: "chunk = Inr bytes" "\<not> late"
    by (auto split: if_splits sum.splits)
  show ?case
  proof (cases "bytes = []")
    case True
    with 2 chunk show ?thesis by (auto split: option.splits simp: chunks_of_def)
  next
    case False
    with 2(2) chunk obtain following where f: "checked_add transferred (of_nat (length bytes)) = Some following"
      "\<not> following > max_bytes" "write_fault = None"
      and rest: "pump_archive max_bytes steps following (out @ bytes) = (out', Inr n)"
      by (auto split: option.splits if_splits)
    have "length bytes \<le> 64 * 1024" using 2(3) chunk(1) by (auto simp: buffered_def)
    then have "unat (of_nat (length bytes) :: u64) = length bytes" by (simp add: unat_of_nat)
    with f(1) 2(5) have len: "unat following = length (out @ bytes)"
      by (auto dest!: checked_add_Some)
    have "buffered steps" using 2(3) by (auto simp: buffered_def)
    from 2(1) [OF chunk(2) chunk(1) False f(1) f(2) f(3) rest this _ len] f(2)
    have "unat n = length out' \<and> n \<le> max_bytes \<and> (\<exists>rest. (out @ bytes) @ chunks_of steps = out' @ rest)"
      by simp
    then show ?thesis using chunk(1) by (auto simp: chunks_of_def)
  qed
qed

lemma pump_limit:
  assumes "pump_archive max_bytes steps transferred out = (out', Inl (Limit l n))"
  shows "l = max_bytes \<and> (n > max_bytes \<or> n = - 1)"
  using assms
  by (induction max_bytes steps transferred out rule: pump_archive.induct)
    (auto split: if_splits sum.splits option.splits)

lemma poll_loop_finished:
  assumes "poll_loop pumped rounds copy extraction got = (None, got')" "got = None \<or> Inr (the got) = pumped"
  shows "\<exists>n. got' = Some n \<and> pumped = Inr n"
  using assms
proof (induction pumped rounds copy extraction got rule: poll_loop.induct)
  case (2 pumped r rounds copy extraction got)
  then show ?case
    by (auto simp: Let_def split: if_splits sum.splits pump_message.splits)
qed simp

lemma poll_loop_pump:
  "poll_loop pumped rounds copy extraction got = (Some (AbortPump e), got') \<Longrightarrow> pumped = Inl e"
  by (induction pumped rounds copy extraction got rule: poll_loop.induct)
    (auto simp: Let_def split: if_splits sum.splits pump_message.splits, (metis (no_types))+)

lemma lift_error_Inr [simp]: "lift_error r = Inr v \<longleftrightarrow> r = Inr v"
  by (simp add: lift_error_def split: sum.splits)

lemma lift_error_not_pump [simp]: "lift_error r \<noteq> Inl (Pump e)"
  by (simp add: lift_error_def split: sum.splits)

text \<open>A transfer that succeeds: both processes ended well and the pump reached the end of the archive.\<close>

lemma run_archive_pipeline_Inr:
  assumes "run_archive_pipeline V max_bytes = Inr n"
  shows "pl_copy_wait V = Inr True \<and> pl_extract_wait V = Inr True \<and>
    snd (pump_archive max_bytes (pl_steps V) 0 []) = Inr n"
proof -
  let ?p = "snd (pump_archive max_bytes (pl_steps V) 0 [])"
  obtain abort got where loop: "poll_loop ?p (pl_rounds V) None None None = (abort, got)" by fastforce
  from assms loop have "abort = None" "pl_copy_wait V = Inr True" "pl_extract_wait V = Inr True" "got = Some n"
    by (auto simp: run_archive_pipeline_def Let_def bind_result_Inr and_then_Inr waited_def
        split: sum.splits option.splits if_splits)
  with loop poll_loop_finished [of ?p "pl_rounds V" None None None got] show ?thesis by auto
qed

lemma run_archive_pipeline_limit:
  assumes "run_archive_pipeline V max_bytes = Inl (Pump (Limit l n))"
  shows "snd (pump_archive max_bytes (pl_steps V) 0 []) = Inl (Limit l n)"
proof -
  let ?p = "snd (pump_archive max_bytes (pl_steps V) 0 [])"
  obtain abort got where loop: "poll_loop ?p (pl_rounds V) None None None = (abort, got)" by fastforce
  from assms loop have "abort = Some (AbortPump (Limit l n))"
    by (auto simp: run_archive_pipeline_def Let_def abort_error_def
        split: sum.splits option.splits if_splits pipeline_abort.splits)
  with loop poll_loop_pump show ?thesis by blast
qed

text \<open>The error output keeps a prefix, and says whether it is all.\<close>

lemma read_bounded_stderr_prefix:
  assumes "\<forall>c \<in> set chunks. c \<noteq> []" "length (bs_bytes o') \<le> limit"
  shows "read_bounded_stderr limit (map Inr chunks) o' =
    Inr \<lparr>bs_bytes = take limit (bs_bytes o' @ concat chunks),
         bs_truncated = (bs_truncated o' \<or> length (bs_bytes o' @ concat chunks) > limit)\<rparr>"
  using assms
proof (induction chunks arbitrary: o')
  case Nil
  then show ?case by (cases o') simp
next
  case (Cons c chunks)
  let ?r = "min (limit - length (bs_bytes o')) (length c)"
  let ?o = "\<lparr>bs_bytes = bs_bytes o' @ take ?r c, bs_truncated = (bs_truncated o' \<or> ?r < length c)\<rparr>"
  have "read_bounded_stderr limit (map Inr chunks) ?o =
      Inr \<lparr>bs_bytes = take limit (bs_bytes ?o @ concat chunks),
           bs_truncated = (bs_truncated ?o \<or> length (bs_bytes ?o @ concat chunks) > limit)\<rparr>"
    by (rule Cons.IH) (use Cons.prems in auto)
  moreover have "take limit (bs_bytes ?o @ concat chunks) = take limit (bs_bytes o' @ c @ concat chunks)"
    using Cons.prems(2) by (cases "length c \<le> limit - length (bs_bytes o')") (auto simp: min_def)
  moreover have "(bs_truncated ?o \<or> length (bs_bytes ?o @ concat chunks) > limit) =
      (bs_truncated o' \<or> length (bs_bytes o' @ c @ concat chunks) > limit)"
    using Cons.prems(2) by (auto simp: min_def)
  ultimately show ?case using Cons.prems(1) by (simp add: Let_def)
qed

end
