(* ===== verification/Runtime_Profile.thy ===== *)
theory Runtime_Profile
  imports Task
begin

text \<open>
  \<open>runtime_profile.rs\<close>: the resource arguments of the containers and the DNS servers passed to
  them; and commands in general: what a process is asked to run, and the answers, which are an
  argument (\<open>docker\<close>) that may depend on everything that was run before.
\<close>

datatype event = Run "string list" | RunFor nat "string list" | Sleep nat

text \<open>The texts are as \<open>from_utf8_lossy\<close> gives them; \<open>po_stdout\<close> is the raw output.\<close>

record proc_output =
  po_success :: bool
  po_stdout :: string
  po_stderr :: string

record docker =
  dk_run :: "event list \<Rightarrow> string list \<Rightarrow> proc_output result"
  dk_timed :: "event list \<Rightarrow> string list \<Rightarrow> (proc_output \<times> bool) result"

definition run_command :: "docker \<Rightarrow> string list \<Rightarrow> event list \<Rightarrow> event list \<times> proc_output result" where
  "run_command D cmd tr = (tr @ [Run cmd], dk_run D tr cmd)"

subsection \<open>Resource arguments\<close>

definition work_docker_args :: "role_resources \<Rightarrow> string list" where
  "work_docker_args r =
     [''--pids-limit'', ''512'', ''--memory'', show_nat (unat (memory_bytes r)),
      ''--cpus'', show_nat (unat (cpu_limit r))]"

definition judge_docker_args :: "role_resources \<Rightarrow> string list" where
  "judge_docker_args r =
     [''--memory'', show_nat (unat (memory_bytes r)), ''--cpus'', show_nat (unat (cpu_limit r))]"

definition read_only_judge_tmpfs :: "string list" where
  "read_only_judge_tmpfs = []"

subsection \<open>DNS servers\<close>

text \<open>\<open>str::split_whitespace\<close>; the second argument is the current word, reversed.\<close>

function split_white :: "string \<Rightarrow> string \<Rightarrow> string list" where
  "split_white [] cur = (if cur = [] then [] else [rev cur])"
| "split_white (c # s) cur =
     (case strip_white white_seqs (c # s) of
        Some t \<Rightarrow> (if cur = [] then [] else [rev cur]) @ split_white t []
      | None \<Rightarrow> split_white s (c # cur))"
  by pat_completeness auto
termination
  by (relation "measure (length \<circ> fst)") (auto dest: strip_white_shorter)

definition split_whitespace :: "string \<Rightarrow> string list" where
  "split_whitespace s = split_white s []"

definition nameserver_of_line :: "string \<Rightarrow> string option" where
  "nameserver_of_line line =
     (case split_whitespace (trim (hd (split_char CHR ''#'' line))) of
        k # v # _ \<Rightarrow> if k = ''nameserver'' then Some v else None
      | _ \<Rightarrow> None)"

definition read_nameservers :: "os \<Rightarrow> fs \<Rightarrow> path \<Rightarrow> string list" where
  "read_nameservers env s p =
     (case read_to_string env p s of
        Inl _ \<Rightarrow> []
      | Inr text \<Rightarrow> List.map_filter nameserver_of_line (str_lines text))"

definition is_loopback :: "string \<Rightarrow> bool" where
  "is_loopback addr =
     (case strip_prefix_str addr ''127.'' of
        None \<Rightarrow> False
      | Some rest \<Rightarrow> list_all is_ascii_digit (hd (split_char CHR ''.'' rest)))"

fun dedup_from :: "string set \<Rightarrow> string list \<Rightarrow> string list" where
  "dedup_from seen [] = []"
| "dedup_from seen (x # xs) = (if x \<in> seen then dedup_from seen xs else x # dedup_from (insert x seen) xs)"

definition dedup_preserve_order :: "string list \<Rightarrow> string list" where
  "dedup_preserve_order xs = dedup_from {} xs"

definition detect_host_dns :: "os \<Rightarrow> fs \<Rightarrow> string list" where
  "detect_host_dns env s =
     (let servers = read_nameservers env s [''etc'', ''resolv.conf'']
      in dedup_preserve_order
           (if list_all is_loopback servers
            then (let upstream = read_nameservers env s [''run'', ''systemd'', ''resolve'', ''resolv.conf'']
                  in if upstream \<noteq> [] then upstream else servers)
            else servers))"

definition host_dns_args :: "os \<Rightarrow> fs \<Rightarrow> string list" where
  "host_dns_args env s = concat (map (\<lambda>server. [''--dns'', server]) (detect_host_dns env s))"

lemma dedup_from_set: "set (dedup_from seen xs) = set xs - seen"
  by (induction seen xs rule: dedup_from.induct) auto

lemma dedup_from_distinct: "distinct (dedup_from seen xs)"
  by (induction seen xs rule: dedup_from.induct) (auto simp: dedup_from_set)

lemma dedup_subseq: "subseq (dedup_from seen xs) xs"
  by (induction seen xs rule: dedup_from.induct) auto

text \<open>Deduplication keeps the servers and their order.\<close>

lemma dedup_preserve_order_spec:
  "set (dedup_preserve_order xs) = set xs" "distinct (dedup_preserve_order xs)"
  "subseq (dedup_preserve_order xs) xs"
  by (simp_all add: dedup_preserve_order_def dedup_from_set dedup_from_distinct dedup_subseq)

end
