(* ===== verification/Runtime.thy ===== *)
theory Runtime
  imports Runtime_Profile Result_Record Asset
begin

text \<open>
  \<open>runtime.rs\<close>: images (pull with retries, resolution to an immutable reference), the volumes of
  workspace imports, the container of a candidate and of a Judge, the check of a Judge's result, and
  the preflight of a provider. Every command is an \<open>event\<close> appended to a trace, and its answer is
  an argument.
\<close>

subsection \<open>Images\<close>

definition image_pull_attempts :: nat where "image_pull_attempts = 3"
definition image_pull_base_delay :: nat where "image_pull_base_delay = 5000"

record pull_attempt =
  pa_succeeded :: bool
  pa_stderr :: string

definition docker_pull_command :: "string \<Rightarrow> string option \<Rightarrow> string list" where
  "docker_pull_command reference platform =
     [''docker'', ''pull''] @ (case platform of None \<Rightarrow> [] | Some p \<Rightarrow> [''--platform'', p]) @ [reference]"

text \<open>\<open>retry_image_pull\<close>: \<open>left\<close> attempts are left, the next is number \<open>attempt\<close>; delays are in
  milliseconds. \<open>2u32.pow\<close> overflows from the 33rd attempt on.\<close>

fun pull_loop ::
  "(event list \<Rightarrow> event list \<times> pull_attempt result) \<Rightarrow> nat \<Rightarrow> nat \<Rightarrow> nat \<Rightarrow> event list \<Rightarrow> event list \<times> unit result"
  where
  "pull_loop pull base attempt 0 tr =
     (tr, Inl (Bail ''could not pull Docker image {reference:?} after {max_attempts} attempts: {last_error}''))"
| "pull_loop pull base attempt (Suc left) tr =
     (case pull tr of
        (tr, Inl e) \<Rightarrow> (tr, Inl e)
      | (tr, Inr outcome) \<Rightarrow>
          if pa_succeeded outcome then (tr, Inr ())
          else if left = 0 then pull_loop pull base (attempt + 1) left tr
          else if 2 ^ (attempt - 1) < (2 :: nat) ^ 32
          then pull_loop pull base (attempt + 1) left (tr @ [Sleep (base * 2 ^ (attempt - 1))])
          else (tr, Inl (Panic ''attempt to multiply with overflow'')))"

definition retry_image_pull ::
  "(event list \<Rightarrow> event list \<times> pull_attempt result) \<Rightarrow> nat \<Rightarrow> nat \<Rightarrow> event list \<Rightarrow> event list \<times> unit result" where
  "retry_image_pull pull max_attempts base tr =
     (if max_attempts > 0 then pull_loop pull base 1 max_attempts tr
      else (tr, Inl (Bail ''Docker pull attempts must be positive'')))"

definition pull_once :: "docker \<Rightarrow> string \<Rightarrow> string option \<Rightarrow> event list \<Rightarrow> event list \<times> pull_attempt result" where
  "pull_once D reference platform tr =
     (case run_command D (docker_pull_command reference platform) tr of
        (tr, r) \<Rightarrow>
          (tr, map_result (\<lambda>out. \<lparr>pa_succeeded = po_success out, pa_stderr = trim (po_stderr out)\<rparr>)
                 (with_context ''could not start Docker image pull'' r)))"

definition pull_image_with_retry :: "docker \<Rightarrow> string \<Rightarrow> string option \<Rightarrow> event list \<Rightarrow> event list \<times> unit result" where
  "pull_image_with_retry D reference platform tr =
     retry_image_pull (pull_once D reference platform) image_pull_attempts image_pull_base_delay tr"

definition canonical_platform :: "string \<Rightarrow> string result" where
  "canonical_platform v =
     (case split_char CHR ''/'' v of
        [os_name, arch] \<Rightarrow>
          and_then (ensure (os_name \<noteq> [] \<and> arch \<noteq> []) ''platform must use os/architecture'')
            (Inr (os_name @ ''/'' @
              (if arch = ''x86_64'' then ''amd64'' else if arch = ''aarch64'' then ''arm64'' else arch)))
      | _ \<Rightarrow> Inl (Bail ''platform must use os/architecture''))"

definition utf8_text :: "string \<Rightarrow> string result" where
  "utf8_text b = (if valid_utf8 b then Inr b else Inl (External ''Utf8Error''))"

definition local_image_matches ::
  "docker \<Rightarrow> string \<Rightarrow> string option \<Rightarrow> event list \<Rightarrow> event list \<times> bool result" where
  "local_image_matches D reference requested tr =
     (case run_command D [''docker'', ''image'', ''inspect'', ''--format'', ''{{.Os}}/{{.Architecture}}'', reference] tr of
        (tr, r) \<Rightarrow>
          (tr,
           bind_result (with_context ''could not inspect Docker image'' r) (\<lambda>out.
             if \<not> po_success out then Inr False
             else (case requested of
                     None \<Rightarrow> Inr True
                   | Some p \<Rightarrow>
                       bind_result (canonical_platform p) (\<lambda>wanted.
                       bind_result (utf8_text (po_stdout out)) (\<lambda>actual. Inr (trim actual = wanted)))))))"

definition command_preflight_output :: "docker \<Rightarrow> string list \<Rightarrow> event list \<Rightarrow> event list \<times> string result" where
  "command_preflight_output D cmd tr =
     (case run_command D cmd tr of
        (tr, r) \<Rightarrow>
          (tr, bind_result r (\<lambda>out.
             and_then (ensure (po_success out) ''{} failed: {}'')
               (map_result trim (utf8_text (po_stdout out))))))"

record resolved_image =
  ri_source :: string
  ri_immutable_ref :: string
  ri_image_id :: string

definition inspect_image :: "docker \<Rightarrow> string \<Rightarrow> event list \<Rightarrow> event list \<times> resolved_image result" where
  "inspect_image D reference tr =
     (case command_preflight_output D
             [''docker'', ''image'', ''inspect'', ''--format'', ''{{.Id}}'', reference] tr of
        (tr, Inl e) \<Rightarrow> (tr, Inl e)
      | (tr, Inr image_id) \<Rightarrow>
          if \<not> starts_with image_id ''sha256:'' then (tr, Inl (Bail ''Docker returned invalid image ID''))
          else (case command_preflight_output D
                       [''docker'', ''image'', ''inspect'', ''--format'',
                        ''{{if .RepoDigests}}{{index .RepoDigests 0}}{{end}}'', reference] tr of
                  (tr, Inl e) \<Rightarrow> (tr, Inl e)
                | (tr, Inr repo_digest) \<Rightarrow>
                    (tr, Inr \<lparr>ri_source = reference,
                              ri_immutable_ref = (if repo_digest = [] then image_id else repo_digest),
                              ri_image_id = image_id\<rparr>)))"

definition resolve_image ::
  "docker \<Rightarrow> string \<Rightarrow> string option \<Rightarrow> event list \<Rightarrow> event list \<times> resolved_image result" where
  "resolve_image D reference platform tr =
     (case local_image_matches D reference platform tr of
        (tr, Inl e) \<Rightarrow> (tr, Inl e)
      | (tr, Inr here) \<Rightarrow>
          (case (if here then (tr, Inr ()) else pull_image_with_retry D reference platform tr) of
             (tr, Inl e) \<Rightarrow> (tr, Inl e)
           | (tr, Inr _) \<Rightarrow>
               (case local_image_matches D reference platform tr of
                  (tr, Inl e) \<Rightarrow> (tr, Inl e)
                | (tr, Inr False) \<Rightarrow>
                    (tr, Inl (Bail ''Docker image {reference:?} does not match requested platform {}''))
                | (tr, Inr True) \<Rightarrow> inspect_image D reference tr)))"

subsection \<open>Workspace imports\<close>

definition staging_root :: string where "staging_root = ''/run/a3s-workspace-import''"
definition staging_timeout_sec :: nat where "staging_timeout_sec = 600"

record prepared_import =
  pi_name :: string
  pi_target_path :: string
  pi_volume :: string

definition resolve_import_target :: "string \<Rightarrow> string \<Rightarrow> string" where
  "resolve_import_target workspace target =
     (if starts_with target ''/'' then target else trim_end_char CHR ''/'' workspace @ ''/'' @ target)"

definition mount_specs :: "prepared_import list \<Rightarrow> string \<Rightarrow> string list" where
  "mount_specs imps workspace =
     map (\<lambda>i. ''type=volume,src='' @ pi_volume i @ '',dst='' @
              resolve_import_target workspace (pi_target_path i) @ '',volume-nocopy'') imps"

definition add_mounts :: "prepared_import list \<Rightarrow> string \<Rightarrow> string list" where
  "add_mounts imps workspace = concat (map (\<lambda>spec. [''--mount'', spec]) (mount_specs imps workspace))"

definition import_environment :: "prepared_import list \<Rightarrow> string \<Rightarrow> (string \<times> string) list" where
  "import_environment imps workspace =
     map (\<lambda>i. (''MAVEN_OPTS'', ''-Dmaven.repo.local='' @ resolve_import_target workspace (pi_target_path i)))
       (filter (\<lambda>i. pi_name i = ''maven_repository'') imps)"

definition add_environment :: "prepared_import list \<Rightarrow> string \<Rightarrow> string list" where
  "add_environment imps workspace =
     concat (map (\<lambda>(k, v). [''--env'', k @ ''='' @ v]) (import_environment imps workspace))"

text \<open>\<open>Drop\<close>: the volumes are removed, the last first; failures are ignored.\<close>

definition remove_volume :: "string \<Rightarrow> event" where
  "remove_volume v = Run [''docker'', ''volume'', ''rm'', ''-f'', v]"

definition drop_imports :: "prepared_import list \<Rightarrow> event list \<Rightarrow> event list" where
  "drop_imports imps tr = tr @ map (\<lambda>i. remove_volume (pi_volume i)) (rev imps)"

definition quoted :: "string \<Rightarrow> string" where
  "quoted s = [CHR 0x22] @ s @ [CHR 0x22]"

definition staging_script :: string where
  "staging_script =
     ''set -eu; source_path=$1; [ -d '' @ quoted ''$source_path'' @ '' ]; [ -z '' @
     quoted (''$(find '' @ quoted ''$source_path'' @
             '' -mindepth 1 ! -type d ! -type f -print -quit)'') @ '' ]; cp -a '' @ quoted ''$source_path'' @
     ''/. '' @ staging_root @ ''/; chmod -R a+rwX '' @ staging_root"

definition volume_name :: "nat \<Rightarrow> u128 \<Rightarrow> u64 \<Rightarrow> string" where
  "volume_name process created_at sequence =
     ''a3s-bench-workspace-import-'' @ show_nat process @ ''-'' @ show_nat (unat created_at) @ ''-'' @
     show_nat (unat sequence)"

definition stage_command :: "task_info \<Rightarrow> string \<Rightarrow> string \<Rightarrow> string list" where
  "stage_command t volume source_path =
     [''docker'', ''run'', ''--rm'', ''--pull'', ''never'', ''--name'', volume @ ''-stage'', ''--network'', ''none'',
      ''--pids-limit'', ''128'', ''--memory'', ''1g'', ''--cpus'', ''1'', ''--user'', ''0:0'']
     @ (case t_work_platform t of None \<Rightarrow> [] | Some p \<Rightarrow> [''--platform'', p])
     @ [''--mount'', ''type=volume,src='' @ volume @ '',dst='' @ staging_root @ '',volume-nocopy'',
        ''--entrypoint'', ''/bin/sh'', t_work_image t, ''-c'', staging_script, ''--'', source_path]"

definition create_volume :: "string \<Rightarrow> string list" where
  "create_volume v = [''docker'', ''volume'', ''create'', v]"

text \<open>The host: its process ID, and its clock at a point of the trace.\<close>

record host =
  h_pid :: nat
  h_clock :: "event list \<Rightarrow> u128 result"

definition stage_import ::
  "docker \<Rightarrow> task_info \<Rightarrow> string \<Rightarrow> string \<Rightarrow> event list \<Rightarrow> event list \<times> unit result" where
  "stage_import D t volume source_path tr =
     (let cmd = stage_command t volume source_path
      in case with_context ''could not stage Candidate workspace import'' (dk_timed D tr cmd) of
           Inl e \<Rightarrow> (tr @ [RunFor staging_timeout_sec cmd], Inl e)
         | Inr (out, timed_out) \<Rightarrow>
             if timed_out
             then (tr @ [RunFor staging_timeout_sec cmd, Run [''docker'', ''rm'', ''-f'', volume @ ''-stage'']],
                   Inl (Bail ''Candidate workspace import {:?} staging timed out''))
             else (tr @ [RunFor staging_timeout_sec cmd],
                   ensure (po_success out) ''could not import {:?} from locked Work image: {}''))"

fun prepare_loop ::
  "docker \<Rightarrow> host \<Rightarrow> task_info \<Rightarrow> workspace_import list \<Rightarrow> prepared_import list \<Rightarrow> u64 \<times> event list \<Rightarrow>
     (u64 \<times> event list) \<times> prepared_import list result" where
  "prepare_loop D H t [] finished st = (st, Inr finished)"
| "prepare_loop D H t (i # rest) finished (sequence, tr) =
     (case h_clock H tr of
        Inl e \<Rightarrow> ((sequence + 1, drop_imports finished tr), Inl (Context ''system clock is before the Unix epoch'' e))
      | Inr created_at \<Rightarrow>
          (let volume = volume_name (h_pid H) created_at sequence;
               imp = \<lparr>pi_name = wi_name i, pi_target_path = wi_target_path i, pi_volume = volume\<rparr>
           in case run_command D (create_volume volume) tr of
                (tr, r) \<Rightarrow>
                  (case bind_result (with_context ''could not create Candidate workspace import volume'' r)
                          (\<lambda>out. ensure (po_success out) ''could not create Candidate workspace import volume: {}'') of
                     Inl e \<Rightarrow> ((sequence + 1, drop_imports finished tr), Inl e)
                   | Inr _ \<Rightarrow>
                       (case stage_import D t volume (wi_source_path i) tr of
                          (tr, Inl e) \<Rightarrow> ((sequence + 1, drop_imports (finished @ [imp]) tr), Inl e)
                        | (tr, Inr _) \<Rightarrow> prepare_loop D H t rest (finished @ [imp]) (sequence + 1, tr)))))"

definition prepare_workspace_imports ::
  "docker \<Rightarrow> host \<Rightarrow> task_info \<Rightarrow> u64 \<times> event list \<Rightarrow> (u64 \<times> event list) \<times> prepared_import list result" where
  "prepare_workspace_imports D H t st = prepare_loop D H t (t_imports t) [] st"

subsection \<open>The candidate's container\<close>

datatype process_outcome = Completed | TimedOut

text \<open>The owner of a directory, for \<open>--user\<close>.\<close>

definition tree_owner_args :: "(string \<Rightarrow> (nat \<times> nat) result) \<Rightarrow> string \<Rightarrow> string list result" where
  "tree_owner_args owner p =
     map_result (\<lambda>(uid, gid). [''--user'', show_nat uid @ '':'' @ show_nat gid]) (owner p)"

definition entrypoint_file :: "string \<Rightarrow> string" where
  "entrypoint_file entry = hd (split_char CHR '':'' entry)"

definition candidate_container :: "nat \<Rightarrow> u64 \<Rightarrow> string" where
  "candidate_container process sequence =
     ''a3s-bench-candidate-'' @ show_nat process @ ''-'' @ show_nat (unat sequence)"

definition candidate_command ::
  "string list \<Rightarrow> task_info \<Rightarrow> string \<Rightarrow> string list \<Rightarrow> string \<Rightarrow> string \<Rightarrow> string \<Rightarrow> prepared_import list \<Rightarrow> string list"
  where
  "candidate_command dns t container user agent_root entry workspace imps =
     [''docker'', ''run'', ''--rm'', ''--name'', container]
     @ work_docker_args (tr_work (t_resources t))
     @ [''--network'', if t_network_need t = ''public_internet'' then ''bridge'' else ''none'']
     @ (if t_network_need t = ''public_internet'' then dns else [])
     @ (case t_work_platform t of None \<Rightarrow> [] | Some p \<Rightarrow> [''--platform'', p])
     @ user @ add_environment imps ''/workspace''
     @ [''--mount'', ''type=bind,src='' @ workspace @ '',dst=/workspace'']
     @ add_mounts imps ''/workspace''
     @ [''--mount'', ''type=bind,src='' @ agent_root @ '',dst=/agent,readonly'', t_work_image t,
        ''/bin/sh'', ''/agent/'' @ entrypoint_file entry, ''/workspace'']"

definition execute_docker_candidate ::
  "docker \<Rightarrow> host \<Rightarrow> (string \<Rightarrow> (nat \<times> nat) result) \<Rightarrow> string list \<Rightarrow> task_info \<Rightarrow> string \<Rightarrow> string \<Rightarrow> string \<Rightarrow>
     prepared_import list \<Rightarrow> u64 \<times> event list \<Rightarrow> (u64 \<times> event list) \<times> process_outcome result" where
  "execute_docker_candidate D H owner dns t agent_root entry workspace imps st =
     (let (sequence, tr) = st; container = candidate_container (h_pid H) sequence
      in case tree_owner_args owner agent_root of
           Inl e \<Rightarrow> ((sequence + 1, tr), Inl e)
         | Inr user \<Rightarrow>
             (let cmd = candidate_command dns t container user agent_root entry workspace imps;
                  tr' = tr @ [RunFor (unat (t_candidate_timeout_sec t)) cmd]
              in case with_context ''could not start Docker Candidate'' (dk_timed D tr cmd) of
                   Inl e \<Rightarrow> ((sequence + 1, tr'), Inl e)
                 | Inr (out, timed_out) \<Rightarrow>
                     if timed_out
                     then ((sequence + 1, tr' @ [Run [''docker'', ''rm'', ''-f'', container]]), Inr TimedOut)
                     else ((sequence + 1, tr'),
                           and_then (ensure (po_success out) ''Candidate exited with {}: {}'') (Inr Completed))))"

subsection \<open>The Judge\<close>

definition check_metric :: "judge_result \<Rightarrow> metric_info \<Rightarrow> unit result" where
  "check_metric r m =
     bind_result
       (ok_or (Option.bind (map_of (jr_metrics r) (mi_name m)) as_str)
          ''Judge metric {:?} must be a decimal string'') (\<lambda>v.
     and_then (ensure (canonical_decimal v) ''Judge metric {:?} is not canonical'')
    (bind_result (ok_or (parse64 v) ''invalid Judge metric number'') (\<lambda>number.
       ensure (is_finite64 number \<and> le64 (mi_min m) number \<and> le64 number (mi_max m))
         ''Judge metric {:?} is outside [{}, {}]'')))"

definition validate_judge_result :: "task_info \<Rightarrow> judge_result \<Rightarrow> unit result" where
  "validate_judge_result t r =
     and_then (ensure (solution_verdict r = ''valid'') ''Judge solution_verdict must be valid'')
    (and_then (ensure (length (jr_metrics r) = length (t_metrics t)) ''Judge metric set does not match Task'')
       (each (check_metric r) (t_metrics t)))"

definition python_name_char :: "char \<Rightarrow> bool" where
  "python_name_char c = (is_ascii_alphanumeric c \<or> c = CHR ''_'')"

definition judge_entrypoint :: "string \<Rightarrow> (string \<times> string) result" where
  "judge_entrypoint entry =
     bind_result (ok_or (split_once entry '':'') ''Judge entrypoint must use file.py:function form'') (\<lambda>(file, function).
     and_then
       (checks
          [(ends_with file ''.py'' \<and> \<not> starts_with file ''/'' \<and> \<not> contains_str file ''..'',
            ''Judge entrypoint file is invalid''),
           (function \<noteq> [] \<and> list_all python_name_char function, ''Judge entrypoint function is invalid'')])
       (Inr (file, function)))"

definition single_quoted :: "string \<Rightarrow> string" where
  "single_quoted s = [CHR 0x27] @ s @ [CHR 0x27]"

definition judge_script :: "library \<Rightarrow> string \<Rightarrow> string \<Rightarrow> string" where
  "judge_script L file function =
     ''import importlib.util,json'' @ [CHR 0x0A] @
     ''spec=importlib.util.spec_from_file_location('' @ single_quoted ''judge'' @ '','' @
     json_compact L (JStr (''/judge/'' @ file)) @ '')'' @ [CHR 0x0A] @
     ''mod=importlib.util.module_from_spec(spec);spec.loader.exec_module(mod)'' @ [CHR 0x0A] @
     ''print(json.dumps(getattr(mod,'' @ json_compact L (JStr function) @ '')({'' @
     single_quoted ''submission_root'' @ '':'' @ single_quoted ''/submission'' @ '','' @
     single_quoted ''hidden_bundle_root'' @ '':'' @ single_quoted ''/hidden'' @ ''}),separators=('' @
     single_quoted '','' @ '','' @ single_quoted '':'' @ '')))''"

definition judge_command ::
  "task_info \<Rightarrow> string list \<Rightarrow> string \<Rightarrow> string \<Rightarrow> string \<Rightarrow> string \<Rightarrow> string list" where
  "judge_command t user submission hidden judge_root script =
     [''docker'', ''run'', ''--rm'', ''--network'', ''none'']
     @ judge_docker_args (tr_judge (t_resources t)) @ read_only_judge_tmpfs @ user
     @ [''--mount'', ''type=bind,src='' @ submission @ '',dst=/submission,readonly'',
        ''--mount'', ''type=bind,src='' @ hidden @ '',dst=/hidden,readonly'',
        ''--mount'', ''type=bind,src='' @ judge_root @ '',dst=/judge,readonly'',
        ''python:3.12-alpine'', ''python'', ''-c'', script]"

definition accept_judge_output :: "library \<Rightarrow> task_info \<Rightarrow> proc_output \<Rightarrow> judge_result result" where
  "accept_judge_output L t out =
     and_then (ensure (po_success out) ''Judge failed: {}'')
    (bind_result
       (with_context ''Judge returned invalid JSON''
          (case Option.bind (json_parse L (po_stdout out)) judge_result_of_json of
             None \<Rightarrow> Inl (External ''serde_json'') | Some r \<Rightarrow> Inr r)) (\<lambda>r.
     and_then (ensure (jr_schema r = ''bench.judge.result.v1'') ''Judge returned unsupported schema {}'')
    (and_then (validate_judge_result t r) (Inr r))))"

definition execute_docker_judge ::
  "library \<Rightarrow> docker \<Rightarrow> (string \<Rightarrow> (nat \<times> nat) result) \<Rightarrow> string result \<Rightarrow> task_info \<Rightarrow> string \<Rightarrow> string \<Rightarrow> string \<Rightarrow>
     event list \<Rightarrow> event list \<times> judge_result result" where
  "execute_docker_judge L D owner hidden_root t judge_root entry submission tr =
     (case bind_result hidden_root (\<lambda>hidden.
           bind_result (judge_entrypoint entry) (\<lambda>(file, function).
             map_result (\<lambda>user. judge_command t user submission hidden judge_root (judge_script L file function))
               (tree_owner_args owner judge_root))) of
        Inl e \<Rightarrow> (tr, Inl e)
      | Inr cmd \<Rightarrow>
          (case run_command D cmd tr of
             (tr, r) \<Rightarrow>
               (tr, bind_result (with_context ''could not start Docker Judge'' r) (accept_judge_output L t))))"

subsection \<open>Preflight\<close>

record runtime_status =
  rt_provider :: string
  rt_ready :: bool
  rt_detail :: string

definition command_preflight ::
  "docker \<Rightarrow> (string \<Rightarrow> string) \<Rightarrow> string list \<Rightarrow> string \<Rightarrow> event list \<Rightarrow> event list \<times> runtime_status result" where
  "command_preflight D lossy cmd provider tr =
     (case run_command D cmd tr of
        (tr, r) \<Rightarrow>
          (tr, bind_result (with_context ''Runtime provider {provider:?} is unavailable: could not run {command}'' r) (\<lambda>out.
             and_then (ensure (po_success out) ''Runtime provider {provider:?} failed preflight{}'')
               (Inr \<lparr>rt_provider = provider, rt_ready = True, rt_detail = trim (lossy (po_stdout out))\<rparr>))))"

definition docker_preflight ::
  "docker \<Rightarrow> (string \<Rightarrow> string) \<Rightarrow> event list \<Rightarrow> event list \<times> runtime_status result" where
  "docker_preflight D lossy tr =
     command_preflight D lossy [''docker'', ''version'', ''--format'', ''{{.Server.Version}}''] ''docker'' tr"

definition preflight ::
  "docker \<Rightarrow> (string \<Rightarrow> string) \<Rightarrow> runtime_status result \<Rightarrow> string \<Rightarrow> event list \<Rightarrow> event list \<times> runtime_status result" where
  "preflight D lossy os_preflight provider tr =
     (if provider = ''docker'' then docker_preflight D lossy tr
      else if provider = ''a3s-box'' then command_preflight D lossy [''a3s-box'', ''--version''] ''a3s-box'' tr
      else if provider = ''os-runtime'' then (tr, os_preflight)
      else (tr, Inl (Bail ''configured Runtime provider {provider:?} is not installed; provider selection never falls back to Docker'')))"

subsection \<open>Volumes\<close>

text \<open>The volumes created and not removed after a trace, read from its end.\<close>

definition created_volume :: "event \<Rightarrow> string option" where
  "created_volume e =
     (case e of Run [a, b, c, v] \<Rightarrow> if [a, b, c] = [''docker'', ''volume'', ''create''] then Some v else None
      | _ \<Rightarrow> None)"

definition removed_volume :: "event \<Rightarrow> string option" where
  "removed_volume e =
     (case e of Run [a, b, c, d, v] \<Rightarrow> if [a, b, c, d] = [''docker'', ''volume'', ''rm'', ''-f''] then Some v else None
      | _ \<Rightarrow> None)"

definition succeeds :: "docker \<Rightarrow> event list \<Rightarrow> string list \<Rightarrow> bool" where
  "succeeds D tr cmd = (case dk_run D tr cmd of Inl _ \<Rightarrow> False | Inr out \<Rightarrow> po_success out)"

fun unremoved_rev :: "docker \<Rightarrow> event list \<Rightarrow> string set" where
  "unremoved_rev D [] = {}"
| "unremoved_rev D (e # past) =
     unremoved_rev D past
     \<union> {v \<in> set_option (created_volume e). succeeds D (rev past) (create_volume v)}
     - set_option (removed_volume e)"

definition unremoved :: "docker \<Rightarrow> event list \<Rightarrow> string set" where
  "unremoved D tr = unremoved_rev D (rev tr)"

definition volumes_of :: "prepared_import list \<Rightarrow> string set" where
  "volumes_of imps = pi_volume ` set imps"

lemma unremoved_snoc:
  "unremoved D (tr @ [e]) =
     unremoved D tr \<union> {v \<in> set_option (created_volume e). succeeds D tr (create_volume v)}
     - set_option (removed_volume e)"
  by (simp add: unremoved_def)

lemma volume_events [simp]:
  "created_volume (RunFor n cmd) = None" "removed_volume (RunFor n cmd) = None"
  "created_volume (Run (create_volume v)) = Some v" "removed_volume (Run (create_volume v)) = None"
  "created_volume (remove_volume v) = None" "removed_volume (remove_volume v) = Some v"
  "created_volume (Run [''docker'', ''rm'', ''-f'', c]) = None" "removed_volume (Run [''docker'', ''rm'', ''-f'', c]) = None"
  by (simp_all add: created_volume_def removed_volume_def create_volume_def remove_volume_def)

lemma unremoved_drop: "unremoved D (drop_imports imps tr) = unremoved D tr - volumes_of imps"
proof -
  have "unremoved D (tr @ map (\<lambda>i. remove_volume (pi_volume i)) xs) = unremoved D tr - volumes_of xs" for xs
  proof (induction xs rule: rev_induct)
    case (snoc x xs)
    then show ?case
      by (simp add: append_assoc [symmetric] unremoved_snoc volumes_of_def del: append_assoc) auto
  qed (simp add: volumes_of_def)
  then show ?thesis by (simp add: drop_imports_def volumes_of_def)
qed

lemma unremoved_stage:
  "stage_import D t volume source_path tr = (tr', r) \<Longrightarrow> unremoved D tr' = unremoved D tr"
  by (auto simp: stage_import_def Let_def unremoved_def split: sum.splits if_splits prod.splits)

lemma prepare_loop_volumes:
  "prepare_loop D H t wis fin (n, tr) = ((n', tr'), r) \<Longrightarrow>
     (case r of
        Inl _ \<Rightarrow> unremoved D tr' \<subseteq> unremoved D tr - volumes_of fin
      | Inr ps \<Rightarrow> unremoved D tr' \<subseteq> unremoved D tr \<union> volumes_of ps \<and>
          volumes_of fin \<subseteq> volumes_of ps \<and> length ps = length fin + length wis)"
proof (induction wis arbitrary: fin n tr)
  case Nil
  then show ?case by auto
next
  case (Cons i wis)
  show ?case
  proof (cases "h_clock H tr")
    case (Inl e)
    with Cons.prems show ?thesis by (auto simp: unremoved_drop)
  next
    case (Inr now)
    define volume where "volume = volume_name (h_pid H) now n"
    define imp where "imp = \<lparr>pi_name = wi_name i, pi_target_path = wi_target_path i, pi_volume = volume\<rparr>"
    let ?tr1 = "tr @ [Run (create_volume volume)]"
    have c: "unremoved D ?tr1 = unremoved D tr \<union> {v \<in> {volume}. succeeds D tr (create_volume v)}"
      by (simp add: unremoved_snoc)
    show ?thesis
    proof (cases "bind_result (with_context ''could not create Candidate workspace import volume'' (dk_run D tr (create_volume volume)))
        (\<lambda>out. ensure (po_success out) ''could not create Candidate workspace import volume: {}'')")
      case (Inl e)
      then have "\<not> succeeds D tr (create_volume volume)"
        by (auto simp: succeeds_def bind_result_def with_context_def ensure_def split: sum.splits if_splits)
      with c have "unremoved D ?tr1 = unremoved D tr" by auto
      with Cons.prems Inl \<open>h_clock H tr = Inr now\<close> show ?thesis
        by (auto simp: unremoved_drop run_command_def Let_def volume_def)
    next
      case (Inr u)
      obtain tr2 r2 where st: "stage_import D t volume (wi_source_path i) ?tr1 = (tr2, r2)"
        by (cases "stage_import D t volume (wi_source_path i) ?tr1")
      have sub: "unremoved D tr2 \<subseteq> insert volume (unremoved D tr)"
        using unremoved_stage [OF st] c by auto
      have vol: "volumes_of (fin @ [imp]) = insert volume (volumes_of fin)"
        by (simp add: volumes_of_def imp_def)
      show ?thesis
      proof (cases r2)
        case (Inl e)
        with Cons.prems \<open>h_clock H tr = Inr now\<close> Inr st have "tr' = drop_imports (fin @ [imp]) tr2 \<and> r = Inl e"
          by (auto simp: run_command_def Let_def volume_def imp_def)
        with sub vol show ?thesis by (auto simp: unremoved_drop)
      next
        case (Inr x)
        with Cons.prems \<open>h_clock H tr = Inr now\<close> \<open>bind_result _ _ = Inr u\<close> st
        have "prepare_loop D H t wis (fin @ [imp]) (n + 1, tr2) = ((n', tr'), r)"
          by (auto simp: run_command_def Let_def volume_def imp_def)
        from Cons.IH [OF this] sub vol show ?thesis by (auto split: sum.splits)
      qed
    qed
  qed
qed

subsection \<open>Accepted results\<close>

definition metric_in_range :: "judge_result \<Rightarrow> metric_info \<Rightarrow> bool" where
  "metric_in_range r m =
     (\<exists>v x. map_of (jr_metrics r) (mi_name m) = Some (JStr v) \<and> canonical_decimal v \<and> parse64 v = Some x \<and>
        is_finite64 x \<and> le64 (mi_min m) x \<and> le64 x (mi_max m))"

lemma check_metric_Inr: "check_metric r m = Inr () \<Longrightarrow> metric_in_range r m"
  by (auto simp: check_metric_def metric_in_range_def bind_result_Inr and_then_Inr ensure_Inr ok_or_Inr
      bind_eq_Some_conv as_str_Some)

lemma dec_map_keys_distinct:
  assumes "dec_map v = Some kvs"
  shows "distinct (map fst kvs)"
proof -
  from assms obtain l where "kvs = map_of_members (to_members l)"
    by (cases v) (auto simp: dec_map_def)
  then show ?thesis by (simp add: sorted_keys_distinct [OF map_of_members_sorted])
qed

lemma judge_keys_distinct:
  assumes "judge_result_of_json v = Some r"
  shows "distinct (map fst (jr_metrics r))"
proof -
  from assms obtain mv where "dec_map mv = Some (jr_metrics r)"
    by (auto simp: judge_result_of_json_def bind_eq_Some_conv field_req_def)
  then show ?thesis by (rule dec_map_keys_distinct)
qed

text \<open>The metric names are the Task's: as many, all there, and no name twice.\<close>

lemma validated_metrics:
  assumes "validate_judge_result t r = Inr ()" "distinct (map fst (jr_metrics r))"
  shows "solution_verdict r = ''valid'' \<and> length (jr_metrics r) = length (t_metrics t) \<and>
    list_all (metric_in_range r) (t_metrics t) \<and>
    (distinct (map mi_name (t_metrics t)) \<longrightarrow> fst ` set (jr_metrics r) = mi_name ` set (t_metrics t))"
proof -
  from assms(1) have r: "solution_verdict r = ''valid''" "length (jr_metrics r) = length (t_metrics t)"
    "\<forall>m \<in> set (t_metrics t). metric_in_range r m"
    by (auto simp: validate_judge_result_def and_then_Inr ensure_Inr each_Inr dest: check_metric_Inr)
  have "fst ` set (jr_metrics r) = mi_name ` set (t_metrics t)" if d: "distinct (map mi_name (t_metrics t))"
  proof (rule sym, rule card_subset_eq)
    show "mi_name ` set (t_metrics t) \<subseteq> fst ` set (jr_metrics r)"
      using r(3) by (force simp: metric_in_range_def dest: map_of_SomeD)
    show "card (mi_name ` set (t_metrics t)) = card (fst ` set (jr_metrics r))"
      using distinct_card [OF d] distinct_card [OF assms(2)] r(2) by simp
  qed simp
  with r show ?thesis by (auto simp: list_all_iff)
qed

text \<open>With two metrics of one name in the Task, a metric the Task does not know is accepted.\<close>

lemma duplicate_metric_names:
  assumes "t_metrics t = [m, m]" "mi_name m = ''score''" "mi_min m = zero64 False" "mi_max m = zero64 False"
  shows "validate_judge_result t
      \<lparr>jr_schema = ''bench.judge.result.v1'', solution_verdict = ''valid'',
       jr_metrics = [(''extra'', JStr ''unchecked''), (''score'', JStr ''0'')], diagnostics = JNull\<rparr> = Inr ()"
proof -
  have "parse64 ''0'' = Some (zero64 False)" by (simp only: parse64_literals round64_literals)
  with assms show ?thesis
    by (simp add: validate_judge_result_def check_metric_def canonical_decimal_def is_finite64_def fin_le_def)
qed

text \<open>A try that succeeds or cannot be started ends the pull, another failure leads to the next try.\<close>

definition pull_stops :: "docker \<Rightarrow> string list \<Rightarrow> event list \<Rightarrow> bool" where
  "pull_stops D c tr = (succeeds D tr c \<or> isl (dk_run D tr c))"

lemma pull_loop_stops:
  assumes "pull_stops D (docker_pull_command reference platform) tr"
  shows "\<exists>r. pull_loop (pull_once D reference platform) base attempt (Suc n) tr =
      (tr @ [Run (docker_pull_command reference platform)], r) \<and>
      (r = Inr ()) = succeeds D tr (docker_pull_command reference platform)"
  using assms
  by (cases "dk_run D tr (docker_pull_command reference platform)")
    (auto simp: pull_stops_def pull_once_def run_command_def succeeds_def with_context_def)

lemma pull_loop_goes:
  assumes "\<not> pull_stops D (docker_pull_command reference platform) tr" "attempt < 33"
  shows "pull_loop (pull_once D reference platform) base attempt (Suc n) tr =
      pull_loop (pull_once D reference platform) base (attempt + 1) n
        (tr @ Run (docker_pull_command reference platform) #
          (if n = 0 then [] else [Sleep (base * 2 ^ (attempt - 1))]))"
proof -
  have "(2 :: nat) ^ (attempt - 1) < 2 ^ 32"
    using assms(2) by (intro power_strict_increasing) auto
  with assms(1) show ?thesis
    by (cases "dk_run D tr (docker_pull_command reference platform)")
      (auto simp: pull_stops_def pull_once_def run_command_def succeeds_def with_context_def)
qed

lemma pull_loop_last:
  "\<exists>r. pull_loop (pull_once D reference platform) base 3 1 tr =
      (tr @ [Run (docker_pull_command reference platform)], r) \<and>
      (r = Inr ()) = succeeds D tr (docker_pull_command reference platform)"
proof (cases "pull_stops D (docker_pull_command reference platform) tr")
  case True
  from pull_loop_stops [OF this, of base 3 0] show ?thesis by (simp del: pull_loop.simps)
next
  case False
  from pull_loop_goes [OF this, of 3 base 0] False show ?thesis
    by (simp del: pull_loop.simps(2) add: pull_stops_def)
qed

subsection \<open>Properties\<close>


text \<open>
  C32 A pull is tried at most three times, with five and ten seconds between the tries, and stops at
  the first try that succeeds or cannot be started: it succeeds exactly if its last try did.
\<close>

theorem pull_is_bounded:
  "let c = docker_pull_command reference platform;
       (tr', r) = pull_image_with_retry D reference platform tr
   in \<exists>last. tr' = last @ [Run c] \<and> (r = Inr ()) = succeeds D last c \<and>
        ((last = tr \<and> pull_stops D c last) \<or>
         (last = tr @ [Run c, Sleep 5000] \<and> pull_stops D c last) \<or>
         last = tr @ [Run c, Sleep 5000, Run c, Sleep 10000])"
proof -
  let ?c = "docker_pull_command reference platform"
  let ?loop = "pull_loop (pull_once D reference platform) 5000"
  let ?second = "tr @ [Run ?c, Sleep 5000]" and ?third = "tr @ [Run ?c, Sleep 5000, Run ?c, Sleep 10000]"
  have start: "pull_image_with_retry D reference platform tr = ?loop 1 (Suc (Suc 1)) tr"
  proof -
    have three: "image_pull_attempts = Suc (Suc 1)" by (simp add: image_pull_attempts_def)
    show ?thesis
      unfolding pull_image_with_retry_def retry_image_pull_def image_pull_base_delay_def three
      by (simp only: zero_less_Suc if_True)
  qed
  consider (first) "pull_stops D ?c tr" | (second) "\<not> pull_stops D ?c tr" "pull_stops D ?c ?second"
    | (third) "\<not> pull_stops D ?c tr" "\<not> pull_stops D ?c ?second"
    by blast
  then obtain last r where run: "?loop 1 (Suc (Suc 1)) tr = (last @ [Run ?c], r)"
    and "(r = Inr ()) = succeeds D last ?c"
    and "(last = tr \<and> pull_stops D ?c last) \<or> (last = ?second \<and> pull_stops D ?c last) \<or> last = ?third"
  proof cases
    case first
    from pull_loop_stops [OF this, of 5000 1 "Suc 1"] that first show ?thesis by blast
  next
    case second
    have "?loop 1 (Suc (Suc 1)) tr = ?loop 2 (Suc 1) ?second"
      using pull_loop_goes [OF second(1), of 1 5000 "Suc 1"] by (simp del: pull_loop.simps add: numerals)
    with pull_loop_stops [OF second(2), of 5000 2 1] that second show ?thesis by metis
  next
    case third
    have "?loop 1 (Suc (Suc 1)) tr = ?loop 2 (Suc 1) ?second"
      using pull_loop_goes [OF third(1), of 1 5000 "Suc 1"] by (simp del: pull_loop.simps add: numerals)
    moreover have "?loop 2 (Suc 1) ?second = ?loop 3 1 ?third"
      using pull_loop_goes [OF third(2), of 2 5000 1] by (simp del: pull_loop.simps add: numerals numeral_3_eq_3)
    ultimately show ?thesis
      using pull_loop_last [of D reference platform 5000 ?third] that by metis
  qed
  then show ?thesis
    unfolding start Let_def run prod.case by (intro exI [where x = last] conjI) (rule refl | assumption)+
qed


definition demo_metric :: metric_info where
  "demo_metric = \<lparr>mi_name = ''score'', mi_min = zero64 False, mi_max = zero64 False, mi_role = ''primary''\<rparr>"

definition demo_verdict :: judge_result where
  "demo_verdict = \<lparr>jr_schema = ''bench.judge.result.v1'', solution_verdict = ''valid'',
     jr_metrics = [(''score'', JStr ''0'')], diagnostics = JNull\<rparr>"

definition demo_docker :: docker where
  "demo_docker =
     \<lparr>dk_run = (\<lambda>_ _. Inr \<lparr>po_success = True,
        po_stdout = json_compact toy_library (judge_result_json demo_verdict), po_stderr = []\<rparr>),
      dk_timed = (\<lambda>_ _. Inl (Io NotFound))\<rparr>"

definition demo_judged :: "task_info \<Rightarrow> judge_result result" where
  "demo_judged t =
     snd (execute_docker_judge toy_library demo_docker (\<lambda>_. Inr (0, 0)) (Inr ''/h'') t ''/j'' ''run.py:judge'' ''/s'' [])"

definition demo_judged_task :: task_info where
  "demo_judged_task =
     \<lparr>t_schema = task_v1, t_id = ''demo'', t_name = ''n'', t_category = ''c'', t_judge_asset = ''judge'',
      t_work_image = ''alpine'', t_work_platform = None, t_network_need = ''none'', t_allow_hosts = [],
      t_candidate_timeout_sec = 300, t_metrics = [demo_metric], t_workspace_seed = None,
      t_submission = \<lparr>sub_include = [], sub_exclude = [], max_files = 1, max_total_bytes = 1, max_file_bytes = 1\<rparr>,
      t_resources = \<lparr>tr_work = legacy_work_resources, tr_judge = legacy_judge_resources\<rparr>,
      t_imports = [], t_legacy_judge = None, t_root = []\<rparr>"

lemma demo_judged_Inr: "demo_judged demo_judged_task = Inr demo_verdict"
proof -
  have entry: "judge_entrypoint ''run.py:judge'' = Inr (''run.py'', ''judge'')" by code_simp
  have user: "tree_owner_args (\<lambda>_. Inr (0, 0)) ''/j'' = Inr [''--user'', ''0:0'']" by code_simp
  have "canonical_judge demo_verdict" by (simp add: canonical_judge_def demo_verdict_def map_of_members_def)
  then have parse: "Option.bind (json_parse toy_library (json_compact toy_library (judge_result_json demo_verdict)))
      judge_result_of_json = Some demo_verdict"
    using toy_json_library by (simp add: json_library_def judge_result_of_judge_result_json)
  have "parse64 ''0'' = Some (zero64 False)" by (simp only: parse64_literals round64_literals)
  then have "validate_judge_result demo_judged_task demo_verdict = Inr ()"
    by (simp add: validate_judge_result_def check_metric_def canonical_decimal_def is_finite64_def fin_le_def
        demo_judged_task_def demo_verdict_def demo_metric_def)
  with parse have "accept_judge_output toy_library demo_judged_task
      \<lparr>po_success = True, po_stdout = json_compact toy_library (judge_result_json demo_verdict), po_stderr = []\<rparr>
      = Inr demo_verdict"
    by (simp add: accept_judge_output_def) (simp add: demo_verdict_def)
  with entry user show ?thesis
    by (simp add: demo_judged_def execute_docker_judge_def run_command_def demo_docker_def)
qed


end
