(* ===== verification/Workspace.thy ===== *)
theory Workspace
  imports Archive Runtime
begin

text \<open>
  \<open>workspace.rs\<close>: the workspace a candidate works in, filled from the Task's own files or from a path
  of an image through a cache of extracted seeds; the export of selected files out of a container; and
  the submission, projected from the workspace and sealed. A workspace, a cache entry and a staging
  directory are trees of the store (\<open>as_trees\<close>); commands are events of the trace.
\<close>

record workspaces =
  wk_store :: artifact_state
  wk_sequence :: u64
  wk_trace :: "event list"

definition on_disk_files :: "(fs \<Rightarrow> fs \<times> 'a result) \<Rightarrow> workspaces \<Rightarrow> workspaces \<times> 'a result" where
  "on_disk_files f s =
     (case f (as_fs (wk_store s)) of (g, r) \<Rightarrow> (s\<lparr>wk_store := (wk_store s)\<lparr>as_fs := g\<rparr>\<rparr>, r))"

definition tree_at :: "workspaces \<Rightarrow> path \<Rightarrow> node option" where
  "tree_at s p = as_trees (wk_store s) p"

definition put_tree :: "path \<Rightarrow> node option \<Rightarrow> workspaces \<Rightarrow> workspaces" where
  "put_tree p x s = s\<lparr>wk_store := (wk_store s)\<lparr>as_trees := (as_trees (wk_store s))(p := x)\<rparr>\<rparr>"

definition on_root :: "path \<Rightarrow> (node option \<Rightarrow> node option \<times> 'a result) \<Rightarrow> workspaces \<Rightarrow> workspaces \<times> 'a result" where
  "on_root p f s = (case f (tree_at s p) of (x, r) \<Rightarrow> (put_tree p x s, r))"

definition on_trace :: "(event list \<Rightarrow> event list \<times> 'a result) \<Rightarrow> workspaces \<Rightarrow> workspaces \<times> 'a result" where
  "on_trace f s = (case f (wk_trace s) of (tr, r) \<Rightarrow> (s\<lparr>wk_trace := tr\<rparr>, r))"

subsection \<open>Directories\<close>

text \<open>\<open>state_root\<close>: the directory \<open>.a3s/bench\<close> below which all paths are.\<close>

definition state_root :: "os \<Rightarrow> unit result" where
  "state_root env = and_then (call env (MkDir [])) (and_then (call env (Lstat [])) (call env (Chmod [])))"

text \<open>\<open>secure_directory\<close> on the root of a tree of the store.\<close>

definition secure_present :: "os \<Rightarrow> path \<Rightarrow> node \<Rightarrow> node option \<times> unit result" where
  "secure_present env p t =
     (case t of
        Directory m es \<Rightarrow>
          (case and_then (call env (Lstat p)) (call env (Chmod p)) of
             Inl e \<Rightarrow> (Some t, Inl e)
           | Inr _ \<Rightarrow> (Some (Directory mode_700 es), Inr ()))
      | Symlink _ \<Rightarrow>
          (Some t, Inl (if link_to_dir env p then Bail ''Bench state directory must not be a symlink: {}''
                        else Io AlreadyExists))
      | _ \<Rightarrow> (Some t, Inl (Io AlreadyExists)))"

definition secure_tree_root :: "os \<Rightarrow> path \<Rightarrow> node option \<Rightarrow> node option \<times> unit result" where
  "secure_tree_root env p x =
     (case x of
        Some t \<Rightarrow> secure_present env p t
      | None \<Rightarrow>
          (case call env (MkDir p) of
             Inl e \<Rightarrow> (None, Inl e)
           | Inr _ \<Rightarrow> secure_present env p (Directory (default_dir_mode env) [])))"

text \<open>\<open>std::fs::remove_dir_all\<close>: a symbolic link is removed, not followed.\<close>

fun remove_all_entry :: "os \<Rightarrow> path \<Rightarrow> node \<Rightarrow> node option \<times> unit result"
  and remove_all_entries :: "os \<Rightarrow> path \<Rightarrow> entries \<Rightarrow> entries \<times> unit result" where
  "remove_all_entry env p (Directory m es) =
     (case call env (ReadDir p) of
        Inl e \<Rightarrow> (Some (Directory m es), Inl e)
      | Inr _ \<Rightarrow>
          (case remove_all_entries env p es of
             (es', Inl e) \<Rightarrow> (Some (Directory m es'), Inl e)
           | (es', Inr _) \<Rightarrow>
               (case call env (RemoveDir p) of
                  Inl e \<Rightarrow> (Some (Directory m es'), Inl e)
                | Inr _ \<Rightarrow> (None, Inr ()))))"
| "remove_all_entry env p t =
     (case call env (RemoveFile p) of Inl e \<Rightarrow> (Some t, Inl e) | Inr _ \<Rightarrow> (None, Inr ()))"
| "remove_all_entries env p [] = ([], Inr ())"
| "remove_all_entries env p ((n, t) # es) =
     (case call env (EntryAt (p @ [n])) of
        Inl e \<Rightarrow> ((n, t) # es, Inl e)
      | Inr _ \<Rightarrow>
          (case remove_all_entry env (p @ [n]) t of
             (left, Inl e) \<Rightarrow> ((case left of None \<Rightarrow> es | Some t' \<Rightarrow> (n, t') # es), Inl e)
           | (left, Inr _) \<Rightarrow>
               (case remove_all_entries env p es of (es', r) \<Rightarrow>
                  ((case left of None \<Rightarrow> es' | Some t' \<Rightarrow> (n, t') # es'), r))))"

definition remove_directory_all :: "os \<Rightarrow> path \<Rightarrow> node \<Rightarrow> node option \<times> unit result" where
  "remove_directory_all env p t =
     (case t of
        RegFile m l b \<Rightarrow> (Some t, Inl not_a_directory)
      | SpecialFile \<Rightarrow> (Some t, Inl not_a_directory)
      | _ \<Rightarrow> remove_all_entry env p t)"

text \<open>\<open>path.exists()\<close> is false when the metadata cannot be read.\<close>

definition replace_directory :: "os \<Rightarrow> path \<Rightarrow> node option \<Rightarrow> node option \<times> unit result" where
  "replace_directory env p x =
     (case x of
        None \<Rightarrow> (None, Inr ())
      | Some t \<Rightarrow> if fault env (Metadata p) = None then remove_directory_all env p t else (Some t, Inr ()))"

definition unique_run_directory :: "os \<Rightarrow> path \<Rightarrow> string \<Rightarrow> u64 \<Rightarrow> path" where
  "unique_run_directory env base task_id sequence =
     base @ [task_id @ ''-'' @ show_nat (pid env) @ ''-'' @ show_nat (unat sequence)]"

definition run_directory :: "os \<Rightarrow> string \<Rightarrow> string \<Rightarrow> workspaces \<Rightarrow> workspaces \<times> path result" where
  "run_directory env kind task_id s =
     seq (on_disk_files (secure_directory env [kind]) s) (\<lambda>_ s.
       (s\<lparr>wk_sequence := wk_sequence s + 1\<rparr>,
        Inr (unique_run_directory env [kind] task_id (wk_sequence s))))"

subsection \<open>Copying the Task's workspace\<close>

fun copy_entry :: "os \<Rightarrow> path \<Rightarrow> path \<Rightarrow> node \<Rightarrow> node option \<times> unit result"
  and copy_entries :: "os \<Rightarrow> path \<Rightarrow> path \<Rightarrow> entries \<Rightarrow> entries \<times> unit result" where
  "copy_entry env source target (Directory m es) =
     (case secure_tree_root env target None of
        (x, Inl e) \<Rightarrow> (x, Inl e)
      | (x, Inr _) \<Rightarrow>
          (case call env (ReadDir source) of
             Inl e \<Rightarrow> (x, Inl e)
           | Inr _ \<Rightarrow>
               (case copy_entries env source target es of (es', r) \<Rightarrow> (Some (Directory mode_700 es'), r))))"
| "copy_entry env source target (RegFile m l b) =
     (case call env (CopyFile target) of
        Inl e \<Rightarrow> (None, Inl e)
      | Inr _ \<Rightarrow> (case set_owner_only_file env target False (m, 1, b) of (t, r) \<Rightarrow> (Some t, r)))"
| "copy_entry env source target (Symlink x) = (None, Inl (Bail ''workspace symlinks are not supported''))"
| "copy_entry env source target SpecialFile = (None, Inl (Bail ''workspace contains a special file''))"
| "copy_entries env source target [] = ([], Inr ())"
| "copy_entries env source target ((n, t) # es) =
     (case call env (EntryAt (source @ [n])) of
        Inl e \<Rightarrow> ([], Inl e)
      | Inr _ \<Rightarrow>
          (case copy_entry env (source @ [n]) (target @ [n]) t of
             (x, Inl e) \<Rightarrow> ((case x of None \<Rightarrow> [] | Some t' \<Rightarrow> [(n, t')]), Inl e)
           | (x, Inr _) \<Rightarrow>
               (case copy_entries env source target es of (es', r) \<Rightarrow>
                  ((case x of None \<Rightarrow> es' | Some t' \<Rightarrow> (n, t') # es'), r))))"

text \<open>The destination has been removed before. (When the removal was skipped, because the metadata of the
  destination could not be read, the last step of \<open>create_workspace\<close> fails for the same reason.)\<close>

definition copy_tree :: "os \<Rightarrow> path \<Rightarrow> path \<Rightarrow> entries \<Rightarrow> node option \<Rightarrow> node option \<times> unit result" where
  "copy_tree env source target es x =
     (case secure_tree_root env target x of
        (x, Inl e) \<Rightarrow> (x, Inl e)
      | (x, Inr _) \<Rightarrow>
          (case call env (ReadDir source) of
             Inl e \<Rightarrow> (x, Inl e)
           | Inr _ \<Rightarrow>
               (case copy_entries env source target es of
                  (es', r) \<Rightarrow> (Some (Directory mode_700 es'), r))))"

subsection \<open>Owner-only trees\<close>

text \<open>The text of a link must be relative and what it resolves to, by the operating system, must be
  below the root of the tree.\<close>

definition validate_seed_symlink :: "os \<Rightarrow> (path \<Rightarrow> path result) \<Rightarrow> path \<Rightarrow> path \<Rightarrow> string \<Rightarrow> unit result" where
  "validate_seed_symlink env resolved base link target =
     and_then (with_context ''could not read workspace OCI seed symlink {}'' (call env (ReadFile link)))
    (and_then (ensure (\<not> starts_with target ''/'') ''workspace OCI seed contains an absolute symlink: {}'')
    (bind_result (with_context ''workspace OCI seed contains an unresolvable symlink: {}'' (resolved link)) (\<lambda>r.
       ensure (take (length base) r = base) ''workspace OCI seed symlink escapes the workspace: {}'')))"

fun owner_entry :: "os \<Rightarrow> (path \<Rightarrow> path result) \<Rightarrow> path \<Rightarrow> path \<Rightarrow> node \<Rightarrow> node \<times> unit result"
  and owner_entries :: "os \<Rightarrow> (path \<Rightarrow> path result) \<Rightarrow> path \<Rightarrow> path \<Rightarrow> entries \<Rightarrow> entries \<times> unit result" where
  "owner_entry env resolved base p (Directory m es) =
     (case call env (ReadDir p) of
        Inl e \<Rightarrow> (Directory m es, Inl e)
      | Inr _ \<Rightarrow>
          (case owner_entries env resolved base p es of
             (es', Inl e) \<Rightarrow> (Directory m es', Inl e)
           | (es', Inr _) \<Rightarrow>
               (case and_then (call env (Lstat p)) (call env (Chmod p)) of
                  Inl e \<Rightarrow> (Directory m es', Inl e)
                | Inr _ \<Rightarrow> (Directory mode_700 es', Inr ()))))"
| "owner_entry env resolved base p (RegFile m l b) = set_owner_only_file env p False (m, l, b)"
| "owner_entry env resolved base p (Symlink x) = (Symlink x, validate_seed_symlink env resolved base p x)"
| "owner_entry env resolved base p SpecialFile =
     (SpecialFile, Inl (Bail ''workspace OCI seed contains a special file''))"
| "owner_entries env resolved base p [] = ([], Inr ())"
| "owner_entries env resolved base p ((n, t) # es) =
     (case call env (EntryAt (p @ [n])) of
        Inl e \<Rightarrow> ((n, t) # es, Inl e)
      | Inr _ \<Rightarrow>
          (case owner_entry env resolved base (p @ [n]) t of
             (t', Inl e) \<Rightarrow> ((n, t') # es, Inl e)
           | (t', Inr _) \<Rightarrow>
               (case owner_entries env resolved base p es of (es', r) \<Rightarrow> ((n, t') # es', r))))"

definition set_tree_owner_only ::
  "os \<Rightarrow> (path \<Rightarrow> path result) \<Rightarrow> path \<Rightarrow> node \<Rightarrow> node \<times> unit result" where
  "set_tree_owner_only env resolved p t =
     (case call env (Metadata p) of
        Inl e \<Rightarrow> (t, Inl e)
      | Inr _ \<Rightarrow> if is_dir t then owner_entry env resolved p p t else (t, Inl not_a_directory))"

subsection \<open>The cache of seeds\<close>

text \<open>What is seen while a seed is materialised: the transfer, what \<open>tar\<close> leaves in the directory, how
  links resolve, what another process has put at the cache path before the rename, and the directory
  that a failing \<open>cp\<close> leaves.\<close>

record seed_view =
  xv_pipeline :: pipeline_view
  xv_extracted :: entries
  xv_resolved :: "path \<Rightarrow> path result"
  xv_rival :: "node option"
  xv_partial :: entries

definition seed_cache_key :: "library \<Rightarrow> string \<Rightarrow> workspace_seed \<Rightarrow> string" where
  "seed_cache_key L image_id seed =
     sha256_hex L (image_id @ [CHR 0x00] @ ws_source_path seed @ [CHR 0x00] @
                   (case ws_platform seed of None \<Rightarrow> [] | Some p \<Rightarrow> p))"

definition seed_cache_marker :: "string \<Rightarrow> workspace_seed \<Rightarrow> string" where
  "seed_cache_marker image_id seed =
     image_id @ [CHR 0x0A] @ ws_source_path seed @ [CHR 0x0A] @
     (case ws_platform seed of None \<Rightarrow> [] | Some p \<Rightarrow> p) @ [CHR 0x0A]"

definition seed_cache_path :: "string \<Rightarrow> path result" where
  "seed_cache_path key =
     and_then (ensure (length key = 64 \<and> list_all is_ascii_hexdigit key) ''invalid workspace seed cache key'')
       (Inr [''workspace-seeds'', key])"

definition is_real_directory :: "os \<Rightarrow> path \<Rightarrow> node option \<Rightarrow> bool result" where
  "is_real_directory env p x =
     (case fault env (Lstat p) of
        Some NotFound \<Rightarrow> Inr False
      | Some e \<Rightarrow> Inl (Io e)
      | None \<Rightarrow>
          (case x of
             None \<Rightarrow> Inr False
           | Some t \<Rightarrow>
               and_then (ensure (is_dir t) ''workspace seed cache path is not a real directory: {}'') (Inr True)))"

text \<open>\<open>read_optional_regular_file\<close> inside a tree.\<close>

definition read_optional_at :: "os \<Rightarrow> path \<Rightarrow> node option \<Rightarrow> string option result" where
  "read_optional_at env p x =
     (case fault env (Lstat p) of
        Some NotFound \<Rightarrow> Inr None
      | Some _ \<Rightarrow> Inl (Bail ''{kind} is unavailable at {}: {error}'')
      | None \<Rightarrow>
          (case x of
             None \<Rightarrow> Inr None
           | Some (RegFile m l b) \<Rightarrow>
               (case fault env (ReadFile p) of Some e \<Rightarrow> Inl (Io e) | None \<Rightarrow> Inr (Some b))
           | Some _ \<Rightarrow> Inl (Bail ''{kind} must be a real regular file'')))"

definition part :: "node option \<Rightarrow> string \<Rightarrow> node option" where
  "part x name = Option.bind x (\<lambda>t. node_at t [name])"

text \<open>Whether the cache is complete for the image, the path and the platform.\<close>

definition valid_seed_cache :: "os \<Rightarrow> path \<Rightarrow> node option \<Rightarrow> string \<Rightarrow> workspace_seed \<Rightarrow> bool result" where
  "valid_seed_cache env p x image_id seed =
     bind_result (is_real_directory env (p @ [''tree'']) (part x ''tree'')) (\<lambda>present.
       if \<not> present then Inr False
       else bind_result (read_optional_at env (p @ [''.complete'']) (part x ''.complete'')) (\<lambda>bytes.
              Inr (bytes = Some (seed_cache_marker image_id seed))))"

definition clone_command :: "path \<Rightarrow> path \<Rightarrow> string list" where
  "clone_command source target = [''cp'', ''-a'', path_text source @ ''/.'', path_text target @ ''/'']"

text \<open>\<open>cp -a\<close>: when it reports success the destination has the entries and the mode of the source.\<close>

definition clone_tree ::
  "docker \<Rightarrow> os \<Rightarrow> entries \<Rightarrow> path \<Rightarrow> node option \<Rightarrow> path \<Rightarrow> workspaces \<Rightarrow> workspaces \<times> unit result" where
  "clone_tree D env partial source x target s =
     seq (on_root target (secure_tree_root env target) s) (\<lambda>_ s.
     seq (on_trace (run_command D (clone_command source target)) s) (\<lambda>out s.
     seq (on_root target (\<lambda>_. secure_present env target
            (case (po_success out, x) of
               (True, Some (Directory m es)) \<Rightarrow> Directory m es
             | _ \<Rightarrow> Directory mode_700 partial)) s) (\<lambda>_ s.
     still (ensure (po_success out) ''cp -a failed: {}'') s)))"

definition docker_image_id :: "docker \<Rightarrow> string \<Rightarrow> event list \<Rightarrow> event list \<times> string result" where
  "docker_image_id D reference tr =
     (case run_command D [''docker'', ''image'', ''inspect'', ''--format'', ''{{.Id}}'', reference] tr of
        (tr, r) \<Rightarrow>
          (tr, bind_result r (\<lambda>out.
             and_then (ensure (po_success out) ''could not inspect workspace OCI image {reference:?}'')
            (bind_result (map_result trim (utf8_text (po_stdout out))) (\<lambda>image_id.
               and_then (ensure (starts_with image_id ''sha256:'') ''Docker returned an invalid workspace image ID'')
                 (Inr image_id))))))"

definition seed_container_command :: "workspace_seed \<Rightarrow> string list" where
  "seed_container_command seed =
     [''docker'', ''create''] @ (case ws_platform seed of None \<Rightarrow> [] | Some p \<Rightarrow> [''--platform'', p]) @
     [ws_image seed, ''/bin/true'']"

definition create_seed_container :: "docker \<Rightarrow> workspace_seed \<Rightarrow> event list \<Rightarrow> event list \<times> string result" where
  "create_seed_container D seed tr =
     (case run_command D (seed_container_command seed) tr of
        (tr, r) \<Rightarrow>
          (tr, bind_result r (\<lambda>out.
             and_then (ensure (po_success out) ''could not create workspace seed container: {}'')
               (map_result trim (utf8_text (po_stdout out))))))"

definition archive_result :: "archive_error + 'a \<Rightarrow> 'a result" where
  "archive_result r =
     (case r of
        Inl (Pump e) \<Rightarrow> Inl (External ''ArchivePumpError'')
      | Inl (Other e) \<Rightarrow> Inl e
      | Inr v \<Rightarrow> Inr v)"

text \<open>The two processes of the transfer run at once; their commands stand in the trace one after the
  other.\<close>

definition extract_seed_tree ::
  "seed_view \<Rightarrow> string \<Rightarrow> string \<Rightarrow> path \<Rightarrow> event list \<Rightarrow> event list \<times> unit result" where
  "extract_seed_tree V container source_path target tr =
     (tr @ [Run (docker_copy_command container source_path), Run (tar_extract_command (path_text target))],
      map_result (\<lambda>_. ()) (archive_result (run_archive_pipeline (xv_pipeline V) export_max_bytes)))"

text \<open>\<open>populate_seed_staging\<close> on the staging directory; the marker is written atomically, and a failed
  write leaves the directory without it.\<close>

definition seed_tree :: "node option \<Rightarrow> node" where
  "seed_tree x = (case x of Some t \<Rightarrow> t | None \<Rightarrow> Directory mode_700 [])"

definition populate_seed_staging ::
  "docker \<Rightarrow> os \<Rightarrow> seed_view \<Rightarrow> workspace_seed \<Rightarrow> string \<Rightarrow> path \<Rightarrow> workspaces \<Rightarrow> workspaces \<times> unit result" where
  "populate_seed_staging D env V seed image_id staging s =
     (let tree = staging @ [''tree'']; put = (\<lambda>es s. put_tree staging (Some (Directory mode_700 es)) s) in
      case secure_tree_root env tree None of
        (x, Inl e) \<Rightarrow> (put (case x of None \<Rightarrow> [] | Some t \<Rightarrow> [(''tree'', t)]) s, Inl e)
      | (x, Inr _) \<Rightarrow>
          seq (on_trace (create_seed_container D seed) (put [(''tree'', Directory mode_700 [])] s)) (\<lambda>container s.
            (case on_trace (extract_seed_tree V container (ws_source_path seed) tree) s of
               (s, copied) \<Rightarrow>
                 (case on_trace (run_command D [''docker'', ''rm'', ''-f'', container])
                         (put [(''tree'', Directory mode_700 (xv_extracted V))] s) of
                    (s, _) \<Rightarrow>
                      seq (still copied s) (\<lambda>_ s.
                        (case set_tree_owner_only env (xv_resolved V) tree (Directory mode_700 (xv_extracted V)) of
                           (t, Inl e) \<Rightarrow> (put [(''tree'', t)] s, Inl e)
                         | (t, Inr _) \<Rightarrow>
                             (case and_then (call env (OpenNew (staging @ [''.complete''])))
                                    (and_then (call env (WriteAll (staging @ [''.complete''])))
                                    (and_then (call env (SyncFile (staging @ [''.complete''])))
                                    (call env (RenameTo (staging @ [''.complete'']))))) of
                                Inl e \<Rightarrow> (put [(''tree'', t)] s, Inl e)
                              | Inr _ \<Rightarrow>
                                  (put [(''tree'', t), (''.complete'', RegFile mode_600 1 (seed_cache_marker image_id seed))] s,
                                   call env (SyncDir staging)))))))))"

definition remove_staging :: "os \<Rightarrow> path \<Rightarrow> workspaces \<Rightarrow> workspaces" where
  "remove_staging env staging s = put_tree staging (fst (remove_tree env staging (tree_at s staging))) s"

text \<open>The rename of the staging directory onto the cache path, and what follows when it fails.\<close>

definition publish_seed ::
  "os \<Rightarrow> seed_view \<Rightarrow> workspace_seed \<Rightarrow> string \<Rightarrow> path \<Rightarrow> path \<Rightarrow> workspaces \<Rightarrow> workspaces \<times> unit result" where
  "publish_seed env V seed image_id staging cache s =
     (let present = (case xv_rival V of None \<Rightarrow> tree_at s cache | Some t \<Rightarrow> Some t); s = put_tree cache present s
      in if fault env (RenameTo cache) = None \<and> \<not> rename_blocked present
         then (put_tree staging None (put_tree cache (tree_at s staging) s), Inr ())
         else (case valid_seed_cache env cache present image_id seed of
                 Inl e \<Rightarrow> (s, Inl e)
               | Inr True \<Rightarrow> (remove_staging env staging s, Inr ())
               | Inr False \<Rightarrow>
                   (remove_staging env staging s, Inl (Bail ''could not publish workspace seed cache: {error}''))))"

definition fill_seed_cache ::
  "docker \<Rightarrow> os \<Rightarrow> seed_view \<Rightarrow> workspace_seed \<Rightarrow> string \<Rightarrow> path \<Rightarrow> workspaces \<Rightarrow> workspaces \<times> unit result" where
  "fill_seed_cache D env V seed image_id cache s =
     seq (still (is_real_directory env cache (tree_at s cache)) s) (\<lambda>present s.
     seq (if present then on_root cache (\<lambda>x. case x of None \<Rightarrow> (None, Inr ()) | Some t \<Rightarrow> remove_directory_all env cache t) s
          else (s, Inr ())) (\<lambda>_ s.
     seq (on_disk_files (create_unique_staging_directory env [''workspace-seeds''] ''seed-image'') s) (\<lambda>staging s.
       (case populate_seed_staging D env V seed image_id staging s of
          (s, Inl e) \<Rightarrow> (remove_staging env staging s, Inl e)
        | (s, Inr _) \<Rightarrow> publish_seed env V seed image_id staging cache s))))"

text \<open>\<open>docker image inspect\<close> and, if the image is not there, the pull.\<close>

definition ensure_seed_image :: "docker \<Rightarrow> workspace_seed \<Rightarrow> event list \<Rightarrow> event list \<times> unit result" where
  "ensure_seed_image D seed tr =
     (case run_command D [''docker'', ''image'', ''inspect'', ws_image seed] tr of
        (tr, Inl e) \<Rightarrow> (tr, Inl e)
      | (tr, Inr out) \<Rightarrow>
          if po_success out then (tr, Inr ())
          else (case pull_image_with_retry D (ws_image seed) (ws_platform seed) tr of
                  (tr, r) \<Rightarrow> (tr, with_context ''could not pull workspace OCI image'' r)))"

definition materialize_seed ::
  "library \<Rightarrow> docker \<Rightarrow> os \<Rightarrow> seed_view \<Rightarrow> workspace_seed \<Rightarrow> path \<Rightarrow> workspaces \<Rightarrow> workspaces \<times> unit result" where
  "materialize_seed L D env V seed target s =
     seq (on_trace (ensure_seed_image D seed) s) (\<lambda>_ s.
     seq (on_trace (docker_image_id D (ws_image seed)) s) (\<lambda>image_id s.
     seq (still (seed_cache_path (seed_cache_key L image_id seed)) s) (\<lambda>cache s.
     seq (still (valid_seed_cache env cache (tree_at s cache) image_id seed) s) (\<lambda>valid s.
     seq (if valid then (s, Inr ()) else fill_seed_cache D env V seed image_id cache s) (\<lambda>_ s.
       clone_tree D env (xv_partial V) (cache @ [''tree'']) (part (tree_at s cache) ''tree'') target s)))))"

subsection \<open>Workspaces and submissions\<close>

text \<open>The directory \<open>public/workspace\<close> of a Task as \<open>is_dir\<close> and \<open>read_dir\<close> find it, through links.\<close>

definition create_workspace ::
  "library \<Rightarrow> docker \<Rightarrow> os \<Rightarrow> (path \<Rightarrow> node option) \<Rightarrow> seed_view \<Rightarrow> task_info \<Rightarrow> workspaces \<Rightarrow>
     workspaces \<times> path result" where
  "create_workspace L D env outside V t s =
     seq (still (state_root env) s) (\<lambda>_ s.
     seq (run_directory env ''workspaces'' (t_id t) s) (\<lambda>target s.
     seq (on_root target (replace_directory env target) s) (\<lambda>_ s.
     seq (let source = t_root t @ [''public'', ''workspace''] in
          case (outside source, t_workspace_seed t) of
            (Some (Directory m es), _) \<Rightarrow> on_root target (copy_tree env source target es) s
          | (_, Some seed) \<Rightarrow> materialize_seed L D env V seed target s
          | (_, None) \<Rightarrow> (s, Inl (Bail ''Task has neither public/workspace nor workspace OCI seed''))) (\<lambda>_ s.
     still (and_then (call env (Metadata target)) (Inr target)) s))))"

definition create_empty :: "os \<Rightarrow> task_info \<Rightarrow> workspaces \<Rightarrow> workspaces \<times> path result" where
  "create_empty env t s =
     seq (still (state_root env) s) (\<lambda>_ s.
     seq (run_directory env ''workspaces'' (t_id t) s) (\<lambda>target s.
     seq (on_root target (replace_directory env target) s) (\<lambda>_ s.
     seq (on_root target (secure_tree_root env target) s) (\<lambda>_ s.
     still (and_then (call env (Metadata target)) (Inr target)) s))))"

text \<open>The projection makes the destination once it knows the files; the candidate has stopped, so the
  workspace does not change meanwhile.\<close>

definition project_into ::
  "globs \<Rightarrow> os \<Rightarrow> path \<Rightarrow> node \<Rightarrow> path \<Rightarrow> submission_policy \<Rightarrow> node option \<Rightarrow> node option \<times> unit result" where
  "project_into G env base source target pol x =
     (case project G env base source (node_at source) target pol
             (case x of Some t \<Rightarrow> t | None \<Rightarrow> Directory (default_dir_mode env) []) of
        (t, r) \<Rightarrow>
          (if x = None \<and>
              (isl (bind_result (compile_matcher G pol) (collect_terminal_files G env base source pol)) \<or>
               fault env (MkDir target) \<noteq> None)
           then None else Some t, r))"

definition create_submission ::
  "globs \<Rightarrow> os \<Rightarrow> task_info \<Rightarrow> path \<Rightarrow> workspaces \<Rightarrow> workspaces \<times> path result" where
  "create_submission G env t workspace s =
     seq (still (state_root env) s) (\<lambda>_ s.
     seq (run_directory env ''submissions'' (t_id t) s) (\<lambda>target s.
     seq (on_root target (replace_directory env target) s) (\<lambda>_ s.
     seq (case tree_at s workspace of
            None \<Rightarrow> (s, Inl (Io NotFound))
          | Some source \<Rightarrow> on_root target (project_into G env workspace source target (t_submission t)) s) (\<lambda>_ s.
     seq (on_root target (\<lambda>x. case x of
            None \<Rightarrow> (None, Inl (Io NotFound))
          | Some u \<Rightarrow> (case seal_role_input_tree env target u of (u', r) \<Rightarrow> (Some u', r))) s) (\<lambda>_ s.
     still (and_then (call env (Metadata target)) (Inr target)) s)))))"

subsection \<open>Files out of a container\<close>

definition file_tar_overhead :: u64 where "file_tar_overhead = 1024 * 1024"

text \<open>What is seen during an export: whether the deadline has passed when a file's turn comes, the
  transfer of a container path with a limit, what \<open>tar\<close> leaves in the probe directory then, and how
  links resolve.\<close>

record export_view =
  ev_late :: "string \<Rightarrow> bool"
  ev_pipeline :: "string \<Rightarrow> u64 \<Rightarrow> pipeline_view"
  ev_probe :: "string \<Rightarrow> u64 \<Rightarrow> entries"
  ev_resolved :: "path \<Rightarrow> path result"

record export_state =
  es_remaining :: u64
  es_limits :: terminal_limits
  es_probe :: "node option"
  es_tree :: node
  es_trace :: "event list"

text \<open>\<open>only_regular_file\<close>: the one regular file below a directory.\<close>

type_synonym found_file = "(path \<times> mode \<times> nat \<times> string) option"

fun probe_entry :: "os \<Rightarrow> path \<Rightarrow> path \<Rightarrow> node \<Rightarrow> found_file \<Rightarrow> found_file result"
  and probe_entries :: "os \<Rightarrow> path \<Rightarrow> path \<Rightarrow> entries \<Rightarrow> found_file \<Rightarrow> found_file result" where
  "probe_entry env base rel (Directory m es) found =
     and_then (call env (ReadDir (base @ rel))) (probe_entries env base rel es found)"
| "probe_entry env base rel (RegFile m l b) found =
     and_then (ensure (found = None) ''Docker copied more than one terminal workspace file'')
       (Inr (Some (rel, m, l, b)))"
| "probe_entry env base rel (Symlink x) found = Inl (Bail ''Docker copied a non-regular terminal workspace entry'')"
| "probe_entry env base rel SpecialFile found = Inl (Bail ''Docker copied a non-regular terminal workspace entry'')"
| "probe_entries env base rel [] found = Inr found"
| "probe_entries env base rel ((n, t) # es) found =
     and_then (call env (EntryAt (base @ rel @ [n])))
       (bind_result (probe_entry env base (rel @ [n]) t found) (\<lambda>found.
          probe_entries env base rel es found))"

definition only_regular_file :: "os \<Rightarrow> path \<Rightarrow> entries \<Rightarrow> (path \<times> mode \<times> nat \<times> string) result" where
  "only_regular_file env base es =
     and_then (call env (ReadDir base))
       (bind_result (probe_entries env base [] es None) (\<lambda>found.
          ok_or found ''Docker copied no terminal workspace file''))"

text \<open>A renamed file is gone from where it was.\<close>

fun without_file :: "path \<Rightarrow> node \<Rightarrow> node" where
  "without_file [n] (Directory m es) = Directory m (filter (\<lambda>x. fst x \<noteq> n) es)"
| "without_file (n # p) (Directory m es) =
     Directory m (map (\<lambda>(k, t). if k = n then (k, without_file p t) else (k, t)) es)"
| "without_file p t = t"

definition reset_probe :: "os \<Rightarrow> path \<Rightarrow> export_state \<Rightarrow> export_state \<times> unit result" where
  "reset_probe env probe st =
     (case replace_directory env probe (es_probe st) of
        (x, Inl e) \<Rightarrow> (st\<lparr>es_probe := x\<rparr>, Inl (Context ''could not reset workspace export probe'' e))
      | (x, Inr _) \<Rightarrow>
          (case secure_tree_root env probe x of
             (x, r) \<Rightarrow> (st\<lparr>es_probe := x\<rparr>, with_context ''could not secure workspace export probe'' r)))"

text \<open>A file that was transferred: it is kept if the limits allow it.\<close>

definition keep_file ::
  "os \<Rightarrow> path \<Rightarrow> path \<Rightarrow> path \<Rightarrow> export_state \<Rightarrow> export_state \<times> unit result" where
  "keep_file env probe staging relative st =
     (case with_context ''could not validate workspace export probe''
             (only_regular_file env probe (case es_probe st of Some (Directory m es) \<Rightarrow> es | _ \<Rightarrow> [])) of
        Inl e \<Rightarrow> (st, Inl e)
      | Inr (rel, m, l, b) \<Rightarrow>
          (case with_context ''could not inspect exported terminal file'' (call env (Metadata (probe @ rel))) of
             Inl e \<Rightarrow> (st, Inl e)
           | Inr _ \<Rightarrow>
               (case select (of_nat (length b)) (es_limits st) of
                  (limits, False) \<Rightarrow> (st\<lparr>es_limits := limits\<rparr>, Inr ())
                | (limits, True) \<Rightarrow>
                    (let st = st\<lparr>es_limits := limits\<rparr>; target = staging @ relative
                     in case with_context ''could not secure exported terminal file parent''
                               (and_then (call env (MkDir (butlast target))) (call env (Chmod (butlast target)))) of
                          Inl e \<Rightarrow> (st, Inl e)
                        | Inr _ \<Rightarrow>
                            (let tree = secure_dir_in (default_dir_mode env) (butlast relative) (es_tree st)
                             in case with_context ''could not retain exported submission file {}'' (call env (RenameTo target)) of
                                  Inl e \<Rightarrow> (st\<lparr>es_tree := tree\<rparr>, Inl e)
                                | Inr _ \<Rightarrow>
                                    (st\<lparr>es_tree := put_file (default_dir_mode env) relative (RegFile m l b) tree,
                                        es_probe := map_option (without_file rel) (es_probe st)\<rparr>,
                                     Inr ()))))))"

definition container_path :: "string \<Rightarrow> string \<Rightarrow> string" where
  "container_path source_path name = trim_end_char CHR ''/'' source_path @ ''/'' @ name"

definition over_transfer_limit :: error where
  "over_transfer_limit = Bail ''workspace archive exceeded its fixed cumulative transfer limit''"

definition policy_cap :: "submission_policy \<Rightarrow> u64" where
  "policy_cap pol = saturating_add (max_file_bytes pol) file_tar_overhead"

text \<open>A file that passes the limit of one file is left out; one that passes what is left of the whole
  export ends it.\<close>

definition after_transfer ::
  "os \<Rightarrow> submission_policy \<Rightarrow> path \<Rightarrow> path \<Rightarrow> path \<Rightarrow> u64 \<Rightarrow> archive_error + u64 \<Rightarrow> export_state \<Rightarrow>
     export_state \<times> unit result" where
  "after_transfer env pol probe staging relative copy_cap r st =
     (case r of
        Inr transferred \<Rightarrow>
          (case checked_sub (es_remaining st) transferred of
             None \<Rightarrow> (st, Inl (Bail ''workspace archive transfer accounting underflowed''))
           | Some left \<Rightarrow> keep_file env probe staging relative (st\<lparr>es_remaining := left\<rparr>))
      | Inl (Pump (Limit l consumed)) \<Rightarrow>
          (if copy_cap = policy_cap pol
           then (case checked_sub (es_remaining st) consumed of
                   None \<Rightarrow> (st, Inl over_transfer_limit)
                 | Some left \<Rightarrow> (st\<lparr>es_remaining := left\<rparr>, Inr ()))
           else (st, archive_result (Inl (Pump (Limit l consumed)))))
      | Inl e \<Rightarrow> (st, archive_result (Inl e)))"

definition export_file ::
  "os \<Rightarrow> export_view \<Rightarrow> submission_policy \<Rightarrow> string \<Rightarrow> string \<Rightarrow> path \<Rightarrow> path \<Rightarrow> string \<times> path \<Rightarrow> export_state \<Rightarrow>
     export_state \<times> unit result" where
  "export_file env V pol container source_path probe staging x st =
     (let (normalized, relative) = x in
      seq (still (ensure (\<not> ev_late V normalized) ''workspace OCI export exceeded its fixed deadline'') st) (\<lambda>_ st.
      seq (reset_probe env probe st) (\<lambda>_ st.
        let source = container_path source_path normalized;
            copy_cap = min (es_remaining st) (policy_cap pol)
        in if es_remaining st = 0 then (st, Inl over_transfer_limit)
           else
             let st = st\<lparr>es_trace := es_trace st @
                       [Run (docker_copy_file_command container source), Run (tar_extract_command (path_text probe))],
                     es_probe := Some (Directory mode_700 (ev_probe V source copy_cap))\<rparr>
             in after_transfer env pol probe staging relative copy_cap
                  (run_archive_pipeline (ev_pipeline V source copy_cap) copy_cap) st)))"

fun export_each ::
  "os \<Rightarrow> export_view \<Rightarrow> submission_policy \<Rightarrow> string \<Rightarrow> string \<Rightarrow> path \<Rightarrow> path \<Rightarrow> (string \<times> path) list \<Rightarrow> export_state \<Rightarrow>
     export_state \<times> unit result" where
  "export_each env V pol container source_path probe staging [] st = (st, Inr ())"
| "export_each env V pol container source_path probe staging (x # xs) st =
     (if is_full (es_limits st) then (st, Inr ())
      else seq (export_file env V pol container source_path probe staging x st) (\<lambda>_.
             export_each env V pol container source_path probe staging xs))"

definition export_selected_container_files ::
  "os \<Rightarrow> export_view \<Rightarrow> submission_policy \<Rightarrow> string \<Rightarrow> string \<Rightarrow> (string \<times> path) list \<Rightarrow> path \<Rightarrow> workspaces \<Rightarrow>
     workspaces \<times> unit result" where
  "export_selected_container_files env V pol container source_path candidates staging s =
     seq (step_context ''could not create workspace export probe''
            (on_disk_files (create_unique_staging_directory env (butlast staging) ''workspace-export-file'') s)) (\<lambda>probe s.
       (case export_each env V pol container source_path probe staging candidates
               \<lparr>es_remaining = export_max_bytes, es_limits = new_limits pol,
                es_probe = Some (Directory mode_700 []), es_tree = seed_tree (tree_at s staging),
                es_trace = wk_trace s\<rparr> of
          (st, r) \<Rightarrow>
            (case remove_tree env probe (es_probe st) of
               (left, _, cleanup) \<Rightarrow>
                 ((put_tree probe left (put_tree staging (Some (es_tree st)) s))\<lparr>wk_trace := es_trace st\<rparr>,
                  and_then r (with_context ''could not clean workspace export probe'' cleanup)))))"

text \<open>The destination is an empty directory, which the rename replaces at once.\<close>

definition populate_empty_directory_atomically ::
  "os \<Rightarrow> (path \<Rightarrow> path result) \<Rightarrow> path \<Rightarrow> (path \<Rightarrow> workspaces \<Rightarrow> workspaces \<times> unit result) \<Rightarrow> workspaces \<Rightarrow>
     workspaces \<times> unit result" where
  "populate_empty_directory_atomically env resolved target populate s =
     seq (still (and_then
            (ensure (fault env (Metadata target) = None \<and> (\<exists>t \<in> set_option (tree_at s target). is_dir t))
               ''container workspace export destination is unavailable'')
           (and_then (call env (ReadDir target))
            (ensure (case tree_at s target of Some (Directory m es) \<Rightarrow> es = [] | _ \<Rightarrow> False)
               ''container workspace export destination must be empty''))) s) (\<lambda>_ s.
     seq (step_context ''could not create workspace export staging''
            (on_disk_files (create_unique_staging_directory env (butlast target) ''workspace-export'') s)) (\<lambda>staging s.
       (case seq (populate staging (put_tree staging (Some (Directory mode_700 [])) s)) (\<lambda>_ s.
             seq (on_root staging (\<lambda>x.
                    (case set_tree_owner_only env resolved staging (seed_tree x) of
                       (t, r) \<Rightarrow> (Some t, with_context ''could not harden exported container workspace'' r))) s) (\<lambda>_ s.
               (case with_context ''could not publish exported container workspace'' (call env (RenameTo target)) of
                  Inl e \<Rightarrow> (s, Inl e)
                | Inr _ \<Rightarrow> (put_tree staging None (put_tree target (tree_at s staging) s), Inr ())))) of
          (s, Inl e) \<Rightarrow> (remove_staging env staging s, Inl e)
        | (s, Inr _) \<Rightarrow> (s, Inr ()))))"

text \<open>The paths of the container's inventory that the policy selects, in the order of their names.\<close>

fun matching_paths :: "globs \<Rightarrow> terminal_matcher \<Rightarrow> path list \<Rightarrow> (string \<times> path) list result" where
  "matching_paths G tm [] = Inr []"
| "matching_paths G tm (p # ps) =
     bind_result (normalize_terminal_path p) (\<lambda>n.
       map_result (\<lambda>xs. if matches G tm n then (n, p) # xs else xs) (matching_paths G tm ps))"

definition export_candidates :: "globs \<Rightarrow> submission_policy \<Rightarrow> path list \<Rightarrow> (string \<times> path) list result" where
  "export_candidates G pol paths =
     bind_result (compile_matcher G pol) (\<lambda>tm.
     bind_result (matching_paths G tm paths) (\<lambda>xs.
       let xs = sort_key fst xs
       in and_then (ensure (distinct_adj (map fst xs)) ''container workspace inventory contains a duplicate path'')
            (Inr xs)))"

definition export_container_files ::
  "globs \<Rightarrow> os \<Rightarrow> export_view \<Rightarrow> string \<Rightarrow> string \<Rightarrow> path \<Rightarrow> path list \<Rightarrow> submission_policy \<Rightarrow> workspaces \<Rightarrow>
     workspaces \<times> unit result" where
  "export_container_files G env V container source_path target paths pol s =
     seq (still (export_candidates G pol paths) s) (\<lambda>candidates.
       populate_empty_directory_atomically env (ev_resolved V) target
         (export_selected_container_files env V pol container source_path candidates))"

subsection \<open>What the operations on trees do\<close>

text \<open>The tree with owner-only modes, and its copy: every file has one name then.\<close>

fun owned :: "node \<Rightarrow> node" where
  "owned (Directory m es) = Directory mode_700 (map (\<lambda>(n, t). (n, owned t)) es)"
| "owned (RegFile m l b) = RegFile (owner_mode False (executable_mode m)) l b"
| "owned t = t"

fun copy_of :: "node \<Rightarrow> node" where
  "copy_of (Directory m es) = Directory mode_700 (map (\<lambda>(n, t). (n, copy_of t)) es)"
| "copy_of (RegFile m l b) = RegFile (owner_mode False (executable_mode m)) 1 b"
| "copy_of t = t"

lemma secure_tree_root_Inr:
  "secure_tree_root env p x = (y, Inr ()) \<Longrightarrow>
     \<exists>es. y = Some (Directory mode_700 es) \<and> (x = None \<longrightarrow> es = []) \<and> (\<forall>m es'. x = Some (Directory m es') \<longrightarrow> es = es')"
  by (auto simp: secure_tree_root_def secure_present_def split: option.splits node.splits sum.splits)

lemma secure_present_Inr:
  "secure_present env p (Directory m es) = (y, Inr ()) \<Longrightarrow> y = Some (Directory mode_700 es)"
  by (auto simp: secure_present_def split: sum.splits)

lemma set_owner_only_file_Inr:
  "set_owner_only_file env p False (m, l, b) = (t, Inr ()) \<Longrightarrow> t = RegFile (owner_mode False (executable_mode m)) l b"
  by (auto simp: set_owner_only_file_def chmod_file_def split: sum.splits)

lemma copy_entry_Inr:
  "copy_entry env source target t = (x, Inr ()) \<Longrightarrow> x = Some (copy_of t) \<and> plain t"
  "copy_entries env source target es = (es', Inr ()) \<Longrightarrow> es' = map (\<lambda>(n, t). (n, copy_of t)) es \<and> plain_entries es"
proof (induction env source target t and env source target es arbitrary: x and es' rule: copy_entry_copy_entries.induct)
  case (1 env source target m es)
  then show ?case by (auto split: prod.splits sum.splits)
next
  case (2 env source target m l b)
  then show ?case by (auto dest: set_owner_only_file_Inr split: prod.splits sum.splits)
next
  case (6 env source target n t es)
  then show ?case by (auto split: prod.splits sum.splits option.splits)
qed simp_all

lemma owner_entry_Inr:
  "owner_entry env resolved base p t = (t', Inr ()) \<Longrightarrow> t' = owned t"
  "owner_entries env resolved base p es = (es', Inr ()) \<Longrightarrow> es' = map (\<lambda>(n, t). (n, owned t)) es"
proof (induction env resolved base p t and env resolved base p es arbitrary: t' and es' rule: owner_entry_owner_entries.induct)
  case (1 env resolved base p m es)
  then show ?case by (auto split: prod.splits sum.splits)
next
  case (2 env resolved base p m l b)
  then show ?case by (auto dest: set_owner_only_file_Inr)
next
  case (6 env resolved base p n t es)
  then show ?case by (auto split: prod.splits sum.splits)
qed simp_all

lemma set_tree_owner_only_Inr: "set_tree_owner_only env resolved p t = (t', Inr ()) \<Longrightarrow> t' = owned t"
  by (auto simp: set_tree_owner_only_def owner_entry_Inr split: sum.splits if_splits)

lemma file_of_owned:
  "file_of (owned t) q = map_option (\<lambda>(m, l, b). (owner_mode False (executable_mode m), l, b)) (file_of t q)"
proof (induction t arbitrary: q rule: owned.induct)
  case (1 m es)
  have mapped: "map_of (map (\<lambda>(n, t). (n, owned t)) es) n = map_option owned (map_of es n)" for n
    by (induction es) auto
  show ?case
    using 1 mapped by (cases q) (auto split: option.splits dest: map_of_SomeD)
next
  case (2 m l b)
  then show ?case by (cases q) auto
qed (auto simp: file_of_def elim: node_at.elims split: option.splits)

subsection \<open>Steps over the store\<close>

lemma tree_at_put [simp]: "tree_at (put_tree p x s) q = (if q = p then x else tree_at s q)"
  by (simp add: tree_at_def put_tree_def)

lemma put_tree_fields [simp]:
  "wk_sequence (put_tree p x s) = wk_sequence s" "wk_trace (put_tree p x s) = wk_trace s"
  "as_fs (wk_store (put_tree p x s)) = as_fs (wk_store s)"
  by (simp_all add: put_tree_def)

lemma tree_at_trace [simp]: "tree_at (s\<lparr>wk_trace := tr\<rparr>) q = tree_at s q" "tree_at (s\<lparr>wk_sequence := n\<rparr>) q = tree_at s q"
  by (simp_all add: tree_at_def)

lemma on_root_Inr:
  "on_root p f s = (s', Inr v) \<longleftrightarrow> (\<exists>x. f (tree_at s p) = (x, Inr v) \<and> s' = put_tree p x s)"
  by (auto simp: on_root_def split: prod.splits)

lemma on_trace_Inr: "on_trace f s = (s', Inr v) \<longleftrightarrow> (\<exists>tr. f (wk_trace s) = (tr, Inr v) \<and> s' = s\<lparr>wk_trace := tr\<rparr>)"
  by (auto simp: on_trace_def split: prod.splits)

lemma on_disk_files_effect:
  "on_disk_files f s = (s', r) \<Longrightarrow> wk_sequence s' = wk_sequence s \<and> tree_at s' = tree_at s \<and> wk_trace s' = wk_trace s"
  by (auto simp: on_disk_files_def tree_at_def fun_eq_iff split: prod.splits)

lemma on_trace_effect: "on_trace f s = (s', r) \<Longrightarrow> wk_sequence s' = wk_sequence s \<and> tree_at s' = tree_at s"
  by (auto simp: on_trace_def fun_eq_iff split: prod.splits)

lemma run_directory_Inr:
  assumes "run_directory env kind task_id s = (s', Inr p)"
  shows "p = unique_run_directory env [kind] task_id (wk_sequence s)" "wk_sequence s' = wk_sequence s + 1"
    "tree_at s' = tree_at s"
  using assms
  by (auto simp: run_directory_def seq_Inr tree_at_def fun_eq_iff dest!: on_disk_files_effect)

lemma staging_loop_Inr: "staging_loop k env parent purpose s = (s', Inr p) \<Longrightarrow> \<exists>n. p = parent @ [staging_name env purpose n]"
proof (induction k arbitrary: s)
  case (Suc k)
  then show ?case
    by (auto simp: Let_def split: prod.splits sum.splits error.splits io_kind.splits)
qed simp

lemma create_unique_staging_directory_Inr:
  assumes "create_unique_staging_directory env parent purpose s = (s', Inr p)"
  shows "\<exists>n. p = parent @ [staging_name env purpose n]"
  using assms
  by (auto simp: create_unique_staging_directory_def then_do_def dest: staging_loop_Inr
      split: prod.splits sum.splits if_splits)

subsection \<open>What a materialised seed is\<close>

definition directory_root :: "node option \<Rightarrow> bool" where
  "directory_root x = (case x of Some t \<Rightarrow> is_dir t | None \<Rightarrow> False)"

text \<open>A cache entry with the marker of the image, the path and the platform.\<close>

definition complete_cache :: "node option \<Rightarrow> string \<Rightarrow> workspace_seed \<Rightarrow> bool" where
  "complete_cache x image_id seed =
     (directory_root (part x ''tree'') \<and>
      (\<exists>m l. part x ''.complete'' = Some (RegFile m l (seed_cache_marker image_id seed))))"

lemma valid_seed_cache_True: "valid_seed_cache env p x image_id seed = Inr True \<Longrightarrow> complete_cache x image_id seed"
  by (auto simp: valid_seed_cache_def is_real_directory_def read_optional_at_def complete_cache_def bind_result_Inr
      and_then_Inr ensure_Inr directory_root_def split: option.splits node.splits io_kind.splits if_splits)

lemma populate_seed_staging_Inr:
  assumes "populate_seed_staging D env V seed image_id staging s = (s', Inr ())"
  shows "complete_cache (tree_at s' staging) image_id seed \<and> (\<forall>p. p \<noteq> staging \<longrightarrow> tree_at s' p = tree_at s p)"
proof -
  let ?put = "\<lambda>es s. put_tree staging (Some (Directory mode_700 es)) s"
  let ?t = "owned (Directory mode_700 (xv_extracted V))"
  obtain x where x: "secure_tree_root env (staging @ [''tree'']) None = (x, Inr ())"
    using assms by (cases "secure_tree_root env (staging @ [''tree'']) None")
      (auto simp: populate_seed_staging_def Let_def split: sum.splits)
  let ?s0 = "?put [(''tree'', Directory mode_700 [])] s"
  from assms x obtain s1 container where s1: "on_trace (create_seed_container D seed) ?s0 = (s1, Inr container)"
    and k: "(case on_trace (extract_seed_tree V container (ws_source_path seed) (staging @ [''tree''])) s1 of
        (s, copied) \<Rightarrow> (case on_trace (run_command D [''docker'', ''rm'', ''-f'', container])
            (?put [(''tree'', Directory mode_700 (xv_extracted V))] s) of
          (s, _) \<Rightarrow> seq (still copied s) (\<lambda>_ s.
            (case set_tree_owner_only env (xv_resolved V) (staging @ [''tree'']) (Directory mode_700 (xv_extracted V)) of
               (t, Inl e) \<Rightarrow> (?put [(''tree'', t)] s, Inl e)
             | (t, Inr _) \<Rightarrow>
                 (case and_then (call env (OpenNew (staging @ [''.complete''])))
                        (and_then (call env (WriteAll (staging @ [''.complete''])))
                        (and_then (call env (SyncFile (staging @ [''.complete''])))
                        (call env (RenameTo (staging @ [''.complete'']))))) of
                    Inl e \<Rightarrow> (?put [(''tree'', t)] s, Inl e)
                  | Inr _ \<Rightarrow>
                      (?put [(''tree'', t), (''.complete'', RegFile mode_600 1 (seed_cache_marker image_id seed))] s,
                       call env (SyncDir staging))))))) = (s', Inr ())"
    unfolding populate_seed_staging_def Let_def x prod.case sum.case seq_Inr by blast
  obtain s2 r2 where s2: "on_trace (extract_seed_tree V container (ws_source_path seed) (staging @ [''tree''])) s1 = (s2, r2)"
    by fastforce
  obtain s3 r3 where s3: "on_trace (run_command D [''docker'', ''rm'', ''-f'', container])
      (?put [(''tree'', Directory mode_700 (xv_extracted V))] s2) = (s3, r3)"
    by fastforce
  obtain t r4 where t: "set_tree_owner_only env (xv_resolved V) (staging @ [''tree'']) (Directory mode_700 (xv_extracted V)) = (t, r4)"
    by fastforce
  from k s2 s3 t have s': "r4 = Inr ()"
      "s' = ?put [(''tree'', t), (''.complete'', RegFile mode_600 1 (seed_cache_marker image_id seed))] s3"
    by (auto simp: still_def seq_Inr split: sum.splits)
  have "t = ?t" using set_tree_owner_only_Inr t s'(1) by blast
  then show ?thesis
    using s'(2) on_trace_effect [OF s1] on_trace_effect [OF s2] on_trace_effect [OF s3]
    by (auto simp: complete_cache_def part_def directory_root_def)
qed

lemma publish_seed_Inr:
  assumes "publish_seed env V seed image_id staging cache s = (s', Inr ())" "staging \<noteq> cache"
    "complete_cache (tree_at s staging) image_id seed"
  shows "complete_cache (tree_at s' cache) image_id seed"
  using assms
  by (auto simp: publish_seed_def Let_def remove_staging_def dest!: valid_seed_cache_True
      split: if_splits sum.splits bool.splits)

lemma fill_seed_cache_Inr:
  assumes "fill_seed_cache D env V seed image_id cache s = (s', Inr ())"
    "cache = [''workspace-seeds'', key]" "list_all is_ascii_hexdigit key"
  shows "complete_cache (tree_at s' cache) image_id seed"
proof -
  from assms(1) obtain s1 s2 staging where
    staging: "on_disk_files (create_unique_staging_directory env [''workspace-seeds''] ''seed-image'') s1 = (s2, Inr staging)"
    and last: "(case populate_seed_staging D env V seed image_id staging s2 of
          (s, Inl e) \<Rightarrow> (remove_staging env staging s, Inl e)
        | (s, Inr _) \<Rightarrow> publish_seed env V seed image_id staging cache s) = (s', Inr ())"
    unfolding fill_seed_cache_def seq_Inr still_def by blast
  from last obtain s3 where s3: "populate_seed_staging D env V seed image_id staging s2 = (s3, Inr ())"
    and s': "publish_seed env V seed image_id staging cache s3 = (s', Inr ())"
    by (cases "populate_seed_staging D env V seed image_id staging s2") (auto split: sum.splits)
  from staging obtain n where "staging = [''workspace-seeds''] @ [staging_name env ''seed-image'' n]"
    using create_unique_staging_directory_Inr by (fastforce simp: on_disk_files_def split: prod.splits)
  moreover have "\<not> is_ascii_hexdigit CHR ''.''" by code_simp
  then have "CHR ''.'' # x \<noteq> key" for x using assms(3) by (metis list.pred_inject(2))
  ultimately have "staging \<noteq> cache" using assms(2) by (simp add: staging_name_def)
  from publish_seed_Inr [OF s' this] populate_seed_staging_Inr [OF s3] show ?thesis by simp
qed

lemma clone_tree_Inr:
  assumes "clone_tree D env partial source x target s = (s', Inr ())" "directory_root x"
  shows "\<exists>m es. x = Some (Directory m es) \<and> tree_at s' target = Some (Directory mode_700 es)"
    "\<forall>p. p \<noteq> target \<longrightarrow> tree_at s' p = tree_at s p"
proof -
  from assms(2) obtain m es where x: "x = Some (Directory m es)"
    by (auto simp: directory_root_def split: option.splits elim: is_dir.elims)
  from assms(1) [unfolded clone_tree_def seq_Inr] obtain s1 u s2 out s3 v where
    s1: "on_root target (secure_tree_root env target) s = (s1, Inr u)"
    and s2: "on_trace (run_command D (clone_command source target)) s1 = (s2, Inr out)"
    and s3: "on_root target (\<lambda>_. secure_present env target (case (po_success out, x) of
         (True, Some (Directory m es)) \<Rightarrow> Directory m es | _ \<Rightarrow> Directory mode_700 partial)) s2 = (s3, Inr v)"
    and last: "still (ensure (po_success out) ''cp -a failed: {}'') s3 = (s', Inr ())"
    by blast
  from last have "s' = s3" "po_success out" by (simp_all add: still_def ensure_Inr)
  with s3 obtain y where y: "secure_present env target (case (po_success out, x) of
         (True, Some (Directory m es)) \<Rightarrow> Directory m es | _ \<Rightarrow> Directory mode_700 partial) = (y, Inr v)"
    and s': "s' = put_tree target y s2" "po_success out"
    by (auto simp: on_root_Inr)
  from y x s'(2) have "y = Some (Directory mode_700 es)" by (auto dest: secure_present_Inr)
  with x s'(1) show "\<exists>m es. x = Some (Directory m es) \<and> tree_at s' target = Some (Directory mode_700 es)" by simp
  from s1 have "\<forall>p. p \<noteq> target \<longrightarrow> tree_at s1 p = tree_at s p" by (auto simp: on_root_Inr)
  with on_trace_effect [OF s2] s'(1) show "\<forall>p. p \<noteq> target \<longrightarrow> tree_at s' p = tree_at s p" by simp
qed

lemma materialize_seed_Inr:
  assumes "materialize_seed L D env V seed target s = (s', Inr ())" "hd target \<noteq> ''workspace-seeds''" "sha_library L"
  shows "\<exists>image_id cached m es. cached = tree_at s' [''workspace-seeds'', seed_cache_key L image_id seed] \<and>
    complete_cache cached image_id seed \<and> part cached ''tree'' = Some (Directory m es) \<and>
    tree_at s' target = Some (Directory mode_700 es)"
proof -
  from assms(1) obtain image_id cache s1 s2 valid where
    cache: "seed_cache_path (seed_cache_key L image_id seed) = Inr cache"
    and valid: "valid_seed_cache env cache (tree_at s1 cache) image_id seed = Inr valid"
    and filled: "(if valid then (s1, Inr ()) else fill_seed_cache D env V seed image_id cache s1) = (s2, Inr ())"
    and cloned: "clone_tree D env (xv_partial V) (cache @ [''tree'']) (part (tree_at s2 cache) ''tree'') target s2 = (s', Inr ())"
    by (auto simp: materialize_seed_def seq_Inr still_def)
  from cache have path: "cache = [''workspace-seeds'', seed_cache_key L image_id seed]"
    and hex: "list_all is_ascii_hexdigit (seed_cache_key L image_id seed)"
    by (auto simp: seed_cache_path_def and_then_Inr ensure_Inr)
  have c: "complete_cache (tree_at s2 cache) image_id seed"
    using filled valid valid_seed_cache_True fill_seed_cache_Inr [OF _ path hex] by (cases valid) auto
  then have "directory_root (part (tree_at s2 cache) ''tree'')" by (simp add: complete_cache_def)
  note cl = clone_tree_Inr [OF cloned this]
  have "cache \<noteq> target" using path assms(2) by auto
  with cl c path show ?thesis by metis
qed

lemma create_workspace_Inr:
  assumes "create_workspace L D env outside V t s = (s', Inr target)" "sha_library L"
  shows "target = unique_run_directory env [''workspaces''] (t_id t) (wk_sequence s) \<and>
    (case outside (t_root t @ [''public'', ''workspace'']) of
       Some (Directory m es) \<Rightarrow> plain (Directory m es) \<and> tree_at s' target = Some (copy_of (Directory m es))
     | _ \<Rightarrow> \<exists>seed image_id cached m es. t_workspace_seed t = Some seed \<and>
         cached = tree_at s' [''workspace-seeds'', seed_cache_key L image_id seed] \<and>
         complete_cache cached image_id seed \<and> part cached ''tree'' = Some (Directory m es) \<and>
         tree_at s' target = Some (Directory mode_700 es))"
proof -
  let ?source = "t_root t @ [''public'', ''workspace'']"
  from assms(1) obtain s1 s2 where target: "run_directory env ''workspaces'' (t_id t) s = (s1, Inr target)"
    and filled: "(case (outside ?source, t_workspace_seed t) of
            (Some (Directory m es), _) \<Rightarrow> on_root target (copy_tree env ?source target es) s2
          | (_, Some seed) \<Rightarrow> materialize_seed L D env V seed target s2
          | (_, None) \<Rightarrow> (s2, Inl (Bail ''Task has neither public/workspace nor workspace OCI seed''))) = (s', Inr ())"
    by (auto simp: create_workspace_def seq_Inr still_def and_then_Inr Let_def)
  note dir = run_directory_Inr [OF target]
  have hd: "hd target \<noteq> ''workspace-seeds''" using dir(1) by (simp add: unique_run_directory_def)
  show ?thesis
  proof (cases "outside ?source")
    case None
    with filled have "\<exists>seed. t_workspace_seed t = Some seed \<and> materialize_seed L D env V seed target s2 = (s', Inr ())"
      by (auto split: option.splits)
    with materialize_seed_Inr [OF _ hd assms(2)] None dir(1) show ?thesis by fastforce
  next
    case (Some u)
    show ?thesis
    proof (cases u)
      case (Directory m es)
      with filled Some have "on_root target (copy_tree env ?source target es) s2 = (s', Inr ())" by simp
      then have "tree_at s' target = Some (copy_of (Directory m es)) \<and> plain (Directory m es)"
        by (auto simp: on_root_Inr copy_tree_def dest!: copy_entry_Inr(2) split: prod.splits sum.splits)
      with Some Directory dir(1) show ?thesis by simp
    qed (use filled Some materialize_seed_Inr [OF _ hd assms(2)] dir(1) in \<open>fastforce split: option.splits\<close>)+
  qed
qed

subsection \<open>What an export keeps\<close>

text \<open>A container has a regular file at a path: \<open>docker cp\<close> and \<open>tar\<close> deliver it, with one name; and a transfer
  passes the limit of one file only when the file is too large for the policy, as an archive of one
  file has at most a mebibyte of overhead.\<close>

definition delivers :: "export_view \<Rightarrow> submission_policy \<Rightarrow> string \<Rightarrow> (string \<Rightarrow> (mode \<times> string) option) \<Rightarrow> bool" where
  "delivers V pol source_path files =
     (\<forall>name cap.
        (\<forall>n. run_archive_pipeline (ev_pipeline V (container_path source_path name) cap) cap = Inr n \<longrightarrow>
           (\<exists>m b base. files name = Some (m, b) \<and>
              ev_probe V (container_path source_path name) cap = [(base, RegFile m 1 b)])) \<and>
        (\<forall>l n. cap = policy_cap pol \<longrightarrow>
           run_archive_pipeline (ev_pipeline V (container_path source_path name) cap) cap = Inl (Pump (Limit l n)) \<longrightarrow>
           (\<exists>m b. files name = Some (m, b) \<and> of_nat (length b) > max_file_bytes pol)))"

definition sized :: "(string \<Rightarrow> (mode \<times> string) option) \<Rightarrow> string \<times> path \<Rightarrow> path \<times> u64" where
  "sized files x = (snd x, case files (fst x) of None \<Rightarrow> 0 | Some (m, b) \<Rightarrow> of_nat (length b))"

lemma fst_sized [simp]: "fst (sized files x) = snd x"
  by (simp add: sized_def)

definition delivered :: "(string \<Rightarrow> (mode \<times> string) option) \<Rightarrow> string \<Rightarrow> (mode \<times> nat \<times> string) option" where
  "delivered files name = map_option (\<lambda>(m, b). (m, 1, b)) (files name)"

lemma select_policy: "tl_policy (fst (select sz l)) = tl_policy l"
  by (auto simp: select_def split: option.splits)

lemma select_too_large: "sz > max_file_bytes (tl_policy l) \<Longrightarrow> select sz l = (l, False)"
  by (simp add: select_def)

text \<open>One file: the limits move as in the selection, and the tree gets the file when it is selected.\<close>

definition file_step ::
  "(string \<Rightarrow> (mode \<times> string) option) \<Rightarrow> string \<times> path \<Rightarrow> export_state \<Rightarrow> export_state \<Rightarrow> bool" where
  "file_step files x st st' =
     (case select (snd (sized files x)) (es_limits st) of
        (l, chosen) \<Rightarrow>
          es_limits st' = l \<and>
          (if chosen then
             files (fst x) \<noteq> None \<and>
             (\<forall>q. file_of (es_tree st') q = (if q = snd x then delivered files (fst x) else file_of (es_tree st) q)) \<and>
             (\<forall>q. open_path (es_tree st) q \<longrightarrow> \<not> prefix (snd x) q \<longrightarrow> \<not> prefix q (snd x) \<longrightarrow> open_path (es_tree st') q)
           else es_tree st' = es_tree st))"

lemma file_step_cong:
  "es_limits a = es_limits b \<Longrightarrow> es_tree a = es_tree b \<Longrightarrow> file_step files x a st' = file_step files x b st'"
  by (simp add: file_step_def)

lemma only_regular_file_single:
  assumes "only_regular_file env base [(name, RegFile m l b)] = Inr r"
  shows "r = ([name], m, l, b)"
  using assms by (auto simp: only_regular_file_def and_then_Inr bind_result_Inr ensure_Inr)

lemma keep_file_step:
  assumes "keep_file env probe staging relative st = (st', Inr ())"
    "es_probe st = Some (Directory mode_700 [(base, RegFile m 1 b)])" "files name = Some (m, b)"
    "open_path (es_tree st) relative" "relative \<noteq> []"
  shows "file_step files (name, relative) st st'"
proof -
  obtain limits chosen where sel: "select (of_nat (length b)) (es_limits st) = (limits, chosen)" by fastforce
  obtain r where r: "only_regular_file env probe [(base, RegFile m 1 b)] = Inr r"
    using assms(1,2) by (cases "only_regular_file env probe [(base, RegFile m 1 b)]") (auto simp: keep_file_def)
  have r': "r = ([base], m, 1, b)" by (rule only_regular_file_single [OF r])
  have sz: "snd (sized files (name, relative)) = of_nat (length b)" using assms(3) by (simp add: sized_def)
  show ?thesis
  proof (cases chosen)
    case False
    with assms(1,2) sel r r' sz show ?thesis
      by (auto simp: keep_file_def file_step_def split: sum.splits)
  next
    case True
    let ?u = "secure_dir_in (default_dir_mode env) (butlast relative) (es_tree st)"
    from True assms(1,2) sel r r' have st': "es_limits st' = limits"
      "es_tree st' = put_file (default_dir_mode env) relative (RegFile m 1 b) ?u"
      by (auto simp: keep_file_def Let_def split: sum.splits)
    have "\<not> prefix relative (butlast relative)"
      using assms(5) prefix_length_le [of relative "butlast relative"] by (cases relative) auto
    then have op: "open_path ?u relative" using assms(4) by (intro open_secure_dir)
    have "open_path (es_tree st') q" if "open_path (es_tree st) q" "\<not> prefix relative q" "\<not> prefix q relative" for q
    proof -
      have "\<not> prefix q (butlast relative)" using that(3) by (metis prefix_order.trans prefixeq_butlast)
      then show ?thesis using that st'(2) by (simp add: open_put open_secure_dir)
    qed
    with True sel sz st' op assms(3) show ?thesis
      by (simp add: file_step_def file_of_put file_of_secure_dir delivered_def)
  qed
qed

lemma reset_probe_Inr:
  "reset_probe env probe st = (st', Inr u) \<Longrightarrow>
     es_limits st' = es_limits st \<and> es_tree st' = es_tree st \<and> es_remaining st' = es_remaining st"
  by (auto simp: reset_probe_def split: prod.splits sum.splits)

lemma export_file_step:
  assumes "export_file env V pol container source_path probe staging x st = (st', Inr ())"
    "delivers V pol source_path files" "tl_policy (es_limits st) = pol"
    "open_path (es_tree st) (snd x)" "snd x \<noteq> []"
  shows "file_step files x st st'"
proof -
  obtain name relative where x: "x = (name, relative)" by (cases x)
  let ?path = "container_path source_path name"
  from assms(1) x obtain st1 where st1: "reset_probe env probe st = (st1, Inr ())"
    by (auto simp: export_file_def Let_def seq_Inr still_def)
  note same = reset_probe_Inr [OF st1]
  define copy_cap where "copy_cap = min (es_remaining st1) (policy_cap pol)"
  define st2 where "st2 = st1\<lparr>es_trace := es_trace st1 @
      [Run (docker_copy_file_command container ?path), Run (tar_extract_command (path_text probe))],
      es_probe := Some (Directory mode_700 (ev_probe V ?path copy_cap))\<rparr>"
  have k: "after_transfer env pol probe staging relative copy_cap
      (run_archive_pipeline (ev_pipeline V ?path copy_cap) copy_cap) st2 = (st', Inr ())"
    using assms(1) x st1 by (auto simp: export_file_def seq_Inr still_def Let_def st2_def copy_cap_def split: if_splits)
  have st2: "es_limits st2 = es_limits st" "es_tree st2 = es_tree st" using same by (simp_all add: st2_def)
  show ?thesis
  proof (cases "run_archive_pipeline (ev_pipeline V ?path copy_cap) copy_cap")
    case (Inr n)
    with assms(2) obtain m b base where known: "files name = Some (m, b)"
      "ev_probe V ?path copy_cap = [(base, RegFile m 1 b)]"
      unfolding delivers_def by blast
    from k Inr obtain left where "keep_file env probe staging relative (st2\<lparr>es_remaining := left\<rparr>) = (st', Inr ())"
      by (auto simp: after_transfer_def split: option.splits)
    from keep_file_step [where files = files and name = name, OF this _ known(1)] have "file_step files (name, relative) (st2\<lparr>es_remaining := left\<rparr>) st'"
      using known(2) st2 assms(4,5) x by (simp add: st2_def)
    then show ?thesis using file_step_cong [of "st2\<lparr>es_remaining := left\<rparr>" st files "(name, relative)" st'] st2 x by simp
  next
    case (Inl e)
    with k obtain l consumed left where e: "e = Pump (Limit l consumed)" "copy_cap = policy_cap pol"
      "st' = st2\<lparr>es_remaining := left\<rparr>"
      by (auto simp: after_transfer_def archive_result_def split: archive_error.splits pump_error.splits if_splits option.splits)
    with Inl assms(2) obtain m b where "files name = Some (m, b)" "of_nat (length b) > max_file_bytes pol"
      unfolding delivers_def by blast
    then have "select (snd (sized files x)) (es_limits st) = (es_limits st, False)"
      using assms(3) x by (simp add: sized_def select_too_large)
    with e(3) st2 show ?thesis by (simp add: file_step_def)
  qed
qed

lemma export_each_selection:
  assumes "export_each env V pol container source_path probe staging xs st = (st', Inr ())"
    "delivers V pol source_path files" "tl_policy (es_limits st) = pol"
    "separate (map snd xs)" "\<forall>x \<in> set xs. open_path (es_tree st) (snd x)"
    "\<forall>x \<in> set xs. path_text (snd x) = fst x"
  shows "(\<forall>p \<in> fst ` set (select_files (es_limits st) (map (sized files) xs)). files (path_text p) \<noteq> None) \<and>
    (\<forall>q. file_of (es_tree st') q =
      (if q \<in> fst ` set (select_files (es_limits st) (map (sized files) xs)) then delivered files (path_text q)
       else file_of (es_tree st) q))"
  using assms(1,3-6)
proof (induction xs arbitrary: st)
  case Nil
  then show ?case by simp
next
  case (Cons x xs)
  show ?case
  proof (cases "is_full (es_limits st)")
    case True
    with Cons.prems(1) show ?thesis by (cases "sized files x") simp
  next
    case False
    with Cons.prems(1) obtain st1 where st1: "export_file env V pol container source_path probe staging x st = (st1, Inr ())"
      "export_each env V pol container source_path probe staging xs st1 = (st', Inr ())"
      by (auto simp: seq_Inr)
    have x: "snd x \<noteq> []" "open_path (es_tree st) (snd x)" "snd x \<notin> snd ` set xs" "path_text (snd x) = fst x"
      using Cons.prems(3-5) by (auto simp: separate_def)
    have apart: "\<not> prefix (snd x) (snd y) \<and> \<not> prefix (snd y) (snd x)" if "y \<in> set xs" for y
      using Cons.prems(3) that by (auto simp: separate_def) (metis image_eqI)+
    have step: "file_step files x st st1"
      by (rule export_file_step [OF st1(1) assms(2) Cons.prems(2) x(2,1)])
    obtain l chosen where sel: "select (snd (sized files x)) (es_limits st) = (l, chosen)" by fastforce
    have l: "es_limits st1 = l" "tl_policy l = pol"
      using step sel Cons.prems(2) select_policy [of "snd (sized files x)" "es_limits st"] by (auto simp: file_step_def)
    have open': "\<forall>y \<in> set xs. open_path (es_tree st1) (snd y)"
      using step sel Cons.prems(4) apart by (auto simp: file_step_def split: if_splits)
    have sep: "separate (map snd xs)" using Cons.prems(3) by (auto simp: separate_def)
    note rest = Cons.IH [OF st1(2) _ sep open'] 
    have ih: "(\<forall>p \<in> fst ` set (select_files l (map (sized files) xs)). files (path_text p) \<noteq> None) \<and>
      (\<forall>q. file_of (es_tree st') q =
        (if q \<in> fst ` set (select_files l (map (sized files) xs)) then delivered files (path_text q)
         else file_of (es_tree st1) q))"
      using rest l Cons.prems(5) by simp
    have unfold: "select_files (es_limits st) (map (sized files) (x # xs)) =
        (if chosen then sized files x # select_files l (map (sized files) xs) else select_files l (map (sized files) xs))"
      using False sel by (cases "sized files x") simp
    show ?thesis
    proof (cases chosen)
      case True
      with step sel ih unfold x(4) show ?thesis by (auto simp: file_step_def)
    next
      case False
      with step sel ih unfold show ?thesis by (simp add: file_step_def)
    qed
  qed
qed

lemma matching_paths_Inr:
  "matching_paths G tm ps = Inr xs \<Longrightarrow>
     (\<forall>x \<in> set xs. path_text (snd x) = fst x \<and> snd x \<in> set ps) \<and> (distinct ps \<longrightarrow> distinct (map snd xs))"
proof (induction ps arbitrary: xs)
  case (Cons p ps)
  then obtain n ys where "normalize_terminal_path p = Inr n" and ys: "matching_paths G tm ps = Inr ys"
    "xs = (if matches G tm n then (n, p) # ys else ys)"
    by (auto simp: bind_result_Inr map_result_Inr)
  then have "n = path_text p" by (auto simp: normalize_terminal_path_def bind_result_Inr and_then_Inr dest: normalize_Inr)
  with ys Cons.IH [OF ys(1)] show ?case by auto
qed simp

lemma separate_subset:
  "separate ps \<Longrightarrow> distinct qs \<Longrightarrow> set qs \<subseteq> set ps \<Longrightarrow> separate qs"
  unfolding separate_def by blast

lemma export_candidates_Inr:
  assumes "export_candidates G pol paths = Inr xs" "separate paths"
  shows "(\<forall>x \<in> set xs. path_text (snd x) = fst x)" "separate (map snd xs)"
proof -
  from assms(1) obtain tm ys where ys: "matching_paths G tm paths = Inr ys" "xs = sort_key fst ys"
    by (auto simp: export_candidates_def bind_result_Inr and_then_Inr Let_def)
  note m = matching_paths_Inr [OF ys(1)]
  from m ys(2) show "\<forall>x \<in> set xs. path_text (snd x) = fst x" by simp
  have "distinct (map snd ys)" using m assms(2) by (simp add: separate_def)
  then have "distinct (map snd xs)"
    unfolding ys(2) by (metis distinct_map distinct_sort set_sort)
  then show "separate (map snd xs)"
    using m ys(2) by (intro separate_subset [OF assms(2)]) auto
qed

lemma step_context_Inr [simp]: "step_context msg x = (s, Inr v) \<longleftrightarrow> x = (s, Inr v)"
  by (cases x) (auto simp: with_context_Inr)

lemma cleanup_Inr:
  "(case x of (s, Inl e) \<Rightarrow> (f s, Inl e) | (s, Inr _) \<Rightarrow> (s, Inr ())) = (s', Inr (u :: unit)) \<longleftrightarrow> x = (s', Inr ())"
  by (auto split: prod.splits sum.splits)

lemma staged:
  assumes "on_disk_files (create_unique_staging_directory env parent purpose) s = (s', Inr p)"
  shows "(\<exists>n. p = parent @ [staging_name env purpose n]) \<and> tree_at s' = tree_at s"
proof -
  have "\<exists>g g'. create_unique_staging_directory env parent purpose g = (g', Inr p)"
    using assms by (auto simp: on_disk_files_def split: prod.splits)
  with create_unique_staging_directory_Inr on_disk_files_effect [OF assms] show ?thesis by blast
qed

lemma staging_names_differ:
  "staging_name env ''workspace-export-file'' n \<noteq> staging_name env ''workspace-export'' k"
proof -
  obtain c cs where c: "show_nat (pid env) = c # cs" by (cases "show_nat (pid env)") auto
  then have "is_ascii_digit c" using show_nat_digits [of "pid env"] by simp
  moreover have "\<not> is_ascii_digit CHR ''f''" by code_simp
  ultimately show ?thesis using c by (auto simp: staging_name_def)
qed

lemma export_selected_Inr:
  assumes "export_selected_container_files env V pol container source_path xs staging s = (s', Inr ())"
    "delivers V pol source_path files" "separate (map snd xs)" "\<forall>x \<in> set xs. path_text (snd x) = fst x"
    "tree_at s staging = Some (Directory mode_700 [])" "staging = parent @ [staging_name env ''workspace-export'' n]"
  shows "\<exists>t. tree_at s' staging = Some t \<and>
    (\<forall>p \<in> fst ` set (select_files (new_limits pol) (map (sized files) xs)). files (path_text p) \<noteq> None) \<and>
    (\<forall>q. file_of t q =
      (if q \<in> fst ` set (select_files (new_limits pol) (map (sized files) xs)) then delivered files (path_text q)
       else None))"
proof -
  let ?st = "\<lambda>s1. \<lparr>es_remaining = export_max_bytes, es_limits = new_limits pol,
      es_probe = Some (Directory mode_700 []), es_tree = seed_tree (tree_at s1 staging), es_trace = wk_trace s1\<rparr>"
  from assms(1) obtain s1 probe where
    probe: "on_disk_files (create_unique_staging_directory env (butlast staging) ''workspace-export-file'') s = (s1, Inr probe)"
    and rest: "(case export_each env V pol container source_path probe staging xs (?st s1) of
        (st, r) \<Rightarrow> (case remove_tree env probe (es_probe st) of
           (left, _, cleanup) \<Rightarrow>
             ((put_tree probe left (put_tree staging (Some (es_tree st)) s1))\<lparr>wk_trace := es_trace st\<rparr>,
              and_then r (with_context ''could not clean workspace export probe'' cleanup)))) = (s', Inr ())"
    unfolding export_selected_container_files_def seq_Inr step_context_Inr by blast
  note p = staged [OF probe]
  obtain st r where st: "export_each env V pol container source_path probe staging xs (?st s1) = (st, r)" by fastforce
  obtain left ts cleanup where "remove_tree env probe (es_probe st) = (left, ts, cleanup)" by (cases "remove_tree env probe (es_probe st)")
  with rest st have r: "r = Inr ()"
    and s': "s' = (put_tree probe left (put_tree staging (Some (es_tree st)) s1))\<lparr>wk_trace := es_trace st\<rparr>"
    by (auto simp: and_then_Inr)
  have "probe \<noteq> staging" using p assms(6) staging_names_differ by auto
  then have t: "tree_at s' staging = Some (es_tree st)" using s' by simp
  have empty: "es_tree (?st s1) = Directory mode_700 []" using p assms(5) by (simp add: seed_tree_def)
  have none: "file_of (Directory mode_700 []) q = None" for q by (cases q) auto
  have "\<forall>x \<in> set xs. open_path (Directory mode_700 []) (snd x)"
  proof
    fix x assume "x \<in> set xs"
    then have "snd x \<noteq> []" using assms(3) by (force simp: separate_def)
    then show "open_path (Directory mode_700 []) (snd x)" by (cases "snd x") auto
  qed
  with export_each_selection [OF st [unfolded r] assms(2) _ assms(3) _ assms(4)] empty none t show ?thesis
    by (simp add: new_limits_def)
qed

lemma export_container_files_Inr:
  assumes "export_container_files G env V container source_path target paths pol s = (s', Inr ())"
    "delivers V pol source_path files" "separate paths" "state_path target"
  shows "\<exists>xs t. export_candidates G pol paths = Inr xs \<and> tree_at s' target = Some t \<and>
    (\<forall>p \<in> fst ` set (select_files (new_limits pol) (map (sized files) xs)). files (path_text p) \<noteq> None) \<and>
    (\<forall>q. file_of t q =
      (if q \<in> fst ` set (select_files (new_limits pol) (map (sized files) xs))
       then map_option (\<lambda>(m, b). (owner_mode False (executable_mode m), 1, b)) (files (path_text q))
       else None))"
proof -
  let ?populate = "export_selected_container_files env V pol container source_path"
  from assms(1) obtain xs where xs: "export_candidates G pol paths = Inr xs"
    and p: "populate_empty_directory_atomically env (ev_resolved V) target (?populate xs) s = (s', Inr ())"
    by (auto simp: export_container_files_def seq_Inr still_def)
  note c = export_candidates_Inr [OF xs assms(3)]
  from p obtain s1 staging s2 s3 where
    staging: "on_disk_files (create_unique_staging_directory env (butlast target) ''workspace-export'') s = (s1, Inr staging)"
    and s2: "?populate xs staging (put_tree staging (Some (Directory mode_700 [])) s1) = (s2, Inr ())"
    and s3: "on_root staging (\<lambda>x. (case set_tree_owner_only env (ev_resolved V) staging (seed_tree x) of
        (t, r) \<Rightarrow> (Some t, with_context ''could not harden exported container workspace'' r))) s2 = (s3, Inr ())"
    and s': "s' = put_tree staging None (put_tree target (tree_at s3 staging) s3)"
  proof -
    from p obtain s1 staging where
      staging: "on_disk_files (create_unique_staging_directory env (butlast target) ''workspace-export'') s = (s1, Inr staging)"
      and body: "seq (?populate xs staging (put_tree staging (Some (Directory mode_700 [])) s1)) (\<lambda>_ s.
             seq (on_root staging (\<lambda>x.
                    (case set_tree_owner_only env (ev_resolved V) staging (seed_tree x) of
                       (t, r) \<Rightarrow> (Some t, with_context ''could not harden exported container workspace'' r))) s) (\<lambda>_ s.
               (case with_context ''could not publish exported container workspace'' (call env (RenameTo target)) of
                  Inl e \<Rightarrow> (s, Inl e)
                | Inr _ \<Rightarrow> (put_tree staging None (put_tree target (tree_at s staging) s), Inr ())))) = (s', Inr ())"
      unfolding populate_empty_directory_atomically_def seq_Inr step_context_Inr cleanup_Inr still_def by blast
    from body that [OF staging] show ?thesis
      unfolding seq_Inr
      by (cases "with_context ''could not publish exported container workspace'' (call env (RenameTo target))") auto
  qed
  obtain n where n: "staging = butlast target @ [staging_name env ''workspace-export'' n]" using staged [OF staging] by blast
  from export_selected_Inr [OF s2 assms(2) c(2,1) _ n] obtain t where t: "tree_at s2 staging = Some t"
    "\<forall>p \<in> fst ` set (select_files (new_limits pol) (map (sized files) xs)). files (path_text p) \<noteq> None"
    "\<forall>q. file_of t q = (if q \<in> fst ` set (select_files (new_limits pol) (map (sized files) xs))
       then delivered files (path_text q) else None)"
    by auto
  have "tree_at s3 staging = Some (owned t)"
    using s3 t(1) by (auto simp: on_root_Inr seed_tree_def with_context_Inr dest!: set_tree_owner_only_Inr split: prod.splits)
  moreover have "dotted staging" using n by (simp add: dotted_def staging_name_def starts_with_def)
  then have "staging \<noteq> target" using assms(4) by (auto simp: state_path_def)
  ultimately have target: "tree_at s' target = Some (owned t)" using s' by simp
  have "file_of (owned t) q = (if q \<in> fst ` set (select_files (new_limits pol) (map (sized files) xs))
       then map_option (\<lambda>(m, b). (owner_mode False (executable_mode m), 1, b)) (files (path_text q)) else None)" for q
    using t(3) by (cases "files (path_text q)") (auto simp: file_of_owned delivered_def)
  with xs target t(2) show ?thesis by blast
qed

subsection \<open>A workspace of a cached seed and an export of one file\<close>

definition demo_pipeline :: pipeline_view where
  "demo_pipeline =
     \<lparr>pl_spawn_copy = Inr (), pl_spawn_extract = Inr (), pl_steps = [(False, Inr ''x'', None), (False, Inr [], None)],
      pl_rounds = [\<lparr>pr_late = False, pr_copy = Inr (Some True), pr_extract = Inr None, pr_pump = NotYet\<rparr>,
        \<lparr>pr_late = False, pr_copy = Inr None, pr_extract = Inr (Some True), pr_pump = Arrived\<rparr>],
      pl_copy_wait = Inr True, pl_extract_wait = Inr True, pl_pump_joined = True\<rparr>"

definition demo_seed :: workspace_seed where
  "demo_seed = \<lparr>ws_image = ''image'', ws_source_path = ''/src'', ws_platform = None\<rparr>"

definition demo_seeded_task :: task_info where
  "demo_seeded_task = demo_judged_task\<lparr>t_workspace_seed := Some demo_seed\<rparr>"

definition demo_seed_docker :: docker where
  "demo_seed_docker =
     \<lparr>dk_run = (\<lambda>_ _. Inr \<lparr>po_success = True, po_stdout = ''sha256:1'', po_stderr = []\<rparr>),
      dk_timed = (\<lambda>_ _. Inl (Io NotFound))\<rparr>"

definition demo_seed_view :: seed_view where
  "demo_seed_view = \<lparr>xv_pipeline = demo_pipeline, xv_extracted = [], xv_resolved = Inr, xv_rival = None, xv_partial = []\<rparr>"

definition demo_cached_seed :: node where
  "demo_cached_seed = Directory mode_700
     [(''tree'', Directory mode_700 [(''f'', RegFile mode_600 1 ''x'')]),
      (''.complete'', RegFile mode_600 1 (seed_cache_marker ''sha256:1'' demo_seed))]"

definition demo_seed_store :: workspaces where
  "demo_seed_store =
     \<lparr>wk_store = \<lparr>as_fs = empty_fs, as_trees = [[''workspace-seeds'', replicate 64 CHR ''0''] \<mapsto> demo_cached_seed]\<rparr>,
      wk_sequence = 0, wk_trace = []\<rparr>"

abbreviation demo_seed_cache :: path where
  "demo_seed_cache \<equiv> [''workspace-seeds'', replicate 64 CHR ''0'']"

lemma demo_docker_run [simp]:
  "run_command demo_seed_docker c tr = (tr @ [Run c], Inr \<lparr>po_success = True, po_stdout = ''sha256:1'', po_stderr = []\<rparr>)"
  by (simp add: run_command_def demo_seed_docker_def)

lemma demo_image: "docker_image_id demo_seed_docker reference tr =
    (tr @ [Run [''docker'', ''image'', ''inspect'', ''--format'', ''{{.Id}}'', reference]], Inr ''sha256:1'')"
proof -
  have "trim ''sha256:1'' = ''sha256:1''" "valid_utf8 ''sha256:1''" "starts_with ''sha256:1'' ''sha256:''" by code_simp+
  then show ?thesis by (simp add: docker_image_id_def utf8_text_def)
qed

lemma demo_materialized:
  assumes "tree_at s demo_seed_cache = Some demo_cached_seed" "tree_at s target = None" "target \<noteq> demo_seed_cache"
  shows "\<exists>s'. materialize_seed toy_library demo_seed_docker quiet_os demo_seed_view demo_seed target s = (s', Inr ())"
proof -
  have key: "seed_cache_path (seed_cache_key toy_library ''sha256:1'' demo_seed) = Inr demo_seed_cache"
    by code_simp
  have valid: "valid_seed_cache quiet_os demo_seed_cache (Some demo_cached_seed) ''sha256:1'' demo_seed = Inr True"
    by (simp add: valid_seed_cache_def part_def demo_cached_seed_def is_real_directory_def read_optional_at_def call_def)
  have tree: "part (Some demo_cached_seed) ''tree'' = Some (Directory mode_700 [(''f'', RegFile mode_600 1 ''x'')])"
    by (simp add: part_def demo_cached_seed_def)
  let ?s = "s\<lparr>wk_trace := wk_trace s @ [Run [''docker'', ''image'', ''inspect'', ws_image demo_seed],
      Run [''docker'', ''image'', ''inspect'', ''--format'', ''{{.Id}}'', ws_image demo_seed]]\<rparr>"
  have "materialize_seed toy_library demo_seed_docker quiet_os demo_seed_view demo_seed target s =
      clone_tree demo_seed_docker quiet_os [] (demo_seed_cache @ [''tree''])
        (Some (Directory mode_700 [(''f'', RegFile mode_600 1 ''x'')])) target ?s"
    using assms(1) by (simp add: materialize_seed_def on_trace_def ensure_seed_image_def demo_image key valid tree still_def demo_seed_view_def)
  moreover have "\<exists>s'. clone_tree demo_seed_docker quiet_os [] source
        (Some (Directory mode_700 [(''f'', RegFile mode_600 1 ''x'')])) target ?s = (s', Inr ())" for source
    using assms(2) by (simp add: clone_tree_def on_root_def secure_tree_root_def secure_present_def on_trace_def still_def call_def)
  ultimately show ?thesis by simp
qed

lemma demo_created:
  "\<exists>s target. create_workspace toy_library demo_seed_docker quiet_os (\<lambda>_. None) demo_seed_view demo_seeded_task
     demo_seed_store = (s, Inr target)"
proof -
  let ?target = "unique_run_directory quiet_os [''workspaces''] ''demo'' 0"
  have t: "t_id demo_seeded_task = ''demo''" "t_workspace_seed demo_seeded_task = Some demo_seed"
    by (simp_all add: demo_seeded_task_def demo_judged_task_def)
  have ne: "?target \<noteq> demo_seed_cache" by (simp add: unique_run_directory_def)
  obtain g where g: "secure_directory quiet_os [''workspaces''] empty_fs = (g, Inr ())"
    by (simp add: fs_step_defs empty_fs_def)
  define s1 where "s1 = demo_seed_store\<lparr>wk_store := (wk_store demo_seed_store)\<lparr>as_fs := g\<rparr>, wk_sequence := 1\<rparr>"
  have dir: "run_directory quiet_os ''workspaces'' ''demo'' demo_seed_store = (s1, Inr ?target)"
    using g by (simp add: run_directory_def on_disk_files_def s1_def demo_seed_store_def)
  have s1: "tree_at s1 demo_seed_cache = Some demo_cached_seed" "tree_at s1 ?target = None"
    using ne by (simp_all add: s1_def demo_seed_store_def tree_at_def unique_run_directory_def)
  have re: "on_root ?target (replace_directory quiet_os ?target) s1 = (put_tree ?target None s1, Inr ())"
    using s1(2) by (simp add: on_root_def replace_directory_def)
  obtain s2 where s2: "materialize_seed toy_library demo_seed_docker quiet_os demo_seed_view demo_seed ?target
      (put_tree ?target None s1) = (s2, Inr ())"
    using demo_materialized [of "put_tree ?target None s1" ?target] s1 ne by auto
  show ?thesis
    by (simp add: create_workspace_def state_root_def still_def call_def t dir re s2)
qed

definition demo_export :: export_view where
  "demo_export =
     \<lparr>ev_late = (\<lambda>_. False), ev_pipeline = (\<lambda>_ _. demo_pipeline),
      ev_probe = (\<lambda>_ _. [(''a'', RegFile mode_700 1 ''x'')]), ev_resolved = Inr\<rparr>"

definition demo_workspaces :: workspaces where
  "demo_workspaces =
     \<lparr>wk_store = \<lparr>as_fs = \<lparr>disk = [[''workspaces''] \<mapsto> DirE mode_700], staging_sequence = 0\<rparr>,
        as_trees = [[''workspaces'', ''w''] \<mapsto> Directory mode_700 []]\<rparr>, wk_sequence = 0, wk_trace = []\<rparr>"

lemma demo_run: "cap > 0 \<Longrightarrow> run_archive_pipeline demo_pipeline cap = Inr 1"
  "\<exists>e. run_archive_pipeline demo_pipeline 0 = Inl e"
proof -
  assume "cap > 0"
  then have "unat cap > 0" by (simp add: word_less_nat_alt)
  then show "run_archive_pipeline demo_pipeline cap = Inr 1"
    by (simp add: run_archive_pipeline_def demo_pipeline_def poll_child_def checked_add_def word_less_nat_alt waited_def
      lift_error_def)
next
  show "\<exists>e. run_archive_pipeline demo_pipeline 0 = Inl e"
    by (simp add: run_archive_pipeline_def demo_pipeline_def poll_child_def checked_add_def word_less_nat_alt waited_def
      lift_error_def)
qed

lemma demo_delivers: "delivers demo_export demo_policy ''/w'' (\<lambda>_. Some (mode_700, ''x''))"
proof -
  have "policy_cap demo_policy \<noteq> 0" by (simp add: policy_cap_def saturating_add_def demo_policy_def file_tar_overhead_def)
  then show ?thesis
    unfolding delivers_def demo_export_def
    using demo_run by (auto simp: word_gt_0)
qed

lemma demo_candidates: "export_candidates demo_globs demo_policy [[''a'']] = Inr [(''a'', [''a''])]"
  by (simp add: export_candidates_def demo_compiled) code_simp

lemma demo_exported_file:
  "\<exists>st. export_each quiet_os demo_export demo_policy ''c'' ''/w'' probe staging [(''a'', [''a''])]
      \<lparr>es_remaining = export_max_bytes, es_limits = new_limits demo_policy, es_probe = Some (Directory mode_700 []),
       es_tree = Directory mode_700 [], es_trace = tr\<rparr> = (st, Inr ()) \<and>
     es_probe st = Some (Directory mode_700 []) \<and> es_tree st = Directory mode_700 [(''a'', RegFile mode_700 1 ''x'')]"
proof -
  have cap: "min export_max_bytes (policy_cap demo_policy) > 0"
    by (simp add: export_max_bytes_def policy_cap_def saturating_add_def demo_policy_def file_tar_overhead_def)
  note run = demo_run(1) [OF cap]
  let ?l = "new_limits demo_policy"
  have sel: "select 1 ?l = (?l\<lparr>tl_total := 1, tl_selected := 1\<rparr>, True)" "\<not> is_full ?l"
    by (simp_all add: select_def is_full_def new_limits_def demo_policy_def checked_add_def)
  have left: "checked_sub export_max_bytes 1 = Some (export_max_bytes - 1)" "export_max_bytes \<noteq> 0"
    by (simp_all add: checked_sub_def export_max_bytes_def word_le_nat_alt)
  show ?thesis
    by (simp add: export_file_def still_def reset_probe_def replace_directory_def remove_directory_all_def
        secure_tree_root_def secure_present_def after_transfer_def keep_file_def only_regular_file_def run sel left
        demo_export_def call_def)
qed

lemma demo_staging_directory:
  assumes "disk f [''workspaces''] = Some (DirE mode_700)" "staging_sequence f = n" "n = 0 \<and> purpose = ''workspace-export'' \<or>
    n = 1 \<and> purpose = ''workspace-export-file''" "disk f [''workspaces'', staging_name quiet_os purpose n] = None"
  shows "\<exists>g. create_unique_staging_directory quiet_os [''workspaces''] purpose f = (g, Inr [''workspaces'', staging_name quiet_os purpose n]) \<and>
    staging_sequence g = n + 1 \<and> disk g [''workspaces''] = Some (DirE mode_700) \<and>
    (\<forall>x. x \<noteq> staging_name quiet_os purpose n \<longrightarrow> disk g [''workspaces'', x] = disk f [''workspaces'', x])"
proof -
  have "list_all run_id_char ''workspace-export-file''" "list_all run_id_char ''workspace-export''" by code_simp+
  with assms(3) have "list_all run_id_char purpose" "purpose \<noteq> []" by auto
  with assms show ?thesis
    by (simp add: create_unique_staging_directory_def eval_nat_numeral(2,3) fs_step_defs create_secure_directory_exclusive_def
        fun_upd_idem_iff)
qed

abbreviation demo_export_staging :: path where
  "demo_export_staging \<equiv> [''workspaces'', staging_name quiet_os ''workspace-export'' 0]"

lemma demo_selected:
  assumes "tree_at s demo_export_staging = Some (Directory mode_700 [])"
    "disk (as_fs (wk_store s)) [''workspaces''] = Some (DirE mode_700)" "staging_sequence (as_fs (wk_store s)) = 1"
    "disk (as_fs (wk_store s)) [''workspaces'', staging_name quiet_os ''workspace-export-file'' 1] = None"
  shows "\<exists>s'. export_selected_container_files quiet_os demo_export demo_policy ''c'' ''/w'' [(''a'', [''a''])]
      demo_export_staging s = (s', Inr ()) \<and>
    tree_at s' demo_export_staging = Some (Directory mode_700 [(''a'', RegFile mode_700 1 ''x'')])"
proof -
  let ?probe = "[''workspaces'', staging_name quiet_os ''workspace-export-file'' 1]"
  from demo_staging_directory [OF assms(2,3) _ assms(4)] obtain g where
    g: "create_unique_staging_directory quiet_os [''workspaces''] ''workspace-export-file'' (as_fs (wk_store s)) = (g, Inr ?probe)"
    by auto
  obtain st where st: "export_each quiet_os demo_export demo_policy ''c'' ''/w'' ?probe demo_export_staging [(''a'', [''a''])]
      \<lparr>es_remaining = export_max_bytes, es_limits = new_limits demo_policy, es_probe = Some (Directory mode_700 []),
       es_tree = Directory mode_700 [], es_trace = wk_trace s\<rparr> = (st, Inr ())"
     "es_probe st = Some (Directory mode_700 [])" "es_tree st = Directory mode_700 [(''a'', RegFile mode_700 1 ''x'')]"
    using demo_exported_file by blast
  have "remove_tree quiet_os ?probe (Some (Directory mode_700 [])) = (None, [], Inr ())"
    by (simp add: remove_tree_def remove_inner_def call_def)
  with g st assms(1) show ?thesis
    by (simp add: export_selected_container_files_def on_disk_files_def tree_at_def seed_tree_def put_tree_def staging_names_differ
        staging_names_differ [symmetric] del: export_each.simps)
qed

lemma demo_exported:
  "\<exists>s. export_container_files demo_globs quiet_os demo_export ''c'' ''/w'' [''workspaces'', ''w''] [[''a'']]
     demo_policy demo_workspaces = (s, Inr ())"
proof -
  let ?f = "as_fs (wk_store demo_workspaces)"
  have d: "disk ?f = [[''workspaces''] \<mapsto> DirE mode_700]" "staging_sequence ?f = 0"
    "as_trees (wk_store demo_workspaces) = [[''workspaces'', ''w''] \<mapsto> Directory mode_700 []]"
    by (simp_all add: demo_workspaces_def)
  obtain g where g: "create_unique_staging_directory quiet_os [''workspaces''] ''workspace-export'' ?f = (g, Inr demo_export_staging)"
    "staging_sequence g = 1" "disk g [''workspaces''] = Some (DirE mode_700)"
    "disk g [''workspaces'', staging_name quiet_os ''workspace-export-file'' 1] = None"
    using demo_staging_directory [of ?f 0 "''workspace-export''"] d staging_names_differ by auto
  let ?s = "put_tree demo_export_staging (Some (Directory mode_700 []))
    (demo_workspaces\<lparr>wk_store := (wk_store demo_workspaces)\<lparr>as_fs := g\<rparr>\<rparr>)"
  obtain s' where s': "export_selected_container_files quiet_os demo_export demo_policy ''c'' ''/w'' [(''a'', [''a''])]
      demo_export_staging ?s = (s', Inr ())"
    "tree_at s' demo_export_staging = Some (Directory mode_700 [(''a'', RegFile mode_700 1 ''x'')])"
    using demo_selected [of ?s] g by auto
  have "\<exists>t. set_tree_owner_only quiet_os (ev_resolved demo_export) demo_export_staging
      (Directory mode_700 [(''a'', RegFile mode_700 1 ''x'')]) = (t, Inr ())"
    by (simp add: set_tree_owner_only_def set_owner_only_file_def chmod_file_def call_def)
  with g(1) s' show ?thesis
    by (auto simp: export_container_files_def demo_candidates still_def populate_empty_directory_atomically_def on_disk_files_def
        tree_at_def d call_def on_root_def seed_tree_def)
qed

subsection \<open>Properties\<close>





end
