(* ===== verification/Codex_Package.thy ===== *)
theory Codex_Package
  imports Steps Lock
begin

text \<open>
  \<open>codex_package.rs\<close>: the cache of Codex packages. A package is a directory tree with a manifest and a
  fixed set of files; its identity is the digest of the manifest and of the sizes and digests of the
  files. \<open>prepare\<close> verifies a source, copies it into the cache and seals it, \<open>load_cached\<close> finds the
  package a candidate lock names and verifies and seals it again. The source is what other processes
  make it (\<open>package_view\<close>); the tree in the cache does not change while one operation looks at it.
\<close>

definition manifest_file :: string where "manifest_file = ''codex-package.json''"
definition official_zsh_file :: string where "official_zsh_file = ''codex-resources/zsh/bin/zsh''"
definition max_manifest_bytes :: nat where "max_manifest_bytes = 64 * 1024"
definition max_package_file_bytes :: u64 where "max_package_file_bytes = 512 * 1024 * 1024"
definition max_package_bytes :: u64 where "max_package_bytes = 1024 * 1024 * 1024"

record codex_manifest =
  cm_layout_version :: "32 word"
  cm_version :: string
  cm_target_triple :: string
  cm_variant :: string
  cm_entrypoint :: string
  cm_resources_dir :: string
  cm_path_dir :: string

record artifact_file =
  af_file_type :: string
  af_mode :: "32 word"
  af_size :: u64
  af_content_sha256 :: string

type_synonym artifact_files = "(string \<times> artifact_file) list"

record cache_metadata =
  me_schema :: string
  me_manifest :: codex_manifest
  me_reported_version :: string
  me_files :: artifact_files
  me_artifact_set_digest :: string

record cached_package =
  cp_root :: path
  cp_manifest :: codex_manifest
  cp_reported_version :: string
  cp_artifact_set_digest :: string

record package_paths =
  pp_entrypoint :: string
  pp_entrypoint_dir :: string
  pp_code_mode_host :: string
  pp_resources_dir :: string
  pp_path_dir :: string
  pp_bwrap :: string

subsection \<open>JSON\<close>

definition manifest_json :: "codex_manifest \<Rightarrow> jval" where
  "manifest_json m =
     JObj [(''layoutVersion'', enc_word (cm_layout_version m)), (''version'', JStr (cm_version m)),
           (''target'', JStr (cm_target_triple m)), (''variant'', JStr (cm_variant m)),
           (''entrypoint'', JStr (cm_entrypoint m)), (''resourcesDir'', JStr (cm_resources_dir m)),
           (''pathDir'', JStr (cm_path_dir m))]"

definition manifest_of_json :: "jval \<Rightarrow> codex_manifest option" where
  "manifest_of_json v =
     Option.bind
       (struct_fields True
          (map (\<lambda>k. (k, False))
             [''layoutVersion'', ''version'', ''target'', ''variant'', ''entrypoint'', ''resourcesDir'', ''pathDir'']) v) (\<lambda>m.
     Option.bind (field_req dec_word m ''layoutVersion'') (\<lambda>layout.
     Option.bind (field_req as_str m ''version'') (\<lambda>version.
     Option.bind (field_req as_str m ''target'') (\<lambda>target.
     Option.bind (field_req as_str m ''variant'') (\<lambda>variant.
     Option.bind (field_req as_str m ''entrypoint'') (\<lambda>entrypoint.
     Option.bind (field_req as_str m ''resourcesDir'') (\<lambda>resources.
     Option.bind (field_req as_str m ''pathDir'') (\<lambda>path_dir.
       Some \<lparr>cm_layout_version = layout, cm_version = version, cm_target_triple = target,
             cm_variant = variant, cm_entrypoint = entrypoint, cm_resources_dir = resources,
             cm_path_dir = path_dir\<rparr>))))))))"

definition artifact_json :: "artifact_file \<Rightarrow> jval" where
  "artifact_json f =
     JObj [(''file_type'', JStr (af_file_type f)), (''mode'', enc_word (af_mode f)),
           (''size'', enc_word (af_size f)), (''content_sha256'', JStr (af_content_sha256 f))]"

definition artifact_of_json :: "jval \<Rightarrow> artifact_file option" where
  "artifact_of_json v =
     Option.bind
       (struct_fields True
          [(''file_type'', False), (''mode'', False), (''size'', False), (''content_sha256'', False)] v) (\<lambda>m.
     Option.bind (field_req as_str m ''file_type'') (\<lambda>file_type.
     Option.bind (field_req dec_word m ''mode'') (\<lambda>mode.
     Option.bind (field_req dec_word m ''size'') (\<lambda>sz.
     Option.bind (field_req as_str m ''content_sha256'') (\<lambda>digest.
       Some \<lparr>af_file_type = file_type, af_mode = mode, af_size = sz, af_content_sha256 = digest\<rparr>)))))"

definition files_json :: "artifact_files \<Rightarrow> jval" where
  "files_json fs = JObj (map (\<lambda>(k, f). (k, artifact_json f)) fs)"

text \<open>Reading a \<open>BTreeMap\<close>: the last value of a key wins.\<close>

definition files_of_json :: "jval \<Rightarrow> artifact_files option" where
  "files_of_json v =
     (case v of
        JObj kvs \<Rightarrow>
          map_option map_of_members
            (all_some (map (\<lambda>(k, x). map_option (\<lambda>f. (k, f)) (artifact_of_json x)) kvs))
      | _ \<Rightarrow> None)"

definition cache_metadata_json :: "cache_metadata \<Rightarrow> jval" where
  "cache_metadata_json m =
     JObj [(''schema'', JStr (me_schema m)), (''manifest'', manifest_json (me_manifest m)),
           (''reported_version'', JStr (me_reported_version m)), (''files'', files_json (me_files m)),
           (''artifact_set_digest'', JStr (me_artifact_set_digest m))]"

definition cache_metadata_of_json :: "jval \<Rightarrow> cache_metadata option" where
  "cache_metadata_of_json v =
     Option.bind
       (struct_fields True
          (map (\<lambda>k. (k, False)) [''schema'', ''manifest'', ''reported_version'', ''files'', ''artifact_set_digest'']) v) (\<lambda>m.
     Option.bind (field_req as_str m ''schema'') (\<lambda>schema.
     Option.bind (field_req manifest_of_json m ''manifest'') (\<lambda>manifest.
     Option.bind (field_req as_str m ''reported_version'') (\<lambda>version.
     Option.bind (field_req files_of_json m ''files'') (\<lambda>files.
     Option.bind (field_req as_str m ''artifact_set_digest'') (\<lambda>digest.
       Some \<lparr>me_schema = schema, me_manifest = manifest, me_reported_version = version,
             me_files = files, me_artifact_set_digest = digest\<rparr>))))))"

subsection \<open>Paths and names\<close>

definition package_path_char :: "char \<Rightarrow> bool" where
  "package_path_char c =
     (is_ascii_alphanumeric c \<or> c = CHR ''/'' \<or> c = CHR ''.'' \<or> c = CHR ''_'' \<or> c = CHR ''-'')"

definition validate_relative_path :: "string \<Rightarrow> unit result" where
  "validate_relative_path p =
     ensure (p \<noteq> [] \<and> list_all package_path_char p \<and> \<not> starts_with p ''/'' \<and> safe_parts p)
       ''Codex package path {path:?} is unsafe''"

definition relative_path :: "string \<Rightarrow> string result" where
  "relative_path p = and_then (ensure (valid_utf8 p) ''Codex package path is not UTF-8'') (Inr p)"

text \<open>\<open>Path::parent\<close> of a relative path.\<close>

definition parent_text :: "string \<Rightarrow> string option" where
  "parent_text p =
     (let parts = filter (\<lambda>c. c \<noteq> []) (split_char CHR ''/'' p)
      in if parts = [] then None else Some (join_with ''/'' (butlast parts)))"

definition join_package_path :: "string option \<Rightarrow> string \<Rightarrow> string result" where
  "join_package_path parent child =
     (let p = (case parent of None \<Rightarrow> child | Some d \<Rightarrow> if d = [] then child else d @ ''/'' @ child)
      in bind_result (relative_path p) (\<lambda>v. and_then (validate_relative_path v) (Inr v)))"

definition paths_of_manifest :: "codex_manifest \<Rightarrow> package_paths result" where
  "paths_of_manifest m =
     (let entry_parent = parent_text (cm_entrypoint m)
      in bind_result
           (case entry_parent of
              Some d \<Rightarrow> if d \<noteq> [] then relative_path d else Inr []
            | None \<Rightarrow> Inr []) (\<lambda>entry_dir.
         bind_result (join_package_path entry_parent ''codex-code-mode-host'') (\<lambda>host.
         bind_result (join_package_path (Some (cm_resources_dir m)) ''bwrap'') (\<lambda>bwrap.
           Inr \<lparr>pp_entrypoint = cm_entrypoint m, pp_entrypoint_dir = entry_dir, pp_code_mode_host = host,
                pp_resources_dir = cm_resources_dir m, pp_path_dir = cm_path_dir m, pp_bwrap = bwrap\<rparr>))))"

text \<open>A \<open>BTreeSet\<close> of strings: sorted and without repetition.\<close>

definition required_files :: "codex_manifest \<Rightarrow> string list result" where
  "required_files m =
     bind_result (paths_of_manifest m) (\<lambda>ps.
     bind_result (join_package_path (Some (pp_path_dir ps)) ''rg'') (\<lambda>ripgrep.
       let required = sort (remdups [pp_entrypoint ps, pp_code_mode_host ps, ripgrep, pp_bwrap ps])
       in and_then (ensure (length required = 4) ''Codex package layout points multiple required files at one path'')
            (Inr required)))"

definition allowed_files :: "codex_manifest \<Rightarrow> string list result" where
  "allowed_files m =
     map_result (\<lambda>files.
         if cm_resources_dir m = ''codex-resources'' then sort (remdups (official_zsh_file # files)) else files)
       (required_files m)"

definition package_platform :: "string \<Rightarrow> string result" where
  "package_platform v =
     (case split_char CHR ''/'' v of
        [os_name, arch] \<Rightarrow>
          and_then (ensure (os_name = ''linux'' \<and> arch \<noteq> []) ''Task work platform must use linux/architecture'')
            (Inr (if arch = ''x86_64'' then ''amd64'' else if arch = ''aarch64'' then ''arm64'' else arch))
      | _ \<Rightarrow> Inl (Bail ''Task work platform must use linux/architecture''))"

definition target_architecture :: "string \<Rightarrow> string" where
  "target_architecture triple =
     (let arch = hd (split_char CHR ''-'' triple)
      in if arch = ''x86_64'' \<or> arch = ''amd64'' then ''amd64''
         else if arch = ''aarch64'' \<or> arch = ''arm64'' then ''arm64'' else arch)"

definition validate_platform :: "string \<Rightarrow> string option \<Rightarrow> unit result" where
  "validate_platform triple platform =
     and_then
       (ensure (contains_str triple ''-linux-'' \<or> starts_with triple ''linux-'')
          ''Codex package target must be a Linux target triple'')
       (case platform of
          None \<Rightarrow> Inr ()
        | Some p \<Rightarrow>
            bind_result (package_platform p) (\<lambda>expected.
              ensure (target_architecture triple = expected)
                ''Codex package target {target_triple:?} is incompatible with Task work platform {task_platform:?}''))"

definition triple_char :: "char \<Rightarrow> bool" where
  "triple_char c = (is_ascii_alphanumeric c \<or> c = CHR ''-'' \<or> c = CHR ''.'' \<or> c = CHR ''_'')"

definition validate_manifest :: "codex_manifest \<Rightarrow> unit result" where
  "validate_manifest m =
     and_then
       (checks
          [(cm_layout_version m = 1, ''unsupported Codex package layoutVersion {}''),
           (trim (cm_version m) \<noteq> [] \<and> \<not> has_control (cm_version m), ''Codex package version is invalid''),
           (trim (cm_target_triple m) \<noteq> [] \<and> list_all triple_char (cm_target_triple m),
            ''Codex package target triple is invalid'')])
    (and_then (validate_platform (cm_target_triple m) None)
    (and_then
       (checks
          [(cm_variant m = ''codex'', ''Codex package variant must be codex''),
           (cm_entrypoint m = ''bin/codex'' \<and> cm_resources_dir m = ''codex-resources'' \<and> cm_path_dir m = ''codex-path'',
            ''Codex package manifest does not use the official standalone layout'')])
    (and_then (validate_relative_path (cm_entrypoint m))
    (and_then (validate_relative_path (cm_resources_dir m))
    (and_then (validate_relative_path (cm_path_dir m))
    (and_then
       (ensure (cm_entrypoint m \<noteq> manifest_file \<and> cm_resources_dir m \<noteq> manifest_file \<and> cm_path_dir m \<noteq> manifest_file)
          ''Codex package layout must not point at codex-package.json'')
    (bind_result (required_files m) (\<lambda>required.
       ensure (required \<noteq> []) ''Codex package layout has no required files''))))))))"

subsection \<open>Verifying a tree\<close>

definition artifact_identity :: "codex_manifest \<Rightarrow> artifact_files \<Rightarrow> jval" where
  "artifact_identity m fs = JObj [(''manifest'', manifest_json m), (''files'', files_json fs)]"

definition calculate_artifact_set_digest :: "library \<Rightarrow> codex_manifest \<Rightarrow> artifact_files \<Rightarrow> string" where
  "calculate_artifact_set_digest L m fs = digest_json L (artifact_identity m fs)"

text \<open>\<open>checked_path_metadata\<close> and the file that is opened then: its mode and its bytes.\<close>

definition checked_file :: "os \<Rightarrow> path \<Rightarrow> node \<Rightarrow> path \<Rightarrow> (mode \<times> string) result" where
  "checked_file env base t rel =
     and_then (with_context ''{kind} is unavailable at {}'' (call env (Lstat (base @ rel))))
       (case node_at t rel of
          None \<Rightarrow> Inl (Context ''{kind} is unavailable at {}'' (Io NotFound))
        | Some (RegFile m links b) \<Rightarrow>
            and_then (ensure (links = 1) ''{kind} must not be a hard link'') (Inr (m, b))
        | Some _ \<Rightarrow> Inl (Bail ''{kind} must be a real regular file''))"

definition read_package_file :: "os \<Rightarrow> path \<Rightarrow> node \<Rightarrow> path \<Rightarrow> string result" where
  "read_package_file env base t rel =
     bind_result (checked_file env base t rel) (\<lambda>(m, b).
     and_then (ensure (length b \<le> max_manifest_bytes) ''{kind} exceeds the permitted size'')
    (and_then (call env (ReadFile (base @ rel))) (Inr b)))"

definition read_manifest :: "library \<Rightarrow> os \<Rightarrow> path \<Rightarrow> node \<Rightarrow> codex_manifest result" where
  "read_manifest L env base t =
     bind_result (read_package_file env base t [manifest_file]) (\<lambda>bytes.
       ok_or (Option.bind (json_parse L bytes) manifest_of_json) ''invalid official codex-package.json'')"

definition validate_source_symlink :: "codex_manifest \<Rightarrow> string \<Rightarrow> unit result" where
  "validate_source_symlink m target =
     bind_result (relative_path target) (\<lambda>target.
     and_then (with_context ''Codex package convenience symlink target is unsafe'' (validate_relative_path target))
       (ensure (target = ''bin/codex'' \<and> cm_entrypoint m = ''bin/codex'')
          ''Codex package convenience symlink must be codex -> bin/codex''))"

fun collect_entry ::
  "os \<Rightarrow> codex_manifest \<Rightarrow> bool \<Rightarrow> path \<Rightarrow> path \<Rightarrow> node \<Rightarrow> path list \<Rightarrow> path list result"
  and collect_entries ::
  "os \<Rightarrow> codex_manifest \<Rightarrow> bool \<Rightarrow> path \<Rightarrow> path \<Rightarrow> entries \<Rightarrow> path list \<Rightarrow> path list result" where
  "collect_entry env m symlink base rel (Symlink target) fs =
     and_then
       (ensure (symlink \<and> path_text rel = ''codex'' \<and> cm_entrypoint m = ''bin/codex'')
          ''Codex package contains an unapproved symlink'')
    (and_then (validate_source_symlink m target) (Inr fs))"
| "collect_entry env m symlink base rel (Directory mode es) fs =
     and_then (call env (ReadDir (base @ rel))) (collect_entries env m symlink base rel es fs)"
| "collect_entry env m symlink base rel (RegFile mode links b) fs =
     and_then (call env (Metadata (base @ rel)))
    (and_then (ensure (links = 1) ''Codex package contains a hard link'') (Inr (fs @ [rel])))"
| "collect_entry env m symlink base rel SpecialFile fs = Inl (Bail ''Codex package contains a special file'')"
| "collect_entries env m symlink base rel [] fs = Inr fs"
| "collect_entries env m symlink base rel ((n, t) # es) fs =
     and_then (call env (EntryAt (base @ rel @ [n])))
    (bind_result (relative_path (path_text (rel @ [n]))) (\<lambda>name.
     and_then (validate_relative_path name)
    (bind_result (collect_entry env m symlink base (rel @ [n]) t fs) (\<lambda>fs.
       collect_entries env m symlink base rel es fs))))"

definition collect_files :: "os \<Rightarrow> codex_manifest \<Rightarrow> bool \<Rightarrow> path \<Rightarrow> node \<Rightarrow> path list result" where
  "collect_files env m symlink base t =
     (if is_dir t
      then bind_result (collect_entry env m symlink base [] t []) (\<lambda>fs.
           bind_result (allowed_files m) (\<lambda>allowed.
             let fs = sort fs
             in and_then
                  (each (\<lambda>f. ensure (path_text f = manifest_file \<or> path_text f \<in> set allowed)
                       ''Codex package contains an extra file {relative:?}'') fs)
                  (Inr fs)))
      else Inl not_a_directory)"

definition normalized_executable :: mode where "normalized_executable = mode_555"

definition normalized_mode :: "mode \<Rightarrow> mode" where
  "normalized_mode m = (if executable_mode m then normalized_executable else mode_444)"

text \<open>\<open>stream_artifact_file\<close>: the description of a file and the size used so far.\<close>

definition stream_artifact_file ::
  "library \<Rightarrow> os \<Rightarrow> path \<Rightarrow> node \<Rightarrow> bool \<Rightarrow> path \<Rightarrow> u64 \<Rightarrow> (artifact_file \<times> u64) result" where
  "stream_artifact_file L env base t require_executable rel used =
     bind_result (checked_file env base t rel) (\<lambda>(m, b).
     and_then (ensure (length b \<le> unat max_package_file_bytes) ''Codex package artifact exceeds the permitted size'')
    (and_then
       (ensure (require_executable \<longrightarrow> normalized_mode m = normalized_executable)
          ''Codex package required file is not executable'')
    (and_then (call env (ReadFile (base @ rel)))
       (let sz = of_nat (length b)
        in bind_result (ok_or (checked_add used sz) ''Codex package size overflowed'') (\<lambda>used.
           and_then (ensure (used \<le> max_package_bytes) ''Codex package exceeds the permitted size'')
             (Inr (\<lparr>af_file_type = ''regular'',
                    af_mode = (if require_executable then normalized_mode m else normalized_executable),
                    af_size = sz, af_content_sha256 = digest_bytes L b\<rparr>, used)))))))"

fun describe_files ::
  "library \<Rightarrow> os \<Rightarrow> path \<Rightarrow> node \<Rightarrow> bool \<Rightarrow> string list \<Rightarrow> u64 \<Rightarrow> artifact_files \<Rightarrow> artifact_files result" where
  "describe_files L env base t drift [] used fs = Inr fs"
| "describe_files L env base t drift (name # names) used fs =
     bind_result
       (with_context ''could not verify Codex package file {relative:?}''
          (stream_artifact_file L env base t (\<not> drift) (split_char CHR ''/'' name) used)) (\<lambda>(f, used).
       describe_files L env base t drift names used
         (map_insert name (if drift then f\<lparr>af_mode := normalized_executable\<rparr> else f) fs))"

definition validate_artifact :: "string \<times> artifact_file \<Rightarrow> unit result" where
  "validate_artifact x =
     (let (name, f) = x
      in and_then (validate_relative_path name)
        (and_then
           (checks
              [(name \<noteq> manifest_file \<and> af_file_type f = ''regular'', ''Codex package artifact {path:?} is not a regular file''),
               (af_mode f = normalized_executable, ''Codex package artifact {path:?} has an invalid normalized mode''),
               (af_size f \<le> max_package_file_bytes, ''Codex package artifact {path:?} exceeds the permitted size'')])
           (with_context ''invalid digest for package file {path:?}'' (validate_digest (af_content_sha256 f)))))"

definition validate_file_metadata :: "codex_manifest \<Rightarrow> artifact_files \<Rightarrow> unit result" where
  "validate_file_metadata m fs =
     bind_result (allowed_files m) (\<lambda>allowed.
     and_then
       (ensure (list_all (\<lambda>x. fst x \<in> set allowed) fs) ''Codex package contains an unapproved artifact path'')
    (and_then (each validate_artifact fs)
    (and_then (ensure (cm_entrypoint m \<in> set (map fst fs)) ''Codex package entrypoint is missing'')
    (bind_result (required_files m) (\<lambda>required.
       each (\<lambda>r. ensure (r \<in> set (map fst fs)) ''Codex package is missing required file {required:?}'') required)))))"

definition verify_package_tree ::
  "library \<Rightarrow> os \<Rightarrow> path \<Rightarrow> node option \<Rightarrow> codex_manifest \<Rightarrow> artifact_files option \<Rightarrow> bool \<Rightarrow> bool \<Rightarrow>
     artifact_files result" where
  "verify_package_tree L env base x m expected symlink drift =
     and_then (call env (Lstat base))
    (case x of
       None \<Rightarrow> Inl (Io NotFound)
     | Some t \<Rightarrow>
         and_then (ensure (is_dir t) ''{kind} must be a real directory'')
        (and_then (validate_manifest m)
        (bind_result (read_manifest L env base t) (\<lambda>actual.
         and_then (ensure (actual = m) ''Codex package manifest changed during verification'')
        (bind_result (checked_file env base t [manifest_file]) (\<lambda>(mode, bytes).
         and_then (ensure (length bytes \<le> max_manifest_bytes) ''Codex package manifest exceeds the permitted size'')
        (bind_result (collect_files env m symlink base t) (\<lambda>files.
         bind_result (allowed_files m) (\<lambda>allowed.
         and_then
           (ensure (list_all (\<lambda>f. path_text f = manifest_file \<or> path_text f \<in> set allowed) files)
              ''Codex package contains an extra file'')
        (bind_result
           (describe_files L env base t drift (filter (\<lambda>a. a \<in> set (map path_text files)) allowed)
              (of_nat (length bytes)) []) (\<lambda>described.
         and_then (validate_file_metadata m described)
        (and_then
           (ensure (expected = None \<or> expected = Some described)
              ''Codex package file metadata changed during verification'')
        (and_then
           (if drift then Inr ()
            else bind_result (is_executable env (base @ [manifest_file]) mode) (\<lambda>e.
                   ensure (\<not> e) ''Codex package manifest must not be executable''))
           (Inr described))))))))))))))"

subsection \<open>Sealing\<close>

definition sealed_file_mode :: "path \<Rightarrow> mode" where
  "sealed_file_mode rel = (if path_text rel = manifest_file then mode_444 else normalized_executable)"

fun set_sealed_entry :: "os \<Rightarrow> path \<Rightarrow> path \<Rightarrow> node \<Rightarrow> node \<times> unit result"
  and set_sealed_entries :: "os \<Rightarrow> path \<Rightarrow> path \<Rightarrow> entries \<Rightarrow> entries \<times> unit result" where
  "set_sealed_entry env base rel (Directory m es) =
     (case and_then (call env (Lstat (base @ rel))) (call env (ReadDir (base @ rel))) of
        Inl e \<Rightarrow> (Directory m es, Inl e)
      | Inr _ \<Rightarrow>
          (case set_sealed_entries env base rel es of
             (es', Inl e) \<Rightarrow> (Directory m es', Inl e)
           | (es', Inr _) \<Rightarrow>
               (case call env (Chmod (base @ rel)) of
                  Inl e \<Rightarrow> (Directory m es', Inl e)
                | Inr _ \<Rightarrow> (Directory mode_555 es', Inr ()))))"
| "set_sealed_entry env base rel (RegFile m l b) =
     (case and_then (map_result (\<lambda>_. ()) (relative_path (path_text rel))) (call env (Chmod (base @ rel))) of
        Inl e \<Rightarrow> (RegFile m l b, Inl e)
      | Inr _ \<Rightarrow> (RegFile (sealed_file_mode rel) l b, Inr ()))"
| "set_sealed_entry env base rel (Symlink x) = (Symlink x, Inl (Bail ''Codex package sealed tree contains a symlink''))"
| "set_sealed_entry env base rel SpecialFile =
     (SpecialFile, Inl (Bail ''Codex package sealed tree contains a special file''))"
| "set_sealed_entries env base rel [] = ([], Inr ())"
| "set_sealed_entries env base rel ((n, t) # es) =
     (case call env (EntryAt (base @ rel @ [n])) of
        Inl e \<Rightarrow> ((n, t) # es, Inl e)
      | Inr _ \<Rightarrow>
          (case set_sealed_entry env base (rel @ [n]) t of
             (t', Inl e) \<Rightarrow> ((n, t') # es, Inl e)
           | (t', Inr _) \<Rightarrow>
               (case set_sealed_entries env base rel es of (es', r) \<Rightarrow> ((n, t') # es', r))))"

definition reseal_cached_tree :: "os \<Rightarrow> path \<Rightarrow> node option \<Rightarrow> node option \<times> unit result" where
  "reseal_cached_tree env base x =
     (case x of
        None \<Rightarrow> (None, Inl (Io NotFound))
      | Some t \<Rightarrow>
          if is_dir t then (case set_sealed_entry env base [] t of (t', r) \<Rightarrow> (Some t', r))
          else (Some t, Inl (Bail ''Codex package sealed tree contains a non-directory'')))"

definition permission_bits :: "mode \<Rightarrow> mode" where
  "permission_bits m = m AND 0xFFF"

fun verify_sealed_entry :: "os \<Rightarrow> path \<Rightarrow> path \<Rightarrow> node \<Rightarrow> unit result"
  and verify_sealed_entries :: "os \<Rightarrow> path \<Rightarrow> path \<Rightarrow> entries \<Rightarrow> unit result" where
  "verify_sealed_entry env base rel (Directory m es) =
     and_then (call env (Lstat (base @ rel)))
    (and_then (ensure (permission_bits m = mode_555) ''Codex package directory is not exactly mode 0555'')
    (and_then (call env (ReadDir (base @ rel))) (verify_sealed_entries env base rel es)))"
| "verify_sealed_entry env base rel (RegFile m l b) =
     and_then (call env (Lstat (base @ rel)))
    (bind_result (relative_path (path_text rel)) (\<lambda>_.
       ensure (permission_bits m = sealed_file_mode rel)
         ''Codex package file {relative:?} is not sealed with its required mode''))"
| "verify_sealed_entry env base rel (Symlink x) = Inl (Bail ''Codex package sealed tree contains a symlink'')"
| "verify_sealed_entry env base rel SpecialFile = Inl (Bail ''Codex package sealed tree contains a special file'')"
| "verify_sealed_entries env base rel [] = Inr ()"
| "verify_sealed_entries env base rel ((n, t) # es) =
     and_then (call env (EntryAt (base @ rel @ [n])))
    (and_then (verify_sealed_entry env base (rel @ [n]) t) (verify_sealed_entries env base rel es))"

definition verify_sealed_tree :: "os \<Rightarrow> path \<Rightarrow> node option \<Rightarrow> unit result" where
  "verify_sealed_tree env base x =
     (case x of
        None \<Rightarrow> Inl (Io NotFound)
      | Some t \<Rightarrow>
          if is_dir t then verify_sealed_entry env base [] t
          else Inl (Bail ''Codex package sealed tree root must be a real directory''))"

subsection \<open>The cache\<close>

definition validate_cache_metadata :: "library \<Rightarrow> cache_metadata \<Rightarrow> unit result" where
  "validate_cache_metadata L m =
     and_then (ensure (me_schema m = ''a3s.bench.codex-package-cache.v1'') ''unsupported Codex package cache metadata schema {:?}'')
    (and_then (validate_manifest (me_manifest m))
    (and_then
       (ensure (me_reported_version m = ''codex-cli '' @ cm_version (me_manifest m) \<and>
                trim (me_reported_version m) \<noteq> [] \<and> \<not> has_control (me_reported_version m))
          ''Codex package reported version is invalid'')
    (and_then (validate_file_metadata (me_manifest m) (me_files m))
    (and_then
       (ensure (calculate_artifact_set_digest L (me_manifest m) (me_files m) = me_artifact_set_digest m)
          ''Codex package cache artifact-set digest does not match its file hashes'')
       (validate_digest (me_artifact_set_digest m))))))"

definition digest_hex :: "string \<Rightarrow> string result" where
  "digest_hex v =
     bind_result (ok_or (strip_prefix_str v sha256_prefix) ''Codex artifact digest must use sha256'') (\<lambda>hex.
     and_then (ensure (length hex = 64 \<and> list_all is_ascii_hexdigit hex) ''invalid Codex artifact-set digest'')
       (Inr hex))"

definition cache_path :: "string \<Rightarrow> path result" where
  "cache_path d = map_result (\<lambda>hex. [''codex-packages'', hex]) (digest_hex d)"

definition metadata_path :: "string \<Rightarrow> path result" where
  "metadata_path d = map_result (\<lambda>hex. [''codex-package-metadata'', hex @ ''.json'']) (digest_hex d)"

definition real_cache_directory :: "os \<Rightarrow> path \<Rightarrow> bool \<Rightarrow> unit result" where
  "real_cache_directory env p is_directory =
     and_then (call env (Lstat p)) (ensure is_directory ''{kind} must be a real directory'')"

definition disk_directory :: "fs \<Rightarrow> path \<Rightarrow> bool" where
  "disk_directory s p = (case disk s p of Some (DirE _) \<Rightarrow> True | _ \<Rightarrow> False)"

definition tree_directory :: "node option \<Rightarrow> bool" where
  "tree_directory x = (case x of Some t \<Rightarrow> is_dir t | None \<Rightarrow> False)"

definition validated_cached_root :: "os \<Rightarrow> string \<Rightarrow> artifact_state \<Rightarrow> path result" where
  "validated_cached_root env d s =
     and_then (real_cache_directory env [''codex-packages''] (disk_directory (as_fs s) [''codex-packages'']))
    (bind_result (cache_path d) (\<lambda>destination.
     and_then (real_cache_directory env destination (tree_directory (as_trees s destination)))
    (and_then
       (ensure (butlast destination = [''codex-packages''])
          ''Codex package cache digest root is outside its validated parent'')
       (Inr destination))))"

definition verify_cached_root ::
  "library \<Rightarrow> os \<Rightarrow> path \<Rightarrow> cache_metadata \<Rightarrow> node option \<Rightarrow> cached_package result" where
  "verify_cached_root L env base m x =
     and_then (validate_cache_metadata L m)
    (bind_result (verify_package_tree L env base x (me_manifest m) (Some (me_files m)) False True) (\<lambda>files.
     let digest = calculate_artifact_set_digest L (me_manifest m) files
     in and_then
          (ensure (digest = me_artifact_set_digest m) ''Codex package artifact-set digest does not match cache metadata'')
          (Inr \<lparr>cp_root = base, cp_manifest = me_manifest m, cp_reported_version = me_reported_version m,
                cp_artifact_set_digest = digest\<rparr>)))"

definition verify_cached_root_sealed ::
  "library \<Rightarrow> os \<Rightarrow> path \<Rightarrow> cache_metadata \<Rightarrow> node option \<Rightarrow> cached_package result" where
  "verify_cached_root_sealed L env base m x =
     bind_result (verify_cached_root L env base m x) (\<lambda>cached.
     and_then (verify_sealed_tree env base x) (Inr cached))"

definition verify_for_mount :: "library \<Rightarrow> os \<Rightarrow> cached_package \<Rightarrow> node option \<Rightarrow> unit result" where
  "verify_for_mount L env p x =
     and_then (validate_manifest (cp_manifest p))
    (and_then
       (ensure (cp_reported_version p = ''codex-cli '' @ cm_version (cp_manifest p) \<and>
                trim (cp_reported_version p) \<noteq> [] \<and> \<not> has_control (cp_reported_version p))
          ''Codex package reported version is invalid'')
    (and_then (validate_digest (cp_artifact_set_digest p))
    (bind_result (verify_package_tree L env (cp_root p) x (cp_manifest p) None False True) (\<lambda>files.
     and_then
       (ensure (calculate_artifact_set_digest L (cp_manifest p) files = cp_artifact_set_digest p)
          ''Codex package artifact-set digest does not match the locked package'')
       (with_context ''Codex package cache is not sealed read-only'' (verify_sealed_tree env (cp_root p) x))))))"

definition container_paths :: "cached_package \<Rightarrow> package_paths result" where
  "container_paths p = and_then (validate_manifest (cp_manifest p)) (paths_of_manifest (cp_manifest p))"

text \<open>The two verifications with the sealing between them; \<open>load_cached\<close> gives their errors a context,
  \<open>prepare_from_path\<close> does not.\<close>

definition optional_context :: "string option \<Rightarrow> 'a result \<Rightarrow> 'a result" where
  "optional_context c r = (case c of None \<Rightarrow> r | Some msg \<Rightarrow> with_context msg r)"

definition verify_and_seal ::
  "library \<Rightarrow> os \<Rightarrow> string option \<Rightarrow> string option \<Rightarrow> path \<Rightarrow> cache_metadata \<Rightarrow> artifact_state \<Rightarrow>
     artifact_state \<times> cached_package result" where
  "verify_and_seal L env first_context last_context base m s =
     (case optional_context first_context (verify_cached_root L env base m (as_trees s base)) of
        Inl e \<Rightarrow> (s, Inl e)
      | Inr _ \<Rightarrow>
          (case reseal_cached_tree env base (as_trees s base) of
             (x, r) \<Rightarrow>
               (s\<lparr>as_trees := (as_trees s)(base := x)\<rparr>,
                and_then r (optional_context last_context (verify_cached_root_sealed L env base m x)))))"

definition read_cache_metadata :: "library \<Rightarrow> os \<Rightarrow> path \<Rightarrow> fs \<Rightarrow> cache_metadata result" where
  "read_cache_metadata L env p s =
     bind_result (read_regular_file env p s) (\<lambda>bytes.
       ok_or (Option.bind (json_parse L bytes) cache_metadata_of_json) ''invalid Codex package cache metadata'')"

definition locked_package ::
  "library \<Rightarrow> os \<Rightarrow> product_lock \<Rightarrow> string option \<Rightarrow> artifact_state \<Rightarrow> (path \<times> cache_metadata) result" where
  "locked_package L env product platform s =
     bind_result (ok_or (pl_target_triple product)
        ''legacy native Codex CandidateLock has no package target; regenerate it for containerized Codex'') (\<lambda>triple.
     bind_result (ok_or (pl_artifact_set_digest product)
        ''legacy native Codex CandidateLock has no package digest; regenerate it for containerized Codex'') (\<lambda>digest.
     bind_result (validated_cached_root env digest s) (\<lambda>destination.
     bind_result (metadata_path digest) (\<lambda>meta.
     bind_result
       (with_context ''verified Codex package {artifact_set_digest} is unavailable; regenerate the CandidateLock''
          (read_cache_metadata L env meta (as_fs s))) (\<lambda>m.
     and_then (validate_cache_metadata L m)
    (and_then
       (checks
          [(cm_target_triple (me_manifest m) = triple, ''cached Codex package target does not match CandidateLock''),
           (me_artifact_set_digest m = digest, ''cached Codex package digest does not match CandidateLock'')])
    (and_then (validate_platform (cm_target_triple (me_manifest m)) platform)
    (and_then
       (checks
          [(trim (pl_version product) \<noteq> [], ''locked Codex product version is empty''),
           (trim (pl_version product) = me_reported_version m,
            ''locked Codex product version does not match the prepared package'')])
       (Inr (destination, m))))))))))"

definition load_cached ::
  "library \<Rightarrow> os \<Rightarrow> product_lock \<Rightarrow> string option \<Rightarrow> artifact_state \<Rightarrow> artifact_state \<times> cached_package result" where
  "load_cached L env product platform s =
     seq (still (locked_package L env product platform s) s) (\<lambda>(destination, m).
       verify_and_seal L env (Some ''locked Codex package is unavailable or corrupt'')
         (Some ''locked Codex package is unavailable, corrupt, or not sealed'') destination m)"

subsection \<open>Preparing a package\<close>

text \<open>The source: its canonical path, the tree at the first look, each file when it is copied, the tree
  at the last look; and what another process put at the destination before the rename.\<close>

record package_view =
  pv_path :: "path result"
  pv_first :: "node option"
  pv_copied :: "path \<Rightarrow> node option"
  pv_last :: "node option"
  pv_rival :: "node option"

text \<open>A file that is copied: verified while it is read, then given its normalized mode. A copy that
  fails leaves no file in the model; the staging directory is removed then.\<close>

definition copy_package_file ::
  "library \<Rightarrow> os \<Rightarrow> package_view \<Rightarrow> path \<Rightarrow> path \<Rightarrow> string \<times> artifact_file \<Rightarrow> node \<Rightarrow> node \<times> unit result" where
  "copy_package_file L env src base staging x t =
     (let (name, expected) = x; rel = split_char CHR ''/'' name; target = staging @ rel
      in case and_then (call env (MkDir (butlast target)))
                (and_then (with_context ''Codex package source file is unavailable'' (call env (Lstat (base @ rel))))
                (case pv_copied src rel of
                   Some (RegFile m links b) \<Rightarrow>
                     and_then
                       (checks
                          [(links = 1, ''{kind} must not be a hard link''),
                           (of_nat (length b) = af_size expected \<and> normalized_mode m = af_mode expected,
                            ''Codex package source file metadata does not match its verified identity'')])
                    (and_then (call env (OpenNew target))
                    (and_then (call env (ReadFile (base @ rel)))
                    (and_then (call env (WriteAll target))
                    (and_then
                       (ensure (length b \<le> unat max_package_file_bytes \<and> of_nat (length b) = af_size expected \<and>
                                digest_bytes L b = af_content_sha256 expected)
                          ''Codex package source file content does not match its verified identity'')
                    (and_then (call env (SyncFile target))
                    (and_then (call env (Chmod target)) (Inr b)))))))
                 | Some _ \<Rightarrow> Inl (Bail ''{kind} must be a real regular file'')
                 | None \<Rightarrow> Inl (Io NotFound))) of
           Inl e \<Rightarrow> (t, Inl (Context ''could not stage Codex package file {relative:?}'' e))
         | Inr b \<Rightarrow>
             (put_file (default_dir_mode env) rel (RegFile (af_mode expected) 1 b)
                (secure_dir_in (default_dir_mode env) (butlast rel) t), Inr ()))"

fun copy_package_files ::
  "library \<Rightarrow> os \<Rightarrow> package_view \<Rightarrow> path \<Rightarrow> path \<Rightarrow> artifact_files \<Rightarrow> node \<Rightarrow> node \<times> unit result" where
  "copy_package_files L env src base staging [] t = (t, Inr ())"
| "copy_package_files L env src base staging (x # xs) t =
     seq (copy_package_file L env src base staging x t) (\<lambda>_. copy_package_files L env src base staging xs)"

definition copy_package_tree ::
  "library \<Rightarrow> os \<Rightarrow> package_view \<Rightarrow> path \<Rightarrow> path \<Rightarrow> codex_manifest \<Rightarrow> artifact_files \<Rightarrow> node \<Rightarrow> node \<times> unit result" where
  "copy_package_tree L env src base staging m fs t =
     (case call env (WriteAll (staging @ [manifest_file])) of
        Inl e \<Rightarrow> (t, Inl e)
      | Inr _ \<Rightarrow>
          seq (copy_package_files L env src base staging fs
                 (put_file (default_dir_mode env) [manifest_file]
                    (RegFile mode_600 1 (json_compact L (manifest_json m))) t)) (\<lambda>_ t.
          still (bind_result (read_manifest L env staging t) (\<lambda>actual.
                   ensure (actual = m) ''Codex package manifest changed while it was being copied'')) t))"

text \<open>The closure \<open>publish\<close>: what is at the staging path and at the destination afterwards.\<close>

definition publish_package ::
  "library \<Rightarrow> os \<Rightarrow> package_view \<Rightarrow> path \<Rightarrow> path \<Rightarrow> path \<Rightarrow> codex_manifest \<Rightarrow> artifact_files \<Rightarrow>
     (node option \<times> node option) \<times> unit result" where
  "publish_package L env src base staging destination m fs =
     (case seq (copy_package_tree L env src base staging m fs (Directory mode_700 [])) (\<lambda>_ t.
             seq (still (and_then
                    (with_context ''Codex package source changed while it was being staged''
                       (map_result (\<lambda>_. ()) (verify_package_tree L env base (pv_last src) m (Some fs) True False)))
                   (and_then
                    (with_context ''staged Codex package failed verification''
                       (map_result (\<lambda>_. ()) (verify_package_tree L env staging (Some t) m (Some fs) False False)))
                    (sync_tree env staging t))) t) (\<lambda>_ t.
             seq (case reseal_cached_tree env staging (Some t) of (x, r) \<Rightarrow> (case x of Some t' \<Rightarrow> t' | None \<Rightarrow> t, r)) (\<lambda>_ t.
             still (with_context ''sealed staged Codex package failed verification''
                      (map_result (\<lambda>_. ()) (verify_package_tree L env staging (Some t) m (Some fs) False False))) t))) of
        (t, Inl e) \<Rightarrow> ((Some t, pv_rival src), Inl e)
      | (t, Inr _) \<Rightarrow>
          if fault env (RenameTo destination) = None \<and> \<not> rename_blocked (pv_rival src)
          then ((None, Some t), Inr ())
          else ((Some t, pv_rival src),
                if tree_directory (pv_rival src) then Inr ()
                else with_context ''could not publish Codex package cache'' (Inl (Io (OtherIo ''rename'')))))"

text \<open>The metadata file: written beside and linked into place, or equal to the one that is there.\<close>

definition ensure_metadata_matches :: "library \<Rightarrow> os \<Rightarrow> path \<Rightarrow> cache_metadata \<Rightarrow> fs \<Rightarrow> unit result" where
  "ensure_metadata_matches L env p m s =
     bind_result (read_cache_metadata L env p s) (\<lambda>existing.
       ensure (existing = m) ''Codex package cache metadata does not match the verified package'')"

definition temporary_metadata :: "os \<Rightarrow> path \<Rightarrow> nat \<Rightarrow> path" where
  "temporary_metadata env p attempt =
     butlast p @ [''.'' @ last p @ ''-tmp-'' @ show_nat (pid env) @ ''-'' @ show_nat attempt]"

definition link_metadata :: "library \<Rightarrow> os \<Rightarrow> path \<Rightarrow> path \<Rightarrow> cache_metadata \<Rightarrow> string \<Rightarrow> fs \<Rightarrow> fs \<times> unit result" where
  "link_metadata L env temporary p m bytes s =
     (case and_then (call env (WriteAll temporary)) (call env (SyncFile temporary)) of
        Inl e \<Rightarrow> (remove_file env temporary s, Inl e)
      | Inr _ \<Rightarrow>
          (let s = s\<lparr>disk := (disk s)(temporary \<mapsto> FileE mode_600 bytes)\<rparr>
           in case fault env (OpenNew p) of
                Some AlreadyExists \<Rightarrow> (remove_file env temporary s, ensure_metadata_matches L env p m s)
              | Some e \<Rightarrow> (remove_file env temporary s, Inl (Io e))
              | None \<Rightarrow>
                  (if disk s p \<noteq> None then (remove_file env temporary s, ensure_metadata_matches L env p m s)
                   else
                     let s = s\<lparr>disk := (disk s)(p \<mapsto> FileE mode_600 bytes)\<rparr>
                     in case call env (RemoveFile temporary) of
                          Inl e \<Rightarrow> (s, Inl e)
                        | Inr _ \<Rightarrow>
                            (let s = s\<lparr>disk := (disk s)(temporary := None)\<rparr>
                             in case and_then (call env (Metadata p)) (call env (Chmod p)) of
                                  Inl e \<Rightarrow> (s, Inl e)
                                | Inr _ \<Rightarrow>
                                    (s\<lparr>disk := (disk s)(p \<mapsto> FileE mode_400 bytes)\<rparr>,
                                     call env (SyncDir (butlast p)))))))"

fun metadata_attempts ::
  "nat \<Rightarrow> nat \<Rightarrow> library \<Rightarrow> os \<Rightarrow> path \<Rightarrow> cache_metadata \<Rightarrow> string \<Rightarrow> fs \<Rightarrow> fs \<times> unit result" where
  "metadata_attempts 0 attempt L env p m bytes s =
     (s, Inl (Bail ''could not allocate an atomic Codex package metadata file''))"
| "metadata_attempts (Suc k) attempt L env p m bytes s =
     (let temporary = temporary_metadata env p attempt
      in case fault env (OpenNew temporary) of
           Some AlreadyExists \<Rightarrow> metadata_attempts k (attempt + 1) L env p m bytes s
         | Some e \<Rightarrow> (s, Inl (Io e))
         | None \<Rightarrow>
             (if disk s temporary \<noteq> None then metadata_attempts k (attempt + 1) L env p m bytes s
              else link_metadata L env temporary p m bytes
                     (s\<lparr>disk := (disk s)(temporary \<mapsto> FileE mode_600 [])\<rparr>)))"

definition metadata_matches :: "library \<Rightarrow> os \<Rightarrow> path \<Rightarrow> cache_metadata \<Rightarrow> fs \<Rightarrow> bool result" where
  "metadata_matches L env p m s =
     (case fault env (Lstat p) of
        Some NotFound \<Rightarrow> Inr False
      | Some e \<Rightarrow> Inl (Io e)
      | None \<Rightarrow>
          (if disk s p = None then Inr False
           else and_then (ensure_metadata_matches L env p m s) (Inr True)))"

definition write_metadata_if_absent :: "library \<Rightarrow> os \<Rightarrow> path \<Rightarrow> cache_metadata \<Rightarrow> fs \<Rightarrow> fs \<times> unit result" where
  "write_metadata_if_absent L env p m s =
     seq (still (metadata_matches L env p m s) s) (\<lambda>there s.
       if there then (s, Inr ())
       else seq (secure_directory env (butlast p) s) (\<lambda>_.
              metadata_attempts 32 0 L env p m (json_pretty L (cache_metadata_json m))))"

text \<open>What \<open>prepare\<close> finds out about the source before it changes anything.\<close>

definition plan_package ::
  "library \<Rightarrow> os \<Rightarrow> package_view \<Rightarrow> string option \<Rightarrow> (path \<times> cache_metadata \<times> path \<times> path) result" where
  "plan_package L env src platform =
     bind_result (with_context ''Codex package source is unavailable'' (pv_path src)) (\<lambda>base.
     bind_result (case pv_first src of None \<Rightarrow> Inl (Io NotFound) | Some t \<Rightarrow> read_manifest L env base t) (\<lambda>manifest.
     and_then (validate_manifest manifest)
    (and_then (validate_platform (cm_target_triple manifest) platform)
    (bind_result
       (with_context ''Codex package source failed verification''
          (verify_package_tree L env base (pv_first src) manifest None True False)) (\<lambda>files.
     let digest = calculate_artifact_set_digest L manifest files;
         m = \<lparr>me_schema = ''a3s.bench.codex-package-cache.v1'', me_manifest = manifest,
              me_reported_version = ''codex-cli '' @ cm_version manifest, me_files = files,
              me_artifact_set_digest = digest\<rparr>
     in and_then (validate_cache_metadata L m)
       (bind_result (cache_path digest) (\<lambda>destination.
        bind_result (metadata_path digest) (\<lambda>meta. Inr (base, m, destination, meta)))))))))"

definition package_present :: "os \<Rightarrow> path \<Rightarrow> node option \<Rightarrow> bool result" where
  "package_present env p x =
     (case fault env (Lstat p) of
        Some NotFound \<Rightarrow> Inr False
      | Some e \<Rightarrow> Inl (Io e)
      | None \<Rightarrow>
          (if x = None then Inr False
           else and_then (ensure (tree_directory x) ''Codex package cache path is not a real directory'') (Inr True)))"

definition on_files :: "(fs \<Rightarrow> fs \<times> 'a result) \<Rightarrow> artifact_state \<Rightarrow> artifact_state \<times> 'a result" where
  "on_files f s = (case f (as_fs s) of (g, r) \<Rightarrow> (s\<lparr>as_fs := g\<rparr>, r))"

definition finish_package ::
  "library \<Rightarrow> os \<Rightarrow> path \<Rightarrow> path \<Rightarrow> cache_metadata \<Rightarrow> artifact_state \<Rightarrow> artifact_state \<times> cached_package result" where
  "finish_package L env destination meta m s =
     seq (verify_and_seal L env None None destination m s) (\<lambda>cached s.
     seq (on_files (write_metadata_if_absent L env meta m) s) (\<lambda>_.
     still (Inr cached)))"

definition stage_package ::
  "library \<Rightarrow> os \<Rightarrow> package_view \<Rightarrow> path \<Rightarrow> path \<Rightarrow> cache_metadata \<Rightarrow> artifact_state \<Rightarrow> artifact_state \<times> unit result" where
  "stage_package L env src base destination m s =
     seq (on_files (create_unique_staging_directory env [''codex-packages''] ''codex-package'') s) (\<lambda>staging s.
       (case publish_package L env src base staging destination (me_manifest m) (me_files m) of
          ((left, placed), r) \<Rightarrow>
            (s\<lparr>as_trees := (as_trees s)
                  (staging := (case left of None \<Rightarrow> None | Some t \<Rightarrow> fst (remove_tree env staging (Some t))),
                   destination := placed)\<rparr>, r)))"

definition prepare_from_path ::
  "library \<Rightarrow> os \<Rightarrow> package_view \<Rightarrow> string option \<Rightarrow> artifact_state \<Rightarrow> artifact_state \<times> cached_package result" where
  "prepare_from_path L env src platform s =
     seq (still (plan_package L env src platform) s) (\<lambda>(base, m, destination, meta) s.
     seq (on_files (secure_directory env [''codex-packages'']) s) (\<lambda>_ s.
     seq (on_files (secure_directory env [''codex-package-metadata'']) s) (\<lambda>_ s.
     seq (still (package_present env destination (as_trees s destination)) s) (\<lambda>present s.
       if present then finish_package L env destination meta m s
       else if disk (as_fs s) meta \<noteq> None
       then (s, Inl (Bail ''Codex package cache metadata exists without its package''))
       else seq (stage_package L env src base destination m s) (\<lambda>_. finish_package L env destination meta m)))))"

subsection \<open>Round trips\<close>

lemma manifest_of_manifest_json: "manifest_of_json (manifest_json m) = Some m"
  by (cases m) (simp add: manifest_of_json_def manifest_json_def struct_fields_def struct_roundtrip)

lemma artifact_of_artifact_json: "artifact_of_json (artifact_json f) = Some f"
  by (cases f) (simp add: artifact_of_json_def artifact_json_def struct_fields_def struct_roundtrip)

lemma files_of_files_json: "sorted_keys fs \<Longrightarrow> files_of_json (files_json fs) = Some fs"
proof -
  have "all_some (map ((\<lambda>(k, x). map_option (\<lambda>f. (k, f)) (artifact_of_json x)) \<circ> (\<lambda>(k, f). (k, artifact_json f))) fs) = Some fs"
    by (induction fs) (auto simp: artifact_of_artifact_json)
  then show "sorted_keys fs \<Longrightarrow> files_of_json (files_json fs) = Some fs"
    by (simp add: files_of_json_def files_json_def map_of_members_fixed)
qed

lemma cache_metadata_of_cache_metadata_json:
  "sorted_keys (me_files m) \<Longrightarrow> cache_metadata_of_json (cache_metadata_json m) = Some m"
  by (cases m)
     (simp add: cache_metadata_of_json_def cache_metadata_json_def struct_fields_def struct_roundtrip
        manifest_of_manifest_json files_of_files_json)

lemma json_value_package [simp]:
  "json_value (manifest_json m)" "json_value (files_json fs)" "json_value (cache_metadata_json c)"
  "json_value (artifact_identity m fs)"
  by (auto simp: manifest_json_def files_json_def artifact_json_def cache_metadata_json_def artifact_identity_def)

lemma artifact_identity_inj:
  "artifact_identity m fs = artifact_identity m' fs' \<longleftrightarrow> m = m' \<and> fs = fs'"
proof -
  have m: "manifest_json m = manifest_json m' \<longleftrightarrow> m = m'" by (metis manifest_of_manifest_json option.inject)
  have "inj (\<lambda>(k :: string, f). (k, artifact_json f))"
    by (auto simp: inj_def) (metis artifact_of_artifact_json option.inject)
  then have "files_json fs = files_json fs' \<longleftrightarrow> fs = fs'" by (simp add: files_json_def inj_map_eq_map)
  with m show ?thesis by (simp add: artifact_identity_def)
qed

subsection \<open>What verification shows\<close>

definition file_bytes :: "node \<Rightarrow> string \<Rightarrow> string option" where
  "file_bytes t name = (case node_at t (split_char CHR ''/'' name) of Some (RegFile m l b) \<Rightarrow> Some b | _ \<Rightarrow> None)"

text \<open>A file is what its description says.\<close>

definition described :: "library \<Rightarrow> node \<Rightarrow> string \<times> artifact_file \<Rightarrow> bool" where
  "described L t x =
     (\<exists>b. file_bytes t (fst x) = Some b \<and> af_size (snd x) = of_nat (length b) \<and>
        length b \<le> unat max_package_file_bytes \<and> af_content_sha256 (snd x) = digest_bytes L b)"

lemma checked_file_bytes:
  "checked_file env base t (split_char CHR ''/'' name) = Inr (m, b) \<Longrightarrow> file_bytes t name = Some b"
  by (auto simp: checked_file_def and_then_Inr file_bytes_def split: option.splits node.splits)

lemma stream_described:
  "stream_artifact_file L env base t x (split_char CHR ''/'' name) used = Inr (f, used') \<Longrightarrow>
     described L t (name, f)"
  by (auto simp: stream_artifact_file_def described_def bind_result_Inr and_then_Inr ensure_Inr Let_def
      dest: checked_file_bytes)

lemma describe_files_described:
  "describe_files L env base t drift names used fs = Inr fs' \<Longrightarrow> sorted_keys fs \<Longrightarrow> list_all (described L t) fs \<Longrightarrow>
     sorted_keys fs' \<and> list_all (described L t) fs'"
proof (induction names arbitrary: used fs)
  case Nil
  then show ?case by simp
next
  case (Cons name names)
  obtain f used1 where f: "stream_artifact_file L env base t (\<not> drift) (split_char CHR ''/'' name) used = Inr (f, used1)"
    and rest: "describe_files L env base t drift names used1
      (map_insert name (if drift then f\<lparr>af_mode := normalized_executable\<rparr> else f) fs) = Inr fs'"
    using Cons.prems(1) by (auto simp: bind_result_Inr with_context_Inr)
  let ?g = "if drift then f\<lparr>af_mode := normalized_executable\<rparr> else f"
  have "described L t (name, ?g)" using stream_described [OF f] by (simp add: described_def)
  moreover have "set (map_insert name ?g fs) \<subseteq> insert (name, ?g) (set fs)"
  proof (induction fs)
    case (Cons a m)
    then show ?case by (cases a) auto
  qed simp
  ultimately have "list_all (described L t) (map_insert name ?g fs)"
    using Cons.prems(3) by (auto simp: list_all_iff)
  with Cons.IH [OF rest] Cons.prems(2) show ?case by (simp add: map_insert_sorted)
qed

lemma verify_package_tree_Inr:
  assumes "verify_package_tree L env base x m expected symlink drift = Inr fs"
  shows "\<exists>t. x = Some t \<and> list_all (described L t) fs \<and> sorted_keys fs \<and> validate_file_metadata m fs = Inr () \<and>
    expected \<in> {None, Some fs} \<and> read_manifest L env base t = Inr m"
proof -
  from assms obtain t where t: "x = Some t" by (auto simp: verify_package_tree_def and_then_Inr split: option.splits)
  from assms [unfolded verify_package_tree_def t option.case and_then_Inr bind_result_Inr split_beta ensure_Inr]
  obtain names used where "describe_files L env base t drift names used [] = Inr fs"
    "validate_file_metadata m fs = Inr ()" "expected = None \<or> expected = Some fs" "read_manifest L env base t = Inr m"
    by auto
  with t describe_files_described [of L env base t drift names used "[]" fs] show ?thesis by auto
qed

text \<open>Sealed exactly: the directories have mode 555, the files 555, the manifest 444.\<close>

fun package_sealed :: "path \<Rightarrow> node \<Rightarrow> bool" where
  "package_sealed rel (Directory m es) =
     (permission_bits m = mode_555 \<and> list_all (\<lambda>x. package_sealed (rel @ [fst x]) (snd x)) es)"
| "package_sealed rel (RegFile m l b) = (permission_bits m = sealed_file_mode rel)"
| "package_sealed rel (Symlink x) = False"
| "package_sealed rel SpecialFile = False"

lemma verify_sealed_entry_Inr:
  "verify_sealed_entry env base rel t = Inr () \<Longrightarrow> package_sealed rel t"
  "verify_sealed_entries env base rel es = Inr () \<Longrightarrow> list_all (\<lambda>x. package_sealed (rel @ [fst x]) (snd x)) es"
  by (induction env base rel t and env base rel es rule: verify_sealed_entry_verify_sealed_entries.induct)
    (auto simp: and_then_Inr bind_result_Inr ensure_Inr)

lemma verify_sealed_tree_Inr: "verify_sealed_tree env base x = Inr () \<Longrightarrow> \<exists>t. x = Some t \<and> package_sealed [] t"
  by (auto simp: verify_sealed_tree_def verify_sealed_entry_Inr split: option.splits if_splits)

text \<open>What a package that was loaded is.\<close>

definition genuine :: "library \<Rightarrow> node \<Rightarrow> cached_package \<Rightarrow> artifact_files \<Rightarrow> bool" where
  "genuine L t p fs =
     (package_sealed [] t \<and> list_all (described L t) fs \<and> sorted_keys fs \<and>
      validate_file_metadata (cp_manifest p) fs = Inr () \<and>
      cp_artifact_set_digest p = calculate_artifact_set_digest L (cp_manifest p) fs)"

lemma verify_and_seal_Inr:
  assumes "verify_and_seal L env c1 c2 base m s = (s', Inr p)"
  obtains t where "as_trees s' base = Some t" "genuine L t p (me_files m)" "cp_root p = base"
    "cp_manifest p = me_manifest m" "cp_reported_version p = me_reported_version m"
    "cp_artifact_set_digest p = me_artifact_set_digest m"
proof -
  have ctx: "optional_context c r = Inr v \<longleftrightarrow> r = Inr v" for c and r :: "'b result" and v
    by (auto simp: optional_context_def with_context_Inr split: option.splits)
  from assms obtain x where s': "s' = s\<lparr>as_trees := (as_trees s)(base := x)\<rparr>"
    and v: "verify_cached_root_sealed L env base m x = Inr p"
    unfolding verify_and_seal_def
    by (cases "optional_context c1 (verify_cached_root L env base m (as_trees s base))";
        cases "reseal_cached_tree env base (as_trees s base)")
      (simp_all add: and_then_Inr ctx, metis)
  from v have root: "verify_cached_root L env base m x = Inr p" and sealed: "verify_sealed_tree env base x = Inr ()"
    by (auto simp: verify_cached_root_sealed_def bind_result_Inr and_then_Inr)
  from root obtain fs where fs: "verify_package_tree L env base x (me_manifest m) (Some (me_files m)) False True = Inr fs"
    and p: "p = \<lparr>cp_root = base, cp_manifest = me_manifest m, cp_reported_version = me_reported_version m,
        cp_artifact_set_digest = calculate_artifact_set_digest L (me_manifest m) fs\<rparr>"
      "calculate_artifact_set_digest L (me_manifest m) fs = me_artifact_set_digest m"
    by (auto simp: verify_cached_root_def bind_result_Inr and_then_Inr ensure_Inr Let_def)
  obtain t where t: "x = Some t" "list_all (described L t) fs" "sorted_keys fs"
    "validate_file_metadata (me_manifest m) fs = Inr ()" "Some (me_files m) \<in> {None, Some fs}"
    using verify_package_tree_Inr [OF fs] by blast
  then have "fs = me_files m" by simp
  have "package_sealed [] t" using verify_sealed_tree_Inr [OF sealed] t(1) by simp
  with t(2-4) p \<open>fs = me_files m\<close> have "genuine L t p (me_files m)" by (simp add: genuine_def)
  then show ?thesis by (rule that [rotated]) (simp_all add: s' p t(1) del: fun_upd_apply, simp)
qed

lemma locked_package_Inr:
  assumes "locked_package L env product platform s = Inr (base, m)"
  shows "pl_target_triple product = Some (cm_target_triple (me_manifest m))"
    "pl_artifact_set_digest product = Some (me_artifact_set_digest m)"
    "trim (pl_version product) = me_reported_version m" "validate_cache_metadata L m = Inr ()"
    "cache_path (me_artifact_set_digest m) = Inr base"
proof -
  from assms obtain triple digest where
    "pl_target_triple product = Some triple" "pl_artifact_set_digest product = Some digest"
    "validated_cached_root env digest s = Inr base" "validate_cache_metadata L m = Inr ()"
    "cm_target_triple (me_manifest m) = triple" "me_artifact_set_digest m = digest"
    "trim (pl_version product) = me_reported_version m"
    unfolding locked_package_def bind_result_Inr and_then_Inr checks_Inr ok_or_Inr by force
  then show "pl_target_triple product = Some (cm_target_triple (me_manifest m))"
    "pl_artifact_set_digest product = Some (me_artifact_set_digest m)"
    "trim (pl_version product) = me_reported_version m" "validate_cache_metadata L m = Inr ()"
    "cache_path (me_artifact_set_digest m) = Inr base"
    by (auto simp: validated_cached_root_def bind_result_Inr and_then_Inr)
qed

text \<open>Two genuine packages with one digest have the same files.\<close>

lemma genuine_same_files:
  assumes "json_library L" "genuine L t p fs" "genuine L t' p' fs'"
    "cp_artifact_set_digest p = cp_artifact_set_digest p'"
  shows "sha_collision L (json_compact L (artifact_identity (cp_manifest p) fs))
      (json_compact L (artifact_identity (cp_manifest p') fs')) \<or>
    cp_manifest p = cp_manifest p' \<and> fs = fs' \<and>
    (\<forall>name \<in> fst ` set fs. \<exists>b b'. file_bytes t name = Some b \<and> file_bytes t' name = Some b' \<and>
        (b = b' \<or> sha_collision L b b'))"
proof -
  have "digest_json L (artifact_identity (cp_manifest p) fs) = digest_json L (artifact_identity (cp_manifest p') fs')"
    using assms(2-4) by (simp add: genuine_def calculate_artifact_set_digest_def)
  then consider "sha_collision L (json_compact L (artifact_identity (cp_manifest p) fs))
      (json_compact L (artifact_identity (cp_manifest p') fs'))"
    | "cp_manifest p = cp_manifest p'" "fs = fs'"
    using digest_json_binds [OF assms(1) json_value_package(4) json_value_package(4)]
    unfolding artifact_identity_inj by metis
  then show ?thesis
  proof cases
    case 2
    have "\<exists>b b'. file_bytes t (fst x) = Some b \<and> file_bytes t' (fst x) = Some b' \<and> (b = b' \<or> sha_collision L b b')"
      if "x \<in> set fs" for x
    proof -
      have "described L t x" "described L t' x" using assms(2,3) that 2(2) by (auto simp: genuine_def list_all_iff)
      then obtain b b' where "file_bytes t (fst x) = Some b" "file_bytes t' (fst x) = Some b'"
        "digest_bytes L b = digest_bytes L b'"
        by (auto simp: described_def)
      with digest_bytes_binds show ?thesis by blast
    qed
    with 2 show ?thesis by auto
  qed simp
qed

lemma load_cached_Inr:
  assumes "load_cached L env product platform s = (s1, Inr p)"
  shows "\<exists>t fs. as_trees s1 (cp_root p) = Some t \<and> genuine L t p fs \<and>
    pl_target_triple product = Some (cm_target_triple (cp_manifest p)) \<and>
    pl_artifact_set_digest product = Some (cp_artifact_set_digest p) \<and>
    trim (pl_version product) = cp_reported_version p"
proof -
  from assms obtain base m c1 c2 where locked: "locked_package L env product platform s = Inr (base, m)"
    and sealed: "verify_and_seal L env c1 c2 base m s = (s1, Inr p)"
    by (auto simp: load_cached_def seq_Inr still_def)
  from verify_and_seal_Inr [OF sealed] locked_package_Inr [OF locked] show ?thesis by metis
qed

subsection \<open>A package in a store\<close>

definition demo_codex_manifest :: codex_manifest where
  "demo_codex_manifest =
     \<lparr>cm_layout_version = 1, cm_version = ''1'', cm_target_triple = ''x86_64-linux-musl'', cm_variant = ''codex'',
      cm_entrypoint = ''bin/codex'', cm_resources_dir = ''codex-resources'', cm_path_dir = ''codex-path''\<rparr>"

definition demo_artifact_file :: artifact_file where
  "demo_artifact_file =
     \<lparr>af_file_type = ''regular'', af_mode = mode_555, af_size = 1, af_content_sha256 = digest_bytes toy_library []\<rparr>"

definition demo_names :: "string list" where
  "demo_names = [''bin/codex'', ''bin/codex-code-mode-host'', ''codex-path/rg'', ''codex-resources/bwrap'']"

definition demo_metadata :: cache_metadata where
  "demo_metadata =
     \<lparr>me_schema = ''a3s.bench.codex-package-cache.v1'', me_manifest = demo_codex_manifest,
      me_reported_version = ''codex-cli 1'',
      me_files = map (\<lambda>n. (n, demo_artifact_file)) demo_names,
      me_artifact_set_digest = digest_bytes toy_library []\<rparr>"

definition demo_package_tree :: "mode \<Rightarrow> mode \<Rightarrow> mode \<Rightarrow> node" where
  "demo_package_tree dm mm fm = Directory dm
     [(manifest_file, RegFile mm 1 (json_compact toy_library (manifest_json demo_codex_manifest))),
      (''bin'', Directory dm
         [(''codex'', RegFile fm 1 ''c''), (''codex-code-mode-host'', RegFile fm 1 ''h'')]),
      (''codex-path'', Directory dm [(''rg'', RegFile fm 1 ''r'')]),
      (''codex-resources'', Directory dm [(''bwrap'', RegFile fm 1 ''b'')])]"

definition demo_product :: product_lock where
  "demo_product = \<lparr>pl_name = ''codex-cli'', pl_version = ''codex-cli 1'',
     pl_target_triple = Some ''x86_64-linux-musl'', pl_artifact_set_digest = Some (digest_bytes toy_library [])\<rparr>"

definition demo_package_path :: path where
  "demo_package_path = [''codex-packages'', replicate 64 CHR ''0'']"

definition demo_metadata_path :: path where
  "demo_metadata_path = [''codex-package-metadata'', replicate 64 CHR ''0'' @ ''.json'']"

definition demo_package_store :: artifact_state where
  "demo_package_store =
     \<lparr>as_fs = \<lparr>disk = [[''codex-packages''] \<mapsto> DirE mode_700,
        demo_metadata_path \<mapsto> FileE mode_400 (json_pretty toy_library (cache_metadata_json demo_metadata))],
        staging_sequence = 0\<rparr>,
      as_trees = [demo_package_path \<mapsto> demo_package_tree mode_700 mode_600 mode_700]\<rparr>"

definition demo_cached :: cached_package where
  "demo_cached = \<lparr>cp_root = demo_package_path, cp_manifest = demo_codex_manifest, cp_reported_version = ''codex-cli 1'',
     cp_artifact_set_digest = digest_bytes toy_library []\<rparr>"

lemma demo_manifest_length: "length (json_compact toy_library (manifest_json demo_codex_manifest)) < 1000"
  by code_simp

lemma demo_stream:
  assumes "node_at t rel = Some (RegFile m 1 [c])" "used < 2000"
  shows "stream_artifact_file toy_library quiet_os base t False rel used = Inr (demo_artifact_file, used + 1)"
proof -
  have "unat used < 2000" using assms(2) by (simp add: word_less_nat_alt)
  then have "checked_add used 1 = Some (used + 1)" "used + 1 \<le> max_package_bytes"
    by (simp_all add: checked_add_def max_package_bytes_def word_le_nat_alt unat_word_ariths)
  moreover have "unat max_package_file_bytes \<ge> 1" by (simp add: max_package_file_bytes_def)
  ultimately show ?thesis
    using assms(1)
    by (simp add: stream_artifact_file_def checked_file_def call_def demo_artifact_file_def normalized_executable_def
        digest_bytes_def toy_library_def)
qed

lemma demo_described:
  "used < 1000 \<Longrightarrow>
   describe_files toy_library quiet_os base (demo_package_tree dm mm fm) True demo_names used [] =
     Inr (me_files demo_metadata)"
proof -
  assume u: "used < (1000 :: u64)"
  have "split_char CHR ''/'' ''bin/codex'' = [''bin'', ''codex'']"
    "split_char CHR ''/'' ''bin/codex-code-mode-host'' = [''bin'', ''codex-code-mode-host'']"
    "split_char CHR ''/'' ''codex-path/rg'' = [''codex-path'', ''rg'']"
    "split_char CHR ''/'' ''codex-resources/bwrap'' = [''codex-resources'', ''bwrap'']"
    by code_simp+
  moreover have "unat used < 1000" using u by (simp add: word_less_nat_alt)
  then have "used < 2000" "used + 1 < 2000" "used + 2 < 2000" "used + 3 < 2000"
    by (simp_all add: word_less_nat_alt unat_word_ariths)
  moreover have "\<exists>m. node_at (demo_package_tree dm mm fm) [''bin'', ''codex''] = Some (RegFile m 1 ''c'')"
    "\<exists>m. node_at (demo_package_tree dm mm fm) [''bin'', ''codex-code-mode-host''] = Some (RegFile m 1 ''h'')"
    "\<exists>m. node_at (demo_package_tree dm mm fm) [''codex-path'', ''rg''] = Some (RegFile m 1 ''r'')"
    "\<exists>m. node_at (demo_package_tree dm mm fm) [''codex-resources'', ''bwrap''] = Some (RegFile m 1 ''b'')"
    by (simp_all add: demo_package_tree_def manifest_file_def)
  ultimately show ?thesis
    by (auto simp: demo_stream add.assoc demo_names_def)
      (simp add: demo_metadata_def demo_names_def demo_artifact_file_def normalized_executable_def; code_simp)
qed

lemma demo_read_manifest:
  "read_manifest toy_library quiet_os base (demo_package_tree dm mm fm) = Inr demo_codex_manifest"
  "checked_file quiet_os base (demo_package_tree dm mm fm) [manifest_file] =
     Inr (mm, json_compact toy_library (manifest_json demo_codex_manifest))"
proof -
  have "json_parse toy_library (json_compact toy_library (manifest_json demo_codex_manifest)) = Some (manifest_json demo_codex_manifest)"
    using toy_json_library by (simp add: json_library_def)
  then show "read_manifest toy_library quiet_os base (demo_package_tree dm mm fm) = Inr demo_codex_manifest"
    "checked_file quiet_os base (demo_package_tree dm mm fm) [manifest_file] =
     Inr (mm, json_compact toy_library (manifest_json demo_codex_manifest))"
    using demo_manifest_length
    by (simp_all add: read_manifest_def read_package_file_def checked_file_def call_def demo_package_tree_def
      manifest_of_manifest_json max_manifest_bytes_def)
qed

lemma demo_package_collected:
  "\<exists>fs. collect_files quiet_os demo_codex_manifest False base (demo_package_tree dm mm fm) = Inr fs \<and>
     map path_text fs = take 2 demo_names @ manifest_file # drop 2 demo_names"
proof -
  let ?fs = "[[''bin'', ''codex''], [''bin'', ''codex-code-mode-host''], [manifest_file], [''codex-path'', ''rg''],
     [''codex-resources'', ''bwrap'']]"
  have "collect_files quiet_os demo_codex_manifest False base (Directory dm
     [(manifest_file, RegFile mm 1 b),
      (''bin'', Directory dm
         [(''codex'', RegFile fm 1 ''c''), (''codex-code-mode-host'', RegFile fm 1 ''h'')]),
      (''codex-path'', Directory dm [(''rg'', RegFile fm 1 ''r'')]),
      (''codex-resources'', Directory dm [(''bwrap'', RegFile fm 1 ''b'')])]) = Inr ?fs" for b
    by code_simp
  moreover have "map path_text ?fs = take 2 demo_names @ manifest_file # drop 2 demo_names" by code_simp
  ultimately show ?thesis unfolding demo_package_tree_def by blast
qed

lemma demo_allowed: "allowed_files demo_codex_manifest = Inr (demo_names @ [official_zsh_file])"
  by code_simp
lemma demo_valid_manifest: "validate_manifest demo_codex_manifest = Inr ()" by code_simp
lemma demo_valid_files: "validate_file_metadata demo_codex_manifest (me_files demo_metadata) = Inr ()" by code_simp
lemma demo_valid_metadata: "validate_cache_metadata toy_library demo_metadata = Inr ()" by code_simp

lemma demo_package_verified:
  "verify_package_tree toy_library quiet_os base (Some (demo_package_tree dm mm fm)) demo_codex_manifest
     (Some (me_files demo_metadata)) False True = Inr (me_files demo_metadata)"
proof -
  obtain fs where fs: "collect_files quiet_os demo_codex_manifest False base (demo_package_tree dm mm fm) = Inr fs"
    "map path_text fs = take 2 demo_names @ manifest_file # drop 2 demo_names"
    using demo_package_collected by blast
  have paths: "path_text ` set fs = insert manifest_file (set demo_names)"
    using fs(2) append_take_drop_id [of 2 demo_names] by (metis Un_insert_right list.simps(15) set_append set_map)
  then have all: "list_all (\<lambda>f. path_text f = manifest_file \<or> path_text f \<in> set (demo_names @ [official_zsh_file])) fs"
    by (auto simp: list_all_iff)
  have zsh: "official_zsh_file \<notin> insert manifest_file (set demo_names)" by code_simp
  have "of_nat (length (json_compact toy_library (manifest_json demo_codex_manifest))) < (1000 :: u64)"
    using demo_manifest_length by (simp add: word_less_nat_alt unat_of_nat)
  moreover have "is_dir (demo_package_tree dm mm fm)" by (simp add: demo_package_tree_def)
  moreover have "filter (\<lambda>a. a = manifest_file \<or> a \<in> set demo_names) demo_names = demo_names"
    by (simp add: filter_id_conv)
  ultimately show ?thesis
    using demo_manifest_length all zsh
    by (simp add: paths verify_package_tree_def call_def demo_valid_manifest demo_read_manifest fs demo_allowed
      demo_described demo_valid_files max_manifest_bytes_def)
qed

lemma demo_root:
  "verify_cached_root toy_library quiet_os demo_package_path demo_metadata (Some (demo_package_tree dm mm fm)) =
     Inr demo_cached"
proof -
  have "me_manifest demo_metadata = demo_codex_manifest"
    "calculate_artifact_set_digest toy_library demo_codex_manifest (me_files demo_metadata) = digest_bytes toy_library []"
    "me_artifact_set_digest demo_metadata = digest_bytes toy_library []"
    "me_reported_version demo_metadata = ''codex-cli 1''"
    by (simp_all add: demo_metadata_def calculate_artifact_set_digest_def digest_json_def digest_bytes_def toy_library_def)
  then show ?thesis
    by (simp add: verify_cached_root_def demo_valid_metadata demo_package_verified demo_cached_def Let_def)
qed

lemma demo_resealed:
  "reseal_cached_tree quiet_os base (Some (demo_package_tree dm mm fm)) =
     (Some (demo_package_tree mode_555 mode_444 mode_555), Inr ())"
proof -
  have "reseal_cached_tree quiet_os base (Some (Directory dm
     [(manifest_file, RegFile mm 1 b),
      (''bin'', Directory dm
         [(''codex'', RegFile fm 1 ''c''), (''codex-code-mode-host'', RegFile fm 1 ''h'')]),
      (''codex-path'', Directory dm [(''rg'', RegFile fm 1 ''r'')]),
      (''codex-resources'', Directory dm [(''bwrap'', RegFile fm 1 ''b'')])])) =
     (Some (Directory mode_555
     [(manifest_file, RegFile mode_444 1 b),
      (''bin'', Directory mode_555
         [(''codex'', RegFile mode_555 1 ''c''), (''codex-code-mode-host'', RegFile mode_555 1 ''h'')]),
      (''codex-path'', Directory mode_555 [(''rg'', RegFile mode_555 1 ''r'')]),
      (''codex-resources'', Directory mode_555 [(''bwrap'', RegFile mode_555 1 ''b'')])]), Inr ())" for b
    by code_simp
  then show ?thesis by (simp add: demo_package_tree_def)
qed

lemma demo_sealed: "verify_sealed_tree quiet_os base (Some (demo_package_tree mode_555 mode_444 mode_555)) = Inr ()"
proof -
  have "verify_sealed_tree quiet_os base (Some (Directory mode_555
     [(manifest_file, RegFile mode_444 1 b),
      (''bin'', Directory mode_555
         [(''codex'', RegFile mode_555 1 ''c''), (''codex-code-mode-host'', RegFile mode_555 1 ''h'')]),
      (''codex-path'', Directory mode_555 [(''rg'', RegFile mode_555 1 ''r'')]),
      (''codex-resources'', Directory mode_555 [(''bwrap'', RegFile mode_555 1 ''b'')])])) = Inr ()" for b
    by code_simp
  then show ?thesis by (simp add: demo_package_tree_def)
qed

lemma demo_package_locked:
  "locked_package toy_library quiet_os demo_product None demo_package_store = Inr (demo_package_path, demo_metadata)"
proof -
  have hex: "digest_hex (digest_bytes toy_library []) = Inr (replicate 64 CHR ''0'')" by code_simp
  have read: "read_cache_metadata toy_library quiet_os demo_metadata_path (as_fs demo_package_store) = Inr demo_metadata"
  proof -
    have "json_parse toy_library (json_pretty toy_library (cache_metadata_json demo_metadata)) =
        Some (cache_metadata_json demo_metadata)"
      using toy_json_library by (simp add: json_library_def)
    moreover have "sorted_keys (me_files demo_metadata)" by code_simp
    ultimately show ?thesis
      using read_back [of quiet_os "as_fs demo_package_store" demo_metadata_path]
      by (simp add: read_cache_metadata_def demo_package_store_def file_at_def content_def
          cache_metadata_of_cache_metadata_json)
  qed
  have root: "validated_cached_root quiet_os (digest_bytes toy_library []) demo_package_store = Inr demo_package_path"
    by (simp add: validated_cached_root_def real_cache_directory_def call_def disk_directory_def cache_path_def hex
        tree_directory_def demo_package_store_def demo_package_path_def demo_package_tree_def demo_metadata_path_def)
  have "checks [(True, a), (True, b)] = Inr ()" for a b by (simp add: checks_Inr)
  moreover have "cm_target_triple demo_codex_manifest = ''x86_64-linux-musl''" by (simp add: demo_codex_manifest_def)
  moreover have "validate_platform ''x86_64-linux-musl'' None = Inr ()" "trim ''codex-cli 1'' = ''codex-cli 1''"
    by code_simp+
  ultimately show ?thesis
    using demo_valid_metadata read root hex
    by (simp add: locked_package_def demo_product_def metadata_path_def demo_metadata_path_def [symmetric])
      (simp add: demo_metadata_def demo_manifest_def)
qed

lemma demo_package_loaded:
  "load_cached toy_library quiet_os demo_product None demo_package_store =
     (demo_package_store\<lparr>as_trees := [demo_package_path \<mapsto> demo_package_tree mode_555 mode_444 mode_555]\<rparr>, Inr demo_cached)"
proof -
  have "as_trees demo_package_store = [demo_package_path \<mapsto> demo_package_tree mode_700 mode_600 mode_700]"
    by (simp add: demo_package_store_def)
  then show ?thesis
    by (simp add: load_cached_def demo_package_locked still_def verify_and_seal_def optional_context_def demo_root demo_resealed
      verify_cached_root_sealed_def demo_sealed)
qed

subsection \<open>Properties\<close>



end
