(* ===== verification/Catalog.thy ===== *)
theory Catalog
  imports Lock
begin

text \<open>
  \<open>catalog.rs\<close>: the built-in catalog of Tasks, a file compiled into the program, its validation against
  the Task bundles of the installation, and the resolution of a Task reference, which is a relative
  path or the id of an entry that is ready. The text of the catalog and the directories of the
  installation are the \<open>installation\<close>.
\<close>

record catalog_task =
  ct_id :: string
  ct_path :: string
  ct_name :: string
  ct_category :: string
  ct_execution_class :: string
  ct_availability :: string
  ct_availability_reason :: string
  ct_admission :: string
  ct_admission_reason :: string
  ct_provenance_ref :: string

record catalog =
  ca_schema :: string
  ca_tasks :: "catalog_task list"

text \<open>The executable as \<open>current_exe\<close> finds it, the directory the program was compiled in, and the
  working directory.\<close>

record installation =
  in_catalog :: string
  in_executable :: "path option"
  in_manifest_dir :: path
  in_cwd :: path

subsection \<open>The catalog file\<close>

definition catalog_task_of_json :: "jval \<Rightarrow> catalog_task option" where
  "catalog_task_of_json v =
     Option.bind
       (struct_fields True
          (map (\<lambda>k. (k, False))
             [''id'', ''path'', ''name'', ''category'', ''execution_class'', ''availability'', ''availability_reason'',
              ''admission'', ''admission_reason'', ''provenance_ref'']) v) (\<lambda>m.
     Option.bind (field_req as_str m ''id'') (\<lambda>i.
     Option.bind (field_req as_str m ''path'') (\<lambda>p.
     Option.bind (field_req as_str m ''name'') (\<lambda>n.
     Option.bind (field_req as_str m ''category'') (\<lambda>c.
     Option.bind (field_req as_str m ''execution_class'') (\<lambda>x.
     Option.bind (field_req as_str m ''availability'') (\<lambda>a.
     Option.bind (field_req as_str m ''availability_reason'') (\<lambda>ar.
     Option.bind (field_req as_str m ''admission'') (\<lambda>d.
     Option.bind (field_req as_str m ''admission_reason'') (\<lambda>dr.
     Option.bind (field_req as_str m ''provenance_ref'') (\<lambda>pr.
       Some \<lparr>ct_id = i, ct_path = p, ct_name = n, ct_category = c, ct_execution_class = x, ct_availability = a,
             ct_availability_reason = ar, ct_admission = d, ct_admission_reason = dr, ct_provenance_ref = pr\<rparr>)))))))))))"

definition catalog_of_json :: "jval \<Rightarrow> catalog option" where
  "catalog_of_json v =
     Option.bind (struct_fields True [(''schema'', False), (''tasks'', False)] v) (\<lambda>m.
     Option.bind (field_req as_str m ''schema'') (\<lambda>schema.
     Option.bind (field_req (dec_list catalog_task_of_json) m ''tasks'') (\<lambda>tasks.
       Some \<lparr>ca_schema = schema, ca_tasks = tasks\<rparr>)))"

subsection \<open>Validation\<close>

definition outside_dir :: "world \<Rightarrow> path \<Rightarrow> bool" where
  "outside_dir W p = (case w_outside W p of Some (Directory m es) \<Rightarrow> True | _ \<Rightarrow> False)"

text \<open>The executable stands in a directory of the installed component.\<close>

definition builtin_root :: "world \<Rightarrow> installation \<Rightarrow> path" where
  "builtin_root W I =
     (case in_executable I of
        Some exe \<Rightarrow>
          (let packaged = butlast (butlast exe) @ [''builtin'']
           in if length exe \<ge> 2 \<and> outside_dir W packaged then packaged else in_manifest_dir I @ [''builtin''])
      | None \<Rightarrow> in_manifest_dir I @ [''builtin''])"

definition check_entry_text :: "string list \<Rightarrow> string list \<Rightarrow> catalog_task \<Rightarrow> unit result" where
  "check_entry_text ids paths e =
     checks
       [(ct_id e \<notin> set ids, ''duplicate built-in Task ID {:?}''),
        (ct_path e \<notin> set paths, ''duplicate built-in Task path {:?}''),
        (ct_path e = ''tasks/'' @ ct_id e, ''built-in Task {:?} has a non-canonical path''),
        (ct_execution_class e \<in> {''conformance'', ''long_horizon''}, ''built-in Task {:?} has invalid execution class''),
        (ct_availability e \<in> {''ready'', ''blocked''}, ''built-in Task {:?} has invalid availability''),
        (trim (ct_availability_reason e) \<noteq> [], ''built-in Task {:?} has no availability reason''),
        (ct_admission e \<in> {''admitted'', ''quarantined''}, ''built-in Task {:?} has invalid admission status''),
        (trim (ct_admission_reason e) \<noteq> [], ''built-in Task {:?} has no admission reason'')]"

definition check_entry_task :: "catalog_task \<Rightarrow> task_info \<Rightarrow> unit result" where
  "check_entry_task e t =
     and_then
       (checks
          [(t_id t = ct_id e, ''catalog ID does not match Task descriptor''),
           (t_name t = ct_name e, ''catalog name does not match Task descriptor''),
           (t_category t = ct_category e, ''catalog category does not match Task descriptor'')])
       (when_some (t_legacy_judge t) (\<lambda>source.
          checks
            [(ls_mode source \<in> {''batch'', ''game_server''}, ''built-in Task {:?} uses unsupported Judge mode {:?}''),
             (ls_platform source = Some ''linux/amd64'', ''built-in Task {:?} must bind its Judge platform'')]))"

fun validate_tasks :: "(string \<Rightarrow> task_info result) \<Rightarrow> string list \<Rightarrow> string list \<Rightarrow> catalog_task list \<Rightarrow> unit result" where
  "validate_tasks load ids paths [] = Inr ()"
| "validate_tasks load ids paths (e # es) =
     and_then (check_entry_text ids paths e)
       (bind_result (with_context ''built-in Task {:?} is invalid'' (load (ct_path e))) (\<lambda>t.
          and_then (check_entry_task e t) (validate_tasks load (ct_id e # ids) (ct_path e # paths) es)))"

text \<open>An entry of the directory that cannot be read, or whose type cannot, does not count.\<close>

definition task_directories :: "os \<Rightarrow> path \<Rightarrow> node option \<Rightarrow> nat result" where
  "task_directories env p x =
     and_then (call env (ReadDir p))
       (case x of
          None \<Rightarrow> Inl (Io NotFound)
        | Some (Directory m es) \<Rightarrow>
            Inr (length (filter (\<lambda>(n, t). fault env (EntryAt (p @ [n])) = None \<and> fault env (Lstat (p @ [n])) = None \<and>
              is_dir t) es))
        | Some _ \<Rightarrow> Inl not_a_directory)"

definition validate_catalog :: "world \<Rightarrow> artifact_state \<Rightarrow> catalog \<Rightarrow> path \<Rightarrow> unit result" where
  "validate_catalog W s c base =
     and_then (ensure (ca_tasks c \<noteq> []) ''built-in catalog must not be empty'')
    (and_then (validate_tasks (\<lambda>p. task_at W s (join_text base p)) [] [] (ca_tasks c))
    (bind_result (task_directories (w_os W) (base @ [''tasks'']) (w_outside W (base @ [''tasks'']))) (\<lambda>n.
       ensure (n = length (ca_tasks c)) ''built-in task directory count does not match catalog'')))"

definition load_catalog :: "world \<Rightarrow> installation \<Rightarrow> artifact_state \<Rightarrow> catalog result" where
  "load_catalog W I s =
     bind_result
       (case Option.bind (json_parse (w_lib W) (in_catalog I)) catalog_of_json of
          None \<Rightarrow> Inl (Context ''invalid built-in catalog'' (External ''serde_json''))
        | Some c \<Rightarrow> Inr c) (\<lambda>c.
     and_then (ensure (ca_schema c = ''a3s-bench/builtin-catalog/v1'') ''unsupported built-in catalog schema {}'')
    (and_then (validate_catalog W s c (builtin_root W I)) (Inr c)))"

subsection \<open>Task references\<close>

definition runnable_task_path :: "world \<Rightarrow> installation \<Rightarrow> artifact_state \<Rightarrow> string \<Rightarrow> path result" where
  "runnable_task_path W I s i =
     bind_result (load_catalog W I s) (\<lambda>c.
     bind_result (ok_or (List.find (\<lambda>e. ct_id e = i) (ca_tasks c)) ''unknown built-in Task {id:?}'') (\<lambda>e.
     and_then (ensure (ct_availability e = ''ready'') ''built-in Task {id:?} is not locally runnable: {}'')
       (Inr (join_text (builtin_root W I) (ct_path e)))))"

definition resolve_task_reference :: "world \<Rightarrow> installation \<Rightarrow> artifact_state \<Rightarrow> string \<Rightarrow> path result" where
  "resolve_task_reference W I s reference =
     (if starts_with reference ''./'' \<or> starts_with reference ''../'' then Inr (join_text (in_cwd I) reference)
      else runnable_task_path W I s reference)"

subsection \<open>What a valid catalog names\<close>

lemma validate_tasks_Inr:
  assumes "validate_tasks load ids paths es = Inr ()"
  shows "(\<forall>e \<in> set es. ct_id e \<notin> set ids \<and> ct_path e = ''tasks/'' @ ct_id e \<and>
      ct_availability e \<in> {''ready'', ''blocked''} \<and>
      (\<exists>t. load (ct_path e) = Inr t \<and> t_id t = ct_id e \<and> t_name t = ct_name e \<and> t_category t = ct_category e)) \<and>
    distinct (map ct_id es)"
  using assms
proof (induction load ids paths es rule: validate_tasks.induct)
  case (2 load ids paths x xs)
  from "2.prems" obtain t where t: "check_entry_text ids paths x = Inr ()" "load (ct_path x) = Inr t"
    "check_entry_task x t = Inr ()" "validate_tasks load (ct_id x # ids) (ct_path x # paths) xs = Inr ()"
    by (auto simp: and_then_Inr bind_result_Inr with_context_Inr)
  have x: "ct_id x \<notin> set ids" "ct_path x = ''tasks/'' @ ct_id x" "ct_availability x \<in> {''ready'', ''blocked''}"
    "t_id t = ct_id x" "t_name t = ct_name x" "t_category t = ct_category x"
    using t(1,3) by (simp_all add: check_entry_text_def check_entry_task_def checks_Inr and_then_Inr)
  note ih = "2.IH" [OF t(4)]
  show ?case using ih x t(2) by auto
qed simp

text \<open>A reference that is not a path resolves only to the bundle of the entry with that id, which is ready
  and whose descriptor has the id.\<close>

lemma runnable_task_path_Inr:
  assumes "runnable_task_path W I s i = Inr p"
  shows "p = join_text (builtin_root W I) (''tasks/'' @ i)" "\<exists>t. task_at W s p = Inr t \<and> t_id t = i"
proof -
  from assms obtain c e where c: "load_catalog W I s = Inr c" "List.find (\<lambda>e. ct_id e = i) (ca_tasks c) = Some e"
    and p: "p = join_text (builtin_root W I) (ct_path e)"
    by (auto simp: runnable_task_path_def bind_result_Inr and_then_Inr ok_or_def split: option.splits)
  from c(2) have e: "e \<in> set (ca_tasks c)" "ct_id e = i" by (auto simp: find_Some_iff)
  from c(1) have "validate_tasks (\<lambda>p. task_at W s (join_text (builtin_root W I) p)) [] [] (ca_tasks c) = Inr ()"
    by (auto simp: load_catalog_def bind_result_Inr and_then_Inr validate_catalog_def split: option.splits)
  from validate_tasks_Inr [OF this] e p
  show "p = join_text (builtin_root W I) (''tasks/'' @ i)" "\<exists>t. task_at W s p = Inr t \<and> t_id t = i" by auto
qed

end
