(* ===== verification/Run_Input.thy ===== *)
theory Run_Input
  imports Codex_Package Catalog
begin

text \<open>
  \<open>run_input.rs\<close>: the options of a run and its inputs. A run that is not locked creates its two locks and
  then loads them as a locked run loads the ones it is given; a lock of the Codex product is created
  with a package prepared in the cache and loaded with the package it names.
\<close>

subsection \<open>Options\<close>

record run_options =
  ro_task :: string
  ro_agent :: string
  ro_model :: "string option"
  ro_effort :: "string option"
  ro_json :: bool
  ro_locked :: bool

record run_flags =
  rf_agent :: "string option"
  rf_model :: "string option"
  rf_effort :: "string option"
  rf_json :: bool
  rf_locked :: bool

definition locked_options :: "world \<Rightarrow> string \<Rightarrow> string \<Rightarrow> run_options" where
  "locked_options W task_lock candidate_lock =
     \<lparr>ro_task = w_lossy W task_lock, ro_agent = w_lossy W candidate_lock, ro_model = None, ro_effort = None,
      ro_json = False, ro_locked = True\<rparr>"

fun parse_flags :: "string list \<Rightarrow> run_flags \<Rightarrow> run_flags result" where
  "parse_flags [] f = Inr f"
| "parse_flags (a # rest) f =
     (if a = ''--agent'' \<and> rf_agent f = None \<and> rest \<noteq> [] then parse_flags (tl rest) (f\<lparr>rf_agent := Some (hd rest)\<rparr>)
      else if a = ''--model'' \<and> rf_model f = None \<and> rest \<noteq> []
      then parse_flags (tl rest) (f\<lparr>rf_model := Some (hd rest)\<rparr>)
      else if a = ''--reasoning-effort'' \<and> rf_effort f = None \<and> rest \<noteq> []
      then parse_flags (tl rest) (f\<lparr>rf_effort := Some (hd rest)\<rparr>)
      else if a = ''--json'' \<and> \<not> rf_json f then parse_flags rest (f\<lparr>rf_json := True\<rparr>)
      else if a = ''--locked'' \<and> \<not> rf_locked f then parse_flags rest (f\<lparr>rf_locked := True\<rparr>)
      else Inl (Bail ''invalid or duplicate run option {value:?}''))"

definition no_flags :: run_flags where
  "no_flags = \<lparr>rf_agent = None, rf_model = None, rf_effort = None, rf_json = False, rf_locked = False\<rparr>"

definition parse_options :: "string list \<Rightarrow> run_options result" where
  "parse_options args =
     and_then (ensure (args \<noteq> []) ''run requires one Task reference'')
    (bind_result (parse_flags (tl args) no_flags) (\<lambda>f.
     bind_result (ok_or (rf_agent f) ''run requires exactly one --agent'') (\<lambda>agent.
     and_then (when_some (rf_effort f) validate_reasoning_effort)
       (Inr \<lparr>ro_task = hd args, ro_agent = agent, ro_model = rf_model f, ro_effort = rf_effort f,
             ro_json = rf_json f, ro_locked = rf_locked f\<rparr>))))"

subsection \<open>Locks of the Codex product\<close>

text \<open>\<open>load_candidate\<close>, whose last step for the Codex product loads the package the lock names: exactly the locks
  of version 3 that pass are of that product.\<close>

definition load_candidate_packaged ::
  "world \<Rightarrow> path \<Rightarrow> artifact_state \<Rightarrow> artifact_state \<times> (candidate_lock \<times> path) result" where
  "load_candidate_packaged W p s =
     seq (still (load_candidate (W\<lparr>w_codex_cached := \<lambda>_. Inr ()\<rparr>) p s) s) (\<lambda>(l, artifact) s.
       (case cl_product l of
          Some product \<Rightarrow>
            if cl_schema l = candidate_lock_v3
            then seq (load_cached (w_lib W) (w_os W) product None s) (\<lambda>_. still (Inr (l, artifact)))
            else (s, Inr (l, artifact))
        | None \<Rightarrow> (s, Inr (l, artifact))))"

definition prepare_product :: "world \<Rightarrow> package_view \<Rightarrow> artifact_state \<Rightarrow> artifact_state \<times> product_lock result" where
  "prepare_product W src s =
     seq (prepare_from_path (w_lib W) (w_os W) src None s) (\<lambda>p.
       still (Inr \<lparr>pl_name = ''codex-cli'', pl_version = cp_reported_version p,
                   pl_target_triple = Some (cm_target_triple (cp_manifest p)),
                   pl_artifact_set_digest = Some (cp_artifact_set_digest p)\<rparr>))"

text \<open>\<open>create_candidate_with_codex_default\<close>: the package is prepared when all else of the lock has been
  checked, before the lock is sealed.\<close>

definition create_candidate_packaged ::
  "world \<Rightarrow> package_view \<Rightarrow> string \<Rightarrow> string option \<Rightarrow> string option \<Rightarrow> string option \<Rightarrow> path \<Rightarrow> artifact_state \<Rightarrow>
     artifact_state \<times> candidate_lock result" where
  "create_candidate_packaged W src reference model effort default_effort output s =
     seq (still (asset_resolve W reference) s) (\<lambda>asset s.
     seq (capture_at W (ap_root asset) s) (\<lambda>digest s.
     seq (still (make_candidate_lock (W\<lparr>w_codex_prepare := Inr ([], [], [])\<rparr>) s model effort default_effort digest) s)
       (\<lambda>bare s.
     seq (if cl_schema bare = candidate_lock_v3
          then seq (prepare_product W src s) (\<lambda>product. still (Inr (seal_candidate_lock (w_lib W)
                 (bare\<lparr>cl_lock_digest := [], cl_product := Some product\<rparr>))))
          else (s, Inr bare)) (\<lambda>l s.
     seq (store_lock W True output (candidate_lock_json l) s) (\<lambda>_. still (Inr l))))))"

subsection \<open>The inputs of a run\<close>

record loaded_run =
  ln_task :: task_info
  ln_candidate :: asset_package
  ln_judge :: asset_package
  ln_judge_model :: "string option"
  ln_model :: "string option"
  ln_effort :: "string option"
  ln_package :: "cached_package option"
  ln_images :: "(string \<times> string) list"
  ln_task_lock_schema :: string
  ln_task_lock_resources :: "task_resources option"
  ln_task_lock_digest :: string
  ln_candidate_lock_digest :: string

definition load_package ::
  "world \<Rightarrow> product_lock option \<Rightarrow> string option \<Rightarrow> artifact_state \<Rightarrow> artifact_state \<times> cached_package option result" where
  "load_package W product platform s =
     (case product of
        Some p \<Rightarrow> seq (load_cached (w_lib W) (w_os W) p platform s) (\<lambda>c. still (Inr (Some c)))
      | None \<Rightarrow> (s, Inr None))"

definition load_locks :: "world \<Rightarrow> path \<Rightarrow> path \<Rightarrow> artifact_state \<Rightarrow> artifact_state \<times> loaded_run result" where
  "load_locks W task_lock candidate_lock s =
     seq (still (load_task W task_lock s) s) (\<lambda>locked s.
     seq (load_candidate_packaged W candidate_lock s) (\<lambda>(l, artifact) s.
     seq (still (task_at W s (ll_task_artifact locked)) s) (\<lambda>t s.
     seq (load_package W (cl_product l) (t_work_platform t) s) (\<lambda>package s.
     seq (still (asset_at W s artifact) s) (\<lambda>c s.
     seq (still (asset_at W s (ll_judge_artifact locked)) s) (\<lambda>judge.
       still (Inr \<lparr>ln_task = t, ln_candidate = c, ln_judge = judge,
                   ln_judge_model = tl_judge_model (ll_lock locked), ln_model = cl_model l,
                   ln_effort = cl_reasoning_effort l, ln_package = package,
                   ln_images = tl_resolved_images (ll_lock locked),
                   ln_task_lock_schema = tl_schema (ll_lock locked),
                   ln_task_lock_resources = tl_resources (ll_lock locked),
                   ln_task_lock_digest = tl_lock_digest (ll_lock locked),
                   ln_candidate_lock_digest = cl_lock_digest l\<rparr>)))))))"

text \<open>What the run finds outside the store: where the text of a path leads, the installation, and the
  source of the Codex package.\<close>

record input_view =
  iv_locate :: "string \<Rightarrow> path"
  iv_installation :: installation
  iv_package :: package_view

definition lock_path :: "string \<Rightarrow> string \<Rightarrow> path" where
  "lock_path run_id kind = [''locks'', run_id @ ''.'' @ kind @ ''-lock.json'']"

definition load_run ::
  "world \<Rightarrow> input_view \<Rightarrow> run_options \<Rightarrow> string \<Rightarrow> string option \<Rightarrow> string option \<Rightarrow> string \<Rightarrow> artifact_state \<Rightarrow>
     artifact_state \<times> loaded_run result" where
  "load_run W V opts run_id judge_model default_effort provider s =
     (if ro_locked opts
      then seq (still (ensure (ro_model opts = None \<and> ro_effort opts = None)
                  ''--model and --reasoning-effort cannot alter a locked Candidate'') s) (\<lambda>_.
             load_locks W (iv_locate V (ro_task opts)) (iv_locate V (ro_agent opts)))
      else seq (still (resolve_task_reference W (iv_installation V) s (ro_task opts)) s) (\<lambda>source s.
           seq (on_files (secure_directory (w_os W) [''locks'']) s) (\<lambda>_ s.
           seq (create_task_with_provider W source (outside_dir W source) judge_model True (lock_path run_id ''task'')
                  provider s) (\<lambda>_ s.
           seq (create_candidate_packaged W (iv_package V) (ro_agent opts) (ro_model opts) (ro_effort opts) default_effort
                  (lock_path run_id ''candidate'') s) (\<lambda>_.
             load_locks W (lock_path run_id ''task'') (lock_path run_id ''candidate''))))))"


subsection \<open>What the options are\<close>

definition options_args :: "run_options \<Rightarrow> string list" where
  "options_args opts =
     [ro_task opts, ''--agent'', ro_agent opts]
     @ (case ro_model opts of None \<Rightarrow> [] | Some m \<Rightarrow> [''--model'', m])
     @ (case ro_effort opts of None \<Rightarrow> [] | Some e \<Rightarrow> [''--reasoning-effort'', e])
     @ (if ro_json opts then [''--json''] else []) @ (if ro_locked opts then [''--locked''] else [])"

lemma parse_options_args:
  assumes "when_some (ro_effort opts) validate_reasoning_effort = Inr ()"
  shows "parse_options (options_args opts) = Inr opts"
  using assms
  by (cases opts; cases "ro_model opts"; cases "ro_effort opts")
     (auto simp: parse_options_def options_args_def no_flags_def ok_or_def and_then_Inr)

lemma parse_options_effort:
  "parse_options args = Inr opts \<Longrightarrow> when_some (ro_effort opts) validate_reasoning_effort = Inr ()"
  by (auto simp: parse_options_def bind_result_Inr and_then_Inr)

subsection \<open>What the inputs are\<close>

lemma verify_and_seal_trees:
  "verify_and_seal L env c1 c2 base m s = (s', r) \<Longrightarrow> q \<noteq> base \<Longrightarrow> as_trees s' q = as_trees s q"
  by (auto simp: verify_and_seal_def split: sum.splits prod.splits)

lemma load_cached_trees:
  assumes "load_cached L env product platform s = (s', r)" "hd q \<noteq> ''codex-packages''"
  shows "as_trees s' q = as_trees s q"
proof (cases "locked_package L env product platform s")
  case (Inl e)
  with assms(1) show ?thesis by (simp add: load_cached_def still_def)
next
  case (Inr x)
  obtain base m where x: "x = (base, m)" by (cases x)
  have "hd base = ''codex-packages''"
    using locked_package_Inr(5) [OF Inr [unfolded x]] by (auto simp: cache_path_def map_result_Inr)
  with assms(2) have "q \<noteq> base" by auto
  with assms(1) Inr x verify_and_seal_trees show ?thesis by (fastforce simp: load_cached_def still_def)
qed

lemma asset_at_package:
  assumes "load_cached L env product platform s = (s', r)" "artifact_path d = Inr p"
  shows "asset_at W s' p = asset_at W s p"
proof -
  obtain h where p: "p = [''artifacts'', h]" using assms(2) by (auto simp: artifact_path_def bind_result_Inr and_then_Inr map_result_Inr)
  have "tree_of W s' p = tree_of W s p"
    using load_cached_trees [OF assms(1), of p] p by (simp add: tree_of_def)
  then show ?thesis by (simp add: asset_at_def)
qed


lemma load_package_step:
  assumes "load_candidate_packaged W p s = (s', Inr (l, a))"
  shows "load_candidate (W\<lparr>w_codex_cached := \<lambda>_. Inr ()\<rparr>) p s = Inr (l, a)"
    "artifact_path d = Inr q \<Longrightarrow> asset_at W s' q = asset_at W s q"
proof -
  have "load_candidate (W\<lparr>w_codex_cached := \<lambda>_. Inr ()\<rparr>) p s = Inr (l, a) \<and>
    (s' = s \<or> (\<exists>product r. load_cached (w_lib W) (w_os W) product None s = (s', r)))"
    using assms by (fastforce simp: load_candidate_packaged_def seq_Inr still_def split: option.splits if_splits)
  with asset_at_package show "load_candidate (W\<lparr>w_codex_cached := \<lambda>_. Inr ()\<rparr>) p s = Inr (l, a)"
    "artifact_path d = Inr q \<Longrightarrow> asset_at W s' q = asset_at W s q" by blast+
qed

lemma load_package_Inr:
  assumes "load_package W product platform s = (s', Inr package)"
  shows "artifact_path d = Inr q \<Longrightarrow> asset_at W s' q = asset_at W s q"
    "(case product of
        None \<Rightarrow> package = None
      | Some p \<Rightarrow> \<exists>c t fs. package = Some c \<and> as_trees s' (cp_root c) = Some t \<and> genuine (w_lib W) t c fs \<and>
          pl_target_triple p = Some (cm_target_triple (cp_manifest c)) \<and>
          pl_artifact_set_digest p = Some (cp_artifact_set_digest c) \<and> trim (pl_version p) = cp_reported_version c)"
proof -
  show "artifact_path d = Inr q \<Longrightarrow> asset_at W s' q = asset_at W s q"
    using assms asset_at_package by (fastforce simp: load_package_def seq_Inr still_def split: option.splits)
  show "(case product of
        None \<Rightarrow> package = None
      | Some p \<Rightarrow> \<exists>c t fs. package = Some c \<and> as_trees s' (cp_root c) = Some t \<and> genuine (w_lib W) t c fs \<and>
          pl_target_triple p = Some (cm_target_triple (cp_manifest c)) \<and>
          pl_artifact_set_digest p = Some (cp_artifact_set_digest c) \<and> trim (pl_version p) = cp_reported_version c)"
  proof (cases product)
    case (Some p)
    with assms obtain c where c: "load_cached (w_lib W) (w_os W) p platform s = (s', Inr c)" "package = Some c"
      by (auto simp: load_package_def seq_Inr still_def)
    from load_cached_Inr [OF c(1)] c(2) Some show ?thesis by auto
  qed (use assms in \<open>simp add: load_package_def\<close>)
qed

text \<open>The package that goes with the protocol of the locked candidate. The lock of an \<open>a3s-code-exec\<close> candidate names
  a product without a package, for which loading a package fails.\<close>

definition package_of_protocol :: "world \<Rightarrow> candidate_lock \<Rightarrow> artifact_state \<Rightarrow> loaded_run \<Rightarrow> bool" where
  "package_of_protocol W l s r =
     (case ap_protocol (ln_candidate r) of
        AgentTool \<Rightarrow> ln_package r = None \<and> cl_product l = None
      | A3sCodeExec \<Rightarrow> False
      | CodexExec \<Rightarrow>
          (\<exists>product c t fs. cl_product l = Some product \<and> ln_package r = Some c \<and> as_trees s (cp_root c) = Some t \<and>
             genuine (w_lib W) t c fs \<and> pl_target_triple product = Some (cm_target_triple (cp_manifest c)) \<and>
             pl_artifact_set_digest product = Some (cp_artifact_set_digest c) \<and>
             trim (pl_version product) = cp_reported_version c))"

definition inputs_of_locks :: "world \<Rightarrow> loaded_task_lock \<Rightarrow> candidate_lock \<Rightarrow> artifact_state \<Rightarrow> loaded_run \<Rightarrow> bool" where
  "inputs_of_locks W x l s r =
     (ln_task_lock_digest r = tl_lock_digest (ll_lock x) \<and> ln_candidate_lock_digest r = cl_lock_digest l \<and>
      ln_images r = tl_resolved_images (ll_lock x) \<and> ln_judge_model r = tl_judge_model (ll_lock x) \<and>
      ln_model r = cl_model l \<and> ln_effort r = cl_reasoning_effort l \<and>
      ap_identity (ln_judge r) = tl_judge_revision (ll_lock x) \<and>
      ap_identity (ln_candidate r) = cl_candidate_revision l \<and> package_of_protocol W l s r)"

lemma asset_at_cached [simp]: "asset_at (W\<lparr>w_codex_cached := f\<rparr>) = asset_at W"
  by (simp add: asset_at_def tree_of_def fun_eq_iff split: list.splits option.splits)

lemma load_locks_Inr:
  assumes "load_locks W task_lock candidate_lock s = (s', Inr r)"
  shows "\<exists>x l a. load_task W task_lock s = Inr x \<and>
    load_candidate (W\<lparr>w_codex_cached := \<lambda>_. Inr ()\<rparr>) candidate_lock s = Inr (l, a) \<and> inputs_of_locks W x l s' r"
proof -
  from assms obtain x s1 l a and t :: task_info and package c judge where
    x: "load_task W task_lock s = Inr x"
    and s1: "load_candidate_packaged W candidate_lock s = (s1, Inr (l, a))"
    and package: "load_package W (cl_product l) (t_work_platform t) s1 = (s', Inr package)"
    and c: "asset_at W s' a = Inr c" and judge: "asset_at W s' (ll_judge_artifact x) = Inr judge"
    and built: "r = \<lparr>ln_task = t, ln_candidate = c, ln_judge = judge,
                   ln_judge_model = tl_judge_model (ll_lock x), ln_model = cl_model l,
                   ln_effort = cl_reasoning_effort l, ln_package = package,
                   ln_images = tl_resolved_images (ll_lock x), ln_task_lock_schema = tl_schema (ll_lock x),
                   ln_task_lock_resources = tl_resources (ll_lock x),
                   ln_task_lock_digest = tl_lock_digest (ll_lock x), ln_candidate_lock_digest = cl_lock_digest l\<rparr>"
    by (auto simp: load_locks_def seq_Inr still_def)
  have r: "ln_candidate r = c" "ln_judge r = judge" "ln_judge_model r = tl_judge_model (ll_lock x)"
      "ln_model r = cl_model l" "ln_effort r = cl_reasoning_effort l" "ln_package r = package"
      "ln_images r = tl_resolved_images (ll_lock x)" "ln_task_lock_digest r = tl_lock_digest (ll_lock x)"
      "ln_candidate_lock_digest r = cl_lock_digest l"
    using built by simp_all
  note l = load_package_step(1) [OF s1]
  have same: "asset_at W s' q = asset_at W s q" if "artifact_path d = Inr q" for d q
    using load_package_step(2) [OF s1 that] load_package_Inr(1) [OF package that] by simp
  from l obtain c' where c': "artifact_path (cl_artifact_digest l) = Inr a" "asset_at W s a = Inr c'"
    "ap_identity c' = cl_candidate_revision l" "check_product (W\<lparr>w_codex_cached := \<lambda>_. Inr ()\<rparr>) l (ap_protocol c') = Inr ()"
    by (auto simp: load_candidate_def bind_result_Inr and_then_Inr ensure_Inr with_context_Inr)
  from x obtain j where j: "artifact_path (tl_judge_artifact_digest (ll_lock x)) = Inr (ll_judge_artifact x)"
    "asset_at W s (ll_judge_artifact x) = Inr j" "ap_identity j = tl_judge_revision (ll_lock x)"
    by (auto simp: load_task_def bind_result_Inr and_then_Inr ensure_Inr with_context_Inr)
  have cc: "c = c'" using c c' same by simp
  have "package_of_protocol W l s' r"
  proof (cases "ap_protocol c'")
    case AgentTool
    with c'(4) have "cl_product l = None" by (auto simp: check_product_def split: option.splits)
    with AgentTool load_package_Inr(2) [OF package] r cc show ?thesis by (simp add: package_of_protocol_def)
  next
    case A3sCodeExec
    with c'(4) obtain product where "cl_product l = Some product" "pl_target_triple product = None"
      by (auto simp: check_product_def and_then_Inr checks_Inr split: option.splits)
    with load_package_Inr(2) [OF package] show ?thesis by auto
  next
    case CodexExec
    with c'(4) obtain product where "cl_product l = Some product"
      by (auto simp: check_product_def split: option.splits)
    with CodexExec load_package_Inr(2) [OF package] r cc show ?thesis by (auto simp: package_of_protocol_def)
  qed
  with x l r cc c' j judge same show ?thesis by (auto simp: inputs_of_locks_def)
qed


text \<open>Text that \<open>serde_json\<close> writes is read back also with the line break after it.\<close>

definition reads_lines :: "library \<Rightarrow> bool" where
  "reads_lines L = (\<forall>v. json_value v \<longrightarrow> json_parse L (json_pretty L v @ [CHR 0x0A]) = Some v)"

lemma created_candidate_read:
  assumes "create_candidate_packaged W src reference model effort default_effort output s = (s', Inr l)"
    "sha_library (w_lib W)"
  shows "cl_model l = model" "effort \<noteq> None \<Longrightarrow> cl_reasoning_effort l = effort"
    "disk (as_fs s') output = Some (FileE mode_600 (json_pretty (w_lib W) (candidate_lock_json l) @ [CHR 0x0A]))"
proof -
  from assms(1) obtain s1 digest bare s2 where
    make: "make_candidate_lock (W\<lparr>w_codex_prepare := Inr ([], [], [])\<rparr>) s1 model effort default_effort digest = Inr bare"
    and l: "cl_model l = cl_model bare \<and> cl_reasoning_effort l = cl_reasoning_effort bare"
    and store: "store_lock W True output (candidate_lock_json l) s2 = (s', Inr ())"
    by (auto simp: create_candidate_packaged_def seq_Inr still_def seal_candidate_lock_def split: if_splits)
  have "cl_model bare = model \<and> (effort \<noteq> None \<longrightarrow> cl_reasoning_effort bare = effort)"
    using make by (auto simp: make_candidate_lock_def bind_result_Inr and_then_Inr seal_candidate_lock_def locked_effort_def
        or_else_def split: if_splits option.splits)
  with l show "cl_model l = model" "effort \<noteq> None \<Longrightarrow> cl_reasoning_effort l = effort" by auto
  show "disk (as_fs s') output = Some (FileE mode_600 (json_pretty (w_lib W) (candidate_lock_json l) @ [CHR 0x0A]))"
    by (rule store_lock_Inr(1) [OF store])
qed

lemma read_lock_of_file:
  assumes "read_lock W s candidate_lock_of_json p = Inr l" "reads_lines (w_lib W)"
    "disk (as_fs s) p = Some (FileE m (json_pretty (w_lib W) (candidate_lock_json l') @ [CHR 0x0A]))"
  shows "l = l'"
proof -
  have "read_lock_file W s p = Inr (json_pretty (w_lib W) (candidate_lock_json l') @ [CHR 0x0A])"
    using assms(1,3) by (auto simp: read_lock_def read_lock_file_def read_regular_file_def read_optional_regular_file_def
        bind_result_Inr split: option.splits io_kind.splits)
  moreover have "json_parse (w_lib W) (json_pretty (w_lib W) (candidate_lock_json l') @ [CHR 0x0A]) = Some (candidate_lock_json l')"
    using assms(2) by (simp add: reads_lines_def)
  ultimately show ?thesis
    using assms(1) by (simp add: read_lock_def candidate_lock_of_candidate_lock_json)
qed

lemma load_run_Inr:
  assumes "load_run W V opts run_id judge_model default_effort provider s = (s', Inr r)"
    "sha_library (w_lib W)" "reads_lines (w_lib W)"
  shows "\<exists>s1 tp cp x l a. load_task W tp s1 = Inr x \<and>
    load_candidate (W\<lparr>w_codex_cached := \<lambda>_. Inr ()\<rparr>) cp s1 = Inr (l, a) \<and> inputs_of_locks W x l s' r \<and>
    (if ro_locked opts then s1 = s \<and> tp = iv_locate V (ro_task opts) \<and> cp = iv_locate V (ro_agent opts) \<and>
       ro_model opts = None \<and> ro_effort opts = None
     else tp = lock_path run_id ''task'' \<and> cp = lock_path run_id ''candidate'' \<and> ln_model r = ro_model opts \<and>
       (ro_effort opts \<noteq> None \<longrightarrow> ln_effort r = ro_effort opts))"
proof (cases "ro_locked opts")
  case True
  with assms(1) have "load_locks W (iv_locate V (ro_task opts)) (iv_locate V (ro_agent opts)) s = (s', Inr r)"
    and o: "ro_model opts = None \<and> ro_effort opts = None"
    by (auto simp: load_run_def seq_Inr still_def ensure_Inr)
  from load_locks_Inr [OF this(1)] True o show ?thesis by simp blast
next
  case False
  with assms(1) obtain s1 s2 l' where
    c: "create_candidate_packaged W (iv_package V) (ro_agent opts) (ro_model opts) (ro_effort opts) default_effort
          (lock_path run_id ''candidate'') s1 = (s2, Inr l')"
    and load: "load_locks W (lock_path run_id ''task'') (lock_path run_id ''candidate'') s2 = (s', Inr r)"
    by (auto simp: load_run_def seq_Inr)
  from load_locks_Inr [OF load] obtain x l a where x: "load_task W (lock_path run_id ''task'') s2 = Inr x"
    "load_candidate (W\<lparr>w_codex_cached := \<lambda>_. Inr ()\<rparr>) (lock_path run_id ''candidate'') s2 = Inr (l, a)"
    "inputs_of_locks W x l s' r" by blast
  note made = created_candidate_read [OF c assms(2)]
  have "read_lock W s2 candidate_lock_of_json (lock_path run_id ''candidate'') = Inr l"
    using load_candidate_Inr(2) [OF x(2)] by (simp add: read_lock_def read_lock_file_def)
  from read_lock_of_file [OF this assms(3) made(3)] have "l = l'" .
  with made x(3) have "ln_model r = ro_model opts \<and> (ro_effort opts \<noteq> None \<longrightarrow> ln_effort r = ro_effort opts)"
    by (auto simp: inputs_of_locks_def)
  with x False show ?thesis by simp blast
qed


text \<open>The lock of an \<open>a3s-code-exec\<close> candidate loads, but the run does not: the message speaks of Codex.\<close>

lemma a3s_code_run_fails:
  assumes "load_task W task_lock s = Inr x"
    "load_candidate (W\<lparr>w_codex_cached := \<lambda>_. Inr ()\<rparr>) candidate_lock s = Inr (l, a)"
    "asset_at W s a = Inr c" "ap_protocol c = A3sCodeExec" "task_at W s (ll_task_artifact x) = Inr t"
  shows "load_locks W task_lock candidate_lock s =
    (s, Inl (Bail ''legacy native Codex CandidateLock has no package target; regenerate it for containerized Codex''))"
proof -
  from assms(2-4) have "check_product (W\<lparr>w_codex_cached := \<lambda>_. Inr ()\<rparr>) l A3sCodeExec = Inr ()"
    by (auto simp: load_candidate_def bind_result_Inr and_then_Inr with_context_Inr)
  then obtain product where product: "cl_product l = Some product" "pl_target_triple product = None"
    "cl_schema l = candidate_lock_v2"
    by (auto simp: check_product_def and_then_Inr checks_Inr split: option.splits)
  then have "load_candidate_packaged W candidate_lock s = (s, Inr (l, a))"
    using assms(2) lock_schemas_differ by (simp add: load_candidate_packaged_def still_def)
  moreover have "load_cached (w_lib W) (w_os W) product (t_work_platform t) s =
      (s, Inl (Bail ''legacy native Codex CandidateLock has no package target; regenerate it for containerized Codex''))"
    using product(2) by (simp add: load_cached_def locked_package_def still_def ok_or_def)
  ultimately show ?thesis
    using assms(1,5) product(1) by (simp add: load_locks_def load_package_def still_def)
qed

subsection \<open>A run of two locks\<close>

definition demo_bare_candidate :: candidate_lock where
  "demo_bare_candidate =
     \<lparr>cl_schema = candidate_lock_v1, cl_lock_digest = [], cl_candidate_revision = demo_artifact_digest,
      cl_artifact_digest = demo_artifact_digest, cl_model = None, cl_reasoning_effort = None, cl_product = None\<rparr>"

definition demo_candidate :: candidate_lock where
  "demo_candidate = seal_candidate_lock toy_library demo_bare_candidate"

definition demo_inputs :: artifact_state where
  "demo_inputs = demo_store\<lparr>as_fs := (as_fs demo_store)\<lparr>disk := (disk (as_fs demo_store))([''c.lock''] \<mapsto>
     FileE mode_600 (json_pretty toy_library (candidate_lock_json demo_candidate) @ [CHR 0x0A]))\<rparr>\<rparr>"

definition demo_input_view :: input_view where
  "demo_input_view =
     \<lparr>iv_locate = (\<lambda>t. [t]),
      iv_installation = \<lparr>in_catalog = [], in_executable = None, in_manifest_dir = [], in_cwd = []\<rparr>,
      iv_package = \<lparr>pv_path = Inl (Io NotFound), pv_first = None, pv_copied = (\<lambda>_. None), pv_last = None,
                    pv_rival = None\<rparr>\<rparr>"

lemma toy_reads_lines: "reads_lines toy_library"
  by (simp add: reads_lines_def toy_parse_newline)

lemma demo_inputs_trees: "as_trees demo_inputs = as_trees demo_store"
  by (simp add: demo_inputs_def)

lemma demo_inputs_same:
  "task_at W demo_inputs = task_at W demo_store" "asset_at W demo_inputs = asset_at W demo_store"
  "verify_at W demo_inputs = verify_at W demo_store"
  "read_lock demo_world demo_inputs d [''task.lock''] = read_lock demo_world demo_store d [''task.lock'']"
  by (simp_all add: task_at_def store_fs_def verify_at_def fun_eq_iff demo_inputs_trees tree_of_trees [OF demo_inputs_trees]
      asset_at_trees [OF demo_inputs_trees])
    (simp add: demo_inputs_def read_lock_def read_lock_file_def read_regular_file_def read_optional_regular_file_def)


lemma demo_candidate_read: "read_lock demo_world demo_inputs candidate_lock_of_json [''c.lock''] = Inr demo_candidate"
  by (simp add: read_lock_def read_lock_file_def read_regular_file_def read_optional_regular_file_def demo_inputs_def
      quiet_os_def toy_parse_newline candidate_lock_of_candidate_lock_json)

lemma demo_candidate_checked: "check_candidate_lock toy_library demo_candidate = Inr ()"
proof -
  have "CHR ''s'' \<in> set (trim demo_artifact_digest)"
    by (rule trim_keeps) (simp_all add: demo_artifact_digest_def digest_bytes_def sha256_prefix_def white_seqs_def byte_def)
  then have "trim demo_artifact_digest \<noteq> []" by auto
  moreover have "validate_digest (candidate_digest toy_library l) = Inr ()" for l
    unfolding digests_of by (rule digest_json_valid [OF toy_sha_library])
  ultimately show ?thesis
    by (simp add: check_candidate_lock_def and_then_Inr checks_Inr ensure_Inr demo_candidate_def seal_candidate_lock_def)
       (simp add: demo_bare_candidate_def)
qed

lemma demo_inputs_loaded:
  "\<exists>x a t. load_task demo_world [''task.lock''] demo_inputs = Inr x \<and>
     load_candidate (demo_world\<lparr>w_codex_cached := \<lambda>_. Inr ()\<rparr>) [''c.lock''] demo_inputs =
       Inr (demo_candidate, [''artifacts'', replicate 64 CHR ''0'']) \<and>
     asset_at demo_world demo_inputs [''artifacts'', replicate 64 CHR ''0''] = Inr a \<and>
     asset_at demo_world demo_inputs (ll_judge_artifact x) = Inr a \<and>
     task_at demo_world demo_inputs (ll_task_artifact x) = Inr (t :: task_info)"
proof -
  obtain x where x: "load_task demo_world [''task.lock''] demo_store = Inr x"
    using demo_lock_loads by (auto simp: demo_loaded_def)
  then have x': "load_task demo_world [''task.lock''] demo_inputs = Inr x"
    unfolding load_task_def demo_inputs_same .
  have "ll_lock x = demo_lock" using load_task_Inr(2) [OF x] demo_read_lock by simp
  then have paths: "ll_task_artifact x = [''artifacts'', replicate 64 CHR ''0'']"
    "ll_judge_artifact x = [''artifacts'', replicate 64 CHR ''0'']"
    using x demo_artifact by (auto simp: load_task_def bind_result_Inr and_then_Inr demo_lock_def seal_task_lock_def demo_bare_lock_def)
  have "(case asset_at demo_world demo_store [''artifacts'', replicate 64 CHR ''0''] of Inl e \<Rightarrow> False
      | Inr a \<Rightarrow> ap_identity a = demo_artifact_digest \<and> ap_protocol a = AgentTool)" by code_simp
  then obtain a where a: "asset_at demo_world demo_store [''artifacts'', replicate 64 CHR ''0''] = Inr a"
    "ap_identity a = demo_artifact_digest" "ap_protocol a = AgentTool"
    by (auto split: sum.splits)
  have l: "cl_artifact_digest demo_candidate = demo_artifact_digest" "cl_candidate_revision demo_candidate = demo_artifact_digest"
    "cl_product demo_candidate = None" "cl_schema demo_candidate = candidate_lock_v1" "cl_reasoning_effort demo_candidate = None"
    by (simp_all add: demo_candidate_def seal_candidate_lock_def demo_bare_candidate_def)
  have w: "verify_at (demo_world\<lparr>w_codex_cached := f\<rparr>) = verify_at demo_world"
    "read_lock (demo_world\<lparr>w_codex_cached := f\<rparr>) demo_inputs d q = read_lock demo_world demo_inputs d q" for f d q
    by (simp_all add: verify_at_def read_lock_def read_lock_file_def fun_eq_iff)
  have v: "verify_at demo_world demo_inputs [''artifacts'', replicate 64 CHR ''0''] demo_artifact_digest = Inr ()"
    unfolding demo_inputs_same by (rule demo_verified)
  have "load_candidate (demo_world\<lparr>w_codex_cached := \<lambda>_. Inr ()\<rparr>) [''c.lock''] demo_inputs =
      Inr (demo_candidate, [''artifacts'', replicate 64 CHR ''0''])"
    using a l by (simp add: load_candidate_def w demo_candidate_read demo_candidate_checked demo_artifact v
        demo_inputs_same(1,2) check_product_def checks_Inr and_then_Inr)
  with x' a paths demo_task_loaded show ?thesis by (auto simp: demo_inputs_same)
qed

lemma demo_run_loads:
  "\<exists>r. load_run demo_world demo_input_view (locked_options demo_world ''task.lock'' ''c.lock'') ''r'' None None ''docker''
     demo_inputs = (demo_inputs, Inr r) \<and> ln_candidate_lock_digest r = cl_lock_digest demo_candidate"
proof -
  obtain x a t where x: "load_task demo_world [''task.lock''] demo_inputs = Inr x"
    "load_candidate (demo_world\<lparr>w_codex_cached := \<lambda>_. Inr ()\<rparr>) [''c.lock''] demo_inputs =
       Inr (demo_candidate, [''artifacts'', replicate 64 CHR ''0''])"
    "asset_at demo_world demo_inputs [''artifacts'', replicate 64 CHR ''0''] = Inr a"
    "asset_at demo_world demo_inputs (ll_judge_artifact x) = Inr a"
    "task_at demo_world demo_inputs (ll_task_artifact x) = Inr (t :: task_info)"
    using demo_inputs_loaded by blast
  have "cl_product demo_candidate = None" by (simp add: demo_candidate_def seal_candidate_lock_def demo_bare_candidate_def)
  with x have "\<exists>r. load_locks demo_world [''task.lock''] [''c.lock''] demo_inputs = (demo_inputs, Inr r) \<and>
      ln_candidate_lock_digest r = cl_lock_digest demo_candidate"
    by (simp add: load_locks_def load_candidate_packaged_def load_package_def still_def)
  moreover have "locked_options demo_world ''task.lock'' ''c.lock'' =
      \<lparr>ro_task = ''task.lock'', ro_agent = ''c.lock'', ro_model = None, ro_effort = None, ro_json = False, ro_locked = True\<rparr>"
    by (simp add: locked_options_def demo_world_def)
  ultimately show ?thesis by (simp add: load_run_def still_def demo_input_view_def)
qed

subsection \<open>Properties\<close>



end
