(* ===== verification/Bench_Run.thy ===== *)
theory Bench_Run
  imports Workspace Run_Input
begin

text \<open>
  \<open>bench_run.rs\<close>: the run of one Task by one candidate. The state is the journal in memory and a
  \<open>bench\<close>: the files, trees and events of the other components, the counters of the process, and what
  the run has to give back when it ends, whatever happens: the workspace import volumes, the transient
  directories and the game session. The executors of candidates and Judges that are processes
  speaking to services are a parameter (\<open>executors\<close>), as is what the machine answers (\<open>bench_view\<close>).
\<close>

subsection \<open>Requests to the executors\<close>

record game_session =
  gs_network :: string
  gs_url :: string

record a3s_code_request =
  aq_workspace :: path
  aq_config_path :: path
  aq_instructions :: string
  aq_task_prompt :: string
  aq_model :: "string option"
  aq_workspace_source_path :: "string option"
  aq_public_internet :: bool
  aq_timeout_sec :: u64

datatype a3s_code_outcome = A3sCompleted model_execution | A3sTimedOut

record codex_request =
  cq_task :: task_info
  cq_package :: cached_package
  cq_workspace :: path
  cq_seed_workspace :: "path option"
  cq_workspace_imports :: "prepared_import list"
  cq_instructions :: string
  cq_task_prompt :: string
  cq_model :: "string option"
  cq_reasoning_effort :: "string option"
  cq_disable_auto_resume :: bool
  cq_parallel_game_sessions :: bool
  cq_game_network :: "(string \<times> string) option"
  cq_timeout_sec :: u64
  cq_event_log :: "path option"

datatype codex_outcome = CodexCompleted "model_execution option" | CodexTimedOut

record model_request =
  mq_config_path :: path
  mq_model :: string
  mq_task_prompt :: string
  mq_candidate_instructions :: string
  mq_workspace :: path
  mq_workspace_source_path :: "string option"
  mq_work_image :: string
  mq_work_platform :: "string option"
  mq_work_resources :: role_resources
  mq_workspace_imports :: "prepared_import list"
  mq_game_network :: "(string \<times> string) option"
  mq_public_internet :: bool
  mq_timeout_sec :: u64
  mq_max_tool_rounds :: u64
  mq_parallel_game_sessions :: bool
  mq_log_dir :: "path option"

datatype model_outcome = ModelCompleted model_execution | ModelTimedOut u64

record executors =
  ex_start_game :: "legacy_judge_source \<Rightarrow> role_resources \<Rightarrow> bool \<Rightarrow> workspaces \<Rightarrow> workspaces \<times> game_session result"
  ex_finish_game :: "game_session \<Rightarrow> task_info \<Rightarrow> legacy_judge_source \<Rightarrow> workspaces \<Rightarrow> workspaces \<times> judge_result result"
  ex_drop_game :: "game_session \<Rightarrow> workspaces \<Rightarrow> workspaces"
  ex_a3s_code :: "a3s_code_request \<Rightarrow> workspaces \<Rightarrow> workspaces \<times> a3s_code_outcome result"
  ex_codex :: "codex_request \<Rightarrow> workspaces \<Rightarrow> workspaces \<times> codex_outcome result"
  ex_model :: "model_request \<Rightarrow> workspaces \<Rightarrow> workspaces \<times> model_outcome result"
  ex_legacy_judge ::
    "task_info \<Rightarrow> legacy_judge_source \<Rightarrow> path \<Rightarrow> model_route option \<Rightarrow> workspaces \<Rightarrow> workspaces \<times> judge_result result"
  ex_os_candidate ::
    "task_info \<Rightarrow> asset_package \<Rightarrow> path \<Rightarrow> (string \<times> string) list \<Rightarrow> workspaces \<Rightarrow> workspaces \<times> unit result"
  ex_os_judge ::
    "task_info \<Rightarrow> asset_package \<Rightarrow> path \<Rightarrow> (string \<times> string) list \<Rightarrow> workspaces \<Rightarrow> workspaces \<times> judge_result result"

subsection \<open>The state of a run\<close>

record bench =
  be_work :: workspaces
  be_runs :: u64
  be_candidates :: u64
  be_import_volumes :: u64
  be_imports :: "prepared_import list"
  be_workspace :: "path option"
  be_seed_workspace :: "path option"
  be_submission :: "path option"
  be_game :: "game_session option"

text \<open>The steps at which the journal or the result is written: their clock and the system calls of each.\<close>

datatype run_point =
    AtBegin
  | AtStage run_stage
  | AtLocks
  | AtSave
  | AtComplete
  | AtPublish
  | AtFail

record bench_view =
  bv_world :: world
  bv_provider_id :: "string \<Rightarrow> string result"
  bv_home :: "path option"
  bv_docker :: docker
  bv_host :: host
  bv_os_preflight :: "runtime_status result"
  bv_input :: input_view
  bv_seed :: seed_view
  bv_owner :: "string \<Rightarrow> (nat \<times> nat) result"
  bv_dns :: "string list"
  bv_hidden :: "string result"
  bv_base :: string
  bv_os :: "run_point \<Rightarrow> os"
  bv_clock :: "run_point \<Rightarrow> u128 result"
  bv_message :: "error \<Rightarrow> string"
  bv_left :: "node option \<Rightarrow> node option"
  bv_print :: "unit result"

type_synonym run_bench = "journal \<times> bench"

abbreviation bench_library :: "bench_view \<Rightarrow> library" where "bench_library V \<equiv> w_lib (bv_world V)"
abbreviation bench_store :: "bench \<Rightarrow> artifact_state" where "bench_store b \<equiv> wk_store (be_work b)"
abbreviation bench_fs :: "bench \<Rightarrow> fs" where "bench_fs b \<equiv> as_fs (bench_store b)"

definition put_store :: "artifact_state \<Rightarrow> bench \<Rightarrow> bench" where
  "put_store x b = b\<lparr>be_work := (be_work b)\<lparr>wk_store := x\<rparr>\<rparr>"

definition put_fs :: "fs \<Rightarrow> bench \<Rightarrow> bench" where
  "put_fs f b = put_store ((bench_store b)\<lparr>as_fs := f\<rparr>) b"

definition on_work :: "(workspaces \<Rightarrow> workspaces \<times> 'a result) \<Rightarrow> run_bench \<Rightarrow> run_bench \<times> 'a result" where
  "on_work f st = (case st of (j, b) \<Rightarrow> (case f (be_work b) of (w, r) \<Rightarrow> ((j, b\<lparr>be_work := w\<rparr>), r)))"

definition on_store :: "(artifact_state \<Rightarrow> artifact_state \<times> 'a result) \<Rightarrow> run_bench \<Rightarrow> run_bench \<times> 'a result" where
  "on_store f st = (case st of (j, b) \<Rightarrow> (case f (bench_store b) of (x, r) \<Rightarrow> ((j, put_store x b), r)))"

definition on_events :: "(event list \<Rightarrow> event list \<times> 'a result) \<Rightarrow> run_bench \<Rightarrow> run_bench \<times> 'a result" where
  "on_events f = on_work (on_trace f)"

definition on_journal :: "(run_state \<Rightarrow> run_state \<times> 'a result) \<Rightarrow> run_bench \<Rightarrow> run_bench \<times> 'a result" where
  "on_journal f st =
     (case st of (j, b) \<Rightarrow> (case f (j, bench_fs b) of ((j, g), r) \<Rightarrow> ((j, put_fs g b), r)))"

definition remember :: "(bench \<Rightarrow> bench) \<Rightarrow> run_bench \<Rightarrow> run_bench \<times> unit result" where
  "remember f st = (case st of (j, b) \<Rightarrow> ((j, f b), Inr ()))"

subsection \<open>What the run gives back\<close>

definition drop_directory :: "os \<Rightarrow> path option \<Rightarrow> workspaces \<Rightarrow> workspaces" where
  "drop_directory env p s = (case p of None \<Rightarrow> s | Some q \<Rightarrow> remove_staging env q s)"

definition drop_transient :: "os \<Rightarrow> bench \<Rightarrow> bench" where
  "drop_transient env b =
     b\<lparr>be_work := drop_directory env (be_submission b)
                    (drop_directory env (be_seed_workspace b) (drop_directory env (be_workspace b) (be_work b))),
       be_workspace := None, be_seed_workspace := None, be_submission := None\<rparr>"

definition drop_import_volumes :: "bench \<Rightarrow> bench" where
  "drop_import_volumes b =
     b\<lparr>be_work := (be_work b)\<lparr>wk_trace := drop_imports (be_imports b) (wk_trace (be_work b))\<rparr>, be_imports := []\<rparr>"

definition drop_game :: "executors \<Rightarrow> bench \<Rightarrow> bench" where
  "drop_game E b =
     (case be_game b of None \<Rightarrow> b | Some g \<Rightarrow> b\<lparr>be_work := ex_drop_game E g (be_work b), be_game := None\<rparr>)"

text \<open>In the reverse order of their declarations.\<close>

definition drop_all :: "executors \<Rightarrow> os \<Rightarrow> bench \<Rightarrow> bench" where
  "drop_all E env b = drop_game E (drop_transient env (drop_import_volumes b))"

subsection \<open>The steps of a run\<close>

definition requires_host_workspace :: "world \<Rightarrow> artifact_state \<Rightarrow> task_info \<Rightarrow> bool" where
  "requires_host_workspace W s t =
     ((case tree_of W s (t_root t @ [''public'', ''workspace'']) of Some u \<Rightarrow> is_dir u | None \<Rightarrow> False) \<or>
      (case t_workspace_seed t of None \<Rightarrow> True | Some seed \<Rightarrow> ws_image seed \<noteq> t_work_image t))"

record judge_model =
  jm_reference :: string
  jm_route :: model_route

definition resolve_judge_model ::
  "world \<Rightarrow> artifact_state \<Rightarrow> task_info \<Rightarrow> string option \<Rightarrow> local_config \<Rightarrow> judge_model option result" where
  "resolve_judge_model W s t locked config =
     (if \<not> requires_judge_model t then Inr None
      else bind_result (ok_or locked ''Task {:?} requires bench.judge_model in .a3s/config.acl'') (\<lambda>reference.
           bind_result (ok_or (lc_path config)
             ''Judge model gateway requires project-local or user-local .a3s/config.acl'') (\<lambda>p.
           map_result (\<lambda>route. Some \<lparr>jm_reference = reference, jm_route = route\<rparr>)
             (resolve_model_route (w_parser W) (w_os W) (store_fs W s) p reference))))"

definition judge_identity :: "string \<Rightarrow> judge_model option \<Rightarrow> string" where
  "judge_identity asset_identity model =
     (case model of None \<Rightarrow> asset_identity | Some m \<Rightarrow> asset_identity @ '';model='' @ jm_reference m)"

definition resolve_locked_image :: "(string \<times> string) list \<Rightarrow> string \<Rightarrow> string option \<Rightarrow> string result" where
  "resolve_locked_image locked reference platform =
     ok_or (map_of locked (image_key reference platform)) ''TaskLock does not bind image {reference:?}''"

definition resolve_task_images :: "task_info \<Rightarrow> (string \<times> string) list \<Rightarrow> task_info result" where
  "resolve_task_images t locked =
     bind_result (resolve_locked_image locked (t_work_image t) (t_work_platform t)) (\<lambda>work.
     bind_result (case t_workspace_seed t of
          None \<Rightarrow> Inr None
        | Some seed \<Rightarrow> map_result (\<lambda>i. Some (seed\<lparr>ws_image := i\<rparr>))
            (resolve_locked_image locked (ws_image seed) (ws_platform seed))) (\<lambda>seed.
     bind_result (case t_legacy_judge t of
          None \<Rightarrow> Inr None
        | Some j \<Rightarrow> map_result (\<lambda>i. Some (j\<lparr>ls_image := i\<rparr>))
            (resolve_locked_image locked (ls_image j) (ls_platform j))) (\<lambda>judge.
       Inr (t\<lparr>t_work_image := work, t_workspace_seed := seed, t_legacy_judge := judge\<rparr>))))"

definition validate_os_runtime_task ::
  "world \<Rightarrow> artifact_state \<Rightarrow> task_info \<Rightarrow> asset_package \<Rightarrow> string option \<Rightarrow> string \<Rightarrow> task_resources option \<Rightarrow> unit result" where
  "validate_os_runtime_task W s t candidate_package model lock_schema lock_resources =
     checks
       [(t_schema t = task_v1,
         ''os-runtime cannot enforce explicit a3s-bench/task/v2 resources; use the Docker Runtime''),
        (lock_schema = task_lock_v1 \<and> lock_resources = None,
         ''os-runtime requires task/v1 to be bound by TaskLock v1 without explicit resources''),
        (ap_protocol candidate_package \<noteq> CodexExec \<and> (model = None \<or> ap_protocol candidate_package = A3sCodeExec),
         ''containerized Codex and model-backed Candidates require the Docker Runtime''),
        (t_legacy_judge t = None, ''os-runtime does not support legacy/game Judges yet''),
        (t_workspace_seed t = None, ''os-runtime does not support OCI workspace seeds yet''),
        ((case tree_of W s (t_root t @ [''public'', ''workspace'']) of Some u \<Rightarrow> is_dir u | None \<Rightarrow> False),
         ''os-runtime requires an embedded public/workspace'')]"

definition prepare_task :: "world \<Rightarrow> artifact_state \<Rightarrow> string \<Rightarrow> loaded_run \<Rightarrow> task_info result" where
  "prepare_task W s provider r =
     (if provider = ''docker'' then resolve_task_images (ln_task r) (ln_images r)
      else if provider = os_runtime_provider
      then map_result (\<lambda>_. ln_task r)
             (validate_os_runtime_task W s (ln_task r) (ln_candidate r) (ln_model r) (ln_task_lock_schema r)
                (ln_task_lock_resources r))
      else Inl (Bail ''execution through configured Runtime {provider:?} is not implemented yet''))"

definition start_game :: "executors \<Rightarrow> task_info \<Rightarrow> bool \<Rightarrow> workspaces \<Rightarrow> workspaces \<times> game_session option result" where
  "start_game E t parallel_sessions s =
     (case t_legacy_judge t of
        Some source \<Rightarrow>
          if ls_mode source = ''game_server''
          then seq (ex_start_game E source (tr_judge (t_resources t)) parallel_sessions s) (\<lambda>g. still (Inr (Some g)))
          else (s, Inr None)
      | None \<Rightarrow> (s, Inr None))"

text \<open>The Task parser guarantees one primary metric, and a validated Judge result has its text.\<close>

definition primary_metric :: "task_info \<Rightarrow> metric_info result" where
  "primary_metric t =
     (case List.find (\<lambda>m. mi_role m = ''primary'') (t_metrics t) of
        None \<Rightarrow> Inl (Panic ''Task parser guarantees one primary metric'') | Some m \<Rightarrow> Inr m)"

definition primary_score :: "judge_result \<Rightarrow> string \<Rightarrow> string result" where
  "primary_score r name =
     (case Option.bind (map_of (jr_metrics r) name) as_str of
        None \<Rightarrow> Inl (Panic ''validated JudgeResult contains the primary metric'') | Some v \<Rightarrow> Inr v)"

subsection \<open>The candidate\<close>

record candidate_run =
  cr_event_log_digest :: "string option"
  cr_execution :: candidate_execution
  cr_model_usage :: "model_execution option"

record candidate_job =
  cj_task :: task_info
  cj_candidate :: asset_package
  cj_model :: "string option"
  cj_effort :: "string option"
  cj_package :: "cached_package option"
  cj_config :: local_config
  cj_workspace :: path
  cj_seed_workspace :: "path option"
  cj_imports :: "prepared_import list"
  cj_game :: "game_session option"
  cj_provider :: string
  cj_images :: "(string \<times> string) list"
  cj_run_id :: string

definition read_text :: "world \<Rightarrow> path \<Rightarrow> workspaces \<Rightarrow> workspaces \<times> string result" where
  "read_text W p s = (s, read_to_string (w_os W) p (store_fs W (wk_store s)))"

definition read_prompt :: "world \<Rightarrow> task_info \<Rightarrow> workspaces \<Rightarrow> workspaces \<times> string result" where
  "read_prompt W t = read_text W (t_root t @ [''public'', ''prompt.md''])"

definition source_path_of :: "task_info \<Rightarrow> string option" where
  "source_path_of t = map_option ws_source_path (t_workspace_seed t)"

definition game_network_of :: "game_session option \<Rightarrow> (string \<times> string) option" where
  "game_network_of g = map_option (\<lambda>x. (gs_network x, gs_url x)) g"

definition execute_a3s_code :: "world \<Rightarrow> executors \<Rightarrow> candidate_job \<Rightarrow> workspaces \<Rightarrow> workspaces \<times> candidate_run result" where
  "execute_a3s_code W E c s =
     (let t = cj_task c in
     seq (still (ensure (cj_game c = None) ''A3S Code Candidate does not support game Tasks'') s) (\<lambda>_ s.
     seq (still (ok_or (lc_path (cj_config c))
            ''A3S Code Candidate requires project-local or user-local .a3s/config.acl'') s) (\<lambda>config_path s.
     seq (read_prompt W t s) (\<lambda>prompt s.
     seq (still (model_instructions_path (cj_candidate c)) s) (\<lambda>instructions_path s.
     seq (read_text W instructions_path s) (\<lambda>instructions s.
     seq (ex_a3s_code E \<lparr>aq_workspace = cj_workspace c, aq_config_path = config_path, aq_instructions = instructions,
            aq_task_prompt = prompt, aq_model = cj_model c, aq_workspace_source_path = source_path_of t,
            aq_public_internet = (t_network_need t = ''public_internet''),
            aq_timeout_sec = t_candidate_timeout_sec t\<rparr> s) (\<lambda>outcome.
       still (Inr (case outcome of
           A3sCompleted usage \<Rightarrow>
             \<lparr>cr_event_log_digest = None, cr_execution = execution_completed, cr_model_usage = Some usage\<rparr>
         | A3sTimedOut \<Rightarrow>
             \<lparr>cr_event_log_digest = None, cr_execution = execution_timed_out (t_candidate_timeout_sec t),
              cr_model_usage = None\<rparr>)))))))))"

definition execute_codex :: "world \<Rightarrow> executors \<Rightarrow> candidate_job \<Rightarrow> workspaces \<Rightarrow> workspaces \<times> candidate_run result" where
  "execute_codex W E c s =
     (let t = cj_task c; log_dir = [''runs'', cj_run_id c]; event_log = event_log_path (cj_run_id c) in
     seq (still (ensure (cj_provider c = ''docker'') ''containerized Codex requires the Docker Runtime'') s) (\<lambda>_ s.
     seq (still (ok_or (cj_package c)
            ''containerized Codex Candidate is missing its verified package cache entry'') s) (\<lambda>package s.
     seq (read_prompt W t s) (\<lambda>prompt s.
     seq (still (model_instructions_path (cj_candidate c)) s) (\<lambda>instructions_path s.
     seq (read_text W instructions_path s) (\<lambda>instructions s.
     seq (on_disk_files (secure_directory (w_os W) log_dir) s) (\<lambda>_ s.
     seq (ex_codex E \<lparr>cq_task = t, cq_package = package, cq_workspace = cj_workspace c,
            cq_seed_workspace = cj_seed_workspace c, cq_workspace_imports = cj_imports c,
            cq_instructions = instructions, cq_task_prompt = prompt, cq_model = cj_model c,
            cq_reasoning_effort = cj_effort c, cq_disable_auto_resume = lc_disable_auto_resume (cj_config c),
            cq_parallel_game_sessions = lc_parallel_game_sessions (cj_config c),
            cq_game_network = game_network_of (cj_game c), cq_timeout_sec = t_candidate_timeout_sec t,
            cq_event_log = Some event_log\<rparr> s) (\<lambda>outcome s.
     seq (still (read_regular_file (w_os W) event_log (as_fs (wk_store s))) s) (\<lambda>bytes.
       let digest = digest_bytes (w_lib W) bytes in
       still (Inr (case outcome of
           CodexCompleted usage \<Rightarrow>
             \<lparr>cr_event_log_digest = Some digest, cr_execution = execution_completed, cr_model_usage = usage\<rparr>
         | CodexTimedOut \<Rightarrow>
             \<lparr>cr_event_log_digest = Some digest, cr_execution = execution_timed_out (t_candidate_timeout_sec t),
              cr_model_usage = None\<rparr>)))))))))))"

definition execute_model :: "world \<Rightarrow> executors \<Rightarrow> candidate_job \<Rightarrow> string \<Rightarrow> workspaces \<Rightarrow> workspaces \<times> candidate_run result" where
  "execute_model W E c model s =
     (let t = cj_task c; log_dir = [''runs'', cj_run_id c] in
     seq (still (ensure (cj_provider c = ''docker'')
            ''model-backed Candidates are not supported by Runtime {:?}'') s) (\<lambda>_ s.
     seq (still (ok_or (lc_path (cj_config c))
            ''--model requires project-local or user-local .a3s/config.acl'') s) (\<lambda>config_path s.
     seq (read_prompt W t s) (\<lambda>prompt s.
     seq (still (model_instructions_path (cj_candidate c)) s) (\<lambda>instructions_path s.
     seq (step_context ''model Candidate is missing instructions at {}'' (read_text W instructions_path s)) (\<lambda>instructions s.
     seq (on_disk_files (create_dir_all (w_os W) [] log_dir) s) (\<lambda>_ s.
     seq (still (model_max_steps (w_os W) (store_fs W (wk_store s)) (cj_candidate c)) s) (\<lambda>rounds s.
     seq (ex_model E \<lparr>mq_config_path = config_path, mq_model = model, mq_task_prompt = prompt,
            mq_candidate_instructions = instructions, mq_workspace = cj_workspace c,
            mq_workspace_source_path = source_path_of t, mq_work_image = t_work_image t,
            mq_work_platform = t_work_platform t, mq_work_resources = tr_work (t_resources t),
            mq_workspace_imports = cj_imports c, mq_game_network = game_network_of (cj_game c),
            mq_public_internet = (t_network_need t = ''public_internet''),
            mq_timeout_sec = t_candidate_timeout_sec t, mq_max_tool_rounds = rounds,
            mq_parallel_game_sessions = lc_parallel_game_sessions (cj_config c), mq_log_dir = Some log_dir\<rparr> s)
       (\<lambda>outcome.
       still (Inr (case outcome of
           ModelCompleted usage \<Rightarrow>
             \<lparr>cr_event_log_digest = None, cr_execution = execution_completed, cr_model_usage = Some usage\<rparr>
         | ModelTimedOut timeout \<Rightarrow>
             \<lparr>cr_event_log_digest = None, cr_execution = execution_timed_out timeout, cr_model_usage = None\<rparr>)))))))))))"

text \<open>A candidate process in Docker: its counter and events, and what it leaves in the workspace.\<close>

definition run_docker_candidate :: "bench_view \<Rightarrow> candidate_job \<Rightarrow> run_bench \<Rightarrow> run_bench \<times> process_outcome result" where
  "run_docker_candidate V c st =
     (case st of (j, b) \<Rightarrow>
       (case execute_docker_candidate (bv_docker V) (bv_host V) (bv_owner V) (bv_dns V) (cj_task c)
               (full_path (bv_base V) (ap_root (cj_candidate c))) (ap_entrypoint (cj_candidate c))
               (full_path (bv_base V) (cj_workspace c)) (cj_imports c) (be_candidates b, wk_trace (be_work b)) of
          ((n, tr), r) \<Rightarrow>
            (let w = (be_work b)\<lparr>wk_trace := tr\<rparr>;
                 w' = (if isl r then w else put_tree (cj_workspace c) (bv_left V (tree_at w (cj_workspace c))) w)
             in ((j, b\<lparr>be_candidates := n, be_work := w'\<rparr>), r))))"

definition execute_process ::
  "bench_view \<Rightarrow> executors \<Rightarrow> candidate_job \<Rightarrow> run_bench \<Rightarrow> run_bench \<times> candidate_run result" where
  "execute_process V E c st =
     seq (still (ensure (cj_game c = None) ''interactive game Tasks require a model-backed Candidate'') st) (\<lambda>_ st.
     seq (if cj_provider c = ''docker''
          then seq (run_docker_candidate V c st) (\<lambda>outcome. still (Inr (case outcome of
                 process_outcome.Completed \<Rightarrow> execution_completed
               | TimedOut \<Rightarrow> execution_timed_out (t_candidate_timeout_sec (cj_task c)))))
          else if cj_provider c = os_runtime_provider
          then seq (on_work (ex_os_candidate E (cj_task c) (cj_candidate c) (cj_workspace c) (cj_images c)) st) (\<lambda>_.
                 still (Inr execution_completed))
          else (st, Inl (Bail ''Candidate Runtime {provider:?} is not implemented''))) (\<lambda>execution.
       still (Inr \<lparr>cr_event_log_digest = None, cr_execution = execution, cr_model_usage = None\<rparr>)))"

definition execute_candidate ::
  "bench_view \<Rightarrow> executors \<Rightarrow> candidate_job \<Rightarrow> run_bench \<Rightarrow> run_bench \<times> candidate_run result" where
  "execute_candidate V E c =
     (case ap_protocol (cj_candidate c) of
        A3sCodeExec \<Rightarrow> on_work (execute_a3s_code (bv_world V) E c)
      | CodexExec \<Rightarrow> on_work (execute_codex (bv_world V) E c)
      | AgentTool \<Rightarrow>
          (case cj_model c of
             None \<Rightarrow> execute_process V E c
           | Some model \<Rightarrow> on_work (execute_model (bv_world V) E c model)))"

subsection \<open>The Judge\<close>

definition execute_judge ::
  "bench_view \<Rightarrow> executors \<Rightarrow> task_info \<Rightarrow> asset_package \<Rightarrow> path \<Rightarrow> game_session option \<Rightarrow> model_route option \<Rightarrow> string \<Rightarrow>
     (string \<times> string) list \<Rightarrow> run_bench \<Rightarrow> run_bench \<times> judge_result result" where
  "execute_judge V E t judge submission game route provider images =
     (case (game, t_legacy_judge t) of
        (Some session, Some source) \<Rightarrow> on_work (ex_finish_game E session t source)
      | (None, Some source) \<Rightarrow> on_work (ex_legacy_judge E t source submission route)
      | (_, None) \<Rightarrow>
          if provider = ''docker''
          then on_events (execute_docker_judge (bench_library V) (bv_docker V) (bv_owner V) (bv_hidden V) t
                 (full_path (bv_base V) (ap_root judge)) (ap_entrypoint judge) (full_path (bv_base V) submission))
          else if provider = os_runtime_provider then on_work (ex_os_judge E t judge submission images)
          else (\<lambda>st. (st, Inl (Bail ''Judge Runtime {provider:?} is not implemented''))))"

subsection \<open>A run\<close>

text \<open>One operation of the journal, with the clock and the system calls of its point.\<close>

definition journal_op_at :: "bench_view \<Rightarrow> run_point \<Rightarrow> journal_op \<Rightarrow> run_bench \<Rightarrow> run_bench \<times> unit result" where
  "journal_op_at V point op = on_journal (apply_op (bench_library V) (bv_os V point) (bv_clock V point) op)"

definition advance_to :: "bench_view \<Rightarrow> run_stage \<Rightarrow> run_bench \<Rightarrow> run_bench \<times> unit result" where
  "advance_to V stage = journal_op_at V (AtStage stage) (Advance stage)"

definition on_import_volumes ::
  "(u64 \<times> event list \<Rightarrow> (u64 \<times> event list) \<times> 'a result) \<Rightarrow> run_bench \<Rightarrow> run_bench \<times> 'a result" where
  "on_import_volumes f st =
     (case st of (j, b) \<Rightarrow>
       (case f (be_import_volumes b, wk_trace (be_work b)) of
          ((n, tr), r) \<Rightarrow> ((j, b\<lparr>be_import_volumes := n, be_work := (be_work b)\<lparr>wk_trace := tr\<rparr>\<rparr>), r)))"

definition prepare_imports_for :: "bench_view \<Rightarrow> string \<Rightarrow> task_info \<Rightarrow> run_bench \<Rightarrow> run_bench \<times> prepared_import list result" where
  "prepare_imports_for V provider t st =
     (if provider = ''docker''
      then seq (on_import_volumes (prepare_workspace_imports (bv_docker V) (bv_host V) t) st) (\<lambda>imports st.
           seq (remember (\<lambda>b. b\<lparr>be_imports := imports\<rparr>) st) (\<lambda>_. still (Inr imports)))
      else seq (still (ensure (t_imports t = []) ''Task workspace imports require the Docker Runtime'') st) (\<lambda>_.
             still (Inr [])))"

definition create_run_workspace :: "bench_view \<Rightarrow> task_info \<Rightarrow> workspaces \<Rightarrow> workspaces \<times> path result" where
  "create_run_workspace V t s =
     create_workspace (bench_library V) (bv_docker V) (w_os (bv_world V)) (tree_of (bv_world V) (wk_store s))
       (bv_seed V) t s"

definition discover_config :: "bench_view \<Rightarrow> artifact_state \<Rightarrow> local_config result" where
  "discover_config V s =
     (let W = bv_world V; files = store_fs W s in
     bind_result (discover (w_parser W) (bv_provider_id V) (w_os W) (bv_home V) files
         (in_cwd (iv_installation (bv_input V)))) (\<lambda>config.
     case (lc_path config, lc_judge_model config) of
       (Some p, Some model) \<Rightarrow>
         map_result (\<lambda>_. config) (resolve_model_route (w_parser W) (w_os W) files p model)
     | _ \<Rightarrow> Inr config))"

text \<open>The first part of \<open>execute_inner\<close>: the runtime is ready, the locks are loaded and bound to the journal, the
  Task's images are those of the lock.\<close>

record run_inputs =
  ri_config :: local_config
  ri_provider :: string
  ri_loaded :: loaded_run
  ri_task :: task_info
  ri_judge_model :: "judge_model option"

definition resolve_inputs :: "bench_view \<Rightarrow> run_options \<Rightarrow> run_bench \<Rightarrow> run_bench \<times> run_inputs result" where
  "resolve_inputs V opts st =
     (let W = bv_world V in
     seq (still (discover_config V (bench_store (snd st))) st) (\<lambda>config st.
     seq (on_events (preflight (bv_docker V) (w_lossy W) (bv_os_preflight V) (rs_provider (lc_runtime config))) st) (\<lambda>status st.
     seq (advance_to V RuntimeReady st) (\<lambda>_ st.
     seq (on_store (load_run W (bv_input V) opts (j_run_id (fst st)) (lc_judge_model config)
            (lc_codex_reasoning_effort config) (rt_provider status)) st) (\<lambda>loaded st.
     seq (journal_op_at V AtLocks (BindLocks (ln_task_lock_digest loaded) (ln_candidate_lock_digest loaded)) st) (\<lambda>_ st.
     seq (still (resolve_judge_model W (bench_store (snd st)) (ln_task loaded) (ln_judge_model loaded) config) st)
       (\<lambda>judge_model st.
     seq (still (prepare_task W (bench_store (snd st)) (rt_provider status) loaded) st) (\<lambda>t st.
     seq (advance_to V InputsResolved st) (\<lambda>_.
       still (Inr \<lparr>ri_config = config, ri_provider = rt_provider status, ri_loaded = loaded, ri_task = t,
                   ri_judge_model = judge_model\<rparr>))))))))))"

text \<open>The candidate runs in its workspace; its imports are given back when it has ended.\<close>

definition run_agent ::
  "bench_view \<Rightarrow> executors \<Rightarrow> run_inputs \<Rightarrow> run_bench \<Rightarrow> run_bench \<times> (path \<times> candidate_run) result" where
  "run_agent V E x st =
     (let W = bv_world V; t = ri_task x; loaded = ri_loaded x;
          native_codex = (ap_protocol (ln_candidate loaded) = CodexExec) in
     seq (on_work (start_game E t (lc_parallel_game_sessions (ri_config x))) st) (\<lambda>game st.
     seq (remember (\<lambda>b. b\<lparr>be_game := game\<rparr>) st) (\<lambda>_ st.
     seq (on_work (if native_codex then create_empty (w_os W) t else create_run_workspace V t) st) (\<lambda>workspace st.
     seq (remember (\<lambda>b. b\<lparr>be_workspace := Some workspace\<rparr>) st) (\<lambda>_ st.
     seq (if native_codex \<and> requires_host_workspace W (bench_store (snd st)) t
          then seq (on_work (create_run_workspace V t) st) (\<lambda>p. still (Inr (Some p)))
          else (st, Inr None)) (\<lambda>seed st.
     seq (remember (\<lambda>b. b\<lparr>be_seed_workspace := seed\<rparr>) st) (\<lambda>_ st.
     seq (prepare_imports_for V (ri_provider x) t st) (\<lambda>imports st.
     seq (advance_to V CandidateRunning st) (\<lambda>_ st.
     seq (execute_candidate V E
            \<lparr>cj_task = t, cj_candidate = ln_candidate loaded, cj_model = ln_model loaded, cj_effort = ln_effort loaded,
             cj_package = ln_package loaded, cj_config = ri_config x, cj_workspace = workspace,
             cj_seed_workspace = seed, cj_imports = imports, cj_game = game, cj_provider = ri_provider x,
             cj_images = ln_images loaded, cj_run_id = j_run_id (fst st)\<rparr> st) (\<lambda>executed st.
     seq (remember drop_import_volumes st) (\<lambda>_.
       still (Inr (workspace, executed)))))))))))))"

definition result_of_run ::
  "run_options \<Rightarrow> run_inputs \<Rightarrow> string \<Rightarrow> candidate_run \<Rightarrow> judge_result \<Rightarrow> string \<Rightarrow> string \<Rightarrow> local_result" where
  "result_of_run opts x run_id executed judged primary score =
     \<lparr>lr_schema = [], lr_result_digest = [], lr_governance_status = [], lr_run_id = run_id,
      lr_task_id = t_id (ri_task x), lr_task_lock_digest = ln_task_lock_digest (ri_loaded x),
      lr_agent = ro_agent opts, lr_candidate_lock_digest = ln_candidate_lock_digest (ri_loaded x),
      lr_agent_identity = ap_identity (ln_candidate (ri_loaded x)),
      lr_judge_identity = judge_identity (ap_identity (ln_judge (ri_loaded x))) (ri_judge_model x),
      lr_runtime_provider = ri_provider x, lr_model = ln_model (ri_loaded x),
      lr_candidate_execution = Some (cr_execution executed), lr_model_usage = cr_model_usage executed,
      lr_event_log_digest = cr_event_log_digest executed, lr_primary_metric = primary, lr_score = score,
      lr_judge_result = judged\<rparr>"

definition judge_submission ::
  "bench_view \<Rightarrow> executors \<Rightarrow> run_inputs \<Rightarrow> path \<Rightarrow> run_bench \<Rightarrow> run_bench \<times> judge_result result" where
  "judge_submission V E x workspace st =
     (let W = bv_world V; t = ri_task x in
     seq (on_work (create_submission (w_globs W) (w_os W) t workspace) st) (\<lambda>submission st.
     seq (remember (\<lambda>b. b\<lparr>be_submission := Some submission\<rparr>) st) (\<lambda>_ st.
     seq (advance_to V Judging st) (\<lambda>_ st.
       execute_judge V E t (ln_judge (ri_loaded x)) submission (be_game (snd st))
         (map_option jm_route (ri_judge_model x)) (ri_provider x) (ln_images (ri_loaded x)) st))))"

text \<open>\<open>save\<close>, \<open>complete\<close> and \<open>publish_latest\<close>.\<close>

definition on_bench_fs :: "(fs \<Rightarrow> fs \<times> 'a result) \<Rightarrow> run_bench \<Rightarrow> run_bench \<times> 'a result" where
  "on_bench_fs f st = (case st of (j, b) \<Rightarrow> (case f (bench_fs b) of (g, r) \<Rightarrow> ((j, put_fs g b), r)))"

definition record_result :: "bench_view \<Rightarrow> local_result \<Rightarrow> run_bench \<Rightarrow> run_bench \<times> local_result result" where
  "record_result V input st =
     seq (on_bench_fs (save_result (bench_library V) (bv_os V AtSave) input) st) (\<lambda>(r, p) st.
     seq (journal_op_at V AtComplete (Complete (full_path (bv_base V) p) (lr_result_digest r)) st) (\<lambda>_ st.
     seq (on_bench_fs (publish_latest (bench_library V) (bv_os V AtPublish) (bv_base V) (lr_run_id r)) st) (\<lambda>_.
       still (Inr r))))"

definition execute_body ::
  "bench_view \<Rightarrow> executors \<Rightarrow> run_options \<Rightarrow> bool \<Rightarrow> run_bench \<Rightarrow> run_bench \<times> local_result result" where
  "execute_body V E opts emit st =
     seq (resolve_inputs V opts st) (\<lambda>x st.
     seq (run_agent V E x st) (\<lambda>(workspace, executed) st.
     seq (advance_to V CandidateCompleted st) (\<lambda>_ st.
     seq (judge_submission V E x workspace st) (\<lambda>judged st.
     seq (still (primary_metric (ri_task x)) st) (\<lambda>primary st.
     seq (still (primary_score judged (mi_name primary)) st) (\<lambda>score st.
     seq (record_result V (result_of_run opts x (j_run_id (fst st)) executed judged (mi_name primary) score) st) (\<lambda>r.
       still (and_then (if emit then bv_print V else Inr ()) (Inr r)))))))))"

definition execute_inner ::
  "bench_view \<Rightarrow> executors \<Rightarrow> run_options \<Rightarrow> bool \<Rightarrow> run_bench \<Rightarrow> run_bench \<times> local_result result" where
  "execute_inner V E opts emit st =
     (case execute_body V E opts emit st of
        ((j, b), r) \<Rightarrow> ((j, drop_all E (w_os (bv_world V)) b), r))"

text \<open>A panic unwinds through the run, also through what would have added a context to an error, and past the
  failure handler; the run gives back what it holds.\<close>

fun is_panic :: "error \<Rightarrow> bool" where
  "is_panic (Panic m) = True"
| "is_panic (Context c e) = is_panic e"
| "is_panic e = False"

definition execute_options ::
  "bench_view \<Rightarrow> executors \<Rightarrow> run_options \<Rightarrow> bool \<Rightarrow> bench \<Rightarrow> bench \<times> local_result result" where
  "execute_options V E opts emit b =
     seq (still (state_root (w_os (bv_world V))) b) (\<lambda>_ b.
       (case begin_journal (bench_library V) (bv_os V AtBegin) (bv_clock V AtBegin) (ro_task opts) (ro_agent opts)
               (be_runs b, bench_fs b) of
          ((n, f), Inl e) \<Rightarrow> ((put_fs f b)\<lparr>be_runs := n\<rparr>, Inl e)
        | ((n, f), Inr j) \<Rightarrow>
            (case execute_inner V E opts emit (j, (put_fs f b)\<lparr>be_runs := n\<rparr>) of
               ((j, b), Inr r) \<Rightarrow> (b, Inr r)
             | ((j, b), Inl e) \<Rightarrow>
                 if is_panic e then (b, Inl e)
                 else (case journal_op_at V AtFail (Fail (bv_message V e)) (j, b) of
                    ((j, b), Inr _) \<Rightarrow> (b, Inl (Context ''run {} failed'' e))
                  | ((j, b), Inl je) \<Rightarrow> (b, Inl (Context ''could not persist terminal run failure: {}'' e))))))"

definition execute :: "bench_view \<Rightarrow> executors \<Rightarrow> string list \<Rightarrow> bench \<Rightarrow> bench \<times> unit result" where
  "execute V E args b =
     seq (still (parse_options args) b) (\<lambda>opts b.
     seq (execute_options V E opts True b) (\<lambda>_. still (Inr ())))"


subsection \<open>What a run keeps of its journal\<close>

text \<open>After a step: one predicate of the state when it fails, one of its value and the state when it succeeds.\<close>

definition leads :: "'s \<times> 'a result \<Rightarrow> ('s \<Rightarrow> bool) \<Rightarrow> ('a \<Rightarrow> 's \<Rightarrow> bool) \<Rightarrow> bool" where
  "leads x Q N = (case x of (s, Inl e) \<Rightarrow> Q s | (s, Inr v) \<Rightarrow> N v s)"

lemma leads_seq: "leads x Q N \<Longrightarrow> (\<And>v s. N v s \<Longrightarrow> leads (k v s) Q M) \<Longrightarrow> leads (seq x k) Q M"
  by (fastforce simp: leads_def seq_def split: prod.splits sum.splits)

lemma leads_weaken: "leads x Q N \<Longrightarrow> (\<And>s. Q s \<Longrightarrow> Q' s) \<Longrightarrow> (\<And>v s. N v s \<Longrightarrow> N' v s) \<Longrightarrow> leads x Q' N'"
  by (auto simp: leads_def split: prod.splits sum.splits)

lemma leads_Inr: "leads (s, Inr v) Q N = N v s"
  by (simp add: leads_def)

lemma leads_still: "A s \<Longrightarrow> leads (still r s) A (\<lambda>_. A)"
  by (auto simp: leads_def still_def split: sum.splits)

text \<open>Steps that leave the journal alone.\<close>

abbreviation keeping :: "(journal \<Rightarrow> bool) \<Rightarrow> run_bench \<times> 'a result \<Rightarrow> bool" where
  "keeping A x \<equiv> leads x (\<lambda>st. A (fst st)) (\<lambda>_ st. A (fst st))"

lemma keeping_seq:
  "keeping A x \<Longrightarrow> (\<And>v st. A (fst st) \<Longrightarrow> keeping A (k v st)) \<Longrightarrow> keeping A (seq x k)"
  by (rule leads_seq)

lemma leads_keep:
  "keeping A x \<Longrightarrow> (\<And>j. A j \<Longrightarrow> Q j) \<Longrightarrow> (\<And>v st. A (fst st) \<Longrightarrow> leads (k v st) (\<lambda>st. Q (fst st)) M) \<Longrightarrow>
     leads (seq x k) (\<lambda>st. Q (fst st)) M"
  by (rule leads_seq) (rule leads_weaken, assumption, blast, assumption)

lemma keeping_if: "(c \<Longrightarrow> keeping A x) \<Longrightarrow> (\<not> c \<Longrightarrow> keeping A y) \<Longrightarrow> keeping A (if c then x else y)"
  by simp

lemma keeping_steps:
  "A (fst st) \<Longrightarrow> keeping A (still r st)"
  "A (fst st) \<Longrightarrow> keeping A (st, r)"
  "A (fst st) \<Longrightarrow> keeping A (on_work f st)"
  "A (fst st) \<Longrightarrow> keeping A (on_store g st)"
  "A (fst st) \<Longrightarrow> keeping A (on_events h st)"
  "A (fst st) \<Longrightarrow> keeping A (on_import_volumes i st)"
  "A (fst st) \<Longrightarrow> keeping A (on_bench_fs l st)"
  "A (fst st) \<Longrightarrow> keeping A (remember m st)"
  "A (fst st) \<Longrightarrow> keeping A (run_docker_candidate V c st)"
  by (auto simp: leads_def still_def on_work_def on_store_def on_events_def on_import_volumes_def remember_def
      on_bench_fs_def run_docker_candidate_def Let_def split: prod.splits sum.splits)

lemmas keeping_intros = keeping_seq keeping_if keeping_steps

lemma keeping_execution:
  assumes "A (fst st)"
  shows "keeping A (execute_candidate V E c st)"
    "keeping A (execute_judge V E t judge submission game route provider images st)"
    "keeping A (prepare_imports_for V provider t st)"
proof -
  show "keeping A (prepare_imports_for V provider t st)"
    unfolding prepare_imports_for_def by (intro keeping_intros assms; assumption)
  have "keeping A (execute_process V E c st)"
    unfolding execute_process_def by (intro keeping_intros assms; assumption)
  then show "keeping A (execute_candidate V E c st)"
    unfolding execute_candidate_def
    by (auto split: candidate_protocol.splits option.splits intro!: keeping_steps assms)
  show "keeping A (execute_judge V E t judge submission game route provider images st)"
    unfolding execute_judge_def by (auto split: option.splits intro!: keeping_steps assms)
qed


text \<open>A journal that has not ended, and that loads when it is on the disk; and one bound to two locks.\<close>

definition alive :: "string \<Rightarrow> journal \<Rightarrow> bool" where
  "alive rid j =
     (j_run_id j = rid \<and> validate_run_id rid = Inr () \<and> j_path j = journal_path rid \<and> \<not> terminal (j_stage j) \<and>
      check_journal rid j = Inr ())"

definition held :: "string \<Rightarrow> string \<Rightarrow> string \<Rightarrow> journal \<Rightarrow> bool" where
  "held rid t c j = (alive rid j \<and> j_task_lock_digest j = Some t \<and> j_candidate_lock_digest j = Some c)"

lemma op_not_terminal:
  assumes "apply_op L env clock op (j, s) = ((j', s'), r)" "\<not> terminal (j_stage j)"
    "(\<exists>stage. op = Advance stage) \<or> (\<exists>t c. op = BindLocks t c)"
  shows "\<not> terminal (j_stage j')"
  using assms
  by (cases clock) (auto simp: op_defs split: prod.splits if_splits sum.splits)

lemma op_alive:
  assumes "alive rid j" "disciplined op j" "(\<exists>stage. op = Advance stage) \<or> (\<exists>t c. op = BindLocks t c)"
    "apply_op L env clock op (j, s) = ((j', s'), r)"
  shows "alive rid j'" "follows j j'"
proof -
  have nt: "\<not> terminal (j_stage j')"
    using op_not_terminal [OF assms(4) _ assms(3)] assms(1) by (simp add: alive_def)
  have f: "follows j j'" "j_path j' = j_path j"
    using apply_op_effect [OF assms(4)] by (auto simp: op_effect_def)
  have "check_journal rid j' = Inr ()"
    using apply_op_check [OF _ assms(2,4), of rid] assms(1) nt by (auto simp: alive_def)
  with nt f assms(1) show "alive rid j'" by (auto simp: alive_def follows_def)
  show "follows j j'" by (rule f(1))
qed

lemma bind_locks_bound:
  assumes "bind_locks L env clock t c (j, s) = ((j', s'), Inr ())"
  shows "j_task_lock_digest j' = Some t \<and> j_candidate_lock_digest j' = Some c"
  using assms by (cases clock) (auto simp: op_defs split: prod.splits if_splits sum.splits)

lemma leads_journal_op:
  assumes "\<And>j' s' r. apply_op (bench_library V) (bv_os V point) (bv_clock V point) op (fst st, bench_fs (snd st)) = ((j', s'), r) \<Longrightarrow>
    (case r of Inl e \<Rightarrow> A j' | Inr _ \<Rightarrow> B j')"
  shows "leads (journal_op_at V point op st) (\<lambda>st. A (fst st)) (\<lambda>_ st. B (fst st))"
  using assms
  by (cases st) (auto simp: leads_def journal_op_at_def on_journal_def split: prod.splits sum.splits)

lemma keeping_advance:
  assumes "held rid t c (fst st)"
  shows "keeping (held rid t c) (advance_to V stage st)"
proof -
  have a: "alive rid (fst st)" and d: "disciplined (Advance stage) (fst st)"
    using assms by (auto simp: held_def disciplined_def)
  show ?thesis
    unfolding advance_to_def
  proof (rule leads_journal_op)
    fix j' s' r
    assume "apply_op (bench_library V) (bv_os V (AtStage stage)) (bv_clock V (AtStage stage)) (Advance stage)
        (fst st, bench_fs (snd st)) = ((j', s'), r)"
    from op_alive [OF a d _ this] have "held rid t c j'" using assms by (auto simp: held_def follows_def)
    then show "case r of Inl e \<Rightarrow> held rid t c j' | Inr _ \<Rightarrow> held rid t c j'" by (simp split: sum.splits)
  qed
qed

lemma leads_start:
  assumes "alive rid (fst st)" "stage \<noteq> InputsResolved"
  shows "keeping (alive rid) (advance_to V stage st)"
  unfolding advance_to_def
proof (rule leads_journal_op)
  fix j' s' r
  assume "apply_op (bench_library V) (bv_os V (AtStage stage)) (bv_clock V (AtStage stage)) (Advance stage)
      (fst st, bench_fs (snd st)) = ((j', s'), r)"
  from op_alive [OF assms(1) _ _ this] assms(2) have "alive rid j'" by (auto simp: disciplined_def)
  then show "case r of Inl e \<Rightarrow> alive rid j' | Inr _ \<Rightarrow> alive rid j'" by (simp split: sum.splits)
qed

lemma leads_bind:
  assumes "alive rid (fst st)"
  shows "leads (journal_op_at V AtLocks (BindLocks t c) st) (\<lambda>st. alive rid (fst st)) (\<lambda>_ st. held rid t c (fst st))"
proof (rule leads_journal_op)
  fix j' s' and r :: "unit result"
  assume op: "apply_op (bench_library V) (bv_os V AtLocks) (bv_clock V AtLocks) (BindLocks t c)
      (fst st, bench_fs (snd st)) = ((j', s'), r)"
  from op_alive [OF assms _ _ op] have "alive rid j'" by (auto simp: disciplined_def)
  with op bind_locks_bound show "case r of Inl e \<Rightarrow> alive rid j' | Inr _ \<Rightarrow> held rid t c j'"
    by (auto simp: held_def split: sum.splits)
qed

lemma held_alive: "held rid t c j \<Longrightarrow> alive rid j"
  by (simp add: held_def)

definition held_inputs :: "string \<Rightarrow> run_inputs \<Rightarrow> journal \<Rightarrow> bool" where
  "held_inputs rid x j = held rid (ln_task_lock_digest (ri_loaded x)) (ln_candidate_lock_digest (ri_loaded x)) j"

lemma leads_resolve_inputs:
  assumes "alive rid (fst st)"
  shows "leads (resolve_inputs V opts st) (\<lambda>st. alive rid (fst st)) (\<lambda>x st. held_inputs rid x (fst st))"
  using assms unfolding resolve_inputs_def Let_def
  apply -
  apply (rule leads_keep [where A = "alive rid"], rule keeping_steps(1), assumption, assumption)
  apply (rule leads_keep [where A = "alive rid"], rule keeping_steps(5), assumption, assumption)
  apply (rule leads_keep [where A = "alive rid"], rule leads_start, assumption, simp, assumption)
  apply (rule leads_keep [where A = "alive rid"], rule keeping_steps(4), assumption, assumption)
  apply (rule leads_seq [OF leads_bind], assumption)
  subgoal premises p for config s0 status s1 u s2 loaded s3 v s4
    using p
    apply -
    apply (rule leads_keep [where A = "held rid (ln_task_lock_digest loaded) (ln_candidate_lock_digest loaded)"],
        rule keeping_steps(1), assumption, erule held_alive)+
    apply (rule leads_keep [where A = "held rid (ln_task_lock_digest loaded) (ln_candidate_lock_digest loaded)"],
        rule keeping_advance, assumption, erule held_alive)
    by (simp add: still_def leads_Inr held_inputs_def)
  done


lemma keeping_run_candidate:
  assumes "held rid t c (fst st)"
  shows "keeping (held rid t c) (run_agent V E x st)"
  unfolding run_agent_def Let_def
  by (intro keeping_intros keeping_advance keeping_execution assms; assumption)

lemma keeping_judge_submission:
  assumes "held rid t c (fst st)"
  shows "keeping (held rid t c) (judge_submission V E x workspace st)"
  unfolding judge_submission_def Let_def
  by (intro keeping_intros keeping_advance keeping_execution assms; assumption)

text \<open>The state in which a run can fail: the journal alive, or complete in memory with the result saved.\<close>

definition saved :: "bench_view \<Rightarrow> string \<Rightarrow> bench \<Rightarrow> bool" where
  "saved V rid b =
     (\<exists>r. file_at (bench_fs b) (result_path rid) = Some (json_pretty (bench_library V) (local_result_json r)))"

definition alive_or_saved :: "bench_view \<Rightarrow> string \<Rightarrow> run_bench \<Rightarrow> bool" where
  "alive_or_saved V rid st =
     (alive rid (fst st) \<or>
      j_run_id (fst st) = rid \<and> j_stage (fst st) = run_stage.Completed \<and> saved V rid (snd st))"

lemma put_fs_simps [simp]: "bench_fs (put_fs f b) = f" "as_trees (bench_store (put_fs f b)) = as_trees (bench_store b)"
  by (simp_all add: put_fs_def put_store_def)

lemma complete_stage:
  assumes "apply_op L env clock (Complete p d) (j, s) = ((j', s'), r)"
  shows "(j' = j \<and> s' = s \<and> r \<noteq> Inr ()) \<or> j_stage j' = run_stage.Completed"
  using assms by (cases clock) (auto simp: op_defs split: prod.splits if_splits sum.splits)

lemma op_keeps_result:
  assumes "apply_op L env clock op (j, s) = ((j', s'), r)" "j_path j = journal_path rid" "validate_run_id rid = Inr ()"
  shows "file_at s' (result_path rid) = file_at s (result_path rid)"
proof -
  have "s' = s \<or> (\<exists>b. secure_atomic_write env (journal_path rid) b s = (s', r))"
    using apply_op_effect [OF assms(1)] assms(2) by (auto simp: op_effect_def persist_def)
  then show ?thesis
    using state_files.write_frame [OF _ journal_path_proper [OF assms(3)] result_path_proper [OF assms(3)]] by auto
qed

lemma latest_not_result: "result_path rid \<noteq> latest_path"
  by (simp add: result_path_def latest_path_def)

lemma publish_keeps_result:
  assumes "publish_latest L env base rid s = (s', r)" "validate_run_id rid' = Inr ()"
  shows "file_at s' (result_path rid') = file_at s (result_path rid')"
proof -
  have "s' = s \<or> (\<exists>b. secure_atomic_write env latest_path b s = (s', r))"
    using assms(1) by (auto simp: publish_latest_def split: sum.splits)
  then show ?thesis
    using state_files.write_frame [OF _ latest_path_proper result_path_proper [OF assms(2)] latest_not_result] by auto
qed

lemma leads_record_result:
  assumes "alive rid (fst st)" "lr_run_id input = rid"
  shows "leads (record_result V input st) (alive_or_saved V rid) (\<lambda>_. alive_or_saved V rid)"
  unfolding record_result_def
proof (rule leads_seq)
  let ?L = "bench_library V"
  let ?N = "\<lambda>(r, p :: path) st. alive rid (fst st) \<and> lr_run_id r = rid \<and>
    file_at (bench_fs (snd st)) (result_path rid) = Some (json_pretty ?L (local_result_json r))"
  show "leads (on_bench_fs (save_result ?L (bv_os V AtSave) input) st) (alive_or_saved V rid) ?N"
  proof -
    obtain f' res where sv: "save_result ?L (bv_os V AtSave) input (bench_fs (snd st)) = (f', res)" by fastforce
    then show ?thesis
    proof (cases res)
      case (Inr rp)
      obtain r p where rp: "rp = (r, p)" by (cases rp)
      note e = save_effect [OF sv [unfolded Inr rp]]
      have "lr_run_id r = rid" using e(5) assms(2) by (auto simp: new_record_def)
      with sv Inr rp e(1) assms show ?thesis by (cases st) (simp add: leads_def on_bench_fs_def)
    qed (use assms(1) sv in \<open>cases st; simp add: leads_def on_bench_fs_def alive_or_saved_def\<close>)
  qed
  fix rp st1
  assume "?N rp st1"
  then obtain r p where rp: "rp = (r, p)" and a: "alive rid (fst st1)" "lr_run_id r = rid"
    and f: "file_at (bench_fs (snd st1)) (result_path rid) = Some (json_pretty ?L (local_result_json r))"
    by (cases rp) auto
  have v: "validate_run_id rid = Inr ()" "j_path (fst st1) = journal_path rid" using a(1) by (simp_all add: alive_def)
  let ?D = "\<lambda>st. j_run_id (fst st) = rid \<and> j_stage (fst st) = run_stage.Completed \<and> saved V rid (snd st)"
  have complete: "leads (journal_op_at V AtComplete (Complete path d) st1) (alive_or_saved V rid) (\<lambda>_. ?D)" for path d
  proof -
    obtain j b where st1: "st1 = (j, b)" by (cases st1)
    obtain j' f' res where op: "apply_op ?L (bv_os V AtComplete) (bv_clock V AtComplete) (Complete path d) (j, bench_fs b) =
        ((j', f'), res)" by (metis surj_pair)
    have "saved V rid (put_fs f' b)"
      using op_keeps_result [OF op _ v(1)] v(2) f st1 by (auto simp: saved_def)
    moreover have "j_run_id j' = rid"
      using apply_op_effect [OF op] a(1) st1 by (auto simp: op_effect_def follows_def alive_def)
    ultimately show ?thesis
      using complete_stage [OF op] op a(1) st1
      by (auto simp: leads_def journal_op_at_def on_journal_def alive_or_saved_def split: sum.splits)
  qed
  have publish: "leads (on_bench_fs (publish_latest ?L (bv_os V AtPublish) (bv_base V) (lr_run_id r)) st2)
      (alive_or_saved V rid) (\<lambda>_. alive_or_saved V rid)" if "?D st2" for st2
    using that publish_keeps_result [OF _ v(1)]
    by (auto simp: leads_def on_bench_fs_def alive_or_saved_def saved_def split: prod.splits sum.splits)
  show "leads ((case rp of (r, p) \<Rightarrow> \<lambda>st.
     seq (journal_op_at V AtComplete (Complete (full_path (bv_base V) p) (lr_result_digest r)) st) (\<lambda>_ st.
     seq (on_bench_fs (publish_latest ?L (bv_os V AtPublish) (bv_base V) (lr_run_id r)) st) (\<lambda>_.
       still (Inr r)))) st1) (alive_or_saved V rid) (\<lambda>_. alive_or_saved V rid)"
    unfolding rp prod.case
    by (rule leads_seq [OF complete], rule leads_seq [OF publish]) (simp_all add: still_def leads_Inr)
qed


lemma leads_held:
  assumes "keeping (held rid t c) x"
    "\<And>v st. held rid t c (fst st) \<Longrightarrow> leads (k v st) (alive_or_saved V rid) M"
  shows "leads (seq x k) (alive_or_saved V rid) M"
proof (rule leads_seq)
  show "leads x (alive_or_saved V rid) (\<lambda>_ st. held rid t c (fst st))"
    by (rule leads_weaken [OF assms(1)]) (auto simp: alive_or_saved_def held_def)
qed (rule assms(2))

lemma leads_judged:
  assumes "held rid t c (fst st)"
  shows "leads (seq (judge_submission V E x workspace st) (\<lambda>judged st.
     seq (still (primary_metric (ri_task x)) st) (\<lambda>primary st.
     seq (still (primary_score judged (mi_name primary)) st) (\<lambda>score st.
     seq (record_result V (result_of_run opts x (j_run_id (fst st)) executed judged (mi_name primary) score) st) (\<lambda>r.
       still (and_then (if emit then bv_print V else Inr ()) (Inr r)))))))
     (alive_or_saved V rid) (\<lambda>_. alive_or_saved V rid)"
  using assms
  apply -
  apply (rule leads_held, rule keeping_judge_submission, assumption)
  apply (rule leads_held, rule keeping_steps(1), assumption)
  apply (rule leads_held, rule keeping_steps(1), assumption)
  apply (rule leads_seq, rule leads_record_result)
    apply (erule held_alive)
   apply (simp add: result_of_run_def held_def alive_def)
  apply (rule leads_still, assumption)
  done

lemma leads_execute_body:
  assumes "alive rid (fst st)"
  shows "leads (execute_body V E opts emit st) (alive_or_saved V rid) (\<lambda>_. alive_or_saved V rid)"
  unfolding execute_body_def
proof (rule leads_seq)
  show "leads (resolve_inputs V opts st) (alive_or_saved V rid) (\<lambda>x st. held_inputs rid x (fst st))"
    by (rule leads_weaken [OF leads_resolve_inputs [OF assms]]) (simp_all add: alive_or_saved_def)
qed (unfold split_beta held_inputs_def, rule leads_held, rule keeping_run_candidate, assumption,
     rule leads_held, rule keeping_advance, assumption, rule leads_judged, assumption)

text \<open>What is given back leaves the files alone, as long as ending a game session does.\<close>

lemma drop_directory_fs [simp]: "as_fs (wk_store (drop_directory env p s)) = as_fs (wk_store s)"
  by (simp add: drop_directory_def remove_staging_def put_tree_def split: option.splits)

lemma drop_all_fs:
  assumes "\<And>g w. as_fs (wk_store (ex_drop_game E g w)) = as_fs (wk_store w)"
  shows "bench_fs (drop_all E env b) = bench_fs b"
  using assms by (simp add: drop_all_def drop_game_def drop_transient_def drop_import_volumes_def split: option.splits)


subsection \<open>What a run that succeeds leaves\<close>

text \<open>A Judge result is a value of its type: its maps are ordered and have each name once.\<close>

definition canonical_executors :: "executors \<Rightarrow> bool" where
  "canonical_executors E =
     ((\<forall>g t src w w' r. ex_finish_game E g t src w = (w', Inr r) \<longrightarrow> canonical_judge r) \<and>
      (\<forall>t src p route w w' r. ex_legacy_judge E t src p route w = (w', Inr r) \<longrightarrow> canonical_judge r) \<and>
      (\<forall>t a p m w w' r. ex_os_judge E t a p m w = (w', Inr r) \<longrightarrow> canonical_judge r))"

lemma execute_judge_canonical:
  assumes "execute_judge V E t judge submission game route provider images st = (st', Inr r)" "canonical_executors E"
    "json_library (bench_library V)"
  shows "canonical_judge r"
proof -
  have docker: "canonical_judge r"
    if "execute_docker_judge (bench_library V) D owner hidden t root' entry sub tr = (tr', Inr r)" for D owner hidden root' entry sub tr tr'
  proof -
    from that obtain out where "accept_judge_output (bench_library V) t out = Inr r"
      by (auto simp: execute_docker_judge_def bind_result_Inr split: sum.splits prod.splits)
    then obtain v where "judge_result_of_json v = Some r" "json_parse (bench_library V) (po_stdout out) = Some v"
      by (auto simp: accept_judge_output_def and_then_Inr bind_result_Inr with_context_Inr bind_eq_Some_conv split: option.splits)
    with judge_result_of_json_canonical assms(3) show ?thesis by (auto simp: json_library_def)
  qed
  from assms(1,2) show ?thesis
    unfolding execute_judge_def canonical_executors_def
    by (auto simp: on_work_def on_events_def on_trace_def intro: docker split: option.splits if_splits prod.splits)
qed

lemma load_result_same:
  assumes "\<And>q. q \<in> {result_path rid, journal_path rid, event_log_path rid} \<Longrightarrow> disk s' q = disk s q"
  shows "load_result L env base rid s' = load_result L env base rid s"
proof -
  have r: "read_optional_regular_file env q s' = read_optional_regular_file env q s"
    if "q \<in> {result_path rid, journal_path rid, event_log_path rid}" for q
    unfolding read_optional_regular_file_def assms [OF that] ..
  have j: "load_journal L env rid s' = load_journal L env rid s"
    using r by (simp add: load_journal_def read_regular_file_def)
  have e: "validate_event_log L env x s' = validate_event_log L env x s" if "lr_run_id x = rid" for x
    using r [of "event_log_path rid"] that by (cases "lr_event_log_digest x") (simp_all add: validate_event_log_def read_regular_file_def Let_def)
  have "validate_result L rid x = Inr () \<Longrightarrow> lr_run_id x = rid" for x
    by (auto simp: validate_result_def and_then_Inr checks_Inr)
  then have "and_then (validate_result L rid x) (bind_result y (\<lambda>j. and_then (z j) (and_then (validate_event_log L env x s') w))) =
      and_then (validate_result L rid x) (bind_result y (\<lambda>j. and_then (z j) (and_then (validate_event_log L env x s) w)))"
    for x and y :: "journal result" and z and w :: "local_result option result"
    using e by (cases "validate_result L rid x") (auto simp: and_then_def)
  with r j show ?thesis by (simp add: load_result_def cong: option.case_cong)
qed

lemma publish_latest_Inr:
  assumes "publish_latest L env base rid s = (s', Inr ())"
  shows "\<exists>r. load_result L env base rid s = Inr (Some r) \<and> load_result L env base rid s' = Inr (Some r)"
    "file_at s' latest_path = Some (rid @ [CHR 0x0A])"
proof -
  from assms obtain r where r: "load_result L env base rid s = Inr (Some r)"
    and w: "secure_atomic_write env latest_path (rid @ [CHR 0x0A]) s = (s', Inr ())"
    by (auto simp: publish_latest_def and_then_Inr bind_result_Inr ok_or_Inr split: sum.splits)
  have v: "validate_run_id rid = Inr ()" using r by (auto simp: load_result_def and_then_Inr)
  have "disk s' q = disk s q" if "q \<in> {result_path rid, journal_path rid, event_log_path rid}" for q
  proof -
    have "state_path q"
      using that result_path_proper [OF v] journal_path_proper [OF v] event_log_path_proper by auto
    then have "\<not> dotted q" by (simp add: state_path_def)
    moreover have "\<not> prefix q latest_path"
      using that latest_not_result by (auto simp: result_path_def journal_path_def event_log_path_def latest_path_def)
    ultimately show ?thesis using untouched_file [OF secure_atomic_write_untouched [OF w]] by blast
  qed
  from load_result_same [OF this] r show "\<exists>r. load_result L env base rid s = Inr (Some r) \<and> load_result L env base rid s' = Inr (Some r)"
    by simp
  show "file_at s' latest_path = Some (rid @ [CHR 0x0A])" by (rule state_files.write_ok [OF w latest_path_proper])
qed

lemma on_bench_fs_step:
  "on_bench_fs f st = (st', r) \<longleftrightarrow> (\<exists>g. f (bench_fs (snd st)) = (g, r) \<and> st' = (fst st, put_fs g (snd st)))"
  by (cases st) (auto simp: on_bench_fs_def split: prod.splits)

lemma journal_op_at_step:
  "journal_op_at V point op st = (st', r) \<longleftrightarrow>
     (\<exists>j g. apply_op (bench_library V) (bv_os V point) (bv_clock V point) op (fst st, bench_fs (snd st)) = ((j, g), r) \<and>
        st' = (j, put_fs g (snd st)))"
  by (cases st) (auto simp: journal_op_at_def on_journal_def simp del: apply_op.simps split: prod.splits)

lemma record_result_Inr:
  assumes "record_result V input st = (st', Inr r)" "alive (lr_run_id input) (fst st)"
    "canonical_judge (lr_judge_result input)" "json_library (bench_library V)"
  shows "load_result (bench_library V) (bv_os V AtPublish) (bv_base V) (lr_run_id input) (bench_fs (snd st')) = Inr (Some r)"
    "file_at (bench_fs (snd st')) latest_path = Some (lr_run_id input @ [CHR 0x0A])"
    "\<exists>d. r = (new_record input)\<lparr>lr_result_digest := d\<rparr>"
proof -
  let ?L = "bench_library V" and ?id = "lr_run_id input"
  obtain j b where st: "st = (j, b)" by (cases st)
  have v: "validate_run_id ?id = Inr ()" "j_path j = journal_path ?id" using assms(2) st by (simp_all add: alive_def)
  from assms(1) obtain st1 p st2 where
    "on_bench_fs (save_result ?L (bv_os V AtSave) input) st = (st1, Inr (r, p))"
    "journal_op_at V AtComplete (Complete (full_path (bv_base V) p) (lr_result_digest r)) st1 = (st2, Inr ())"
    "on_bench_fs (publish_latest ?L (bv_os V AtPublish) (bv_base V) (lr_run_id r)) st2 = (st', Inr ())"
    by (auto simp: record_result_def seq_Inr still_def)
  with st obtain f1 j2 f2 f3 b2 where
    save: "save_result ?L (bv_os V AtSave) input (bench_fs b) = (f1, Inr (r, p))"
    and complete: "apply_op ?L (bv_os V AtComplete) (bv_clock V AtComplete) (Complete (full_path (bv_base V) p) (lr_result_digest r)) (j, f1) =
        ((j2, f2), Inr ())"
    and publish: "publish_latest ?L (bv_os V AtPublish) (bv_base V) (lr_run_id r) f2 = (f3, Inr ())"
    and st': "st' = (j2, b2)" "bench_fs b2 = f3"
    unfolding on_bench_fs_step journal_op_at_step by fastforce
  note e = save_effect [OF save]
  show "\<exists>d. r = (new_record input)\<lparr>lr_result_digest := d\<rparr>" by (rule e(5))
  then have id: "lr_run_id r = ?id" and c: "canonical_judge (lr_judge_result r)"
    using assms(3) by (auto simp: new_record_def)
  have f2: "file_at f2 (result_path ?id) = Some (json_pretty ?L (local_result_json r))"
    using op_keeps_result [OF complete v(2,1)] e(1) by simp
  from publish_latest_Inr(1) [OF publish [unfolded id]] obtain r' where
    r': "load_result ?L (bv_os V AtPublish) (bv_base V) ?id f2 = Inr (Some r')"
      "load_result ?L (bv_os V AtPublish) (bv_base V) ?id f3 = Inr (Some r')" by blast
  have "r' = r"
    using load_result_Some(4) [OF r'(1)] f2 json_pretty_parse [OF assms(4) json_value_local_result [OF c]]
      local_result_of_local_result_json [OF c] by auto
  with r'(2) st' show "load_result ?L (bv_os V AtPublish) (bv_base V) ?id (bench_fs (snd st')) = Inr (Some r)" by simp
  show "file_at (bench_fs (snd st')) latest_path = Some (?id @ [CHR 0x0A])"
    using publish_latest_Inr(2) [OF publish] st' id by simp
qed


lemma leads_value: "leads x Q N \<Longrightarrow> x = (s, Inr v) \<Longrightarrow> N v s"
  by (simp add: leads_def)

lemma on_store_Inr: "on_store f st = (st', Inr v) \<Longrightarrow> \<exists>x y. f x = (y, Inr v)"
  by (auto simp: on_store_def split: prod.splits)

lemma still_Inr: "still r s = (s', Inr v) \<longleftrightarrow> r = Inr v \<and> s' = s"
  by (auto simp: still_def)

lemma resolve_inputs_load:
  assumes "resolve_inputs V opts st = (st', Inr x)" "alive rid (fst st)"
  shows "\<exists>jm effort s0 s1. load_run (bv_world V) (bv_input V) opts rid jm effort (ri_provider x) s0 = (s1, Inr (ri_loaded x))"
proof -
  from assms(1) obtain config st0 status st1 st2 st3 st4 where
    config: "still (discover_config V (bench_store (snd st))) st = (st0, Inr config)"
    and status: "on_events (preflight (bv_docker V) (w_lossy (bv_world V)) (bv_os_preflight V)
        (rs_provider (lc_runtime config))) st0 = (st1, Inr status)"
    and ready: "advance_to V RuntimeReady st1 = (st2, Inr ())"
    and load: "on_store (load_run (bv_world V) (bv_input V) opts (j_run_id (fst st2)) (lc_judge_model config)
        (lc_codex_reasoning_effort config) (rt_provider status)) st2 = (st3, Inr (ri_loaded x))"
    and p: "ri_provider x = rt_provider status"
    unfolding resolve_inputs_def Let_def seq_Inr
    by (fastforce simp: still_def)
  have "alive rid (fst st0)" using config assms(2) by (auto simp: still_def)
  then have "alive rid (fst st1)" using leads_value [OF keeping_steps(5) status] by blast
  then have "alive rid (fst st2)" using leads_value [OF leads_start ready] by blast
  then have "j_run_id (fst st2) = rid" by (simp add: alive_def)
  with on_store_Inr [OF load] p show ?thesis by metis
qed

lemma judge_submission_canonical:
  assumes "judge_submission V E x workspace st = (st', Inr r)" "canonical_executors E" "json_library (bench_library V)"
  shows "canonical_judge r"
proof -
  from assms(1) obtain st1 submission where
    "execute_judge V E (ri_task x) (ln_judge (ri_loaded x)) submission (be_game (snd st1))
       (map_option jm_route (ri_judge_model x)) (ri_provider x) (ln_images (ri_loaded x)) st1 = (st', Inr r)"
    unfolding judge_submission_def Let_def seq_Inr by blast
  from execute_judge_canonical [OF this assms(2,3)] show ?thesis .
qed

text \<open>The record of a run binds what its locks bound.\<close>

definition record_of_inputs :: "run_options \<Rightarrow> string \<Rightarrow> loaded_run \<Rightarrow> local_result \<Rightarrow> bool" where
  "record_of_inputs opts rid loaded r =
     (lr_run_id r = rid \<and> lr_task_lock_digest r = ln_task_lock_digest loaded \<and>
      lr_candidate_lock_digest r = ln_candidate_lock_digest loaded \<and>
      lr_agent_identity r = ap_identity (ln_candidate loaded) \<and> lr_model r = ln_model loaded \<and>
      lr_agent r = ro_agent opts)"

lemma execute_body_Inr:
  assumes "execute_body V E opts emit st = (st', Inr r)" "alive rid (fst st)" "canonical_executors E"
    "json_library (bench_library V)"
  shows "load_result (bench_library V) (bv_os V AtPublish) (bv_base V) rid (bench_fs (snd st')) = Inr (Some r)"
    "file_at (bench_fs (snd st')) latest_path = Some (rid @ [CHR 0x0A])"
    "\<exists>jm effort provider s0 s1 loaded. load_run (bv_world V) (bv_input V) opts rid jm effort provider s0 = (s1, Inr loaded) \<and>
       record_of_inputs opts rid loaded r"
proof -
  from assms(1) obtain st1 x st2 ended st3 u st4 judged and primary :: metric_info and score where
    x: "resolve_inputs V opts st = (st1, Inr x)"
    and run: "run_agent V E x st1 = (st2, Inr ended)"
    and adv: "advance_to V CandidateCompleted st2 = (st3, Inr u)"
    and judge: "judge_submission V E x (fst ended) st3 = (st4, Inr judged)"
    and rec: "record_result V (result_of_run opts x (j_run_id (fst st4)) (snd ended) judged (mi_name primary) score) st4 = (st', Inr r)"
    unfolding execute_body_def seq_Inr split_beta still_Inr and_then_Inr sum.inject by blast
  have "held_inputs rid x (fst st1)" by (rule leads_value [OF leads_resolve_inputs [OF assms(2)] x])
  then obtain t c where h1: "held rid t c (fst st1)" by (auto simp: held_inputs_def)
  have h2: "held rid t c (fst st2)" by (rule leads_value [OF keeping_run_candidate [OF h1] run])
  have h3: "held rid t c (fst st3)" by (rule leads_value [OF keeping_advance [OF h2] adv])
  have h4: "held rid t c (fst st4)" by (rule leads_value [OF keeping_judge_submission [OF h3] judge])
  then have a: "alive rid (fst st4)" and id: "j_run_id (fst st4) = rid" by (simp_all add: held_def alive_def)
  let ?input = "result_of_run opts x (j_run_id (fst st4)) (snd ended) judged (mi_name primary) score"
  have i: "lr_run_id ?input = rid" "lr_judge_result ?input = judged" using id by (simp_all add: result_of_run_def)
  have c: "canonical_judge (lr_judge_result ?input)"
    using judge_submission_canonical [OF judge assms(3,4)] i by simp
  note rr = record_result_Inr [OF rec _ c assms(4), unfolded i]
  from rr a show "load_result (bench_library V) (bv_os V AtPublish) (bv_base V) rid (bench_fs (snd st')) = Inr (Some r)"
    "file_at (bench_fs (snd st')) latest_path = Some (rid @ [CHR 0x0A])" by blast+
  from rr(3) a id have "record_of_inputs opts rid (ri_loaded x) r"
    by (auto simp: record_of_inputs_def new_record_def result_of_run_def)
  with resolve_inputs_load [OF x assms(2)]
  show "\<exists>jm effort provider s0 s1 loaded. load_run (bv_world V) (bv_input V) opts rid jm effort provider s0 = (s1, Inr loaded) \<and>
       record_of_inputs opts rid loaded r" by blast
qed


subsection \<open>How a run ends\<close>

lemma fail_recorded:
  assumes "apply_op L env clock (Fail m) (j, s) = ((j', s'), Inr ())" "alive rid j" "json_library L" "fault_free env'"
  shows "\<exists>j''. load_journal L env' rid s' = Inr j'' \<and> j_stage j'' = Failed \<and> j_error j'' = Some m"
proof -
  have c: "check_journal rid j' = Inr ()"
    using apply_op_check [OF _ _ assms(1), of rid] assms(2) by (auto simp: alive_def disciplined_def)
  have j': "j_stage j' = Failed" "j_error j' = Some m" "persist L env j' s = (s', Inr ())"
    using assms(1,2) by (cases clock; auto simp: op_defs alive_def split: prod.splits)+
  have "j_run_id j' = rid" "j_path j' = journal_path rid"
    using apply_op_effect [OF assms(1)] assms(2) by (auto simp: op_effect_def follows_def alive_def)
  with persist_cases [OF j'(3)] assms(2) have "file_at s' (journal_path rid) = Some (json_pretty L (journal_json j'))"
    by (auto simp: alive_def)
  with c have "on_disk L s' rid j'" by (simp add: on_disk_def)
  with load_on_disk [OF assms(3,4)] assms(2) j' show ?thesis by (auto simp: alive_def)
qed

definition failure_recorded :: "bench_view \<Rightarrow> string \<Rightarrow> string \<Rightarrow> bench \<Rightarrow> bool" where
  "failure_recorded V rid m b =
     (\<forall>env. fault_free env \<longrightarrow>
        (\<exists>j. load_journal (bench_library V) env rid (bench_fs b) = Inr j \<and> j_stage j = Failed \<and> j_error j = Some m))"

definition run_recorded :: "bench_view \<Rightarrow> run_options \<Rightarrow> string \<Rightarrow> local_result \<Rightarrow> bench \<Rightarrow> bool" where
  "run_recorded V opts rid r b =
     (load_result (bench_library V) (bv_os V AtPublish) (bv_base V) rid (bench_fs b) = Inr (Some r) \<and>
      file_at (bench_fs b) latest_path = Some (rid @ [CHR 0x0A]) \<and>
      (\<exists>jm effort provider s0 s1 loaded.
         load_run (bv_world V) (bv_input V) opts rid jm effort provider s0 = (s1, Inr loaded) \<and>
         record_of_inputs opts rid loaded r))"

text \<open>How \<open>execute_options\<close> ends, when its journal has begun: with its record, with the failure in the journal, with
  the failure of the journal itself, with a panic, or with a failure after the result was saved.\<close>

definition run_outcome :: "bench_view \<Rightarrow> run_options \<Rightarrow> string \<Rightarrow> bench \<Rightarrow> local_result result \<Rightarrow> bool" where
  "run_outcome V opts rid b r =
     (case r of
        Inr x \<Rightarrow> run_recorded V opts rid x b
      | Inl e \<Rightarrow>
          (\<exists>e'. e = Context ''run {} failed'' e' \<and> (failure_recorded V rid (bv_message V e') b \<or> saved V rid b)) \<or>
          (\<exists>e'. e = Context ''could not persist terminal run failure: {}'' e') \<or> is_panic e)"

lemma execute_inner_outcome:
  assumes "execute_inner V E opts emit (j, b) = ((j1, b1), r)" "alive rid j" "canonical_executors E"
    "json_library (bench_library V)" "\<And>g w. as_fs (wk_store (ex_drop_game E g w)) = as_fs (wk_store w)"
  shows "case r of Inr x \<Rightarrow> run_recorded V opts rid x b1 | Inl e \<Rightarrow> alive_or_saved V rid (j1, b1)"
proof -
  obtain b2 where body: "execute_body V E opts emit (j, b) = ((j1, b2), r)" and b1: "bench_fs b1 = bench_fs b2"
    using assms(1) drop_all_fs [OF assms(5)] by (auto simp: execute_inner_def split: prod.splits)
  show ?thesis
  proof (cases r)
    case (Inl e)
    with leads_execute_body [of rid "(j, b)" V E opts emit] assms(2) body
    have "alive_or_saved V rid (j1, b2)" by (simp add: leads_def)
    with Inl b1 show ?thesis by (simp add: alive_or_saved_def saved_def)
  next
    case (Inr x)
    from execute_body_Inr [OF body [unfolded Inr] _ assms(3,4)] assms(2) Inr b1
    show ?thesis by (simp add: run_recorded_def)
  qed
qed

lemma execute_options_outcome:
  assumes "execute_options V E opts emit b = (b', r)" "state_root (w_os (bv_world V)) = Inr ()"
    "begin_journal (bench_library V) (bv_os V AtBegin) (bv_clock V AtBegin) (ro_task opts) (ro_agent opts)
       (be_runs b, bench_fs b) = ((n, f), Inr j)"
    "pid (bv_os V AtBegin) < 2 ^ 32" "canonical_executors E" "json_library (bench_library V)"
    "\<And>g w. as_fs (wk_store (ex_drop_game E g w)) = as_fs (wk_store w)"
  shows "run_outcome V opts (j_run_id j) b' r"
proof -
  have a: "alive (j_run_id j) j"
    using journal_inv_begin [OF assms(3,4)] by (auto simp: alive_def journal_inv_def terminal_def)
  obtain j1 b1 r1 where inner: "execute_inner V E opts emit (j, (put_fs f b)\<lparr>be_runs := n\<rparr>) = ((j1, b1), r1)"
    by (metis surj_pair)
  note o = execute_inner_outcome [OF inner a assms(5-7)]
  show ?thesis
  proof (cases r1)
    case (Inr x)
    with assms(1-3) inner o show ?thesis by (auto simp: execute_options_def still_def run_outcome_def)
  next
    case (Inl e)
    show ?thesis
    proof (cases "is_panic e")
      case True
      with assms(1-3) inner Inl show ?thesis by (auto simp: execute_options_def still_def run_outcome_def)
    next
      case False
      obtain j2 b2 r2 where f: "journal_op_at V AtFail (Fail (bv_message V e)) (j1, b1) = ((j2, b2), r2)"
        by (metis surj_pair)
      have b': "b' = b2" and r: "r = (case r2 of Inr _ \<Rightarrow> Inl (Context ''run {} failed'' e)
          | Inl _ \<Rightarrow> Inl (Context ''could not persist terminal run failure: {}'' e))"
        using assms(1-3) inner Inl False f by (auto simp: execute_options_def still_def split: sum.splits)
      show ?thesis
      proof (cases r2)
        case (Inr u)
        then have r2: "r2 = Inr ()" by simp
        from f obtain g where op: "apply_op (bench_library V) (bv_os V AtFail) (bv_clock V AtFail) (Fail (bv_message V e))
            (j1, bench_fs b1) = ((j2, g), r2)" and b2: "bench_fs b2 = g"
          by (auto simp: journal_op_at_step simp del: apply_op.simps)
        from o Inl consider "alive (j_run_id j) j1" | "j_stage j1 = run_stage.Completed" "saved V (j_run_id j) b1"
          by (auto simp: alive_or_saved_def)
        then have "failure_recorded V (j_run_id j) (bv_message V e) b2 \<or> saved V (j_run_id j) b2"
        proof cases
          case 1
          then show ?thesis
            using fail_recorded [OF op [unfolded r2] 1 assms(6)] b2 by (auto simp: failure_recorded_def)
        next
          case 2
          with apply_op_terminal [OF _ op] b2 show ?thesis by (auto simp: saved_def terminal_def)
        qed
        with b' r Inr show ?thesis by (auto simp: run_outcome_def)
      qed (use b' r in \<open>auto simp: run_outcome_def\<close>)
    qed
  qed
qed


subsection \<open>A run that fails\<close>

lemma demo_begin_state:
  "j_path demo_journal = [''runs'', ''local-0-7-0.json'']" "j_stage demo_journal = Planned"
  "disk demo_fs [''runs''] = Some (DirE mode_700)"
  "x \<noteq> ''local-0-7-0.json'' \<Longrightarrow> disk demo_fs [''runs'', x] = None"
  "\<exists>b. disk demo_fs [''runs'', ''local-0-7-0.json''] = Some (FileE mode_600 b)"
proof -
  have id: "new_run_id 0 (pid quiet_os) 0 = ''local-0-7-0''" by code_simp
  have n: "temp_name quiet_os f k \<noteq> ''local-0-7-0.json''" "''local-0-7-0.json'' \<noteq> temp_name quiet_os f k" for f k
    by (simp_all add: temp_name_def)
  have "j_path demo_journal = [''runs'', ''local-0-7-0.json''] \<and> j_stage demo_journal = Planned \<and>
    (\<exists>b. disk demo_fs = [[''runs''] \<mapsto> DirE mode_700, [''runs'', ''local-0-7-0.json''] \<mapsto> FileE mode_600 b])"
    using demo_begun unfolding demo_begin_def
    by (simp add: begin_journal_def persist_def fs_step_defs journal_path_def eval_nat_numeral id n)
      (elim conjE, erule subst [of _ demo_fs], erule subst [of _ demo_journal], simp, blast)
  then show "j_path demo_journal = [''runs'', ''local-0-7-0.json'']" "j_stage demo_journal = Planned"
    "disk demo_fs [''runs''] = Some (DirE mode_700)"
    "x \<noteq> ''local-0-7-0.json'' \<Longrightarrow> disk demo_fs [''runs'', x] = None"
    "\<exists>b. disk demo_fs [''runs'', ''local-0-7-0.json''] = Some (FileE mode_600 b)"
    by auto
qed

lemma demo_failed:
  "\<exists>j s. apply_op toy_library quiet_os (Inr 0) (Fail m) (demo_journal, demo_fs) = ((j, s), Inr ())"
proof -
  have n: "temp_name quiet_os f k \<noteq> ''local-0-7-0.json''" "''local-0-7-0.json'' \<noteq> temp_name quiet_os f k" for f k
    by (simp_all add: temp_name_def)
  have "\<exists>s. persist toy_library quiet_os j demo_fs = (s, Inr ())" if "j_path j = [''runs'', ''local-0-7-0.json'']" for j
  proof -
    obtain b where b: "disk demo_fs [''runs'', ''local-0-7-0.json''] = Some (FileE mode_600 b)"
      using demo_begin_state(5) by blast
    show ?thesis
      by (simp add: persist_def fs_step_defs eval_nat_numeral(2,3) that b n demo_begin_state(3,4) fun_upd_idem_iff)
  qed
  from this [of "demo_journal\<lparr>j_stage := Failed, j_updated_at_ms := 0, j_error := Some m\<rparr>"] demo_begin_state(1,2)
  show ?thesis by (auto simp: fail_def stamp_def save_journal_def terminal_def map_result_def)
qed

definition demo_executors :: executors where
  "demo_executors = \<lparr>ex_start_game = (\<lambda>_ _ _ w. (w, Inl (Io NotFound))), ex_finish_game = (\<lambda>_ _ _ w. (w, Inl (Io NotFound))),
     ex_drop_game = (\<lambda>_ w. w), ex_a3s_code = (\<lambda>_ w. (w, Inl (Io NotFound))), ex_codex = (\<lambda>_ w. (w, Inl (Io NotFound))),
     ex_model = (\<lambda>_ w. (w, Inl (Io NotFound))), ex_legacy_judge = (\<lambda>_ _ _ _ w. (w, Inl (Io NotFound))),
     ex_os_candidate = (\<lambda>_ _ _ _ w. (w, Inl (Io NotFound))), ex_os_judge = (\<lambda>_ _ _ _ w. (w, Inl (Io NotFound)))\<rparr>"

definition demo_bench_view :: bench_view where
  "demo_bench_view = \<lparr>bv_world = demo_world, bv_provider_id = (\<lambda>_. Inl (Bail ''no provider'')), bv_home = None,
     bv_docker = demo_seed_docker, bv_host = \<lparr>h_pid = 7, h_clock = (\<lambda>_. Inr 1)\<rparr>, bv_os_preflight = Inl (Io NotFound),
     bv_input = demo_input_view, bv_seed = demo_seed_view, bv_owner = (\<lambda>_. Inr (0, 0)), bv_dns = [],
     bv_hidden = Inr ''/h'', bv_base = ''/s'', bv_os = (\<lambda>_. quiet_os), bv_clock = (\<lambda>_. Inr 0),
     bv_message = (\<lambda>_. ''no provider''), bv_left = (\<lambda>x. x), bv_print = Inr ()\<rparr>"

definition demo_options :: run_options where
  "demo_options =
     \<lparr>ro_task = ''task'', ro_agent = ''agent'', ro_model = None, ro_effort = None, ro_json = False, ro_locked = False\<rparr>"

definition demo_bench :: bench where
  "demo_bench = \<lparr>be_work = \<lparr>wk_store = \<lparr>as_fs = empty_fs, as_trees = (\<lambda>_. None)\<rparr>, wk_sequence = 0, wk_trace = []\<rparr>,
     be_runs = 0, be_candidates = 0, be_import_volumes = 0, be_imports = [], be_workspace = None,
     be_seed_workspace = None, be_submission = None, be_game = None\<rparr>"

lemma demo_no_config: "discover_config demo_bench_view s = Inl (Bail ''no provider'')"
  if "as_trees s = (\<lambda>_. None)"
proof -
  have "disk (store_fs demo_world s) p = None" for p
    using that by (simp add: store_fs_def tree_of_def demo_world_def split: list.splits)
  then have "is_file quiet_os p (store_fs demo_world s) = False" for p
    by (simp add: is_file_def)
  then show ?thesis
    by (simp add: discover_config_def demo_bench_view_def discover_def discover_path_def discover_at_def bench_default_def
        Let_def)
qed

lemma demo_run_fails:
  "\<exists>b'. execute_options demo_bench_view demo_executors demo_options True demo_bench =
     (b', Inl (Context ''run {} failed'' (Bail ''no provider'')))"
proof -
  let ?b = "(put_fs demo_fs demo_bench)\<lparr>be_runs := 1\<rparr>"
  have begun: "begin_journal toy_library quiet_os (Inr 0) ''task'' ''agent'' (0, empty_fs) = ((1, demo_fs), Inr demo_journal)"
    using demo_begun by (simp add: demo_begin_def)
  have v: "bench_library demo_bench_view = toy_library" "bv_os demo_bench_view x = quiet_os"
    "bv_clock demo_bench_view x = Inr 0" "bv_message demo_bench_view e = ''no provider''"
    "w_os (bv_world demo_bench_view) = quiet_os" for x e
    by (simp_all add: demo_bench_view_def)
  have trees: "as_trees (bench_store ?b) = (\<lambda>_. None)" by (simp add: put_fs_def put_store_def demo_bench_def)
  have "execute_body demo_bench_view demo_executors demo_options True (demo_journal, ?b) =
      ((demo_journal, ?b), Inl (Bail ''no provider''))"
    using demo_no_config [OF trees] by (simp add: execute_body_def resolve_inputs_def still_def Let_def)
  then have inner: "execute_inner demo_bench_view demo_executors demo_options True (demo_journal, ?b) =
      ((demo_journal, drop_all demo_executors quiet_os ?b), Inl (Bail ''no provider''))"
    by (simp add: execute_inner_def v)
  have "bench_fs (drop_all demo_executors quiet_os ?b) = demo_fs"
    by (subst drop_all_fs) (simp_all add: demo_executors_def)
  with demo_failed obtain j s where
    "journal_op_at demo_bench_view AtFail (Fail ''no provider'') (demo_journal, drop_all demo_executors quiet_os ?b) = ((j, s), Inr ())"
    by (auto simp: journal_op_at_step v simp del: apply_op.simps) blast
  moreover have "ro_task demo_options = ''task''" "ro_agent demo_options = ''agent''" "be_runs demo_bench = 0"
      "bench_fs demo_bench = empty_fs" "state_root quiet_os = Inr ()"
    by (simp_all add: demo_options_def demo_bench_def state_root_def call_def quiet_os_def)
  ultimately show ?thesis
    using begun inner by (simp add: execute_options_def still_def v)
qed

subsection \<open>Properties\<close>

text \<open>
  C40: how a run ends, whatever fails in it. When it succeeds, its record is what is read back for its run,
  under a journal that is complete and binds it, it is the latest run, and its digests, agent and model are
  those of the locks that were loaded for it. When it is reported as failed, the journal of the run
  loads as failed with the message, unless the result had been saved already: a run whose result
  cannot be published as the latest is reported as failed although its journal says it is complete.
  What else can happen is that the failure cannot be persisted, which is reported, or a panic.\<close>

theorem run_outcome_is_recorded:
  assumes "execute_options V E opts emit b = (b', r)" "state_root (w_os (bv_world V)) = Inr ()"
    "begin_journal (bench_library V) (bv_os V AtBegin) (bv_clock V AtBegin) (ro_task opts) (ro_agent opts)
       (be_runs b, bench_fs b) = ((n, f), Inr j)"
    "pid (bv_os V AtBegin) < 2 ^ 32" "canonical_executors E" "json_library (bench_library V)"
    "\<And>g w. as_fs (wk_store (ex_drop_game E g w)) = as_fs (wk_store w)"
  shows "run_outcome V opts (j_run_id j) b' r"
  using assms by (rule execute_options_outcome)

theorem run_outcome_is_recorded_witness:
  "\<exists>b'. execute_options demo_bench_view demo_executors demo_options True demo_bench =
      (b', Inl (Context ''run {} failed'' (Bail ''no provider''))) \<and>
    (failure_recorded demo_bench_view (j_run_id demo_journal) ''no provider'' b' \<or>
     saved demo_bench_view (j_run_id demo_journal) b')"
proof -
  obtain b' where run: "execute_options demo_bench_view demo_executors demo_options True demo_bench =
      (b', Inl (Context ''run {} failed'' (Bail ''no provider'')))"
    using demo_run_fails by blast
  have "run_outcome demo_bench_view demo_options (j_run_id demo_journal) b'
      (Inl (Context ''run {} failed'' (Bail ''no provider'')))"
  proof (rule run_outcome_is_recorded [OF run])
    show "begin_journal (bench_library demo_bench_view) (bv_os demo_bench_view AtBegin) (bv_clock demo_bench_view AtBegin)
        (ro_task demo_options) (ro_agent demo_options) (be_runs demo_bench, bench_fs demo_bench) = ((1, demo_fs), Inr demo_journal)"
      using demo_begun by (simp add: demo_begin_def demo_bench_view_def demo_options_def demo_bench_def)
  qed (simp_all add: demo_bench_view_def demo_executors_def canonical_executors_def state_root_def call_def toy_json_library
      quiet_os_def)
  with run show ?thesis by (auto simp: run_outcome_def demo_bench_view_def)
qed

end
