(* ===== verification/Spec2Isabelle.thy ===== *)
theory Spec2Isabelle
  imports Comparison Suite_Progress Bench_Run Float64_Facts Result_Record
begin

text \<open>
  \<^bold>\<open>A3S Bench.\<close> The program under \<open>src/src\<close> runs an agent (a \<^emph>\<open>candidate\<close>) on a \<^emph>\<open>Task\<close> in containers,
  has a \<^emph>\<open>Judge\<close> score what the candidate left, and keeps the result so that it can be trusted and
  compared later. A Task directory and the candidate's package are captured as content-addressed
  artifacts (\<open>task_snapshot.rs\<close>), a lock binds an artifact with everything else that decides the run
  (\<open>lock.rs\<close>, \<open>lock_identity.rs\<close>), a journal records how far a run is (\<open>run_journal.rs\<close>), the result
  record is stored next to it (\<open>result_record.rs\<close>), \<open>comparison.rs\<close> compares pairs of results and
  \<open>suite.rs\<close> runs a baseline against a candidate on many Tasks. \<open>bench_run.rs\<close> puts the parts together: it
  finds the configuration, probes the runtime, loads the inputs of the run from its locks
  (\<open>run_input.rs\<close>, \<open>catalog.rs\<close>, \<open>codex_package.rs\<close>), makes the candidate's workspace (\<open>workspace.rs\<close>), runs
  the candidate and the Judge, saves the result and completes the journal, or records the failure.

  \<^bold>\<open>Conventions.\<close> Text is a list of bytes. A fallible function returns \<open>error + 'a\<close>; an error keeps the
  format string of the \<open>ensure!\<close>, \<open>bail!\<close> or \<open>context\<close> of the source, \<open>Panic\<close> is a panic. Words have
  the width of the source, \<open>usize\<close> 64 bits. Every function that changes files takes the files and
  returns them with its result, also when it fails; which system calls fail, and how, is decided by
  \<open>fault\<close> of an arbitrary environment \<open>os\<close>, so that theorems without a hypothesis on it hold for every
  failure. Code that is not under \<open>src\<close> is an argument: \<open>library\<close> (the JSON text of \<open>serde_json\<close>,
  SHA-256), the ACL parser, globs, the Docker command, the clock. Theorems on digests say that two
  things are equal or name two texts that collide under SHA-256; they never assume that there is no
  collision.

  \<^bold>\<open>Theories.\<close>
  \<^item> \<open>Bench_Prelude\<close>: results, text functions of the standard library, words. \<open>Steps\<close>: sequencing of
    steps over a state. \<open>Float64\<close>, \<open>Float64_Facts\<close>: \<open>f64\<close> with correct rounding, its parser and order.
    \<open>Json\<close>: JSON values, the derived codecs, the library's laws. \<open>Ordered_Map\<close>: \<open>BTreeMap\<close> by sorted
    lists (locale \<open>ordered_map\<close>). \<open>Digests\<close>: digests and run IDs, and the locale \<open>sealed_record\<close> of
    records that carry the digest of their identity. \<open>Library_Instance\<close>: a concrete library for the
    witnesses. \<open>Acl\<close>: parsed ACL documents and \<open>acl_schema.rs\<close>.
  \<^item> \<open>Atomic_Store\<close>, \<open>State_Fs\<close>, \<open>State_Tree\<close>: \<open>state_fs.rs\<close>. Atomic writes are an instance of the
    locale \<open>atomic_store\<close>; directory trees are a datatype \<open>node\<close>.
  \<^item> \<open>Run_Journal\<close>: \<open>run_journal.rs\<close>; the operations as a step relation, its reachable states, and that
    what is on disk can always be loaded.
  \<^item> \<open>Result_Record\<close>: \<open>result_record.rs\<close>, \<open>result_identity.rs\<close>; \<open>Comparison\<close>: \<open>comparison.rs\<close>.
  \<^item> \<open>Task_Snapshot\<close>, \<open>Submission\<close>, \<open>Judge_Source\<close>, \<open>Task\<close>, \<open>Asset\<close>: the files of the same names.
  \<^item> \<open>Config\<close>: \<open>config.rs\<close>, \<open>runtime_selection.rs\<close>. \<open>Lock_Identity\<close>, \<open>Lock\<close>: \<open>lock_identity.rs\<close>, \<open>lock.rs\<close>.
  \<^item> \<open>Runtime_Profile\<close>, \<open>Runtime\<close>: \<open>runtime_profile.rs\<close>, \<open>runtime.rs\<close>, over the list of the commands
    that were run.
  \<^item> \<open>Codex_Package\<close>: \<open>codex_package.rs\<close>; the package tree, its manifest and its description, the seal and
    the cache. \<open>Archive\<close>, \<open>Workspace\<close>: \<open>workspace.rs\<close>, the first its archive transfer between two processes.
  \<^item> \<open>Catalog\<close>, \<open>Run_Input\<close>, \<open>Bench_Run\<close>: \<open>catalog.rs\<close>, \<open>run_input.rs\<close>, \<open>bench_run.rs\<close>. The state \<open>bench\<close>
    of a run contains those of the parts it calls, and what it has to give back; the executors of
    candidates and Judges are functions in the record \<open>executors\<close>.
  \<^item> \<open>Suite\<close>, \<open>Suite_Progress\<close>: \<open>suite.rs\<close>.

  \<^bold>\<open>Interfaces.\<close> \<open>atomic_store\<close> (a write leaves the old or the new content; interpreted on
  \<open>secure_atomic_write\<close>), \<open>ordered_map\<close> (interpreted on \<open>map_insert\<close>) and \<open>sealed_record\<close> (interpreted on
  result records, Task locks and candidate locks).

  \<^bold>\<open>Bounds.\<close> The loops over temporary names try 32 names, as the code does, and then fail; image pulls
  are tried three times; all other recursions are on the data. No function has fuel of its own, except
  the concrete JSON parser of \<open>Library_Instance\<close>, whose fuel is the length of its input.

  \<^bold>\<open>Not modelled.\<close> The processes themselves (containers, the Codex and A3S command lines, HTTP), which
  appear as arguments, and the modules that consist of talking to them: \<open>codex_candidate.rs\<close>,
  \<open>model_candidate.rs\<close>, \<open>a3s_code_candidate.rs\<close>, \<open>legacy_judge.rs\<close>, \<open>game_judge.rs\<close> and \<open>os_runtime.rs\<close> are
  the fields of \<open>executors\<close>, of which nothing is assumed but that a Judge's scores are canonical and
  that ending a game session writes no file of the store; \<open>codex_auth.rs\<close> and \<open>oci_asset.rs\<close> are clients
  of services; \<open>cli.rs\<close>, \<open>main.rs\<close> and \<open>output.rs\<close> dispatch and print. Two processes that run at once are not interleaved: another process shows in what a capture
  sees of its source, in the rival of a published artifact and in failing system calls.
\<close>

end
